(* ===== verification/Prelude.thy ===== *)
theory Prelude
  imports Main "HOL-Library.Monad_Syntax"
begin

text \<open>
  Shared vocabulary of the development. A table of the node's SQLite database is a list of
  records; the statements the repositories issue become the list operations of this theory:

  \<^item> a column that may be NULL is an \<open>option\<close>, and a comparison with NULL selects nothing
    (\<open>sql_eq\<close>, \<open>sql_ge\<close>, \<open>sql_le\<close>, \<open>sql_lt\<close>);
  \<^item> \<open>select count(*) ... where P\<close> is \<open>count_where\<close>, \<open>update ... set f where P\<close> is
    \<open>update_where\<close>, \<open>delete ... where P\<close> is \<open>delete_where\<close>;
  \<^item> the aggregates \<open>max\<close> and \<open>min\<close> are NULL on no rows (\<open>sql_max\<close>, \<open>sql_min\<close>);
  \<^item> \<open>distinct_on\<close> states a primary key;
  \<^item> \<open>int32\<close> reads the low 32 bits of a number as an \<open>int\<close>, which is what a conversion to
    \<open>int\<close> and the arithmetic on \<open>int\<close> give.

  The collection \<open>sql_simps\<close> unfolds the comparisons; \<open>table_simps\<close> holds the rewriting
  rules of the table operations that the component theories share.
\<close>

named_theorems sql_simps \<open>comparisons with NULL\<close>
named_theorems table_simps \<open>algebra of table updates\<close>

definition sql_eq :: "'a option \<Rightarrow> 'a option \<Rightarrow> bool" where
  "sql_eq a b \<longleftrightarrow> a \<noteq> None \<and> a = b"

definition sql_ge :: "int option \<Rightarrow> int \<Rightarrow> bool" where
  "sql_ge a k = (case a of None \<Rightarrow> False | Some x \<Rightarrow> k \<le> x)"

definition sql_le :: "int option \<Rightarrow> int \<Rightarrow> bool" where
  "sql_le a k = (case a of None \<Rightarrow> False | Some x \<Rightarrow> x \<le> k)"

definition sql_lt :: "int option \<Rightarrow> int \<Rightarrow> bool" where
  "sql_lt a k = (case a of None \<Rightarrow> False | Some x \<Rightarrow> x < k)"

definition ifnull :: "'a option \<Rightarrow> 'a \<Rightarrow> 'a" where
  "ifnull a d = (case a of None \<Rightarrow> d | Some x \<Rightarrow> x)"

definition count_where :: "('r \<Rightarrow> bool) \<Rightarrow> 'r list \<Rightarrow> int" where
  "count_where P xs = int (length (filter P xs))"

definition update_where :: "('r \<Rightarrow> bool) \<Rightarrow> ('r \<Rightarrow> 'r) \<Rightarrow> 'r list \<Rightarrow> 'r list" where
  "update_where P f xs = map (\<lambda>r. if P r then f r else r) xs"

definition delete_where :: "('r \<Rightarrow> bool) \<Rightarrow> 'r list \<Rightarrow> 'r list" where
  "delete_where P xs = filter (\<lambda>r. \<not> P r) xs"

definition sql_max :: "int list \<Rightarrow> int option" where
  "sql_max xs = (if xs = [] then None else Some (Max (set xs)))"

definition sql_min :: "int list \<Rightarrow> int option" where
  "sql_min xs = (if xs = [] then None else Some (Min (set xs)))"

definition distinct_on :: "('r \<Rightarrow> 'k) \<Rightarrow> 'r list \<Rightarrow> bool" where
  "distinct_on k xs \<longleftrightarrow> distinct (map k xs)"

lemma sql_eq_simps [simp, sql_simps]:
  "sql_eq None b = False"
  "sql_eq a None = False"
  "sql_eq (Some x) (Some y) = (x = y)"
  by (auto simp: sql_eq_def)

lemma sql_eq_SomeD: "sql_eq a b \<Longrightarrow> \<exists>x. a = Some x \<and> b = Some x"
  by (auto simp: sql_eq_def)

lemma sql_eq_Some_iff [sql_simps]: "sql_eq a (Some y) \<longleftrightarrow> a = Some y"
  by (auto simp: sql_eq_def)

lemma sql_eq_sym: "sql_eq a b = sql_eq b a"
  by (auto simp: sql_eq_def)

lemma sql_cmp_simps [simp, sql_simps]:
  "sql_ge None k = False" "sql_ge (Some x) k = (k \<le> x)"
  "sql_le None k = False" "sql_le (Some x) k = (x \<le> k)"
  "sql_lt None k = False" "sql_lt (Some x) k = (x < k)"
  by (auto simp: sql_ge_def sql_le_def sql_lt_def)

lemma ifnull_simps [simp]: "ifnull None d = d" "ifnull (Some x) d = x"
  by (auto simp: ifnull_def)

lemma count_where_nonneg [simp]: "0 \<le> count_where P xs"
  by (simp add: count_where_def)

lemma count_where_pos_iff: "0 < count_where P xs \<longleftrightarrow> (\<exists>r \<in> set xs. P r)"
proof -
  have "filter P xs = [] \<longleftrightarrow> (\<forall>r \<in> set xs. \<not> P r)" by (simp add: filter_empty_conv)
  then show ?thesis by (auto simp: count_where_def)
qed

lemma count_where_zero_iff: "count_where P xs = 0 \<longleftrightarrow> (\<forall>r \<in> set xs. \<not> P r)"
  by (auto simp: count_where_def filter_empty_conv)

lemma count_where_Cons [simp]:
  "count_where P [] = 0"
  "count_where P (x # xs) = (if P x then 1 else 0) + count_where P xs"
  by (auto simp: count_where_def)

lemma count_where_append: "count_where P (xs @ ys) = count_where P xs + count_where P ys"
  by (simp add: count_where_def)

lemma set_update_where: "set (update_where P f xs) = (\<lambda>r. if P r then f r else r) ` set xs"
  by (simp add: update_where_def)

lemma update_where_Nil [simp]: "update_where P f [] = []"
  by (simp add: update_where_def)

lemma length_update_where [simp]: "length (update_where P f xs) = length xs"
  by (simp add: update_where_def)

lemma update_where_id:
  "(\<And>r. r \<in> set xs \<Longrightarrow> P r \<Longrightarrow> f r = r) \<Longrightarrow> update_where P f xs = xs"
  by (simp add: update_where_def map_idI)

lemma map_update_where [table_simps]:
  "(\<And>r. k (f r) = k r) \<Longrightarrow> map k (update_where P f xs) = map k xs"
  by (simp add: update_where_def)

lemma set_delete_where [simp]: "set (delete_where P xs) = {r \<in> set xs. \<not> P r}"
  by (simp add: delete_where_def)

lemma distinct_on_inj:
  "distinct_on k xs \<Longrightarrow> r \<in> set xs \<Longrightarrow> s \<in> set xs \<Longrightarrow> k r = k s \<Longrightarrow> r = s"
  by (metis distinct_on_def distinct_map inj_onD)

lemma distinct_on_update_where [table_simps]:
  "(\<And>r. k (f r) = k r) \<Longrightarrow> distinct_on k (update_where P f xs) = distinct_on k xs"
  by (simp add: distinct_on_def map_update_where)

section \<open>Integers of 32 bits\<close>

text \<open>Two's complement: what compilers give when a number does not fit.\<close>

definition int32 :: "int \<Rightarrow> int" where
  "int32 x = (x + 2 ^ 31) mod 2 ^ 32 - 2 ^ 31"

lemma int32_id: "- (2 ^ 31) \<le> x \<Longrightarrow> x < 2 ^ 31 \<Longrightarrow> int32 x = x"
  by (simp add: int32_def)

lemma int32_range: "- (2 ^ 31) \<le> int32 x" "int32 x < 2 ^ 31"
  by (simp_all add: int32_def)

lemma int32_cong: "x mod 2 ^ 32 = y mod 2 ^ 32 \<Longrightarrow> int32 x = int32 y"
  unfolding int32_def by (metis mod_add_cong)

lemma int32_mod: "int32 x mod 2 ^ 32 = x mod 2 ^ 32"
  by (simp add: int32_def mod_diff_left_eq)

lemma int32_simps [simp]:
  "int32 (int32 x) = int32 x"
  "int32 (int32 x + y) = int32 (x + y)" "int32 (x + int32 y) = int32 (x + y)"
  "int32 (int32 x * y) = int32 (x * y)" "int32 (x * int32 y) = int32 (x * y)"
  by (rule int32_cong, (rule int32_mod mod_add_cong mod_mult_cong refl)+)+

lemma int32_0 [simp]: "int32 0 = 0"
  by (simp add: int32_def)

text \<open>A component of the state that no step of a loop changes.\<close>

lemma fold_unchanged: "(\<And>x s. f (g x s) = f s) \<Longrightarrow> f (fold g xs s) = f s"
  by (induction xs arbitrary: s) simp_all

lemma sql_max_None [simp]: "sql_max xs = None \<longleftrightarrow> xs = []"
  by (simp add: sql_max_def)

lemma sql_max_SomeD:
  "sql_max xs = Some m \<Longrightarrow> m \<in> set xs \<and> (\<forall>x \<in> set xs. x \<le> m)"
  by (auto simp: sql_max_def split: if_splits)

lemma sql_max_SomeI:
  "m \<in> set xs \<Longrightarrow> (\<And>x. x \<in> set xs \<Longrightarrow> x \<le> m) \<Longrightarrow> sql_max xs = Some m"
  by (auto simp: sql_max_def intro!: Max_eqI)

lemma sql_min_SomeD:
  "sql_min xs = Some m \<Longrightarrow> m \<in> set xs \<and> (\<forall>x \<in> set xs. m \<le> x)"
  by (auto simp: sql_min_def split: if_splits)

end
