(* ===== verification/Consensus_Base.thy ===== *)
theory Consensus_Base
  imports Prelude
begin

text \<open>
  The ground of every consensus rule: \<open>pocketdb/consensus/Base.h\<close> and \<open>Base.cpp\<close>.

  \<^item> the result codes a rule can return and their names;
  \<^item> the table \<open>m_consensus_limits\<close>, per limit and network the values with the height from
    which each applies, and \<open>BaseConsensus::GetConsensusLimit\<close>, which reads it;
  \<^item> \<open>ConsensusCheckpoint\<close>, one version of a rule set with its activation heights, and the
    selection \<open>Instance\<close> that every factory class of the consensus code repeats: a
    \<open>std::upper_bound\<close> over the versions and one step back.

  Stepping back from the first element is undefined behaviour in C++; it is \<open>None\<close> here.
  The locale \<open>rule_versions\<close> states what a factory's version list must satisfy for the
  selection to be defined and right; every factory of the development interprets it.
\<close>

section \<open>Result codes, account modes, limits\<close>

datatype (plugins only: code) SocialConsensusResult =
    SocialConsensusResult_Success
  | SocialConsensusResult_NotRegistered
  | SocialConsensusResult_ContentLimit
  | SocialConsensusResult_ScoreLimit
  | SocialConsensusResult_DoubleScore
  | SocialConsensusResult_SelfScore
  | SocialConsensusResult_ChangeInfoLimit
  | SocialConsensusResult_InvalideSubscribe
  | SocialConsensusResult_DoubleSubscribe
  | SocialConsensusResult_SelfSubscribe
  | SocialConsensusResult_Unknown
  | SocialConsensusResult_Failed
  | SocialConsensusResult_NotFound
  | SocialConsensusResult_DoubleComplain
  | SocialConsensusResult_SelfComplain
  | SocialConsensusResult_ComplainLimit
  | SocialConsensusResult_ComplainLowReputation
  | SocialConsensusResult_ContentSizeLimit
  | SocialConsensusResult_NicknameDouble
  | SocialConsensusResult_NicknameLong
  | SocialConsensusResult_ReferrerSelf
  | SocialConsensusResult_FailedOpReturn
  | SocialConsensusResult_InvalidBlocking
  | SocialConsensusResult_DoubleBlocking
  | SocialConsensusResult_SelfBlocking
  | SocialConsensusResult_DoubleContentEdit
  | SocialConsensusResult_ContentEditLimit
  | SocialConsensusResult_ContentEditUnauthorized
  | SocialConsensusResult_ManyTransactions
  | SocialConsensusResult_CommentLimit
  | SocialConsensusResult_CommentEditLimit
  | SocialConsensusResult_CommentScoreLimit
  | SocialConsensusResult_Blocking
  | SocialConsensusResult_Size
  | SocialConsensusResult_InvalidParentComment
  | SocialConsensusResult_InvalidAnswerComment
  | SocialConsensusResult_DoubleCommentEdit
  | SocialConsensusResult_SelfCommentScore
  | SocialConsensusResult_DoubleCommentDelete
  | SocialConsensusResult_DoubleCommentScore
  | SocialConsensusResult_CommentDeletedEdit
  | SocialConsensusResult_NotAllowed
  | SocialConsensusResult_ChangeTxType
  | SocialConsensusResult_ContentDeleteUnauthorized
  | SocialConsensusResult_ContentDeleteDouble
  | SocialConsensusResult_AccountSettingsDouble
  | SocialConsensusResult_AccountSettingsLimit
  | SocialConsensusResult_ChangeInfoDoubleInBlock
  | SocialConsensusResult_CommentDeletedContent
  | SocialConsensusResult_RepostDeletedContent
  | SocialConsensusResult_AlreadyExists
  | SocialConsensusResult_PocketDataNotFound
  | SocialConsensusResult_TxORNotFound
  | SocialConsensusResult_ComplainDeletedContent
  | SocialConsensusResult_ScoreDeletedContent
  | SocialConsensusResult_RelayContentNotFound
  | SocialConsensusResult_BadPayload
  | SocialConsensusResult_ScoreLowReputation
  | SocialConsensusResult_ChangeInfoDoubleInMempool

primrec result_code :: "SocialConsensusResult \<Rightarrow> int" where
  "result_code SocialConsensusResult_Success = 0"
| "result_code SocialConsensusResult_NotRegistered = 1"
| "result_code SocialConsensusResult_ContentLimit = 2"
| "result_code SocialConsensusResult_ScoreLimit = 3"
| "result_code SocialConsensusResult_DoubleScore = 4"
| "result_code SocialConsensusResult_SelfScore = 5"
| "result_code SocialConsensusResult_ChangeInfoLimit = 6"
| "result_code SocialConsensusResult_InvalideSubscribe = 7"
| "result_code SocialConsensusResult_DoubleSubscribe = 8"
| "result_code SocialConsensusResult_SelfSubscribe = 9"
| "result_code SocialConsensusResult_Unknown = 10"
| "result_code SocialConsensusResult_Failed = 11"
| "result_code SocialConsensusResult_NotFound = 12"
| "result_code SocialConsensusResult_DoubleComplain = 13"
| "result_code SocialConsensusResult_SelfComplain = 14"
| "result_code SocialConsensusResult_ComplainLimit = 15"
| "result_code SocialConsensusResult_ComplainLowReputation = 16"
| "result_code SocialConsensusResult_ContentSizeLimit = 17"
| "result_code SocialConsensusResult_NicknameDouble = 18"
| "result_code SocialConsensusResult_NicknameLong = 19"
| "result_code SocialConsensusResult_ReferrerSelf = 20"
| "result_code SocialConsensusResult_FailedOpReturn = 21"
| "result_code SocialConsensusResult_InvalidBlocking = 22"
| "result_code SocialConsensusResult_DoubleBlocking = 23"
| "result_code SocialConsensusResult_SelfBlocking = 24"
| "result_code SocialConsensusResult_DoubleContentEdit = 25"
| "result_code SocialConsensusResult_ContentEditLimit = 26"
| "result_code SocialConsensusResult_ContentEditUnauthorized = 27"
| "result_code SocialConsensusResult_ManyTransactions = 28"
| "result_code SocialConsensusResult_CommentLimit = 29"
| "result_code SocialConsensusResult_CommentEditLimit = 30"
| "result_code SocialConsensusResult_CommentScoreLimit = 31"
| "result_code SocialConsensusResult_Blocking = 32"
| "result_code SocialConsensusResult_Size = 33"
| "result_code SocialConsensusResult_InvalidParentComment = 34"
| "result_code SocialConsensusResult_InvalidAnswerComment = 35"
| "result_code SocialConsensusResult_DoubleCommentEdit = 37"
| "result_code SocialConsensusResult_SelfCommentScore = 38"
| "result_code SocialConsensusResult_DoubleCommentDelete = 39"
| "result_code SocialConsensusResult_DoubleCommentScore = 40"
| "result_code SocialConsensusResult_CommentDeletedEdit = 42"
| "result_code SocialConsensusResult_NotAllowed = 44"
| "result_code SocialConsensusResult_ChangeTxType = 45"
| "result_code SocialConsensusResult_ContentDeleteUnauthorized = 46"
| "result_code SocialConsensusResult_ContentDeleteDouble = 47"
| "result_code SocialConsensusResult_AccountSettingsDouble = 48"
| "result_code SocialConsensusResult_AccountSettingsLimit = 49"
| "result_code SocialConsensusResult_ChangeInfoDoubleInBlock = 50"
| "result_code SocialConsensusResult_CommentDeletedContent = 51"
| "result_code SocialConsensusResult_RepostDeletedContent = 52"
| "result_code SocialConsensusResult_AlreadyExists = 53"
| "result_code SocialConsensusResult_PocketDataNotFound = 54"
| "result_code SocialConsensusResult_TxORNotFound = 55"
| "result_code SocialConsensusResult_ComplainDeletedContent = 56"
| "result_code SocialConsensusResult_ScoreDeletedContent = 57"
| "result_code SocialConsensusResult_RelayContentNotFound = 58"
| "result_code SocialConsensusResult_BadPayload = 59"
| "result_code SocialConsensusResult_ScoreLowReputation = 60"
| "result_code SocialConsensusResult_ChangeInfoDoubleInMempool = 61"

primrec SocialConsensusResultString :: "SocialConsensusResult \<Rightarrow> string" where
  "SocialConsensusResultString SocialConsensusResult_Success = ''Success''"
| "SocialConsensusResultString SocialConsensusResult_NotRegistered = ''NotRegistered''"
| "SocialConsensusResultString SocialConsensusResult_ContentLimit = ''ContentLimit''"
| "SocialConsensusResultString SocialConsensusResult_ScoreLimit = ''ScoreLimit''"
| "SocialConsensusResultString SocialConsensusResult_DoubleScore = ''DoubleScore''"
| "SocialConsensusResultString SocialConsensusResult_SelfScore = ''SelfScore''"
| "SocialConsensusResultString SocialConsensusResult_ChangeInfoLimit = ''ChangeInfoLimit''"
| "SocialConsensusResultString SocialConsensusResult_InvalideSubscribe = ''InvalideSubscribe''"
| "SocialConsensusResultString SocialConsensusResult_DoubleSubscribe = ''DoubleSubscribe''"
| "SocialConsensusResultString SocialConsensusResult_SelfSubscribe = ''SelfSubscribe''"
| "SocialConsensusResultString SocialConsensusResult_Unknown = ''Unknown''"
| "SocialConsensusResultString SocialConsensusResult_Failed = ''Failed''"
| "SocialConsensusResultString SocialConsensusResult_NotFound = ''NotFound''"
| "SocialConsensusResultString SocialConsensusResult_DoubleComplain = ''DoubleComplain''"
| "SocialConsensusResultString SocialConsensusResult_SelfComplain = ''SelfComplain''"
| "SocialConsensusResultString SocialConsensusResult_ComplainLimit = ''ComplainLimit''"
| "SocialConsensusResultString SocialConsensusResult_ComplainLowReputation = ''ComplainLowReputation''"
| "SocialConsensusResultString SocialConsensusResult_ContentSizeLimit = ''ContentSizeLimit''"
| "SocialConsensusResultString SocialConsensusResult_NicknameDouble = ''NicknameDouble''"
| "SocialConsensusResultString SocialConsensusResult_NicknameLong = ''NicknameLong''"
| "SocialConsensusResultString SocialConsensusResult_ReferrerSelf = ''ReferrerSelf''"
| "SocialConsensusResultString SocialConsensusResult_FailedOpReturn = ''FailedOpReturn''"
| "SocialConsensusResultString SocialConsensusResult_InvalidBlocking = ''InvalidBlocking''"
| "SocialConsensusResultString SocialConsensusResult_DoubleBlocking = ''DoubleBlocking''"
| "SocialConsensusResultString SocialConsensusResult_SelfBlocking = ''SelfBlocking''"
| "SocialConsensusResultString SocialConsensusResult_DoubleContentEdit = ''DoubleContentEdit''"
| "SocialConsensusResultString SocialConsensusResult_ContentEditLimit = ''ContentEditLimit''"
| "SocialConsensusResultString SocialConsensusResult_ContentEditUnauthorized = ''ContentEditUnauthorized''"
| "SocialConsensusResultString SocialConsensusResult_ManyTransactions = ''ManyTransactions''"
| "SocialConsensusResultString SocialConsensusResult_CommentLimit = ''CommentLimit''"
| "SocialConsensusResultString SocialConsensusResult_CommentEditLimit = ''CommentEditLimit''"
| "SocialConsensusResultString SocialConsensusResult_CommentScoreLimit = ''CommentScoreLimit''"
| "SocialConsensusResultString SocialConsensusResult_Blocking = ''Blocking''"
| "SocialConsensusResultString SocialConsensusResult_Size = ''Size''"
| "SocialConsensusResultString SocialConsensusResult_InvalidParentComment = ''InvalidParentComment''"
| "SocialConsensusResultString SocialConsensusResult_InvalidAnswerComment = ''InvalidAnswerComment''"
| "SocialConsensusResultString SocialConsensusResult_DoubleCommentEdit = ''DoubleCommentEdit''"
| "SocialConsensusResultString SocialConsensusResult_SelfCommentScore = ''SelfCommentScore''"
| "SocialConsensusResultString SocialConsensusResult_DoubleCommentDelete = ''DoubleCommentDelete''"
| "SocialConsensusResultString SocialConsensusResult_DoubleCommentScore = ''DoubleCommentScore''"
| "SocialConsensusResultString SocialConsensusResult_CommentDeletedEdit = ''CommentDeletedEdit''"
| "SocialConsensusResultString SocialConsensusResult_NotAllowed = ''NotAllowed''"
| "SocialConsensusResultString SocialConsensusResult_ChangeTxType = ''ChangeTxType''"
| "SocialConsensusResultString SocialConsensusResult_ContentDeleteUnauthorized = ''ContentDeleteUnauthorized''"
| "SocialConsensusResultString SocialConsensusResult_ContentDeleteDouble = ''ContentDeleteDouble''"
| "SocialConsensusResultString SocialConsensusResult_AccountSettingsDouble = ''AccountSettingsDouble''"
| "SocialConsensusResultString SocialConsensusResult_AccountSettingsLimit = ''AccountSettingsLimit''"
| "SocialConsensusResultString SocialConsensusResult_ChangeInfoDoubleInBlock = ''ChangeInfoDoubleInBlock''"
| "SocialConsensusResultString SocialConsensusResult_CommentDeletedContent = ''CommentDeletedContent''"
| "SocialConsensusResultString SocialConsensusResult_RepostDeletedContent = ''RepostDeletedContent''"
| "SocialConsensusResultString SocialConsensusResult_AlreadyExists = ''AlreadyExists''"
| "SocialConsensusResultString SocialConsensusResult_PocketDataNotFound = ''PocketDataNotFound''"
| "SocialConsensusResultString SocialConsensusResult_TxORNotFound = ''TxORNotFound''"
| "SocialConsensusResultString SocialConsensusResult_ComplainDeletedContent = ''ComplainDeletedContent''"
| "SocialConsensusResultString SocialConsensusResult_ScoreDeletedContent = ''ScoreDeletedContent''"
| "SocialConsensusResultString SocialConsensusResult_RelayContentNotFound = ''RelayContentNotFound''"
| "SocialConsensusResultString SocialConsensusResult_BadPayload = ''BadPayload''"
| "SocialConsensusResultString SocialConsensusResult_ScoreLowReputation = ''ScoreLowReputation''"
| "SocialConsensusResultString SocialConsensusResult_ChangeInfoDoubleInMempool = ''Unknown''"

datatype (plugins only: code) AccountMode =
    AccountMode_Trial
  | AccountMode_Full
  | AccountMode_Pro

primrec mode_code :: "AccountMode \<Rightarrow> int" where
  "mode_code AccountMode_Trial = 0"
| "mode_code AccountMode_Full = 1"
| "mode_code AccountMode_Pro = 2"

datatype (plugins only: code) ConsensusLimit =
    ConsensusLimit_threshold_reputation
  | ConsensusLimit_threshold_reputation_score
  | ConsensusLimit_threshold_balance
  | ConsensusLimit_threshold_balance_pro
  | ConsensusLimit_threshold_likers_count
  | ConsensusLimit_threshold_low_likers_count
  | ConsensusLimit_threshold_low_likers_depth
  | ConsensusLimit_depth
  | ConsensusLimit_trial_post
  | ConsensusLimit_trial_video
  | ConsensusLimit_trial_article
  | ConsensusLimit_trial_score
  | ConsensusLimit_trial_complain
  | ConsensusLimit_trial_comment
  | ConsensusLimit_trial_comment_score
  | ConsensusLimit_full_post
  | ConsensusLimit_full_video
  | ConsensusLimit_full_article
  | ConsensusLimit_full_score
  | ConsensusLimit_full_complain
  | ConsensusLimit_full_comment
  | ConsensusLimit_full_comment_score
  | ConsensusLimit_pro_video
  | ConsensusLimit_post_edit_count
  | ConsensusLimit_video_edit_count
  | ConsensusLimit_article_edit_count
  | ConsensusLimit_comment_edit_count
  | ConsensusLimit_edit_post_depth
  | ConsensusLimit_edit_video_depth
  | ConsensusLimit_edit_article_depth
  | ConsensusLimit_edit_comment_depth
  | ConsensusLimit_edit_user_depth
  | ConsensusLimit_edit_user_daily_count
  | ConsensusLimit_account_settings_daily_count
  | ConsensusLimit_max_user_size
  | ConsensusLimit_max_post_size
  | ConsensusLimit_max_video_size
  | ConsensusLimit_max_article_size
  | ConsensusLimit_max_comment_size
  | ConsensusLimit_max_account_setting_size
  | ConsensusLimit_scores_one_to_one
  | ConsensusLimit_scores_one_to_one_over_comment
  | ConsensusLimit_scores_one_to_one_depth
  | ConsensusLimit_scores_depth_modify_reputation
  | ConsensusLimit_lottery_referral_depth
  | ConsensusLimit_bad_reputation

datatype NetworkId = NetworkMain | NetworkTest | NetworkRegTest

type_synonym ConsensusLimits = "(ConsensusLimit \<times> (NetworkId \<times> (int \<times> int) list) list) list"

definition COIN :: int where
  "COIN = 100000000"

definition m_consensus_limits_A :: ConsensusLimits where
  "m_consensus_limits_A = [
     (ConsensusLimit_bad_reputation,
       [(NetworkMain, [(0, -500)]), (NetworkTest, [(0, -50)])]),
     (ConsensusLimit_threshold_reputation,
       [(NetworkMain, [(0, 500), (292800, 1000)]), (NetworkTest, [(0, 100)])]),
     (ConsensusLimit_threshold_reputation_score,
       [(NetworkMain, [(0, -10000), (108300, 500), (292800, 1000)]), (NetworkTest, [(0, 0), (100000, 100)])]),
     (ConsensusLimit_threshold_balance,
       [(NetworkMain, [(0, 50 * COIN)]), (NetworkTest, [(0, 5 * COIN)])]),
     (ConsensusLimit_threshold_balance_pro,
       [(NetworkMain, [(0, 9223372036854775807), (65000, 250 * COIN)]), (NetworkTest, [(0, 9223372036854775807), (65000, 25 * COIN)])]),
     (ConsensusLimit_threshold_likers_count,
       [(NetworkMain, [(0, 0), (1124000, 100)]), (NetworkTest, [(0, 0), (100000, 10)])]),
     (ConsensusLimit_threshold_low_likers_count,
       [(NetworkMain, [(0, 30)]), (NetworkTest, [(0, 30)])])]"

definition m_consensus_limits_B :: ConsensusLimits where
  "m_consensus_limits_B = [
     (ConsensusLimit_threshold_low_likers_depth,
       [(NetworkMain, [(1180000, 250000)]), (NetworkTest, [(0, 250000)])]),
     (ConsensusLimit_depth,
       [(NetworkMain, [(0, 86400), (1180000, 1440)]), (NetworkTest, [(0, 1440)])]),
     (ConsensusLimit_trial_post,
       [(NetworkMain, [(0, 15), (1324655, 5)]), (NetworkTest, [(0, 15)])]),
     (ConsensusLimit_trial_video,
       [(NetworkMain, [(0, 15), (1324655, 5)]), (NetworkTest, [(0, 15)])]),
     (ConsensusLimit_trial_article,
       [(NetworkMain, [(0, 1)]), (NetworkTest, [(0, 10)])]),
     (ConsensusLimit_trial_score,
       [(NetworkMain, [(0, 45), (175600, 100), (1324655, 15)]), (NetworkTest, [(0, 100)])]),
     (ConsensusLimit_trial_complain,
       [(NetworkMain, [(0, 6)]), (NetworkTest, [(0, 6)])])]"

definition m_consensus_limits_C :: ConsensusLimits where
  "m_consensus_limits_C = [
     (ConsensusLimit_full_post,
       [(NetworkMain, [(0, 30)]), (NetworkTest, [(0, 30)])]),
     (ConsensusLimit_full_video,
       [(NetworkMain, [(0, 30)]), (NetworkTest, [(0, 30)])]),
     (ConsensusLimit_full_article,
       [(NetworkMain, [(0, 3)]), (NetworkTest, [(0, 30)])]),
     (ConsensusLimit_full_score,
       [(NetworkMain, [(0, 90), (175600, 200)]), (NetworkTest, [(0, 200)])]),
     (ConsensusLimit_full_complain,
       [(NetworkMain, [(0, 12)]), (NetworkTest, [(0, 12)])]),
     (ConsensusLimit_pro_video,
       [(NetworkMain, [(0, 0), (1324655, 100)]), (NetworkTest, [(0, 100)])]),
     (ConsensusLimit_post_edit_count,
       [(NetworkMain, [(0, 5)]), (NetworkTest, [(0, 5)])])]"

definition m_consensus_limits_D :: ConsensusLimits where
  "m_consensus_limits_D = [
     (ConsensusLimit_video_edit_count,
       [(NetworkMain, [(0, 5)]), (NetworkTest, [(0, 5)])]),
     (ConsensusLimit_article_edit_count,
       [(NetworkMain, [(0, 10)]), (NetworkTest, [(0, 10)])]),
     (ConsensusLimit_comment_edit_count,
       [(NetworkMain, [(0, 4)]), (NetworkTest, [(0, 4)])]),
     (ConsensusLimit_edit_user_depth,
       [(NetworkMain, [(0, 3600), (1180000, 60)]), (NetworkTest, [(0, 30)])]),
     (ConsensusLimit_edit_user_daily_count,
       [(NetworkMain, [(0, 10)]), (NetworkTest, [(0, 10)])]),
     (ConsensusLimit_edit_post_depth,
       [(NetworkMain, [(0, 86400), (1180000, 1440)]), (NetworkTest, [(0, 1440)])]),
     (ConsensusLimit_edit_video_depth,
       [(NetworkMain, [(0, 1440)]), (NetworkTest, [(0, 1440)])])]"

definition m_consensus_limits_E :: ConsensusLimits where
  "m_consensus_limits_E = [
     (ConsensusLimit_edit_article_depth,
       [(NetworkMain, [(0, 4320)]), (NetworkTest, [(0, 4320)])]),
     (ConsensusLimit_edit_comment_depth,
       [(NetworkMain, [(0, 86400), (1180000, 1440)]), (NetworkTest, [(0, 1440)])]),
     (ConsensusLimit_max_user_size,
       [(NetworkMain, [(0, 2000)]), (NetworkTest, [(0, 2000)])]),
     (ConsensusLimit_max_post_size,
       [(NetworkMain, [(0, 60000)]), (NetworkTest, [(0, 60000)])]),
     (ConsensusLimit_max_video_size,
       [(NetworkMain, [(0, 60000)]), (NetworkTest, [(0, 60000)])]),
     (ConsensusLimit_max_article_size,
       [(NetworkMain, [(0, 120000)]), (NetworkTest, [(0, 60000)])]),
     (ConsensusLimit_scores_one_to_one,
       [(NetworkMain, [(0, 99999), (225000, 2)]), (NetworkTest, [(0, 2)])])]"

definition m_consensus_limits_F :: ConsensusLimits where
  "m_consensus_limits_F = [
     (ConsensusLimit_scores_one_to_one_over_comment,
       [(NetworkMain, [(0, 20)]), (NetworkTest, [(0, 20)])]),
     (ConsensusLimit_scores_one_to_one_depth,
       [(NetworkMain, [(0, 336 * 24 * 3600), (225000, 1 * 24 * 3600), (292800, 7 * 24 * 3600), (322700, 2 * 24 * 3600)]), (NetworkTest, [(0, 2 * 24 * 3600)])]),
     (ConsensusLimit_trial_comment,
       [(NetworkMain, [(0, 150)]), (NetworkTest, [(0, 150)])]),
     (ConsensusLimit_trial_comment_score,
       [(NetworkMain, [(0, 300)]), (NetworkTest, [(0, 300)])]),
     (ConsensusLimit_full_comment,
       [(NetworkMain, [(0, 300)]), (NetworkTest, [(0, 300)])]),
     (ConsensusLimit_full_comment_score,
       [(NetworkMain, [(0, 600)]), (NetworkTest, [(0, 600)])]),
     (ConsensusLimit_max_comment_size,
       [(NetworkMain, [(0, 2000)]), (NetworkTest, [(0, 2000)])])]"

definition m_consensus_limits_G :: ConsensusLimits where
  "m_consensus_limits_G = [
     (ConsensusLimit_scores_depth_modify_reputation,
       [(NetworkMain, [(0, 336 * 24 * 3600), (322700, 30 * 24 * 3600)]), (NetworkTest, [(0, 30 * 24 * 3600)])]),
     (ConsensusLimit_lottery_referral_depth,
       [(NetworkMain, [(0, 30 * 24 * 3600)]), (NetworkTest, [(0, 30 * 24 * 3600)])]),
     (ConsensusLimit_max_account_setting_size,
       [(NetworkMain, [(0, 2048)]), (NetworkTest, [(0, 2048)])]),
     (ConsensusLimit_account_settings_daily_count,
       [(NetworkMain, [(0, 5)]), (NetworkTest, [(0, 5)])])]"

definition m_consensus_limits :: ConsensusLimits where
  "m_consensus_limits = m_consensus_limits_A @ m_consensus_limits_B @ m_consensus_limits_C @
     m_consensus_limits_D @ m_consensus_limits_E @ m_consensus_limits_F @ m_consensus_limits_G"

lemmas m_consensus_limits_defs =
  m_consensus_limits_def m_consensus_limits_A_def m_consensus_limits_B_def
  m_consensus_limits_C_def m_consensus_limits_D_def m_consensus_limits_E_def
  m_consensus_limits_F_def m_consensus_limits_G_def

section \<open>Reading a limit\<close>

text \<open>
  \<open>operator[]\<close> of a \<open>std::map\<close> yields an empty map for a missing key. The innermost map is
  ordered by height: \<open>--upper_bound(Height)\<close> is its last entry with a key not above
  \<open>Height\<close>, and is undefined when there is none.
\<close>

definition map_at :: "('k \<times> 'v list) list \<Rightarrow> 'k \<Rightarrow> 'v list" where
  "map_at m k = (case map_of m k of None \<Rightarrow> [] | Some vs \<Rightarrow> vs)"

definition pred_upper_bound :: "(int \<times> int) list \<Rightarrow> int \<Rightarrow> (int \<times> int) option" where
  "pred_upper_bound entries h =
     (case takeWhile (\<lambda>e. fst e \<le> h) entries of [] \<Rightarrow> None | es \<Rightarrow> Some (last es))"

definition GetConsensusLimit :: "NetworkId \<Rightarrow> int \<Rightarrow> ConsensusLimit \<Rightarrow> int option" where
  "GetConsensusLimit net Height type =
     map_option snd (pred_upper_bound (map_at (map_at m_consensus_limits type) net) Height)"

section \<open>Versions of a rule set\<close>

record 'v ConsensusCheckpoint =
  m_main_height :: int
  m_test_height :: int
  m_func :: 'v

fun Height :: "'v ConsensusCheckpoint \<Rightarrow> NetworkId \<Rightarrow> int" where
  "Height r NetworkMain = m_main_height r"
| "Height r NetworkTest = m_test_height r"
| "Height r _ = m_main_height r"

text \<open>
  \<open>std::upper_bound\<close>: the position of the first element above the target, found by bisection
  of the half-open range of \<open>len\<close> elements from \<open>first\<close>; \<open>gt\<close> is the comparison the
  caller passes, already applied to the target.
\<close>

function upper_bound :: "('a \<Rightarrow> bool) \<Rightarrow> 'a list \<Rightarrow> nat \<Rightarrow> nat \<Rightarrow> nat" where
  "upper_bound gt xs first len =
     (if len = 0 then first
      else let half = len div 2; middle = first + half in
        if gt (xs ! middle) then upper_bound gt xs first half
        else upper_bound gt xs (middle + 1) (len - half - 1))"
  by pat_completeness auto
termination
  by (relation "measure (\<lambda>(_, _, _, len). len)") auto

declare upper_bound.simps [simp del]

definition Instance :: "'v ConsensusCheckpoint list \<Rightarrow> NetworkId \<Rightarrow> int \<Rightarrow> 'v option" where
  "Instance m_rules net height =
     (let m_height = (if height > 0 then height else 0);
          it = upper_bound (\<lambda>itm. m_height < Height itm net) m_rules 0 (length m_rules)
      in if it = 0 then None else Some (m_func (m_rules ! (it - 1))))"

section \<open>The selection of a version\<close>

lemma upper_bound_partition:
  assumes "first + len \<le> length xs"
    and "\<forall>i j. i \<le> j \<longrightarrow> j < length xs \<longrightarrow> gt (xs ! i) \<longrightarrow> gt (xs ! j)"
    and "\<forall>i < first. \<not> gt (xs ! i)"
    and "\<forall>i. first + len \<le> i \<longrightarrow> i < length xs \<longrightarrow> gt (xs ! i)"
  shows "upper_bound gt xs first len \<le> length xs \<and>
         (\<forall>i < upper_bound gt xs first len. \<not> gt (xs ! i)) \<and>
         (\<forall>i. upper_bound gt xs first len \<le> i \<longrightarrow> i < length xs \<longrightarrow> gt (xs ! i))"
  using assms
proof (induction gt xs first len rule: upper_bound.induct)
  case (1 gt xs first len)
  show ?case
  proof (cases "len = 0")
    case True
    then have "upper_bound gt xs first len = first"
      by (simp add: upper_bound.simps)
    with True show ?thesis
      using 1(3,5,6) by simp
  next
    case False
    define mid where "mid = first + len div 2"
    have mid: "mid < length xs" "first \<le> mid"
      using False 1(3) by (auto simp: mid_def)
    show ?thesis
    proof (cases "gt (xs ! mid)")
      case True
      have eq: "upper_bound gt xs first len = upper_bound gt xs first (len div 2)"
        using False True by (subst upper_bound.simps) (simp add: Let_def mid_def)
      have top: "\<forall>i. first + len div 2 \<le> i \<longrightarrow> i < length xs \<longrightarrow> gt (xs ! i)"
        using 1(4) True mid_def by blast
      show ?thesis
        unfolding eq using mid True False 1(4,5) top
        by (intro 1(1)[OF False refl refl]) (auto simp: mid_def)
    next
      case notgt: False
      have eq: "upper_bound gt xs first len = upper_bound gt xs (mid + 1) (len - len div 2 - 1)"
        using False notgt by (subst upper_bound.simps) (simp add: Let_def mid_def)
      have below: "\<forall>i < mid + 1. \<not> gt (xs ! i)"
        using 1(4) notgt mid by (auto simp: less_Suc_eq_le)
      have top: "\<forall>i. mid + 1 + (len - len div 2 - 1) \<le> i \<longrightarrow> i < length xs \<longrightarrow> gt (xs ! i)"
        using 1(6) False by (auto simp: mid_def)
      have "mid + 1 + (len - len div 2 - 1) \<le> length xs"
        using 1(3) False by (auto simp: mid_def)
      then show ?thesis
        unfolding eq using notgt below top 1(4)
        by (intro 1(2)[OF False refl refl, folded mid_def]) (auto simp: mid_def)
    qed
  qed
qed

lemma upper_bound_eq_takeWhile:
  assumes "\<forall>i j. i \<le> j \<longrightarrow> j < length xs \<longrightarrow> gt (xs ! i) \<longrightarrow> gt (xs ! j)"
  shows "upper_bound gt xs 0 (length xs) = length (takeWhile (\<lambda>x. \<not> gt x) xs)"
proof -
  let ?u = "upper_bound gt xs 0 (length xs)"
  have "?u \<le> length xs \<and> (\<forall>i < ?u. \<not> gt (xs ! i)) \<and>
        (\<forall>i. ?u \<le> i \<longrightarrow> i < length xs \<longrightarrow> gt (xs ! i))"
    using assms by (intro upper_bound_partition) auto
  then have "takeWhile (\<lambda>x. \<not> gt x) xs = take ?u xs"
    by (intro takeWhile_eq_take_P_nth) auto
  with \<open>?u \<le> length xs \<and> _\<close> show ?thesis
    by simp
qed

lemma last_take_nth: "0 < n \<Longrightarrow> n \<le> length xs \<Longrightarrow> last (take n xs) = xs ! (n - 1)"
  by (subst last_conv_nth) (auto simp: min_def)

lemma takeWhile_le_sorted:
  fixes f :: "'a \<Rightarrow> 'b :: linorder"
  assumes "sorted (map f xs)"
  shows "takeWhile (\<lambda>x. f x \<le> b) xs = filter (\<lambda>x. f x \<le> b) xs"
  using assms by (induction xs) (auto simp: empty_filter_conv not_le intro: less_le_trans)

text \<open>
  What a factory needs of its version list: on every network the activation heights do not
  decrease and the first version is active from the genesis block on.
\<close>

locale rule_versions =
  fixes m_rules :: "'v ConsensusCheckpoint list"
  assumes rules_sorted: "sorted (map (\<lambda>r. Height r net) m_rules)"
    and rules_first: "m_rules \<noteq> []" "Height (hd m_rules) net \<le> 0"
begin

lemma active_nonempty: "0 \<le> h \<Longrightarrow> filter (\<lambda>r. Height r net \<le> h) m_rules \<noteq> []"
  using rules_first(1) rules_first(2)[of net] by (cases m_rules) auto

lemma upper_bound_rules:
  "upper_bound (\<lambda>itm. h < Height itm net) m_rules 0 (length m_rules) =
     length (filter (\<lambda>r. Height r net \<le> h) m_rules)"
proof -
  have "\<forall>i j. i \<le> j \<longrightarrow> j < length m_rules \<longrightarrow> h < Height (m_rules ! i) net
      \<longrightarrow> h < Height (m_rules ! j) net"
    using rules_sorted[of net] by (fastforce simp: sorted_iff_nth_mono)
  from upper_bound_eq_takeWhile[OF this] show ?thesis
    by (simp add: not_less takeWhile_le_sorted[OF rules_sorted])
qed

lemma filter_prefix: "filter (\<lambda>r. Height r net \<le> h) m_rules
    = take (length (filter (\<lambda>r. Height r net \<le> h) m_rules)) m_rules"
  unfolding takeWhile_le_sorted[OF rules_sorted, symmetric] by (rule takeWhile_eq_take)

lemma Instance_eq:
  "Instance m_rules net height =
     Some (m_func (last (filter (\<lambda>r. Height r net \<le> max height 0) m_rules)))"
proof -
  let ?fs = "filter (\<lambda>r. Height r net \<le> max height 0) m_rules"
  have ne: "?fs \<noteq> []" by (simp add: active_nonempty)
  have "last ?fs = last (take (length ?fs) m_rules)"
    using filter_prefix[of net "max height 0"] by simp
  also have "\<dots> = m_rules ! (length ?fs - 1)"
    using ne length_filter_le[of "\<lambda>r. Height r net \<le> max height 0" m_rules]
    by (intro last_take_nth) auto
  finally have "last ?fs = m_rules ! (length ?fs - 1)" .
  moreover have "(if height > 0 then height else 0) = max height 0" by simp
  ultimately show ?thesis
    using ne by (simp add: Instance_def Let_def upper_bound_rules del: length_greater_0_conv)
qed

lemma Instance_total: "\<exists>v. Instance m_rules net height = Some v"
  by (simp add: Instance_eq)

lemma Instance_in: "Instance m_rules net height = Some v \<Longrightarrow> v \<in> m_func ` set m_rules"
  using active_nonempty[of "max height 0" net]
  by (auto simp: Instance_eq dest!: last_in_set)

end

text \<open>The two heights of a checkpoint cover the three networks.\<close>

lemma rule_versionsI:
  assumes "m_rules \<noteq> []"
    and "sorted (map m_main_height m_rules)" "m_main_height (hd m_rules) \<le> 0"
    and "sorted (map m_test_height m_rules)" "m_test_height (hd m_rules) \<le> 0"
  shows "rule_versions m_rules"
proof
  fix net
  show "sorted (map (\<lambda>r. Height r net) m_rules)" using assms by (cases net) simp_all
  show "Height (hd m_rules) net \<le> 0" using assms by (cases net) simp_all
qed (rule assms(1))
section \<open>The limits are defined\<close>

lemma sorted_map_le_last: "sorted (map f xs) \<Longrightarrow> x \<in> set xs \<Longrightarrow> f x \<le> f (last xs)"
  by (induction xs) auto

lemma pred_upper_bound_defined:
  "(\<exists>e. pred_upper_bound es h = Some e) \<longleftrightarrow> es \<noteq> [] \<and> fst (hd es) \<le> h"
  by (cases es) (auto simp: pred_upper_bound_def)

lemma pred_upper_bound_SomeD:
  assumes "pred_upper_bound es h = Some e" "sorted (map fst es)"
  shows "e \<in> set es" "fst e \<le> h" "\<forall>e' \<in> set es. fst e' \<le> h \<longrightarrow> fst e' \<le> fst e"
proof -
  let ?fs = "filter (\<lambda>e. fst e \<le> h) es"
  have fs: "?fs \<noteq> []" "e = last ?fs"
    using assms by (auto simp: pred_upper_bound_def takeWhile_le_sorted split: list.splits)
  then have "e \<in> set ?fs" by (metis last_in_set)
  then show "e \<in> set es" "fst e \<le> h" by auto
  have "sorted (map fst ?fs)"
    by (rule sorted_filter[OF assms(2)])
  then have "\<forall>x \<in> set ?fs. fst x \<le> fst (last ?fs)"
    using sorted_map_le_last[of fst] by blast
  with fs show "\<forall>e' \<in> set es. fst e' \<le> h \<longrightarrow> fst e' \<le> fst e" by auto
qed

definition limit_entry_ok ::
    "ConsensusLimit \<Rightarrow> (NetworkId \<times> (int \<times> int) list) list \<Rightarrow> bool" where
  "limit_entry_ok type nets \<longleftrightarrow>
     map_at nets NetworkRegTest = [] \<and> map_at nets NetworkMain \<noteq> [] \<and>
     map_at nets NetworkTest \<noteq> [] \<and> fst (hd (map_at nets NetworkTest)) = 0 \<and>
     fst (hd (map_at nets NetworkMain)) =
       (if type = ConsensusLimit_threshold_low_likers_depth then 1180000 else 0) \<and>
     sorted (map fst (map_at nets NetworkMain)) \<and> sorted (map fst (map_at nets NetworkTest))"

lemma limit_entries_ok: "list_all (\<lambda>(type, nets). limit_entry_ok type nets) m_consensus_limits"
  by (simp add: m_consensus_limits_defs limit_entry_ok_def map_at_def)

lemma limit_types_complete: "type \<in> fst ` set m_consensus_limits"
  by (cases type) (simp_all add: m_consensus_limits_defs)

lemma limit_entry: "limit_entry_ok type (map_at m_consensus_limits type)"
proof -
  obtain nets where nets: "map_of m_consensus_limits type = Some nets"
    using limit_types_complete[of type] by (metis weak_map_of_SomeI imageE prod.collapse option.exhaust)
  then have "(type, nets) \<in> set m_consensus_limits" by (rule map_of_SomeD)
  with limit_entries_ok nets show ?thesis
    by (auto simp: list_all_iff map_at_def)
qed

text \<open>C29. A consensus limit can be read, without stepping before the first entry of its map,
  exactly on the main and test networks from height 0 on; the depth of the low-liker rule on
  the main network only from height 1180000 on, and no limit is defined on the regression
  test network.\<close>

theorem GetConsensusLimit_defined_iff:
  "(\<exists>v. GetConsensusLimit net h type = Some v) \<longleftrightarrow>
     net \<noteq> NetworkRegTest \<and>
     (if net = NetworkMain \<and> type = ConsensusLimit_threshold_low_likers_depth
      then 1180000 \<le> h else 0 \<le> h)"
  using limit_entry[of type] pred_upper_bound_defined[of "map_at (map_at m_consensus_limits type) net" h]
  by (cases net) (auto simp: GetConsensusLimit_def limit_entry_ok_def)

end
