(* ===== verification/Strencodings.thy ===== *)
theory Strencodings
  imports Prelude "HOL-Library.Word"
begin

text \<open>
  The hexadecimal coding of \<open>util/strencodings.cpp\<close>: the digit table, \<open>HexDigit\<close>,
  \<open>IsHex\<close>, \<open>ParseHex\<close> and \<open>HexStr\<close>. OP_RETURN data reaches the social layer through
  this coding. Bytes are words of eight bits. The lemmas show that \<open>ParseHex\<close> inverts
  \<open>HexStr\<close>.
\<close>

unbundle bit_operations_syntax

type_synonym byte = "8 word"

definition p_util_hexdigit :: "int list" where
  "p_util_hexdigit = [
     -1, -1, -1, -1, -1, -1, -1, -1, -1, -1, -1, -1, -1, -1, -1, -1,
     -1, -1, -1, -1, -1, -1, -1, -1, -1, -1, -1, -1, -1, -1, -1, -1,
     -1, -1, -1, -1, -1, -1, -1, -1, -1, -1, -1, -1, -1, -1, -1, -1,
     0, 1, 2, 3, 4, 5, 6, 7, 8, 9, -1, -1, -1, -1, -1, -1,
     -1, 10, 11, 12, 13, 14, 15, -1, -1, -1, -1, -1, -1, -1, -1, -1,
     -1, -1, -1, -1, -1, -1, -1, -1, -1, -1, -1, -1, -1, -1, -1, -1,
     -1, 10, 11, 12, 13, 14, 15, -1, -1, -1, -1, -1, -1, -1, -1, -1,
     -1, -1, -1, -1, -1, -1, -1, -1, -1, -1, -1, -1, -1, -1, -1, -1,
     -1, -1, -1, -1, -1, -1, -1, -1, -1, -1, -1, -1, -1, -1, -1, -1,
     -1, -1, -1, -1, -1, -1, -1, -1, -1, -1, -1, -1, -1, -1, -1, -1,
     -1, -1, -1, -1, -1, -1, -1, -1, -1, -1, -1, -1, -1, -1, -1, -1,
     -1, -1, -1, -1, -1, -1, -1, -1, -1, -1, -1, -1, -1, -1, -1, -1,
     -1, -1, -1, -1, -1, -1, -1, -1, -1, -1, -1, -1, -1, -1, -1, -1,
     -1, -1, -1, -1, -1, -1, -1, -1, -1, -1, -1, -1, -1, -1, -1, -1,
     -1, -1, -1, -1, -1, -1, -1, -1, -1, -1, -1, -1, -1, -1, -1, -1,
     -1, -1, -1, -1, -1, -1, -1, -1, -1, -1, -1, -1, -1, -1, -1, -1]"

definition HexDigit :: "char \<Rightarrow> int" where
  "HexDigit c = p_util_hexdigit ! of_char c"

definition IsHex :: "string \<Rightarrow> bool" where
  "IsHex str \<longleftrightarrow> (\<forall>c \<in> set str. \<not> HexDigit c < 0) \<and> length str > 0 \<and> length str mod 2 = 0"

definition IsSpace :: "char \<Rightarrow> bool" where
  "IsSpace c \<longleftrightarrow> c = CHR '' '' \<or> c = CHR 0x0C \<or> c = CHR 0x0A \<or> c = CHR 0x0D \<or>
     c = CHR 0x09 \<or> c = CHR 0x0B"

text \<open>The terminating zero of a C string has no digit value, so the end of the list ends
  the scan in both places where a digit is read.\<close>

function ParseHex :: "string \<Rightarrow> byte list" where
  "ParseHex psz =
     (case dropWhile IsSpace psz of
        [] \<Rightarrow> []
      | [c] \<Rightarrow> []
      | c # d # rest \<Rightarrow>
          if HexDigit c = -1 then []
          else if HexDigit d = -1 then []
          else (push_bit 4 (word_of_int (HexDigit c)) OR word_of_int (HexDigit d)) # ParseHex rest)"
  by pat_completeness auto
termination
proof (relation "measure length")
  fix psz x21 x22 x21a x22a
  assume "dropWhile IsSpace psz = x21 # x22" "x22 = (x21a :: char) # x22a"
  with length_dropWhile_le[of IsSpace psz] show "(x22a, psz) \<in> measure length"
    by simp
qed simp

declare ParseHex.simps [simp del]

definition hexmap :: "char list" where
  "hexmap = ''0123456789abcdef''"

definition HexStr :: "byte list \<Rightarrow> string" where
  "HexStr s = concat (map (\<lambda>v. [hexmap ! unat (drop_bit 4 v), hexmap ! unat (v AND 15)]) s)"

section \<open>Reading decimal numbers\<close>

text \<open>The conversion \<open>strtol\<close> and \<open>strtoll\<close> perform before their range check: skip white
  space, an optional sign, the longest sequence of digits; the value and the rest of the text,
  \<open>None\<close> when there is no digit.\<close>

definition is_digit :: "char \<Rightarrow> bool" where
  "is_digit c \<longleftrightarrow> 48 \<le> (of_char c :: nat) \<and> (of_char c :: nat) \<le> 57"

fun scan_digits :: "int \<Rightarrow> string \<Rightarrow> int \<times> string" where
  "scan_digits n [] = (n, [])"
| "scan_digits n (c # cs) = (if is_digit c then scan_digits (10 * n + (of_char c - 48)) cs else (n, c # cs))"

definition scan_sign :: "string \<Rightarrow> bool \<times> string" where
  "scan_sign s =
     (case s of
        [] \<Rightarrow> (False, s)
      | c # cs \<Rightarrow> if c = CHR ''-'' then (True, cs) else if c = CHR ''+'' then (False, cs) else (False, s))"

definition scan_int :: "string \<Rightarrow> (int \<times> string) option" where
  "scan_int str =
     (let (neg, s) = scan_sign (dropWhile IsSpace str) in
      if s \<noteq> [] \<and> is_digit (hd s)
      then let (n, rest) = scan_digits 0 s in Some (if neg then - n else n, rest)
      else None)"

definition stoi :: "string \<Rightarrow> int option" where
  "stoi str =
     (case scan_int str of
        None \<Rightarrow> None
      | Some (n, _) \<Rightarrow> if - (2 ^ 31) \<le> n \<and> n < 2 ^ 31 then Some n else None)"

definition ParsePrechecks :: "string \<Rightarrow> bool" where
  "ParsePrechecks str \<longleftrightarrow> str \<noteq> [] \<and> \<not> IsSpace (hd str) \<and> \<not> IsSpace (last str) \<and>
     CHR 0x00 \<notin> set str"

definition ParseInt64 :: "string \<Rightarrow> int option" where
  "ParseInt64 str =
     (if \<not> ParsePrechecks str then None
      else case scan_int str of
             None \<Rightarrow> None
           | Some (n, rest) \<Rightarrow> if rest = [] \<and> - (2 ^ 63) \<le> n \<and> n < 2 ^ 63 then Some n else None)"

section \<open>Decoding inverts encoding\<close>

lemma hexmap_table: "list_all (\<lambda>n. HexDigit (hexmap ! n) = int n \<and> \<not> IsSpace (hexmap ! n)) [0..<16]"
  by code_simp

lemma hexmap_digit: "n < 16 \<Longrightarrow> HexDigit (hexmap ! n) = int n"
  using hexmap_table by (simp add: list_all_iff)

lemma hexmap_not_space: "n < 16 \<Longrightarrow> \<not> IsSpace (hexmap ! n)"
  using hexmap_table by (simp add: list_all_iff)

lemma low_nibble_take_bit: "(v :: byte) AND 15 = take_bit 4 v"
  by (simp add: take_bit_eq_mask mask_eq_exp_minus_1)

lemma high_nibble: "unat (drop_bit 4 (v :: byte)) < 16"
  using unsigned_less[of v, where 'a = nat]
  unfolding unat_drop_bit_eq by (simp add: drop_bit_nat_def less_mult_imp_div_less)

lemma low_nibble: "unat ((v :: byte) AND 15) < 16"
  unfolding low_nibble_take_bit unsigned_take_bit_eq by (simp add: take_bit_nat_def)

lemma nibbles: "push_bit 4 (drop_bit 4 v) OR (v AND 15) = (v :: byte)"
  unfolding low_nibble_take_bit by (auto intro!: bit_word_eqI simp: bit_simps)

lemma uint_not_minus_one: "uint (v :: byte) \<noteq> -1"
  using uint_ge_0[of v] by linarith

lemma HexStr_simps [simp]:
  "HexStr [] = []"
  "HexStr (v # s) = hexmap ! unat (drop_bit 4 v) # hexmap ! unat (v AND 15) # HexStr s"
  by (simp_all add: HexStr_def)

lemma HexStr_append: "HexStr (a @ b) = HexStr a @ HexStr b"
  by (simp add: HexStr_def)

lemma length_HexStr [simp]: "length (HexStr s) = 2 * length s"
  by (induction s) auto

lemma HexStr_not_space: "c \<in> set (HexStr s) \<Longrightarrow> \<not> IsSpace c"
  by (induction s) (auto simp: hexmap_not_space high_nibble low_nibble)

lemma ParseHex_HexStr: "ParseHex (HexStr s) = s"
proof (induction s)
  case Nil
  show ?case by (simp add: ParseHex.simps)
next
  case (Cons v s)
  then show ?case
    by (subst ParseHex.simps)
       (simp add: hexmap_not_space hexmap_digit high_nibble low_nibble nibbles
         uint_not_minus_one)
qed

lemma HexStr_inj: "HexStr s = HexStr t \<longleftrightarrow> s = t"
  by (metis ParseHex_HexStr)

lemma IsHex_HexStr: "IsHex (HexStr s) \<longleftrightarrow> s \<noteq> []"
  by (induction s) (auto simp: IsHex_def hexmap_digit high_nibble low_nibble)

end
