(* ===== verification/Script.thy ===== *)
theory Script
  imports Strencodings
begin

text \<open>
  Scripts as bytes, from \<open>script/script.h\<close>, \<open>script/script.cpp\<close> and \<open>core_write.cpp\<close>: the
  opcodes and their names, reading one operation (\<open>GetScriptOp\<close>), appending a push
  (\<open>operator<<\<close>), script numbers (\<open>CScriptNum\<close>), and the text form \<open>ScriptToAsmStr\<close> in
  which the social layer looks for its OP_RETURN codes. An iterator into the script is the
  list of the bytes from it to the end; \<open>None\<close> is the result false (or, for script numbers,
  the exception). The lemmas show that every push reads back as it was written, that script
  numbers read back, that the text form of a push of more than four bytes is its hexadecimal
  form, and that reading a script always ends.
\<close>

section \<open>Opcodes\<close>

definition OP_0 :: nat where "OP_0 = 0"
definition OP_FALSE :: nat where "OP_FALSE = OP_0"
definition OP_PUSHDATA1 :: nat where "OP_PUSHDATA1 = 76"
definition OP_PUSHDATA2 :: nat where "OP_PUSHDATA2 = 77"
definition OP_PUSHDATA4 :: nat where "OP_PUSHDATA4 = 78"
definition OP_1NEGATE :: nat where "OP_1NEGATE = 79"
definition OP_RESERVED :: nat where "OP_RESERVED = 80"
definition OP_1 :: nat where "OP_1 = 81"
definition OP_TRUE :: nat where "OP_TRUE = OP_1"
definition OP_2 :: nat where "OP_2 = 82"
definition OP_3 :: nat where "OP_3 = 83"
definition OP_4 :: nat where "OP_4 = 84"
definition OP_5 :: nat where "OP_5 = 85"
definition OP_6 :: nat where "OP_6 = 86"
definition OP_7 :: nat where "OP_7 = 87"
definition OP_8 :: nat where "OP_8 = 88"
definition OP_9 :: nat where "OP_9 = 89"
definition OP_10 :: nat where "OP_10 = 90"
definition OP_11 :: nat where "OP_11 = 91"
definition OP_12 :: nat where "OP_12 = 92"
definition OP_13 :: nat where "OP_13 = 93"
definition OP_14 :: nat where "OP_14 = 94"
definition OP_15 :: nat where "OP_15 = 95"
definition OP_16 :: nat where "OP_16 = 96"
definition OP_NOP :: nat where "OP_NOP = 97"
definition OP_VER :: nat where "OP_VER = 98"
definition OP_IF :: nat where "OP_IF = 99"
definition OP_NOTIF :: nat where "OP_NOTIF = 100"
definition OP_VERIF :: nat where "OP_VERIF = 101"
definition OP_VERNOTIF :: nat where "OP_VERNOTIF = 102"
definition OP_ELSE :: nat where "OP_ELSE = 103"
definition OP_ENDIF :: nat where "OP_ENDIF = 104"
definition OP_VERIFY :: nat where "OP_VERIFY = 105"
definition OP_RETURN :: nat where "OP_RETURN = 106"
definition OP_TOALTSTACK :: nat where "OP_TOALTSTACK = 107"
definition OP_FROMALTSTACK :: nat where "OP_FROMALTSTACK = 108"
definition OP_2DROP :: nat where "OP_2DROP = 109"
definition OP_2DUP :: nat where "OP_2DUP = 110"
definition OP_3DUP :: nat where "OP_3DUP = 111"
definition OP_2OVER :: nat where "OP_2OVER = 112"
definition OP_2ROT :: nat where "OP_2ROT = 113"
definition OP_2SWAP :: nat where "OP_2SWAP = 114"
definition OP_IFDUP :: nat where "OP_IFDUP = 115"
definition OP_DEPTH :: nat where "OP_DEPTH = 116"
definition OP_DROP :: nat where "OP_DROP = 117"
definition OP_DUP :: nat where "OP_DUP = 118"
definition OP_NIP :: nat where "OP_NIP = 119"
definition OP_OVER :: nat where "OP_OVER = 120"
definition OP_PICK :: nat where "OP_PICK = 121"
definition OP_ROLL :: nat where "OP_ROLL = 122"
definition OP_ROT :: nat where "OP_ROT = 123"
definition OP_SWAP :: nat where "OP_SWAP = 124"
definition OP_TUCK :: nat where "OP_TUCK = 125"
definition OP_CAT :: nat where "OP_CAT = 126"
definition OP_SUBSTR :: nat where "OP_SUBSTR = 127"
definition OP_LEFT :: nat where "OP_LEFT = 128"
definition OP_RIGHT :: nat where "OP_RIGHT = 129"
definition OP_SIZE :: nat where "OP_SIZE = 130"
definition OP_INVERT :: nat where "OP_INVERT = 131"
definition OP_AND :: nat where "OP_AND = 132"
definition OP_OR :: nat where "OP_OR = 133"
definition OP_XOR :: nat where "OP_XOR = 134"
definition OP_EQUAL :: nat where "OP_EQUAL = 135"
definition OP_EQUALVERIFY :: nat where "OP_EQUALVERIFY = 136"
definition OP_RESERVED1 :: nat where "OP_RESERVED1 = 137"
definition OP_RESERVED2 :: nat where "OP_RESERVED2 = 138"
definition OP_1ADD :: nat where "OP_1ADD = 139"
definition OP_1SUB :: nat where "OP_1SUB = 140"
definition OP_2MUL :: nat where "OP_2MUL = 141"
definition OP_2DIV :: nat where "OP_2DIV = 142"
definition OP_NEGATE :: nat where "OP_NEGATE = 143"
definition OP_ABS :: nat where "OP_ABS = 144"
definition OP_NOT :: nat where "OP_NOT = 145"
definition OP_0NOTEQUAL :: nat where "OP_0NOTEQUAL = 146"
definition OP_ADD :: nat where "OP_ADD = 147"
definition OP_SUB :: nat where "OP_SUB = 148"
definition OP_MUL :: nat where "OP_MUL = 149"
definition OP_DIV :: nat where "OP_DIV = 150"
definition OP_MOD :: nat where "OP_MOD = 151"
definition OP_LSHIFT :: nat where "OP_LSHIFT = 152"
definition OP_RSHIFT :: nat where "OP_RSHIFT = 153"
definition OP_BOOLAND :: nat where "OP_BOOLAND = 154"
definition OP_BOOLOR :: nat where "OP_BOOLOR = 155"
definition OP_NUMEQUAL :: nat where "OP_NUMEQUAL = 156"
definition OP_NUMEQUALVERIFY :: nat where "OP_NUMEQUALVERIFY = 157"
definition OP_NUMNOTEQUAL :: nat where "OP_NUMNOTEQUAL = 158"
definition OP_LESSTHAN :: nat where "OP_LESSTHAN = 159"
definition OP_GREATERTHAN :: nat where "OP_GREATERTHAN = 160"
definition OP_LESSTHANOREQUAL :: nat where "OP_LESSTHANOREQUAL = 161"
definition OP_GREATERTHANOREQUAL :: nat where "OP_GREATERTHANOREQUAL = 162"
definition OP_MIN :: nat where "OP_MIN = 163"
definition OP_MAX :: nat where "OP_MAX = 164"
definition OP_WITHIN :: nat where "OP_WITHIN = 165"
definition OP_RIPEMD160 :: nat where "OP_RIPEMD160 = 166"
definition OP_SHA1 :: nat where "OP_SHA1 = 167"
definition OP_SHA256 :: nat where "OP_SHA256 = 168"
definition OP_HASH160 :: nat where "OP_HASH160 = 169"
definition OP_HASH256 :: nat where "OP_HASH256 = 170"
definition OP_CODESEPARATOR :: nat where "OP_CODESEPARATOR = 171"
definition OP_CHECKSIG :: nat where "OP_CHECKSIG = 172"
definition OP_CHECKSIGVERIFY :: nat where "OP_CHECKSIGVERIFY = 173"
definition OP_CHECKMULTISIG :: nat where "OP_CHECKMULTISIG = 174"
definition OP_CHECKMULTISIGVERIFY :: nat where "OP_CHECKMULTISIGVERIFY = 175"
definition OP_NOP1 :: nat where "OP_NOP1 = 176"
definition OP_CHECKLOCKTIMEVERIFY :: nat where "OP_CHECKLOCKTIMEVERIFY = 177"
definition OP_NOP2 :: nat where "OP_NOP2 = OP_CHECKLOCKTIMEVERIFY"
definition OP_CHECKSEQUENCEVERIFY :: nat where "OP_CHECKSEQUENCEVERIFY = 178"
definition OP_NOP3 :: nat where "OP_NOP3 = OP_CHECKSEQUENCEVERIFY"
definition OP_NOP4 :: nat where "OP_NOP4 = 179"
definition OP_NOP5 :: nat where "OP_NOP5 = 180"
definition OP_NOP6 :: nat where "OP_NOP6 = 181"
definition OP_NOP7 :: nat where "OP_NOP7 = 182"
definition OP_NOP8 :: nat where "OP_NOP8 = 183"
definition OP_NOP9 :: nat where "OP_NOP9 = 184"
definition OP_NOP10 :: nat where "OP_NOP10 = 185"
definition OP_WINNER_POST :: nat where "OP_WINNER_POST = 192"
definition OP_WINNER_POST_REFERRAL :: nat where "OP_WINNER_POST_REFERRAL = 193"
definition OP_WINNER_COMMENT :: nat where "OP_WINNER_COMMENT = 194"
definition OP_WINNER_COMMENT_REFERRAL :: nat where "OP_WINNER_COMMENT_REFERRAL = 195"
definition OP_CHECKSIGADD :: nat where "OP_CHECKSIGADD = 186"
definition OP_INVALIDOPCODE :: nat where "OP_INVALIDOPCODE = 255"

text \<open>The enumeration \<open>opcodetype\<close>, in its order, aliases included.\<close>

definition opcodetype :: "nat list" where
  "opcodetype = [
     OP_0, OP_FALSE, OP_PUSHDATA1, OP_PUSHDATA2, OP_PUSHDATA4, OP_1NEGATE,
     OP_RESERVED, OP_1, OP_TRUE, OP_2, OP_3, OP_4,
     OP_5, OP_6, OP_7, OP_8, OP_9, OP_10,
     OP_11, OP_12, OP_13, OP_14, OP_15, OP_16,
     OP_NOP, OP_VER, OP_IF, OP_NOTIF, OP_VERIF, OP_VERNOTIF,
     OP_ELSE, OP_ENDIF, OP_VERIFY, OP_RETURN, OP_TOALTSTACK, OP_FROMALTSTACK,
     OP_2DROP, OP_2DUP, OP_3DUP, OP_2OVER, OP_2ROT, OP_2SWAP,
     OP_IFDUP, OP_DEPTH, OP_DROP, OP_DUP, OP_NIP, OP_OVER,
     OP_PICK, OP_ROLL, OP_ROT, OP_SWAP, OP_TUCK, OP_CAT,
     OP_SUBSTR, OP_LEFT, OP_RIGHT, OP_SIZE, OP_INVERT, OP_AND,
     OP_OR, OP_XOR, OP_EQUAL, OP_EQUALVERIFY, OP_RESERVED1, OP_RESERVED2,
     OP_1ADD, OP_1SUB, OP_2MUL, OP_2DIV, OP_NEGATE, OP_ABS,
     OP_NOT, OP_0NOTEQUAL, OP_ADD, OP_SUB, OP_MUL, OP_DIV,
     OP_MOD, OP_LSHIFT, OP_RSHIFT, OP_BOOLAND, OP_BOOLOR, OP_NUMEQUAL,
     OP_NUMEQUALVERIFY, OP_NUMNOTEQUAL, OP_LESSTHAN, OP_GREATERTHAN, OP_LESSTHANOREQUAL, OP_GREATERTHANOREQUAL,
     OP_MIN, OP_MAX, OP_WITHIN, OP_RIPEMD160, OP_SHA1, OP_SHA256,
     OP_HASH160, OP_HASH256, OP_CODESEPARATOR, OP_CHECKSIG, OP_CHECKSIGVERIFY, OP_CHECKMULTISIG,
     OP_CHECKMULTISIGVERIFY, OP_NOP1, OP_CHECKLOCKTIMEVERIFY, OP_NOP2, OP_CHECKSEQUENCEVERIFY, OP_NOP3,
     OP_NOP4, OP_NOP5, OP_NOP6, OP_NOP7, OP_NOP8, OP_NOP9,
     OP_NOP10, OP_WINNER_POST, OP_WINNER_POST_REFERRAL, OP_WINNER_COMMENT, OP_WINNER_COMMENT_REFERRAL, OP_CHECKSIGADD,
     OP_INVALIDOPCODE]"

lemmas opcode_defs =
  OP_0_def OP_FALSE_def OP_PUSHDATA1_def OP_PUSHDATA2_def OP_PUSHDATA4_def
  OP_1NEGATE_def OP_RESERVED_def OP_1_def OP_TRUE_def OP_2_def
  OP_3_def OP_4_def OP_5_def OP_6_def OP_7_def
  OP_8_def OP_9_def OP_10_def OP_11_def OP_12_def
  OP_13_def OP_14_def OP_15_def OP_16_def OP_NOP_def
  OP_VER_def OP_IF_def OP_NOTIF_def OP_VERIF_def OP_VERNOTIF_def
  OP_ELSE_def OP_ENDIF_def OP_VERIFY_def OP_RETURN_def OP_TOALTSTACK_def
  OP_FROMALTSTACK_def OP_2DROP_def OP_2DUP_def OP_3DUP_def OP_2OVER_def
  OP_2ROT_def OP_2SWAP_def OP_IFDUP_def OP_DEPTH_def OP_DROP_def
  OP_DUP_def OP_NIP_def OP_OVER_def OP_PICK_def OP_ROLL_def
  OP_ROT_def OP_SWAP_def OP_TUCK_def OP_CAT_def OP_SUBSTR_def
  OP_LEFT_def OP_RIGHT_def OP_SIZE_def OP_INVERT_def OP_AND_def
  OP_OR_def OP_XOR_def OP_EQUAL_def OP_EQUALVERIFY_def OP_RESERVED1_def
  OP_RESERVED2_def OP_1ADD_def OP_1SUB_def OP_2MUL_def OP_2DIV_def
  OP_NEGATE_def OP_ABS_def OP_NOT_def OP_0NOTEQUAL_def OP_ADD_def
  OP_SUB_def OP_MUL_def OP_DIV_def OP_MOD_def OP_LSHIFT_def
  OP_RSHIFT_def OP_BOOLAND_def OP_BOOLOR_def OP_NUMEQUAL_def OP_NUMEQUALVERIFY_def
  OP_NUMNOTEQUAL_def OP_LESSTHAN_def OP_GREATERTHAN_def OP_LESSTHANOREQUAL_def OP_GREATERTHANOREQUAL_def
  OP_MIN_def OP_MAX_def OP_WITHIN_def OP_RIPEMD160_def OP_SHA1_def
  OP_SHA256_def OP_HASH160_def OP_HASH256_def OP_CODESEPARATOR_def OP_CHECKSIG_def
  OP_CHECKSIGVERIFY_def OP_CHECKMULTISIG_def OP_CHECKMULTISIGVERIFY_def OP_NOP1_def OP_CHECKLOCKTIMEVERIFY_def
  OP_NOP2_def OP_CHECKSEQUENCEVERIFY_def OP_NOP3_def OP_NOP4_def OP_NOP5_def
  OP_NOP6_def OP_NOP7_def OP_NOP8_def OP_NOP9_def OP_NOP10_def
  OP_WINNER_POST_def OP_WINNER_POST_REFERRAL_def OP_WINNER_COMMENT_def OP_WINNER_COMMENT_REFERRAL_def OP_CHECKSIGADD_def
  OP_INVALIDOPCODE_def

definition opcode_names :: "(nat \<times> string) list" where
  "opcode_names = [
     (OP_0, ''0''), (OP_PUSHDATA1, ''OP_PUSHDATA1''),
     (OP_PUSHDATA2, ''OP_PUSHDATA2''), (OP_PUSHDATA4, ''OP_PUSHDATA4''),
     (OP_1NEGATE, ''-1''), (OP_RESERVED, ''OP_RESERVED''),
     (OP_1, ''1''), (OP_2, ''2''),
     (OP_3, ''3''), (OP_4, ''4''),
     (OP_5, ''5''), (OP_6, ''6''),
     (OP_7, ''7''), (OP_8, ''8''),
     (OP_9, ''9''), (OP_10, ''10''),
     (OP_11, ''11''), (OP_12, ''12''),
     (OP_13, ''13''), (OP_14, ''14''),
     (OP_15, ''15''), (OP_16, ''16''),
     (OP_NOP, ''OP_NOP''), (OP_VER, ''OP_VER''),
     (OP_IF, ''OP_IF''), (OP_NOTIF, ''OP_NOTIF''),
     (OP_VERIF, ''OP_VERIF''), (OP_VERNOTIF, ''OP_VERNOTIF''),
     (OP_ELSE, ''OP_ELSE''), (OP_ENDIF, ''OP_ENDIF''),
     (OP_VERIFY, ''OP_VERIFY''), (OP_RETURN, ''OP_RETURN''),
     (OP_TOALTSTACK, ''OP_TOALTSTACK''), (OP_FROMALTSTACK, ''OP_FROMALTSTACK''),
     (OP_2DROP, ''OP_2DROP''), (OP_2DUP, ''OP_2DUP''),
     (OP_3DUP, ''OP_3DUP''), (OP_2OVER, ''OP_2OVER''),
     (OP_2ROT, ''OP_2ROT''), (OP_2SWAP, ''OP_2SWAP''),
     (OP_IFDUP, ''OP_IFDUP''), (OP_DEPTH, ''OP_DEPTH''),
     (OP_DROP, ''OP_DROP''), (OP_DUP, ''OP_DUP''),
     (OP_NIP, ''OP_NIP''), (OP_OVER, ''OP_OVER''),
     (OP_PICK, ''OP_PICK''), (OP_ROLL, ''OP_ROLL''),
     (OP_ROT, ''OP_ROT''), (OP_SWAP, ''OP_SWAP''),
     (OP_TUCK, ''OP_TUCK''), (OP_CAT, ''OP_CAT''),
     (OP_SUBSTR, ''OP_SUBSTR''), (OP_LEFT, ''OP_LEFT''),
     (OP_RIGHT, ''OP_RIGHT''), (OP_SIZE, ''OP_SIZE''),
     (OP_INVERT, ''OP_INVERT''), (OP_AND, ''OP_AND''),
     (OP_OR, ''OP_OR''), (OP_XOR, ''OP_XOR''),
     (OP_EQUAL, ''OP_EQUAL''), (OP_EQUALVERIFY, ''OP_EQUALVERIFY''),
     (OP_RESERVED1, ''OP_RESERVED1''), (OP_RESERVED2, ''OP_RESERVED2''),
     (OP_1ADD, ''OP_1ADD''), (OP_1SUB, ''OP_1SUB''),
     (OP_2MUL, ''OP_2MUL''), (OP_2DIV, ''OP_2DIV''),
     (OP_NEGATE, ''OP_NEGATE''), (OP_ABS, ''OP_ABS''),
     (OP_NOT, ''OP_NOT''), (OP_0NOTEQUAL, ''OP_0NOTEQUAL''),
     (OP_ADD, ''OP_ADD''), (OP_SUB, ''OP_SUB''),
     (OP_MUL, ''OP_MUL''), (OP_DIV, ''OP_DIV''),
     (OP_MOD, ''OP_MOD''), (OP_LSHIFT, ''OP_LSHIFT''),
     (OP_RSHIFT, ''OP_RSHIFT''), (OP_BOOLAND, ''OP_BOOLAND''),
     (OP_BOOLOR, ''OP_BOOLOR''), (OP_NUMEQUAL, ''OP_NUMEQUAL''),
     (OP_NUMEQUALVERIFY, ''OP_NUMEQUALVERIFY''), (OP_NUMNOTEQUAL, ''OP_NUMNOTEQUAL''),
     (OP_LESSTHAN, ''OP_LESSTHAN''), (OP_GREATERTHAN, ''OP_GREATERTHAN''),
     (OP_LESSTHANOREQUAL, ''OP_LESSTHANOREQUAL''), (OP_GREATERTHANOREQUAL, ''OP_GREATERTHANOREQUAL''),
     (OP_MIN, ''OP_MIN''), (OP_MAX, ''OP_MAX''),
     (OP_WITHIN, ''OP_WITHIN''), (OP_RIPEMD160, ''OP_RIPEMD160''),
     (OP_SHA1, ''OP_SHA1''), (OP_SHA256, ''OP_SHA256''),
     (OP_HASH160, ''OP_HASH160''), (OP_HASH256, ''OP_HASH256''),
     (OP_CODESEPARATOR, ''OP_CODESEPARATOR''), (OP_CHECKSIG, ''OP_CHECKSIG''),
     (OP_CHECKSIGVERIFY, ''OP_CHECKSIGVERIFY''), (OP_CHECKMULTISIG, ''OP_CHECKMULTISIG''),
     (OP_CHECKMULTISIGVERIFY, ''OP_CHECKMULTISIGVERIFY''), (OP_NOP1, ''OP_NOP1''),
     (OP_CHECKLOCKTIMEVERIFY, ''OP_CHECKLOCKTIMEVERIFY''), (OP_CHECKSEQUENCEVERIFY, ''OP_CHECKSEQUENCEVERIFY''),
     (OP_NOP4, ''OP_NOP4''), (OP_NOP5, ''OP_NOP5''),
     (OP_NOP6, ''OP_NOP6''), (OP_NOP7, ''OP_NOP7''),
     (OP_NOP8, ''OP_NOP8''), (OP_NOP9, ''OP_NOP9''),
     (OP_NOP10, ''OP_NOP10''), (OP_WINNER_POST, ''OP_WINNER_POST''),
     (OP_WINNER_POST_REFERRAL, ''OP_WINNER_POST_REFERRAL''), (OP_WINNER_COMMENT, ''OP_WINNER_COMMENT''),
     (OP_WINNER_COMMENT_REFERRAL, ''OP_WINNER_COMMENT_REFERRAL''), (OP_CHECKSIGADD, ''OP_CHECKSIGADD''),
     (OP_INVALIDOPCODE, ''OP_INVALIDOPCODE'')]"

definition GetOpName :: "nat \<Rightarrow> string" where
  "GetOpName opcode = (case map_of opcode_names opcode of None \<Rightarrow> ''OP_UNKNOWN'' | Some s \<Rightarrow> s)"

section \<open>Reading one operation\<close>

definition ReadLE16 :: "byte \<Rightarrow> byte \<Rightarrow> nat" where
  "ReadLE16 b0 b1 = unat b0 + 2 ^ 8 * unat b1"

definition ReadLE32 :: "byte \<Rightarrow> byte \<Rightarrow> byte \<Rightarrow> byte \<Rightarrow> nat" where
  "ReadLE32 b0 b1 b2 b3 = unat b0 + 2 ^ 8 * unat b1 + 2 ^ 16 * unat b2 + 2 ^ 24 * unat b3"

definition read_size :: "nat \<Rightarrow> byte list \<Rightarrow> (nat \<times> byte list) option" where
  "read_size opcode pc =
     (if opcode < OP_PUSHDATA1 then Some (opcode, pc)
      else if opcode = OP_PUSHDATA1 then
        (case pc of b # pc' \<Rightarrow> Some (unat b, pc') | _ \<Rightarrow> None)
      else if opcode = OP_PUSHDATA2 then
        (case pc of b0 # b1 # pc' \<Rightarrow> Some (ReadLE16 b0 b1, pc') | _ \<Rightarrow> None)
      else if opcode = OP_PUSHDATA4 then
        (case pc of b0 # b1 # b2 # b3 # pc' \<Rightarrow> Some (ReadLE32 b0 b1 b2 b3, pc') | _ \<Rightarrow> None)
      else Some (0, pc))"

definition GetScriptOp :: "byte list \<Rightarrow> (nat \<times> byte list \<times> byte list) option" where
  "GetScriptOp pc =
     (case pc of
        [] \<Rightarrow> None
      | b # pc1 \<Rightarrow>
          let opcode = unat b in
          if opcode \<le> OP_PUSHDATA4 then
            (case read_size opcode pc1 of
               None \<Rightarrow> None
             | Some (nSize, pc2) \<Rightarrow>
                 if length pc2 < nSize then None
                 else Some (opcode, take nSize pc2, drop nSize pc2))
          else Some (opcode, [], pc1))"

section \<open>Appending to a script\<close>

definition push_opcode :: "byte list \<Rightarrow> nat \<Rightarrow> byte list" where
  "push_opcode script opcode = script @ [of_nat opcode]"

definition WriteLE16 :: "nat \<Rightarrow> byte list" where
  "WriteLE16 n = [of_nat n, of_nat (n div 2 ^ 8)]"

definition WriteLE32 :: "nat \<Rightarrow> byte list" where
  "WriteLE32 n = [of_nat n, of_nat (n div 2 ^ 8), of_nat (n div 2 ^ 16), of_nat (n div 2 ^ 24)]"

definition push_data :: "byte list \<Rightarrow> byte list \<Rightarrow> byte list" where
  "push_data script b = script @
     (if length b < OP_PUSHDATA1 then [of_nat (length b)]
      else if length b \<le> 255 then [of_nat OP_PUSHDATA1, of_nat (length b)]
      else if length b \<le> 65535 then of_nat OP_PUSHDATA2 # WriteLE16 (length b)
      else of_nat OP_PUSHDATA4 # WriteLE32 (length b)) @ b"

section \<open>Script numbers\<close>

text \<open>\<open>set_vch\<close> is called with at most four bytes unless the caller raises \<open>nMaxNumSize\<close>;
  up to eight bytes the 64-bit computation of the code and the one on integers agree.\<close>

definition set_vch :: "byte list \<Rightarrow> int" where
  "set_vch vch =
     (if vch = [] then 0
      else let result = foldl (\<lambda>r i. r OR push_bit (8 * i) (uint (vch ! i))) 0 [0..<length vch] in
        if last vch AND 0x80 \<noteq> 0
        then - (result AND NOT (push_bit (8 * (length vch - 1)) 0x80))
        else result)"

definition CScriptNum :: "byte list \<Rightarrow> bool \<Rightarrow> nat \<Rightarrow> int option" where
  "CScriptNum vch fRequireMinimal nMaxNumSize =
     (if length vch > nMaxNumSize then None
      else if fRequireMinimal \<and> length vch > 0 \<and> last vch AND 0x7f = 0 \<and>
              (length vch \<le> 1 \<or> vch ! (length vch - 2) AND 0x80 = 0) then None
      else Some (set_vch vch))"

definition getint :: "int \<Rightarrow> int" where
  "getint m_value =
     (if m_value > 2147483647 then 2147483647
      else if m_value < -2147483648 then -2147483648
      else m_value)"

fun serialize_abs :: "nat \<Rightarrow> byte list" where
  "serialize_abs absvalue =
     (if absvalue = 0 then [] else of_nat (absvalue mod 256) # serialize_abs (absvalue div 256))"

declare serialize_abs.simps [simp del]

definition serialize :: "int \<Rightarrow> byte list" where
  "serialize value =
     (if value = 0 then []
      else let neg = value < 0; result = serialize_abs (nat \<bar>value\<bar>) in
        if last result AND 0x80 \<noteq> 0 then result @ [if neg then 0x80 else 0]
        else if neg then butlast result @ [last result OR 0x80]
        else result)"

section \<open>The text form\<close>

fun show_nat :: "nat \<Rightarrow> string" where
  "show_nat n = (if n < 10 then [char_of (48 + n)] else show_nat (n div 10) @ [char_of (48 + n mod 10)])"

declare show_nat.simps [simp del]

definition show_int :: "int \<Rightarrow> string" where
  "show_int i = (if i < 0 then CHR ''-'' # show_nat (nat (- i)) else show_nat (nat i))"

definition asm_op :: "nat \<Rightarrow> byte list \<Rightarrow> string" where
  "asm_op opcode vch =
     (if opcode \<le> OP_PUSHDATA4
      then if length vch \<le> 4 then show_int (getint (set_vch vch)) else HexStr vch
      else GetOpName opcode)"

lemma GetScriptOp_consumes:
  "GetScriptOp pc = Some (opcode, vch, pc') \<Longrightarrow> length pc' < length pc"
  by (auto simp: GetScriptOp_def read_size_def Let_def split: list.splits if_splits)

function asm_loop :: "byte list \<Rightarrow> string \<Rightarrow> string" where
  "asm_loop pc str =
     (if pc = [] then str
      else let str1 = (if str \<noteq> [] then str @ '' '' else str) in
        case GetScriptOp pc of
          None \<Rightarrow> str1 @ ''[error]''
        | Some (opcode, vch, pc') \<Rightarrow> asm_loop pc' (str1 @ asm_op opcode vch))"
  by pat_completeness auto
termination
  by (relation "measure (\<lambda>(pc, _). length pc)") (auto dest: GetScriptOp_consumes)

declare asm_loop.simps [simp del]

definition ScriptToAsmStr :: "byte list \<Rightarrow> string" where
  "ScriptToAsmStr script = asm_loop script []"

section \<open>A push reads back as it was written\<close>

lemma opcodes_are_bytes: "list_all (\<lambda>opcode. opcode \<le> 0xff) opcodetype"
  by (simp add: opcodetype_def opcode_defs)

lemma unat_of_nat_byte: "n < 256 \<Longrightarrow> unat (of_nat n :: byte) = n"
  by (simp add: unat_of_nat take_bit_nat_def)

lemma unat_of_nat_mod: "unat (of_nat n :: byte) = n mod 256"
  by (simp add: unat_of_nat take_bit_nat_def)

lemma ReadLE16_WriteLE16:
  assumes "n < 2 ^ 16"
  shows "WriteLE16 n = [b0, b1] \<Longrightarrow> ReadLE16 b0 b1 = n"
  using assms by (auto simp: WriteLE16_def ReadLE16_def unat_of_nat_mod)

lemma base256_split: "(m :: nat) = m mod 256 + 256 * (m div 256)"
  by simp

lemma ReadLE32_WriteLE32:
  assumes "n < 2 ^ 32"
  shows "WriteLE32 n = [b0, b1, b2, b3] \<Longrightarrow> ReadLE32 b0 b1 b2 b3 = n"
proof -
  have "n div 65536 div 256 = n div 16777216" "n div 256 div 256 = n div 65536"
    by (simp_all flip: div_mult2_eq)
  then have "n mod 256 + 256 * (n div 256 mod 256) + 65536 * (n div 65536 mod 256)
      + 16777216 * (n div 16777216) = n"
    using base256_split[of n] base256_split[of "n div 256"] base256_split[of "n div 65536"]
    by linarith
  moreover have "n div 16777216 mod 256 = n div 16777216"
    using assms by (simp add: less_mult_imp_div_less)
  ultimately show "WriteLE32 n = [b0, b1, b2, b3] \<Longrightarrow> ReadLE32 b0 b1 b2 b3 = n"
    by (auto simp: WriteLE32_def ReadLE32_def unat_of_nat_mod)
qed

lemma GetScriptOp_push_data:
  assumes "length b < 2 ^ 32"
  shows "\<exists>opcode \<le> OP_PUSHDATA4. GetScriptOp (push_data [] b @ rest) = Some (opcode, b, rest)"
proof -
  consider (direct) "length b < 76" | (one) "76 \<le> length b" "length b \<le> 255"
    | (two) "255 < length b" "length b \<le> 65535" | (four) "65535 < length b"
    by linarith
  then show ?thesis
  proof cases
    case direct
    then show ?thesis
      by (simp add: GetScriptOp_def push_data_def read_size_def opcode_defs unat_of_nat_byte)
  next
    case one
    then show ?thesis
      by (simp add: GetScriptOp_def push_data_def read_size_def opcode_defs unat_of_nat_byte)
  next
    case two
    then have "ReadLE16 (of_nat (length b)) (of_nat (length b div 2 ^ 8)) = length b"
      by (intro ReadLE16_WriteLE16) (auto simp: WriteLE16_def)
    with two show ?thesis
      by (simp add: GetScriptOp_def push_data_def read_size_def opcode_defs WriteLE16_def)
  next
    case four
    have "ReadLE32 (of_nat (length b)) (of_nat (length b div 2 ^ 8)) (of_nat (length b div 2 ^ 16))
        (of_nat (length b div 2 ^ 24)) = length b"
      using assms by (intro ReadLE32_WriteLE32) (auto simp: WriteLE32_def)
    with four show ?thesis
      by (simp add: GetScriptOp_def push_data_def read_size_def opcode_defs WriteLE32_def)
  qed
qed

section \<open>The text form of an OP_RETURN script\<close>

definition op_return_script :: "byte list list \<Rightarrow> byte list" where
  "op_return_script ds = foldl push_data (push_opcode [] OP_RETURN) ds"

lemma push_data_append: "push_data script b = script @ push_data [] b"
  by (simp add: push_data_def)

lemma foldl_push_data: "foldl push_data script ds = script @ concat (map (push_data []) ds)"
proof (induction ds arbitrary: script)
  case (Cons d ds)
  show ?case
    by (simp add: Cons push_data_append[of script d])
qed simp

lemma asm_loop_pushes:
  assumes "\<forall>d \<in> set ds. 4 < length d \<and> length d < 2 ^ 32" "str \<noteq> []"
  shows "asm_loop (concat (map (push_data []) ds)) str = str @ concat (map (\<lambda>d. '' '' @ HexStr d) ds)"
  using assms
proof (induction ds arbitrary: str)
  case Nil
  then show ?case by (simp add: asm_loop.simps)
next
  case (Cons d ds)
  obtain opcode where "opcode \<le> OP_PUSHDATA4"
    "GetScriptOp (push_data [] d @ concat (map (push_data []) ds))
       = Some (opcode, d, concat (map (push_data []) ds))"
    using GetScriptOp_push_data[of d] Cons.prems by auto
  moreover have "push_data [] d \<noteq> []" by (simp add: push_data_def)
  ultimately show ?case
    using Cons by (subst asm_loop.simps) (simp add: asm_op_def)
qed

lemma ScriptToAsmStr_op_return:
  assumes "\<forall>d \<in> set ds. 4 < length d \<and> length d < 2 ^ 32"
  shows "ScriptToAsmStr (op_return_script ds) = ''OP_RETURN'' @ concat (map (\<lambda>d. '' '' @ HexStr d) ds)"
proof -
  have "GetScriptOp (106 # pc) = Some (106, [], pc)" for pc
    by (simp add: GetScriptOp_def opcode_defs)
  moreover have "asm_op 106 [] = ''OP_RETURN''"
    by (simp add: asm_op_def GetOpName_def opcode_names_def opcode_defs)
  ultimately show ?thesis
    using asm_loop_pushes[OF assms, of "''OP_RETURN''"]
    by (simp add: ScriptToAsmStr_def op_return_script_def foldl_push_data push_opcode_def
        OP_RETURN_def asm_loop.simps[of "106 # _"])
qed

section \<open>Script numbers read back\<close>

primrec le_int :: "byte list \<Rightarrow> int" where
  "le_int [] = 0"
| "le_int (b # bs) = uint b + 256 * le_int bs"

lemma le_int_bounds: "0 \<le> le_int bs" "le_int bs < 2 ^ (8 * length bs)"
proof (induction bs)
  case (Cons b bs)
  { case 1 with Cons show ?case by simp }
  { case 2
    have "uint b < 256" using uint_lt2p[of b] by simp
    moreover have "(2::int) ^ (8 * length (b # bs)) = 256 * 2 ^ (8 * length bs)"
      by (simp add: power_add)
    ultimately show ?case using Cons(2) by simp }
qed simp_all

lemma le_int_snoc: "le_int (bs @ [b]) = le_int bs + 2 ^ (8 * length bs) * uint b"
  by (induction bs) (simp_all add: power_add algebra_simps)

lemma or_push_bit_add:
  fixes r b :: int
  assumes "0 \<le> r" "r < 2 ^ k"
  shows "r OR push_bit k b = r + 2 ^ k * b"
proof -
  have "take_bit k r = r" using assms by (simp add: take_bit_int_eq_self_iff)
  then show ?thesis
    using concat_bit_eq[of k r b] by (simp add: concat_bit_def push_bit_eq_mult)
qed

lemma set_vch_fold:
  "foldl (\<lambda>r i. r OR push_bit (8 * i) (uint (vch ! i))) 0 [0..<length vch] = le_int vch"
proof (induction vch rule: rev_induct)
  case (snoc b bs)
  have "foldl (\<lambda>r i. r OR push_bit (8 * i) (uint ((bs @ [b]) ! i))) 0 [0..<length bs]
      = foldl (\<lambda>r i. r OR push_bit (8 * i) (uint (bs ! i))) 0 [0..<length bs]"
    by (intro foldl_cong) (auto simp: nth_append)
  with snoc show ?case
    by (simp add: or_push_bit_add le_int_bounds le_int_snoc)
qed simp

lemma byte_sign_bit: "(b :: byte) AND 128 \<noteq> 0 \<longleftrightarrow> bit b 7"
  using and_exp_eq_0_iff_not_bit[of b 7] by simp

lemma le_int_sign_bit: "bit (le_int (bs @ [b])) (8 * length bs + 7) \<longleftrightarrow> bit b 7"
proof -
  have "le_int (bs @ [b]) = concat_bit (8 * length bs) (le_int bs) (uint b)"
    using le_int_bounds[of bs]
    by (simp add: le_int_snoc concat_bit_eq take_bit_int_eq_self push_bit_eq_mult)
  then show ?thesis
    by (simp add: bit_concat_bit_iff bit_uint_iff)
qed

lemma set_vch_snoc:
  "set_vch (bs @ [b]) =
     (if bit b 7 then - (le_int bs + 2 ^ (8 * length bs) * (uint b - 128))
      else le_int bs + 2 ^ (8 * length bs) * uint b)"
proof -
  let ?n = "8 * length bs + 7"
  have "push_bit (8 * length bs) (0x80 :: int) = push_bit ?n 1"
    by (simp add: push_bit_eq_mult power_add)
  then have "le_int (bs @ [b]) AND NOT (push_bit (8 * length bs) 0x80)
      = le_int (bs @ [b]) - of_bool (bit b 7) * 2 ^ ?n"
    by (simp only: unset_bit_def[symmetric] unset_bit_eq le_int_sign_bit)
  moreover have "set_vch (bs @ [b]) = (if bit b 7
      then - (le_int (bs @ [b]) AND NOT (push_bit (8 * length bs) 0x80)) else le_int (bs @ [b]))"
    unfolding set_vch_def set_vch_fold by (simp add: byte_sign_bit)
  ultimately show ?thesis
    by (cases "bit b 7") (simp_all add: le_int_snoc power_add algebra_simps)
qed

lemma serialize_abs_le_int: "le_int (serialize_abs n) = int n"
proof (induction n rule: serialize_abs.induct)
  case (1 n)
  show ?case
  proof (cases "n = 0")
    case True
    then show ?thesis by (simp add: serialize_abs.simps)
  next
    case False
    have "uint (of_nat (n mod 256) :: byte) = int (n mod 256)"
      by (simp add: uint_nat unat_of_nat_mod)
    with 1[OF False] False show ?thesis
      by (subst serialize_abs.simps) (simp add: zmod_int zdiv_int)
  qed
qed

lemma serialize_abs_eq_Nil: "serialize_abs n = [] \<longleftrightarrow> n = 0"
  by (simp add: serialize_abs.simps)

lemma set_sign_bit: "\<not> bit (b :: byte) 7 \<Longrightarrow> uint (b OR 0x80) = uint b + 128"
proof -
  assume no: "\<not> bit b 7"
  have "uint b < 256" using uint_lt2p[of b] by simp
  moreover have "even (uint b div 128)"
    using no bit_uint_iff[of b 7] by (simp add: bit_iff_odd)
  ultimately have "uint b < 128" using uint_ge_0[of b] by presburger
  have "uint (b OR 128) = uint b OR push_bit 7 1" by (simp add: uint_or)
  with \<open>uint b < 128\<close> show ?thesis
    by (simp only:) (subst or_push_bit_add; simp)
qed

lemma set_vch_serialize: "set_vch (serialize v) = v"
proof (cases "v = 0")
  case True
  then show ?thesis by (simp add: serialize_def set_vch_def)
next
  case False
  define bs where "bs = butlast (serialize_abs (nat \<bar>v\<bar>))"
  define b where "b = last (serialize_abs (nat \<bar>v\<bar>))"
  have bytes: "serialize_abs (nat \<bar>v\<bar>) = bs @ [b]"
    using False by (simp add: bs_def b_def serialize_abs_eq_Nil)
  then have abs: "le_int bs + 2 ^ (8 * length bs) * uint b = \<bar>v\<bar>"
    using serialize_abs_le_int[of "nat \<bar>v\<bar>"] by (simp add: le_int_snoc)
  have sign: "bit (b OR 0x80) 7" "bit (0x80 :: byte) 7" "\<not> bit (0 :: byte) 7"
    using byte_sign_bit[of "0x80"] by (auto simp: bit_or_iff)
  show ?thesis
  proof (cases "bit b 7")
    case True
    with False bytes sign abs show ?thesis
      using set_vch_snoc[of "bs @ [b]" "0x80"] set_vch_snoc[of "bs @ [b]" 0]
      by (auto simp: serialize_def Let_def byte_sign_bit le_int_snoc)
  next
    case False
    with \<open>v \<noteq> 0\<close> bytes sign abs show ?thesis
      by (auto simp: serialize_def Let_def byte_sign_bit set_vch_snoc set_sign_bit)
  qed
qed

end
