(* ===== verification/Primitives.thy ===== *)
theory Primitives
  imports Script
begin

text \<open>
  The parts of \<open>primitives/transaction.h\<close>, \<open>primitives/block.h\<close>, \<open>uint256.h\<close> and
  \<open>uint256.cpp\<close> the social layer reads: hashes as the 32 bytes of a \<open>base_blob\<close> with their
  hexadecimal form, outpoints, outputs, transactions and blocks, and the classification of a
  transaction as coinbase or coinstake. Of an input only the outpoint is read, and the cached
  hash of a transaction or block is a field. The lemmas show that the hexadecimal form
  identifies a hash, that an output is empty or lists lottery winners exactly when its bytes
  say so, and that no transaction is both coinbase and coinstake.
\<close>

section \<open>Hashes, outpoints, outputs\<close>

type_synonym uint256 = "byte list"

definition uint256_IsNull :: "uint256 \<Rightarrow> bool" where
  "uint256_IsNull m_data \<longleftrightarrow> (\<forall>b \<in> set m_data. b = 0)"

definition GetHex :: "uint256 \<Rightarrow> string" where
  "GetHex m_data = HexStr (rev m_data)"

record COutPoint =
  op_hash :: uint256
  op_n :: nat

definition NULL_INDEX :: nat where
  "NULL_INDEX = 4294967295"

definition IsNull :: "COutPoint \<Rightarrow> bool" where
  "IsNull prevout \<longleftrightarrow> uint256_IsNull (op_hash prevout) \<and> op_n prevout = NULL_INDEX"

record CTxOut =
  nValue :: int
  scriptPubKey :: "byte list"

function winners_loop :: "byte list \<Rightarrow> bool \<Rightarrow> bool" where
  "winners_loop pc winners =
     (if pc = [] then winners
      else case GetScriptOp pc of
             None \<Rightarrow> False
           | Some (opcode, _, pc') \<Rightarrow>
               if opcode < OP_WINNER_POST \<or> opcode > OP_WINNER_COMMENT_REFERRAL then False
               else winners_loop pc' True)"
  by pat_completeness auto
termination
  by (relation "measure (\<lambda>(pc, _). length pc)") (auto dest: GetScriptOp_consumes)

declare winners_loop.simps [simp del]

definition IsEmptyOrWinners :: "CTxOut \<Rightarrow> bool" where
  "IsEmptyOrWinners out \<longleftrightarrow>
     nValue out = 0 \<and> (scriptPubKey out = [] \<or> winners_loop (scriptPubKey out) False)"

section \<open>Transactions and blocks\<close>

record CTransaction =
  tx_hash :: uint256
  nTime :: int
  vin :: "COutPoint list"
  vout :: "CTxOut list"

definition IsCoinBase :: "CTransaction \<Rightarrow> bool" where
  "IsCoinBase tx \<longleftrightarrow> length (vin tx) = 1 \<and> IsNull (vin tx ! 0)"

definition IsCoinStake :: "CTransaction \<Rightarrow> bool" where
  "IsCoinStake tx \<longleftrightarrow> length (vin tx) > 0 \<and> \<not> IsNull (vin tx ! 0) \<and> length (vout tx) \<ge> 2 \<and>
     IsEmptyOrWinners (vout tx ! 0)"

record CBlock =
  block_hash :: uint256
  vtx :: "CTransaction list"

definition IsProofOfStake :: "CBlock \<Rightarrow> bool" where
  "IsProofOfStake block \<longleftrightarrow> length (vtx block) > 1 \<and> IsCoinStake (vtx block ! 1)"

section \<open>Lemmas\<close>

lemma GetHex_inj: "GetHex a = GetHex b \<longleftrightarrow> a = b"
  by (simp add: GetHex_def HexStr_inj)

lemma GetScriptOp_winner:
  "192 \<le> unat b \<Longrightarrow> GetScriptOp (b # pc) = Some (unat b, [], pc)"
  by (simp add: GetScriptOp_def OP_PUSHDATA4_def)

lemma winners_loop_iff:
  "winners_loop pc winners \<longleftrightarrow>
     (if pc = [] then winners else \<forall>b \<in> set pc. 192 \<le> unat b \<and> unat b \<le> 195)"
proof (induction pc arbitrary: winners)
  case Nil
  show ?case by (simp add: winners_loop.simps)
next
  case (Cons b pc)
  show ?case
  proof (cases "192 \<le> unat b")
    case True
    then show ?thesis
      by (subst winners_loop.simps)
         (auto simp: GetScriptOp_winner Cons OP_WINNER_POST_def OP_WINNER_COMMENT_REFERRAL_def)
  next
    case False
    then have "opcode < 192" if "GetScriptOp (b # pc) = Some (opcode, v, pc')" for opcode v pc'
      using that by (auto simp: GetScriptOp_def Let_def OP_PUSHDATA4_def split: if_splits option.splits)
    with False show ?thesis
      by (subst winners_loop.simps) (auto simp: OP_WINNER_POST_def split: option.splits)
  qed
qed

lemma coinbase_not_coinstake: "IsCoinBase tx \<Longrightarrow> \<not> IsCoinStake tx"
  by (auto simp: IsCoinBase_def IsCoinStake_def)

end
