(* ===== verification/Models.thy ===== *)
theory Models
  imports Primitives PocketTypes
begin

text \<open>
  The transaction objects of the social layer, \<open>pocketdb/models/base\<close> and
  \<open>pocketdb/models/dto\<close>. Every class of the hierarchy has the fields of \<open>Transaction\<close>; the
  classes differ in the meaning of the string fields, in their JSON form and in the data they
  hash. One record \<open>Transaction\<close> carries the fields, a null pointer being \<open>None\<close>, and the
  virtual methods dispatch on \<open>m_type\<close>, which every constructor sets. \<open>m_hash\<close> and
  \<open>m_time\<close> are set by the constructor from a \<open>CTransaction\<close> and never null.

  JSON values are trees; the text form of a value (\<open>UniValue::write\<close>, \<open>UniValue::read\<close>) is a
  parameter of the operations that use it, as is the hash function.
\<close>

section \<open>JSON objects\<close>

datatype UniValue =
    VNULL
  | VBOOL bool
  | VNUM int
  | VSTR string
  | VARR "UniValue list"
  | VOBJ "(string \<times> UniValue) list"

fun pushKV_entries :: "(string \<times> UniValue) list \<Rightarrow> string \<Rightarrow> UniValue \<Rightarrow> (string \<times> UniValue) list" where
  "pushKV_entries [] key val = [(key, val)]"
| "pushKV_entries ((k, v) # kvs) key val =
     (if k = key then (k, val) # kvs else (k, v) # pushKV_entries kvs key val)"

fun pushKV :: "UniValue \<Rightarrow> string \<Rightarrow> UniValue \<Rightarrow> UniValue" where
  "pushKV (VOBJ kvs) key val = VOBJ (pushKV_entries kvs key val)"
| "pushKV other key val = other"

text \<open>\<open>findKey\<close> and the indexing operator: the value under a key of an object, \<open>None\<close> when
  \<open>exists\<close> is false.\<close>

fun find_key :: "UniValue \<Rightarrow> string \<Rightarrow> UniValue option" where
  "find_key (VOBJ kvs) key = map_of kvs key"
| "find_key _ key = None"

fun TryGetStr :: "(UniValue \<Rightarrow> string) \<Rightarrow> UniValue \<Rightarrow> string \<Rightarrow> string option" where
  "TryGetStr write src key =
     (case find_key src key of
        None \<Rightarrow> None
      | Some v \<Rightarrow>
          let val = (case v of VSTR s \<Rightarrow> s | VARR _ \<Rightarrow> write v | VOBJ _ \<Rightarrow> write v | _ \<Rightarrow> [])
          in if val \<noteq> [] then Some val else None)"

text \<open>\<open>TryGetInt64\<close> returns its flag and value as an option; the outer \<open>None\<close> is the exception
  of \<open>get_str\<close> on a value that is neither a number nor a string.\<close>

fun TryGetInt64 :: "UniValue \<Rightarrow> string \<Rightarrow> int option option" where
  "TryGetInt64 src key =
     (case find_key src key of
        None \<Rightarrow> Some None
      | Some (VNUM n) \<Rightarrow> Some (Some n)
      | Some (VSTR s) \<Rightarrow> Some (ParseInt64 s)
      | Some _ \<Rightarrow> None)"

section \<open>Transactions, payloads, outputs\<close>

record Payload =
  pl_TxHash :: "string option"
  pl_String1 :: "string option"
  pl_String2 :: "string option"
  pl_String3 :: "string option"
  pl_String4 :: "string option"
  pl_String5 :: "string option"
  pl_String6 :: "string option"
  pl_String7 :: "string option"
  pl_Int1 :: "int option"

record TransactionOutput =
  out_TxHash :: "string option"
  out_Number :: "int option"
  out_AddressHash :: "string option"
  out_Value :: "int option"
  out_ScriptPubKey :: "string option"

record Transaction =
  m_type :: TxType
  m_hash :: string
  m_time :: int
  m_id :: "int option"
  m_last :: "bool option"
  m_string1 :: "string option"
  m_string2 :: "string option"
  m_string3 :: "string option"
  m_string4 :: "string option"
  m_string5 :: "string option"
  m_int1 :: "int option"
  m_payload :: "Payload option"
  m_outputs :: "TransactionOutput list"

definition new_Payload :: Payload where
  "new_Payload = \<lparr>pl_TxHash = None, pl_String1 = None, pl_String2 = None, pl_String3 = None,
     pl_String4 = None, pl_String5 = None, pl_String6 = None, pl_String7 = None, pl_Int1 = None\<rparr>"

definition new_Transaction :: "TxType \<Rightarrow> CTransaction \<Rightarrow> Transaction" where
  "new_Transaction type tx =
     \<lparr>m_type = type, m_hash = GetHex (tx_hash tx), m_time = nTime tx, m_id = None, m_last = None,
      m_string1 = None, m_string2 = None, m_string3 = None, m_string4 = None, m_string5 = None,
      m_int1 = None, m_payload = None, m_outputs = []\<rparr>"

definition GeneratePayload :: "Transaction \<Rightarrow> Transaction" where
  "GeneratePayload ptx = ptx\<lparr>m_payload := Some (new_Payload\<lparr>pl_TxHash := Some (m_hash ptx)\<rparr>)\<rparr>"

definition ClearPayload :: "Transaction \<Rightarrow> Transaction" where
  "ClearPayload ptx = ptx\<lparr>m_payload := None\<rparr>"

definition HasPayload :: "Transaction \<Rightarrow> bool" where
  "HasPayload ptx \<longleftrightarrow> m_payload ptx \<noteq> None"

end
