(* ===== verification/Dto.thy ===== *)
theory Dto
  imports Models
begin

text \<open>
  The classes of \<open>pocketdb/models/dto\<close>: for each its JSON form (\<open>Serialize\<close>), what it reads
  back from the form peers exchange (\<open>Deserialize\<close>, \<open>DeserializePayload\<close>) and from an RPC
  request (\<open>DeserializeRpc\<close>), and the hash of its content (\<open>BuildHash\<close>) which the OP_RETURN
  output of the transaction commits to. \<open>None\<close> is a dereferenced null pointer or an exception.

  Parameters: \<open>wr\<close> and \<open>rd\<close> are \<open>UniValue::write\<close> and the value left by \<open>UniValue::read\<close>,
  \<open>GenerateHash\<close> the double SHA-256 in hexadecimal.

  The main lemma is that a transaction relayed through its JSON form keeps its hash; it needs
  the fields whose absence the JSON form does not represent.
\<close>

section \<open>Field access\<close>

definition SetAddress :: "string \<Rightarrow> Transaction \<Rightarrow> Transaction" where
  "SetAddress v ptx = ptx\<lparr>m_string1 := Some v\<rparr>"

definition SetString2 :: "string \<Rightarrow> Transaction \<Rightarrow> Transaction" where
  "SetString2 v ptx = ptx\<lparr>m_string2 := Some v\<rparr>"

definition SetString3 :: "string \<Rightarrow> Transaction \<Rightarrow> Transaction" where
  "SetString3 v ptx = ptx\<lparr>m_string3 := Some v\<rparr>"

definition SetString4 :: "string \<Rightarrow> Transaction \<Rightarrow> Transaction" where
  "SetString4 v ptx = ptx\<lparr>m_string4 := Some v\<rparr>"

definition SetString5 :: "string \<Rightarrow> Transaction \<Rightarrow> Transaction" where
  "SetString5 v ptx = ptx\<lparr>m_string5 := Some v\<rparr>"

definition SetInt1 :: "int \<Rightarrow> Transaction \<Rightarrow> Transaction" where
  "SetInt1 v ptx = ptx\<lparr>m_int1 := Some v\<rparr>"

text \<open>\<open>if (auto[ok, val] = ...; ok) set(val);\<close>\<close>

definition if_ok :: "'v option \<Rightarrow> ('v \<Rightarrow> 'a \<Rightarrow> 'a) \<Rightarrow> 'a \<Rightarrow> 'a" where
  "if_ok r f x = (case r of None \<Rightarrow> x | Some v \<Rightarrow> f v x)"

definition on_payload :: "(string \<Rightarrow> Payload \<Rightarrow> Payload) \<Rightarrow> string \<Rightarrow> Transaction \<Rightarrow> Transaction" where
  "on_payload f v ptx = ptx\<lparr>m_payload := map_option (f v) (m_payload ptx)\<rparr>"

definition PSetString1 :: "string \<Rightarrow> Payload \<Rightarrow> Payload" where "PSetString1 v p = p\<lparr>pl_String1 := Some v\<rparr>"
definition PSetString2 :: "string \<Rightarrow> Payload \<Rightarrow> Payload" where "PSetString2 v p = p\<lparr>pl_String2 := Some v\<rparr>"
definition PSetString3 :: "string \<Rightarrow> Payload \<Rightarrow> Payload" where "PSetString3 v p = p\<lparr>pl_String3 := Some v\<rparr>"
definition PSetString4 :: "string \<Rightarrow> Payload \<Rightarrow> Payload" where "PSetString4 v p = p\<lparr>pl_String4 := Some v\<rparr>"
definition PSetString5 :: "string \<Rightarrow> Payload \<Rightarrow> Payload" where "PSetString5 v p = p\<lparr>pl_String5 := Some v\<rparr>"
definition PSetString6 :: "string \<Rightarrow> Payload \<Rightarrow> Payload" where "PSetString6 v p = p\<lparr>pl_String6 := Some v\<rparr>"
definition PSetString7 :: "string \<Rightarrow> Payload \<Rightarrow> Payload" where "PSetString7 v p = p\<lparr>pl_String7 := Some v\<rparr>"

text \<open>\<open>m_payload && m_payload->GetStringN()\<close>, and \<open>x ? *x : dflt\<close>.\<close>

definition payload :: "(Payload \<Rightarrow> string option) \<Rightarrow> Transaction \<Rightarrow> string option" where
  "payload f ptx = (case m_payload ptx of None \<Rightarrow> None | Some p \<Rightarrow> f p)"

definition deref_or :: "'a \<Rightarrow> 'a option \<Rightarrow> 'a" where
  "deref_or dflt x = (case x of None \<Rightarrow> dflt | Some v \<Rightarrow> v)"

definition pushKVs :: "UniValue \<Rightarrow> (string \<times> UniValue) list \<Rightarrow> UniValue" where
  "pushKVs obj kvs = foldl (\<lambda>o' (k, v). pushKV o' k v) obj kvs"

section \<open>The JSON form\<close>

definition Transaction_Serialize :: "Transaction \<Rightarrow> UniValue" where
  "Transaction_Serialize ptx = pushKVs (VOBJ [])
     [(''txid'', VSTR (m_hash ptx)), (''time'', VNUM (m_time ptx)), (''block'', VNUM 0),
      (''last'', VBOOL False)]"

definition Post_Serialize :: "(string \<Rightarrow> UniValue) \<Rightarrow> Transaction \<Rightarrow> UniValue option" where
  "Post_Serialize rd ptx = do {
     root \<leftarrow> m_string2 ptx;
     let result = pushKVs (Transaction_Serialize ptx)
       [(''address'', VSTR (deref_or [] (m_string1 ptx))),
        (''txidRepost'', VSTR (deref_or [] (m_string3 ptx))),
        (''txidEdit'', VSTR [])];
     let result = (if root \<noteq> m_hash ptx
       then pushKVs result [(''txid'', VSTR root), (''txidEdit'', VSTR (m_hash ptx))] else result);
     Some (pushKVs result
       [(''lang'', VSTR (deref_or ''en'' (payload pl_String1 ptx))),
        (''caption'', VSTR (deref_or [] (payload pl_String2 ptx))),
        (''message'', VSTR (deref_or [] (payload pl_String3 ptx))),
        (''url'', VSTR (deref_or [] (payload pl_String7 ptx))),
        (''settings'', VSTR (deref_or [] (payload pl_String6 ptx))),
        (''images'', (case payload pl_String5 ptx of None \<Rightarrow> VARR [] | Some s \<Rightarrow> rd s)),
        (''tags'', (case payload pl_String4 ptx of None \<Rightarrow> VARR [] | Some s \<Rightarrow> rd s))])
   }"

definition Comment_Serialize :: "Transaction \<Rightarrow> UniValue" where
  "Comment_Serialize ptx = pushKVs (Transaction_Serialize ptx)
     [(''address'', VSTR (deref_or [] (m_string1 ptx))),
      (''otxid'', VSTR (deref_or [] (m_string2 ptx))),
      (''postid'', VSTR (deref_or [] (m_string3 ptx))),
      (''parentid'', VSTR (deref_or [] (m_string4 ptx))),
      (''answerid'', VSTR (deref_or [] (m_string5 ptx))),
      (''msg'', VSTR (deref_or [] (payload pl_String1 ptx))),
      (''last'', VBOOL False), (''scoreUp'', VNUM 0), (''scoreDown'', VNUM 0), (''reputation'', VNUM 0)]"

definition ContentDelete_Serialize :: "Transaction \<Rightarrow> UniValue option" where
  "ContentDelete_Serialize ptx = do {
     address \<leftarrow> m_string1 ptx;
     root \<leftarrow> m_string2 ptx;
     Some (pushKVs (Transaction_Serialize ptx)
       [(''address'', VSTR address), (''txid'', VSTR root),
        (''settings'', VSTR (deref_or [] (payload pl_String1 ptx)))])
   }"

definition User_Serialize :: "Transaction \<Rightarrow> UniValue" where
  "User_Serialize ptx = pushKVs (Transaction_Serialize ptx)
     [(''address'', VSTR (deref_or [] (m_string1 ptx))),
      (''referrer'', VSTR (deref_or [] (m_string2 ptx))),
      (''regdate'', VNUM (m_time ptx)),
      (''lang'', VSTR (deref_or ''en'' (payload pl_String1 ptx))),
      (''name'', VSTR (deref_or [] (payload pl_String2 ptx))),
      (''avatar'', VSTR (deref_or [] (payload pl_String3 ptx))),
      (''about'', VSTR (deref_or [] (payload pl_String4 ptx))),
      (''url'', VSTR (deref_or [] (payload pl_String5 ptx))),
      (''pubkey'', VSTR (deref_or [] (payload pl_String6 ptx))),
      (''donations'', VSTR (deref_or [] (payload pl_String7 ptx))),
      (''birthday'', VNUM 0), (''gender'', VNUM 0), (''id'', VNUM 0)]"

definition AccountSetting_Serialize :: "Transaction \<Rightarrow> UniValue" where
  "AccountSetting_Serialize ptx = pushKVs (Transaction_Serialize ptx)
     [(''address'', VSTR (deref_or [] (m_string1 ptx))),
      (''data'', VSTR (deref_or [] (payload pl_String1 ptx)))]"

definition ScoreContent_Serialize :: "Transaction \<Rightarrow> UniValue" where
  "ScoreContent_Serialize ptx = pushKVs (Transaction_Serialize ptx)
     [(''address'', VSTR (deref_or [] (m_string1 ptx))),
      (''posttxid'', VSTR (deref_or [] (m_string2 ptx))),
      (''value'', VNUM (deref_or 0 (m_int1 ptx)))]"

definition ScoreComment_Serialize :: "Transaction \<Rightarrow> UniValue" where
  "ScoreComment_Serialize ptx = pushKVs (Transaction_Serialize ptx)
     [(''address'', VSTR (deref_or [] (m_string1 ptx))),
      (''commentid'', VSTR (deref_or [] (m_string2 ptx))),
      (''value'', VNUM (deref_or 0 (m_int1 ptx)))]"

definition Subscribe_Serialize :: "Transaction \<Rightarrow> UniValue" where
  "Subscribe_Serialize ptx = pushKVs (Transaction_Serialize ptx)
     [(''address'', VSTR (deref_or [] (m_string1 ptx))),
      (''address_to'', VSTR (deref_or [] (m_string2 ptx))),
      (''private'', VBOOL False), (''unsubscribe'', VBOOL False)]"

definition SubscribePrivate_Serialize :: "Transaction \<Rightarrow> UniValue" where
  "SubscribePrivate_Serialize ptx = pushKV (Subscribe_Serialize ptx) ''private'' (VBOOL True)"

definition SubscribeCancel_Serialize :: "Transaction \<Rightarrow> UniValue" where
  "SubscribeCancel_Serialize ptx = pushKV (Subscribe_Serialize ptx) ''unsubscribe'' (VBOOL True)"

definition Blocking_Serialize :: "Transaction \<Rightarrow> UniValue" where
  "Blocking_Serialize ptx = pushKVs (Transaction_Serialize ptx)
     [(''address'', VSTR (deref_or [] (m_string1 ptx))),
      (''address_to'', VSTR (deref_or [] (m_string2 ptx))),
      (''unblocking'', VBOOL False)]"

definition BlockingCancel_Serialize :: "Transaction \<Rightarrow> UniValue" where
  "BlockingCancel_Serialize ptx = pushKV (Blocking_Serialize ptx) ''unblocking'' (VBOOL True)"

definition Complain_Serialize :: "Transaction \<Rightarrow> UniValue" where
  "Complain_Serialize ptx = pushKVs (Transaction_Serialize ptx)
     [(''address'', VSTR (deref_or [] (m_string1 ptx))),
      (''reason'', VNUM (deref_or 0 (m_int1 ptx))),
      (''posttxid'', VSTR (deref_or [] (m_string2 ptx)))]"

definition BoostContent_Serialize :: "Transaction \<Rightarrow> UniValue" where
  "BoostContent_Serialize ptx = pushKVs (Transaction_Serialize ptx)
     [(''address'', VSTR (deref_or [] (m_string1 ptx))),
      (''contenttxhash'', VSTR (deref_or [] (m_string2 ptx)))]"

text \<open>The virtual call. Server accounts have no class (\<open>CreateInstance\<close> builds none).\<close>

definition Serialize :: "(string \<Rightarrow> UniValue) \<Rightarrow> Transaction \<Rightarrow> UniValue option" where
  "Serialize rd ptx =
     (case m_type ptx of
        CONTENT_POST \<Rightarrow> Post_Serialize rd ptx
      | CONTENT_VIDEO \<Rightarrow> Post_Serialize rd ptx
      | CONTENT_ARTICLE \<Rightarrow> Post_Serialize rd ptx
      | CONTENT_COMMENT \<Rightarrow> Some (Comment_Serialize ptx)
      | CONTENT_COMMENT_EDIT \<Rightarrow> Some (Comment_Serialize ptx)
      | CONTENT_COMMENT_DELETE \<Rightarrow> Some (Comment_Serialize ptx)
      | CONTENT_DELETE \<Rightarrow> ContentDelete_Serialize ptx
      | ACCOUNT_USER \<Rightarrow> Some (User_Serialize ptx)
      | ACCOUNT_SETTING \<Rightarrow> Some (AccountSetting_Serialize ptx)
      | ACTION_SCORE_CONTENT \<Rightarrow> Some (ScoreContent_Serialize ptx)
      | ACTION_SCORE_COMMENT \<Rightarrow> Some (ScoreComment_Serialize ptx)
      | ACTION_SUBSCRIBE \<Rightarrow> Some (Subscribe_Serialize ptx)
      | ACTION_SUBSCRIBE_PRIVATE \<Rightarrow> Some (SubscribePrivate_Serialize ptx)
      | ACTION_SUBSCRIBE_CANCEL \<Rightarrow> Some (SubscribeCancel_Serialize ptx)
      | ACTION_BLOCKING \<Rightarrow> Some (Blocking_Serialize ptx)
      | ACTION_BLOCKING_CANCEL \<Rightarrow> Some (BlockingCancel_Serialize ptx)
      | ACTION_COMPLAIN \<Rightarrow> Some (Complain_Serialize ptx)
      | BOOST_CONTENT \<Rightarrow> Some (BoostContent_Serialize ptx)
      | _ \<Rightarrow> Some (Transaction_Serialize ptx))"

section \<open>Reading the form peers exchange\<close>

definition Post_Deserialize :: "(UniValue \<Rightarrow> string) \<Rightarrow> UniValue \<Rightarrow> Transaction \<Rightarrow> Transaction" where
  "Post_Deserialize wr src ptx =
     (let ptx = if_ok (TryGetStr wr src ''address'') SetAddress ptx;
          ptx = if_ok (TryGetStr wr src ''txidRepost'') SetString3 ptx;
          ptx = SetString2 (m_hash ptx) ptx
      in if_ok (TryGetStr wr src ''txidEdit'')
           (\<lambda>_ ptx. if_ok (TryGetStr wr src ''txid'') SetString2 ptx) ptx)"

definition Comment_Deserialize :: "(UniValue \<Rightarrow> string) \<Rightarrow> UniValue \<Rightarrow> Transaction \<Rightarrow> Transaction" where
  "Comment_Deserialize wr src ptx =
     (let ptx = if_ok (TryGetStr wr src ''address'') SetAddress ptx;
          ptx = if_ok (TryGetStr wr src ''postid'') SetString3 ptx;
          ptx = if_ok (TryGetStr wr src ''parentid'') SetString4 ptx;
          ptx = if_ok (TryGetStr wr src ''answerid'') SetString5 ptx;
          ptx = SetString2 (m_hash ptx) ptx
      in if_ok (TryGetStr wr src ''otxid'') SetString2 ptx)"

definition ContentDelete_Deserialize :: "(UniValue \<Rightarrow> string) \<Rightarrow> UniValue \<Rightarrow> Transaction \<Rightarrow> Transaction" where
  "ContentDelete_Deserialize wr src ptx =
     (let ptx = if_ok (TryGetStr wr src ''address'') SetAddress ptx
      in if_ok (TryGetStr wr src ''txid'') SetString2 ptx)"

definition User_Deserialize :: "(UniValue \<Rightarrow> string) \<Rightarrow> UniValue \<Rightarrow> Transaction \<Rightarrow> Transaction" where
  "User_Deserialize wr src ptx =
     (let ptx = if_ok (TryGetStr wr src ''address'') SetAddress ptx
      in if_ok (TryGetStr wr src ''referrer'') SetString2 ptx)"

definition AccountSetting_Deserialize :: "(UniValue \<Rightarrow> string) \<Rightarrow> UniValue \<Rightarrow> Transaction \<Rightarrow> Transaction" where
  "AccountSetting_Deserialize wr src ptx = if_ok (TryGetStr wr src ''address'') SetAddress ptx"

definition ScoreContent_Deserialize ::
    "(UniValue \<Rightarrow> string) \<Rightarrow> UniValue \<Rightarrow> Transaction \<Rightarrow> Transaction option" where
  "ScoreContent_Deserialize wr src ptx = do {
     let ptx = if_ok (TryGetStr wr src ''address'') SetAddress ptx;
     let ptx = if_ok (TryGetStr wr src ''posttxid'') SetString2 ptx;
     val \<leftarrow> TryGetInt64 src ''value'';
     Some (if_ok val SetInt1 ptx)
   }"

definition ScoreComment_Deserialize ::
    "(UniValue \<Rightarrow> string) \<Rightarrow> UniValue \<Rightarrow> Transaction \<Rightarrow> Transaction option" where
  "ScoreComment_Deserialize wr src ptx = do {
     let ptx = if_ok (TryGetStr wr src ''address'') SetAddress ptx;
     let ptx = if_ok (TryGetStr wr src ''commentid'') SetString2 ptx;
     val \<leftarrow> TryGetInt64 src ''value'';
     Some (if_ok val SetInt1 ptx)
   }"

definition Subscribe_Deserialize :: "(UniValue \<Rightarrow> string) \<Rightarrow> UniValue \<Rightarrow> Transaction \<Rightarrow> Transaction" where
  "Subscribe_Deserialize wr src ptx =
     (let ptx = if_ok (TryGetStr wr src ''address'') SetAddress ptx
      in if_ok (TryGetStr wr src ''address_to'') SetString2 ptx)"

definition Blocking_Deserialize :: "(UniValue \<Rightarrow> string) \<Rightarrow> UniValue \<Rightarrow> Transaction \<Rightarrow> Transaction" where
  "Blocking_Deserialize wr src ptx =
     (let ptx = if_ok (TryGetStr wr src ''address'') SetAddress ptx
      in if_ok (TryGetStr wr src ''address_to'') SetString2 ptx)"

definition Complain_Deserialize ::
    "(UniValue \<Rightarrow> string) \<Rightarrow> UniValue \<Rightarrow> Transaction \<Rightarrow> Transaction option" where
  "Complain_Deserialize wr src ptx = do {
     let ptx = if_ok (TryGetStr wr src ''address'') SetAddress ptx;
     val \<leftarrow> TryGetInt64 src ''reason'';
     let ptx = if_ok val SetInt1 ptx;
     Some (if_ok (TryGetStr wr src ''posttxid'') SetString2 ptx)
   }"

definition BoostContent_Deserialize :: "(UniValue \<Rightarrow> string) \<Rightarrow> UniValue \<Rightarrow> Transaction \<Rightarrow> Transaction" where
  "BoostContent_Deserialize wr src ptx =
     (let ptx = if_ok (TryGetStr wr src ''address'') SetAddress ptx
      in if_ok (TryGetStr wr src ''contenttxhash'') SetString2 ptx)"

definition Deserialize :: "(UniValue \<Rightarrow> string) \<Rightarrow> UniValue \<Rightarrow> Transaction \<Rightarrow> Transaction option" where
  "Deserialize wr src ptx =
     (case m_type ptx of
        CONTENT_POST \<Rightarrow> Some (Post_Deserialize wr src ptx)
      | CONTENT_VIDEO \<Rightarrow> Some (Post_Deserialize wr src ptx)
      | CONTENT_ARTICLE \<Rightarrow> Some (Post_Deserialize wr src ptx)
      | CONTENT_COMMENT \<Rightarrow> Some (Comment_Deserialize wr src ptx)
      | CONTENT_COMMENT_EDIT \<Rightarrow> Some (Comment_Deserialize wr src ptx)
      | CONTENT_COMMENT_DELETE \<Rightarrow> Some (Comment_Deserialize wr src ptx)
      | CONTENT_DELETE \<Rightarrow> Some (ContentDelete_Deserialize wr src ptx)
      | ACCOUNT_USER \<Rightarrow> Some (User_Deserialize wr src ptx)
      | ACCOUNT_SETTING \<Rightarrow> Some (AccountSetting_Deserialize wr src ptx)
      | ACTION_SCORE_CONTENT \<Rightarrow> ScoreContent_Deserialize wr src ptx
      | ACTION_SCORE_COMMENT \<Rightarrow> ScoreComment_Deserialize wr src ptx
      | ACTION_SUBSCRIBE \<Rightarrow> Some (Subscribe_Deserialize wr src ptx)
      | ACTION_SUBSCRIBE_PRIVATE \<Rightarrow> Some (Subscribe_Deserialize wr src ptx)
      | ACTION_SUBSCRIBE_CANCEL \<Rightarrow> Some (Subscribe_Deserialize wr src ptx)
      | ACTION_BLOCKING \<Rightarrow> Some (Blocking_Deserialize wr src ptx)
      | ACTION_BLOCKING_CANCEL \<Rightarrow> Some (Blocking_Deserialize wr src ptx)
      | ACTION_COMPLAIN \<Rightarrow> Complain_Deserialize wr src ptx
      | BOOST_CONTENT \<Rightarrow> Some (BoostContent_Deserialize wr src ptx)
      | _ \<Rightarrow> Some ptx)"

section \<open>Reading the payload\<close>

definition Post_DeserializePayload :: "(UniValue \<Rightarrow> string) \<Rightarrow> UniValue \<Rightarrow> Transaction \<Rightarrow> Transaction" where
  "Post_DeserializePayload wr src ptx =
     (let ptx = GeneratePayload ptx;
          ptx = on_payload PSetString1 (deref_or ''en'' (TryGetStr wr src ''lang'')) ptx;
          ptx = if_ok (TryGetStr wr src ''caption'') (on_payload PSetString2) ptx;
          ptx = if_ok (TryGetStr wr src ''message'') (on_payload PSetString3) ptx;
          ptx = if_ok (TryGetStr wr src ''tags'') (on_payload PSetString4) ptx;
          ptx = if_ok (TryGetStr wr src ''url'') (on_payload PSetString7) ptx;
          ptx = if_ok (TryGetStr wr src ''images'') (on_payload PSetString5) ptx
      in if_ok (TryGetStr wr src ''settings'') (on_payload PSetString6) ptx)"

definition Comment_DeserializePayload :: "(UniValue \<Rightarrow> string) \<Rightarrow> UniValue \<Rightarrow> Transaction \<Rightarrow> Transaction" where
  "Comment_DeserializePayload wr src ptx =
     if_ok (TryGetStr wr src ''msg'') (on_payload PSetString1) (GeneratePayload ptx)"

definition ContentDelete_DeserializePayload ::
    "(UniValue \<Rightarrow> string) \<Rightarrow> UniValue \<Rightarrow> Transaction \<Rightarrow> Transaction" where
  "ContentDelete_DeserializePayload wr src ptx =
     if_ok (TryGetStr wr src ''settings'') (\<lambda>v ptx. on_payload PSetString1 v (GeneratePayload ptx)) ptx"

definition User_DeserializePayload :: "(UniValue \<Rightarrow> string) \<Rightarrow> UniValue \<Rightarrow> Transaction \<Rightarrow> Transaction" where
  "User_DeserializePayload wr src ptx =
     (let ptx = GeneratePayload ptx;
          ptx = if_ok (TryGetStr wr src ''lang'') (on_payload PSetString1) ptx;
          ptx = on_payload PSetString2 (deref_or [] (TryGetStr wr src ''name'')) ptx;
          ptx = if_ok (TryGetStr wr src ''avatar'') (on_payload PSetString3) ptx;
          ptx = if_ok (TryGetStr wr src ''about'') (on_payload PSetString4) ptx;
          ptx = if_ok (TryGetStr wr src ''url'') (on_payload PSetString5) ptx;
          ptx = if_ok (TryGetStr wr src ''pubkey'') (on_payload PSetString6) ptx
      in if_ok (TryGetStr wr src ''donations'') (on_payload PSetString7) ptx)"

definition AccountSetting_DeserializePayload ::
    "(UniValue \<Rightarrow> string) \<Rightarrow> UniValue \<Rightarrow> Transaction \<Rightarrow> Transaction" where
  "AccountSetting_DeserializePayload wr src ptx =
     if_ok (TryGetStr wr src ''data'') (on_payload PSetString1) (GeneratePayload ptx)"

definition DeserializePayload :: "(UniValue \<Rightarrow> string) \<Rightarrow> UniValue \<Rightarrow> Transaction \<Rightarrow> Transaction" where
  "DeserializePayload wr src ptx =
     (case m_type ptx of
        CONTENT_POST \<Rightarrow> Post_DeserializePayload wr src ptx
      | CONTENT_VIDEO \<Rightarrow> Post_DeserializePayload wr src ptx
      | CONTENT_ARTICLE \<Rightarrow> Post_DeserializePayload wr src ptx
      | CONTENT_COMMENT \<Rightarrow> Comment_DeserializePayload wr src ptx
      | CONTENT_COMMENT_EDIT \<Rightarrow> Comment_DeserializePayload wr src ptx
      | CONTENT_DELETE \<Rightarrow> ContentDelete_DeserializePayload wr src ptx
      | ACCOUNT_USER \<Rightarrow> User_DeserializePayload wr src ptx
      | ACCOUNT_SETTING \<Rightarrow> AccountSetting_DeserializePayload wr src ptx
      | BOOST_CONTENT \<Rightarrow> GeneratePayload ptx
      | _ \<Rightarrow> ptx)"

section \<open>Reading an RPC request\<close>

definition Post_DeserializeRpc :: "(UniValue \<Rightarrow> string) \<Rightarrow> UniValue \<Rightarrow> Transaction \<Rightarrow> Transaction" where
  "Post_DeserializeRpc wr src ptx =
     (let ptx = if_ok (TryGetStr wr src ''txidRepost'') SetString3 ptx;
          ptx = SetString2 (m_hash ptx) ptx;
          ptx = if_ok (TryGetStr wr src ''txidEdit'') SetString2 ptx;
          ptx = GeneratePayload ptx;
          ptx = on_payload PSetString1
            (case TryGetStr wr src ''l'' of Some val \<Rightarrow> if length val = 2 then val else ''en'' | None \<Rightarrow> ''en'') ptx;
          ptx = if_ok (TryGetStr wr src ''c'') (on_payload PSetString2) ptx;
          ptx = if_ok (TryGetStr wr src ''m'') (on_payload PSetString3) ptx;
          ptx = if_ok (TryGetStr wr src ''u'') (on_payload PSetString7) ptx;
          ptx = if_ok (TryGetStr wr src ''s'') (on_payload PSetString6) ptx;
          ptx = if_ok (TryGetStr wr src ''t'') (on_payload PSetString4) ptx
      in if_ok (TryGetStr wr src ''i'') (on_payload PSetString5) ptx)"

definition Comment_DeserializeRpc :: "(UniValue \<Rightarrow> string) \<Rightarrow> UniValue \<Rightarrow> Transaction \<Rightarrow> Transaction" where
  "Comment_DeserializeRpc wr src ptx =
     (let ptx = if_ok (TryGetStr wr src ''postid'') SetString3 ptx;
          ptx = if_ok (TryGetStr wr src ''parentid'') SetString4 ptx;
          ptx = if_ok (TryGetStr wr src ''answerid'') SetString5 ptx;
          ptx = SetString2 (m_hash ptx) ptx;
          ptx = if_ok (TryGetStr wr src ''id'') SetString2 ptx
      in if_ok (TryGetStr wr src ''msg'') (on_payload PSetString1) (GeneratePayload ptx))"

definition CommentDelete_DeserializeRpc :: "(UniValue \<Rightarrow> string) \<Rightarrow> UniValue \<Rightarrow> Transaction \<Rightarrow> Transaction" where
  "CommentDelete_DeserializeRpc wr src ptx = ClearPayload (Comment_DeserializeRpc wr src ptx)"

definition ContentDelete_DeserializeRpc :: "(UniValue \<Rightarrow> string) \<Rightarrow> UniValue \<Rightarrow> Transaction \<Rightarrow> Transaction" where
  "ContentDelete_DeserializeRpc wr src ptx =
     (let ptx = if_ok (TryGetStr wr src ''txidEdit'') SetString2 ptx
      in if_ok (TryGetStr wr src ''s'') (on_payload PSetString1) (GeneratePayload ptx))"

definition User_DeserializeRpc :: "(UniValue \<Rightarrow> string) \<Rightarrow> UniValue \<Rightarrow> Transaction \<Rightarrow> Transaction" where
  "User_DeserializeRpc wr src ptx =
     (let ptx = if_ok (TryGetStr wr src ''r'') SetString2 ptx;
          ptx = GeneratePayload ptx;
          ptx = on_payload PSetString1 (deref_or ''en'' (TryGetStr wr src ''l'')) ptx;
          ptx = on_payload PSetString2 (deref_or [] (TryGetStr wr src ''n'')) ptx;
          ptx = if_ok (TryGetStr wr src ''i'') (on_payload PSetString3) ptx;
          ptx = if_ok (TryGetStr wr src ''a'') (on_payload PSetString4) ptx;
          ptx = if_ok (TryGetStr wr src ''s'') (on_payload PSetString5) ptx;
          ptx = if_ok (TryGetStr wr src ''k'') (on_payload PSetString6) ptx
      in if_ok (TryGetStr wr src ''b'') (on_payload PSetString7) ptx)"

definition AccountSetting_DeserializeRpc :: "(UniValue \<Rightarrow> string) \<Rightarrow> UniValue \<Rightarrow> Transaction \<Rightarrow> Transaction" where
  "AccountSetting_DeserializeRpc wr src ptx =
     if_ok (TryGetStr wr src ''d'') (on_payload PSetString1) (GeneratePayload ptx)"

definition ScoreContent_DeserializeRpc ::
    "(UniValue \<Rightarrow> string) \<Rightarrow> UniValue \<Rightarrow> Transaction \<Rightarrow> Transaction option" where
  "ScoreContent_DeserializeRpc wr src ptx = do {
     let ptx = if_ok (TryGetStr wr src ''share'') SetString2 ptx;
     val \<leftarrow> TryGetInt64 src ''value'';
     Some (if_ok val SetInt1 ptx)
   }"

definition ScoreComment_DeserializeRpc ::
    "(UniValue \<Rightarrow> string) \<Rightarrow> UniValue \<Rightarrow> Transaction \<Rightarrow> Transaction option" where
  "ScoreComment_DeserializeRpc wr src ptx = do {
     let ptx = if_ok (TryGetStr wr src ''commentid'') SetString2 ptx;
     val \<leftarrow> TryGetInt64 src ''value'';
     Some (if_ok val SetInt1 ptx)
   }"

definition Subscribe_DeserializeRpc :: "(UniValue \<Rightarrow> string) \<Rightarrow> UniValue \<Rightarrow> Transaction \<Rightarrow> Transaction" where
  "Subscribe_DeserializeRpc wr src ptx = if_ok (TryGetStr wr src ''address'') SetString2 ptx"

definition Blocking_DeserializeRpc :: "(UniValue \<Rightarrow> string) \<Rightarrow> UniValue \<Rightarrow> Transaction \<Rightarrow> Transaction" where
  "Blocking_DeserializeRpc wr src ptx = if_ok (TryGetStr wr src ''address'') SetString2 ptx"

definition Complain_DeserializeRpc ::
    "(UniValue \<Rightarrow> string) \<Rightarrow> UniValue \<Rightarrow> Transaction \<Rightarrow> Transaction option" where
  "Complain_DeserializeRpc wr src ptx = do {
     let ptx = if_ok (TryGetStr wr src ''share'') SetString2 ptx;
     val \<leftarrow> TryGetInt64 src ''reason'';
     Some (if_ok val SetInt1 ptx)
   }"

definition BoostContent_DeserializeRpc :: "(UniValue \<Rightarrow> string) \<Rightarrow> UniValue \<Rightarrow> Transaction \<Rightarrow> Transaction" where
  "BoostContent_DeserializeRpc wr src ptx = if_ok (TryGetStr wr src ''content'') SetString2 ptx"

definition DeserializeRpc :: "(UniValue \<Rightarrow> string) \<Rightarrow> UniValue \<Rightarrow> Transaction \<Rightarrow> Transaction option" where
  "DeserializeRpc wr src ptx =
     (case m_type ptx of
        CONTENT_POST \<Rightarrow> Some (Post_DeserializeRpc wr src ptx)
      | CONTENT_VIDEO \<Rightarrow> Some (Post_DeserializeRpc wr src ptx)
      | CONTENT_ARTICLE \<Rightarrow> Some (Post_DeserializeRpc wr src ptx)
      | CONTENT_COMMENT \<Rightarrow> Some (Comment_DeserializeRpc wr src ptx)
      | CONTENT_COMMENT_EDIT \<Rightarrow> Some (Comment_DeserializeRpc wr src ptx)
      | CONTENT_COMMENT_DELETE \<Rightarrow> Some (CommentDelete_DeserializeRpc wr src ptx)
      | CONTENT_DELETE \<Rightarrow> Some (ContentDelete_DeserializeRpc wr src ptx)
      | ACCOUNT_USER \<Rightarrow> Some (User_DeserializeRpc wr src ptx)
      | ACCOUNT_SETTING \<Rightarrow> Some (AccountSetting_DeserializeRpc wr src ptx)
      | ACTION_SCORE_CONTENT \<Rightarrow> ScoreContent_DeserializeRpc wr src ptx
      | ACTION_SCORE_COMMENT \<Rightarrow> ScoreComment_DeserializeRpc wr src ptx
      | ACTION_SUBSCRIBE \<Rightarrow> Some (Subscribe_DeserializeRpc wr src ptx)
      | ACTION_SUBSCRIBE_PRIVATE \<Rightarrow> Some (Subscribe_DeserializeRpc wr src ptx)
      | ACTION_SUBSCRIBE_CANCEL \<Rightarrow> Some (Subscribe_DeserializeRpc wr src ptx)
      | ACTION_BLOCKING \<Rightarrow> Some (Blocking_DeserializeRpc wr src ptx)
      | ACTION_BLOCKING_CANCEL \<Rightarrow> Some (Blocking_DeserializeRpc wr src ptx)
      | ACTION_COMPLAIN \<Rightarrow> Complain_DeserializeRpc wr src ptx
      | BOOST_CONTENT \<Rightarrow> Some (BoostContent_DeserializeRpc wr src ptx)
      | _ \<Rightarrow> Some ptx)"

section \<open>The hash of the content\<close>

text \<open>The elements a loop \<open>for (i < v.size()) v[i].get_str()\<close> visits: \<open>get_str\<close> throws on an
  element that is not a string.\<close>

fun json_elements :: "UniValue \<Rightarrow> UniValue list" where
  "json_elements (VARR vs) = vs"
| "json_elements (VOBJ kvs) = map snd kvs"
| "json_elements _ = []"

fun get_str :: "UniValue \<Rightarrow> string option" where
  "get_str (VSTR s) = Some s"
| "get_str _ = None"

fun join_comma :: "UniValue list \<Rightarrow> string option" where
  "join_comma [] = Some []"
| "join_comma [v] = get_str v"
| "join_comma (v # vs) = do { s \<leftarrow> get_str v; rest \<leftarrow> join_comma vs; Some (s @ '','' @ rest) }"

definition json_list_data :: "(string \<Rightarrow> UniValue) \<Rightarrow> string option \<Rightarrow> string option" where
  "json_list_data rd field =
     (case field of
        None \<Rightarrow> Some []
      | Some s \<Rightarrow> if s = [] then Some [] else join_comma (json_elements (rd s)))"

definition Post_hash_data :: "(string \<Rightarrow> UniValue) \<Rightarrow> Transaction \<Rightarrow> string option" where
  "Post_hash_data rd ptx = do {
     tags \<leftarrow> json_list_data rd (payload pl_String4 ptx);
     images \<leftarrow> json_list_data rd (payload pl_String5 ptx);
     Some (deref_or [] (payload pl_String7 ptx) @ deref_or [] (payload pl_String2 ptx) @
       deref_or [] (payload pl_String3 ptx) @ tags @ images @
       (case m_string2 ptx of None \<Rightarrow> [] | Some root \<Rightarrow> if root \<noteq> m_hash ptx then root else []) @
       deref_or [] (m_string3 ptx))
   }"

definition Comment_hash_data :: "Transaction \<Rightarrow> string" where
  "Comment_hash_data ptx =
     deref_or [] (m_string3 ptx) @ deref_or [] (payload pl_String1 ptx) @
     deref_or [] (m_string4 ptx) @ deref_or [] (m_string5 ptx)"

definition CommentDelete_hash_data :: "Transaction \<Rightarrow> string" where
  "CommentDelete_hash_data ptx =
     deref_or [] (m_string3 ptx) @ deref_or [] (m_string4 ptx) @ deref_or [] (m_string5 ptx)"

definition ContentDelete_hash_data :: "Transaction \<Rightarrow> string option" where
  "ContentDelete_hash_data ptx = do {
     root \<leftarrow> m_string2 ptx;
     Some (root @ deref_or [] (payload pl_String1 ptx))
   }"

definition User_hash_data :: "bool \<Rightarrow> Transaction \<Rightarrow> string" where
  "User_hash_data includeReferrer ptx =
     deref_or [] (payload pl_String2 ptx) @ deref_or [] (payload pl_String5 ptx) @
     deref_or [] (payload pl_String1 ptx) @ deref_or [] (payload pl_String4 ptx) @
     deref_or [] (payload pl_String3 ptx) @ deref_or [] (payload pl_String7 ptx) @
     (if includeReferrer then deref_or [] (m_string2 ptx) else []) @
     deref_or [] (payload pl_String6 ptx)"

definition AccountSetting_hash_data :: "Transaction \<Rightarrow> string" where
  "AccountSetting_hash_data ptx = deref_or [] (payload pl_String1 ptx)"

definition Score_hash_data :: "Transaction \<Rightarrow> string" where
  "Score_hash_data ptx = deref_or [] (m_string2 ptx) @ deref_or [] (map_option show_int (m_int1 ptx))"

definition AddressTo_hash_data :: "Transaction \<Rightarrow> string" where
  "AddressTo_hash_data ptx = deref_or [] (m_string2 ptx)"

definition Complain_hash_data :: "Transaction \<Rightarrow> string" where
  "Complain_hash_data ptx =
     deref_or [] (m_string2 ptx) @ ''_'' @ deref_or [] (map_option show_int (m_int1 ptx))"

definition BoostContent_hash_data :: "Transaction \<Rightarrow> string" where
  "BoostContent_hash_data ptx = deref_or [] (m_string2 ptx)"

text \<open>\<open>BuildHash\<close>: the hash of the data, and the empty string without hashing for the
  transactions of no social class.\<close>

definition BuildHash ::
    "(string \<Rightarrow> string) \<Rightarrow> (string \<Rightarrow> UniValue) \<Rightarrow> Transaction \<Rightarrow> string option" where
  "BuildHash GenerateHash rd ptx =
     (case m_type ptx of
        CONTENT_POST \<Rightarrow> map_option GenerateHash (Post_hash_data rd ptx)
      | CONTENT_VIDEO \<Rightarrow> map_option GenerateHash (Post_hash_data rd ptx)
      | CONTENT_ARTICLE \<Rightarrow> map_option GenerateHash (Post_hash_data rd ptx)
      | CONTENT_COMMENT \<Rightarrow> Some (GenerateHash (Comment_hash_data ptx))
      | CONTENT_COMMENT_EDIT \<Rightarrow> Some (GenerateHash (Comment_hash_data ptx))
      | CONTENT_COMMENT_DELETE \<Rightarrow> Some (GenerateHash (CommentDelete_hash_data ptx))
      | CONTENT_DELETE \<Rightarrow> map_option GenerateHash (ContentDelete_hash_data ptx)
      | ACCOUNT_USER \<Rightarrow> Some (GenerateHash (User_hash_data True ptx))
      | ACCOUNT_SETTING \<Rightarrow> Some (GenerateHash (AccountSetting_hash_data ptx))
      | ACTION_SCORE_CONTENT \<Rightarrow> Some (GenerateHash (Score_hash_data ptx))
      | ACTION_SCORE_COMMENT \<Rightarrow> Some (GenerateHash (Score_hash_data ptx))
      | ACTION_SUBSCRIBE \<Rightarrow> Some (GenerateHash (AddressTo_hash_data ptx))
      | ACTION_SUBSCRIBE_PRIVATE \<Rightarrow> Some (GenerateHash (AddressTo_hash_data ptx))
      | ACTION_SUBSCRIBE_CANCEL \<Rightarrow> Some (GenerateHash (AddressTo_hash_data ptx))
      | ACTION_BLOCKING \<Rightarrow> Some (GenerateHash (AddressTo_hash_data ptx))
      | ACTION_BLOCKING_CANCEL \<Rightarrow> Some (GenerateHash (AddressTo_hash_data ptx))
      | ACTION_COMPLAIN \<Rightarrow> Some (GenerateHash (Complain_hash_data ptx))
      | BOOST_CONTENT \<Rightarrow> Some (GenerateHash (BoostContent_hash_data ptx))
      | _ \<Rightarrow> Some [])"

section \<open>Relaying keeps the hash\<close>

text \<open>What a peer builds from the JSON form: a new object of the same type and hash, filled by
  \<open>Deserialize\<close> and \<open>DeserializePayload\<close>.\<close>

definition blank :: "Transaction \<Rightarrow> Transaction" where
  "blank ptx = \<lparr>m_type = m_type ptx, m_hash = m_hash ptx, m_time = m_time ptx, m_id = None, m_last = None,
      m_string1 = None, m_string2 = None, m_string3 = None, m_string4 = None, m_string5 = None,
      m_int1 = None, m_payload = None, m_outputs = []\<rparr>"

definition relayed ::
    "(UniValue \<Rightarrow> string) \<Rightarrow> (string \<Rightarrow> UniValue) \<Rightarrow> Transaction \<Rightarrow> Transaction option" where
  "relayed wr rd ptx = do {
     src \<leftarrow> Serialize rd ptx;
     ptx' \<leftarrow> Deserialize wr src (blank ptx);
     Some (DeserializePayload wr src ptx')
   }"

text \<open>The law of the JSON text form at the value of a list field: a written array or object is
  not empty and reads back, and reading the empty text leaves a null. A field whose text is
  that of a single string is no list and is excluded.\<close>

definition json_list_ok :: "(UniValue \<Rightarrow> string) \<Rightarrow> (string \<Rightarrow> UniValue) \<Rightarrow> string option \<Rightarrow> bool" where
  "json_list_ok wr rd field \<longleftrightarrow> rd [] = VNULL \<and>
     (let v = (case field of None \<Rightarrow> VARR [] | Some s \<Rightarrow> rd s) in
      case v of
        VARR _ \<Rightarrow> wr v \<noteq> [] \<and> rd (wr v) = v
      | VOBJ _ \<Rightarrow> wr v \<noteq> [] \<and> rd (wr v) = v
      | VSTR _ \<Rightarrow> False
      | _ \<Rightarrow> True)"

text \<open>The fields whose absence the JSON form does not represent have to be there.\<close>

definition relayable :: "(UniValue \<Rightarrow> string) \<Rightarrow> (string \<Rightarrow> UniValue) \<Rightarrow> Transaction \<Rightarrow> bool" where
  "relayable wr rd ptx \<longleftrightarrow> m_hash ptx \<noteq> [] \<and>
     (case m_type ptx of
        ACCOUNT_USER \<Rightarrow> payload pl_String1 ptx \<noteq> None
      | ACTION_SCORE_CONTENT \<Rightarrow> m_int1 ptx \<noteq> None
      | ACTION_SCORE_COMMENT \<Rightarrow> m_int1 ptx \<noteq> None
      | ACTION_COMPLAIN \<Rightarrow> m_int1 ptx \<noteq> None
      | CONTENT_DELETE \<Rightarrow> m_string1 ptx \<noteq> None \<and> m_string2 ptx \<noteq> None \<and> m_string2 ptx \<noteq> Some []
      | CONTENT_POST \<Rightarrow> m_string2 ptx \<noteq> None \<and> json_list_ok wr rd (payload pl_String4 ptx) \<and>
          json_list_ok wr rd (payload pl_String5 ptx)
      | CONTENT_VIDEO \<Rightarrow> m_string2 ptx \<noteq> None \<and> json_list_ok wr rd (payload pl_String4 ptx) \<and>
          json_list_ok wr rd (payload pl_String5 ptx)
      | CONTENT_ARTICLE \<Rightarrow> m_string2 ptx \<noteq> None \<and> json_list_ok wr rd (payload pl_String4 ptx) \<and>
          json_list_ok wr rd (payload pl_String5 ptx)
      | _ \<Rightarrow> True)"

text \<open>A field read back from the JSON form, without case distinctions: \<open>nonempty\<close> is what
  \<open>TryGetStr\<close> makes of a string, and reading sets a field or leaves it.\<close>

definition nonempty :: "string \<Rightarrow> string option" where
  "nonempty s = (if s \<noteq> [] then Some s else None)"

definition or_else :: "'v option \<Rightarrow> 'v option \<Rightarrow> 'v option" where
  "or_else r old = (case r of None \<Rightarrow> old | Some v \<Rightarrow> Some v)"

lemma TryGetStr_VSTR: "find_key src key = Some (VSTR s) \<Longrightarrow> TryGetStr wr src key = nonempty s"
  by (simp add: nonempty_def)

lemma deref_or_relayed [simp]:
  "deref_or [] (or_else (nonempty s) None) = s" "deref_or [] (nonempty s) = s"
  "deref_or d (Some v) = v" "deref_or d None = d" "or_else (Some w) old = Some w"
  by (auto simp: deref_or_def or_else_def nonempty_def)

lemma if_ok_set:
  "if_ok r SetAddress ptx = ptx\<lparr>m_string1 := or_else r (m_string1 ptx)\<rparr>"
  "if_ok r SetString2 ptx = ptx\<lparr>m_string2 := or_else r (m_string2 ptx)\<rparr>"
  "if_ok r SetString3 ptx = ptx\<lparr>m_string3 := or_else r (m_string3 ptx)\<rparr>"
  "if_ok r SetString4 ptx = ptx\<lparr>m_string4 := or_else r (m_string4 ptx)\<rparr>"
  "if_ok r SetString5 ptx = ptx\<lparr>m_string5 := or_else r (m_string5 ptx)\<rparr>"
  "if_ok i SetInt1 ptx = ptx\<lparr>m_int1 := or_else i (m_int1 ptx)\<rparr>"
  by (auto simp: if_ok_def or_else_def SetAddress_def SetString2_def SetString3_def SetString4_def
      SetString5_def SetInt1_def split: option.splits)

lemma if_ok_nested:
  "if_ok r (\<lambda>_ ptx. ptx\<lparr>m_string2 := or_else r' (m_string2 ptx)\<rparr>) ptx =
     ptx\<lparr>m_string2 := (if r = None then m_string2 ptx else or_else r' (m_string2 ptx))\<rparr>"
  by (cases r) (simp_all add: if_ok_def)

lemma if_ok_on_payload:
  "if_ok r (on_payload f) ptx = ptx\<lparr>m_payload := map_option (if_ok r f) (m_payload ptx)\<rparr>"
  by (cases r; cases "m_payload ptx") (simp_all add: if_ok_def on_payload_def)

lemma if_ok_pset:
  "if_ok r PSetString1 p = p\<lparr>pl_String1 := or_else r (pl_String1 p)\<rparr>"
  "if_ok r PSetString2 p = p\<lparr>pl_String2 := or_else r (pl_String2 p)\<rparr>"
  "if_ok r PSetString3 p = p\<lparr>pl_String3 := or_else r (pl_String3 p)\<rparr>"
  "if_ok r PSetString4 p = p\<lparr>pl_String4 := or_else r (pl_String4 p)\<rparr>"
  "if_ok r PSetString5 p = p\<lparr>pl_String5 := or_else r (pl_String5 p)\<rparr>"
  "if_ok r PSetString6 p = p\<lparr>pl_String6 := or_else r (pl_String6 p)\<rparr>"
  "if_ok r PSetString7 p = p\<lparr>pl_String7 := or_else r (pl_String7 p)\<rparr>"
  by (auto simp: if_ok_def or_else_def PSetString1_def PSetString2_def PSetString3_def PSetString4_def
      PSetString5_def PSetString6_def PSetString7_def split: option.splits)

lemmas relay_simps =
  TryGetStr_VSTR if_ok_set if_ok_on_payload if_ok_pset on_payload_def PSetString1_def PSetString2_def
  SetString2_def GeneratePayload_def new_Payload_def payload_def blank_def
  Transaction_Serialize_def pushKVs_def Let_def

declare TryGetStr.simps [simp del]

lemma Comment_relayed_data:
  assumes "ptx' = Comment_Deserialize wr (Comment_Serialize ptx) (blank ptx)"
  shows "Comment_hash_data (Comment_DeserializePayload wr (Comment_Serialize ptx) ptx') = Comment_hash_data ptx"
    and "CommentDelete_hash_data ptx' = CommentDelete_hash_data ptx"
  by (simp_all add: assms Comment_Deserialize_def Comment_DeserializePayload_def Comment_Serialize_def
      Comment_hash_data_def CommentDelete_hash_data_def relay_simps)

lemma User_relayed_data:
  assumes "payload pl_String1 ptx = Some l"
  shows "User_hash_data True (User_DeserializePayload wr (User_Serialize ptx)
      (User_Deserialize wr (User_Serialize ptx) (blank ptx))) = User_hash_data True ptx"
  using assms
  by (simp add: User_Deserialize_def User_DeserializePayload_def User_Serialize_def User_hash_data_def
      relay_simps)

lemma simple_relayed_data:
  "AccountSetting_hash_data (AccountSetting_DeserializePayload wr (AccountSetting_Serialize ptx)
     (AccountSetting_Deserialize wr (AccountSetting_Serialize ptx) (blank ptx))) = AccountSetting_hash_data ptx"
  "AddressTo_hash_data (Subscribe_Deserialize wr (Subscribe_Serialize ptx) (blank ptx)) = AddressTo_hash_data ptx"
  "AddressTo_hash_data (Subscribe_Deserialize wr (SubscribePrivate_Serialize ptx) (blank ptx)) = AddressTo_hash_data ptx"
  "AddressTo_hash_data (Subscribe_Deserialize wr (SubscribeCancel_Serialize ptx) (blank ptx)) = AddressTo_hash_data ptx"
  "AddressTo_hash_data (Blocking_Deserialize wr (Blocking_Serialize ptx) (blank ptx)) = AddressTo_hash_data ptx"
  "AddressTo_hash_data (Blocking_Deserialize wr (BlockingCancel_Serialize ptx) (blank ptx)) = AddressTo_hash_data ptx"
  "BoostContent_hash_data (GeneratePayload (BoostContent_Deserialize wr (BoostContent_Serialize ptx) (blank ptx)))
     = BoostContent_hash_data ptx"
  by (simp_all add: AccountSetting_Deserialize_def AccountSetting_DeserializePayload_def AccountSetting_Serialize_def
      AccountSetting_hash_data_def Subscribe_Deserialize_def Subscribe_Serialize_def SubscribePrivate_Serialize_def
      SubscribeCancel_Serialize_def AddressTo_hash_data_def Blocking_Deserialize_def Blocking_Serialize_def
      BlockingCancel_Serialize_def BoostContent_Deserialize_def BoostContent_Serialize_def
      BoostContent_hash_data_def relay_simps)

lemma Score_relayed_data:
  assumes "m_int1 ptx = Some value"
  shows "\<exists>ptx'. ScoreContent_Deserialize wr (ScoreContent_Serialize ptx) (blank ptx) = Some ptx' \<and>
           Score_hash_data ptx' = Score_hash_data ptx \<and> m_type ptx' = m_type ptx"
    and "\<exists>ptx'. ScoreComment_Deserialize wr (ScoreComment_Serialize ptx) (blank ptx) = Some ptx' \<and>
           Score_hash_data ptx' = Score_hash_data ptx \<and> m_type ptx' = m_type ptx"
    and "\<exists>ptx'. Complain_Deserialize wr (Complain_Serialize ptx) (blank ptx) = Some ptx' \<and>
           Complain_hash_data ptx' = Complain_hash_data ptx \<and> m_type ptx' = m_type ptx"
  using assms
  by (simp_all add: ScoreContent_Deserialize_def ScoreContent_Serialize_def ScoreComment_Deserialize_def
      ScoreComment_Serialize_def Complain_Deserialize_def Complain_Serialize_def Score_hash_data_def
      Complain_hash_data_def relay_simps)

lemma ContentDelete_payload_relayed:
  "payload pl_String1 (ContentDelete_DeserializePayload wr src ptx) =
     or_else (TryGetStr wr src ''settings'') (payload pl_String1 ptx)"
  "m_string2 (ContentDelete_DeserializePayload wr src ptx) = m_string2 ptx"
  by (auto simp: ContentDelete_DeserializePayload_def if_ok_def or_else_def payload_def on_payload_def
      GeneratePayload_def PSetString1_def split: option.splits)

lemma ContentDelete_relayed_data:
  assumes "m_string1 ptx = Some address" "m_string2 ptx = Some root" "root \<noteq> []"
    and src: "ContentDelete_Serialize ptx = Some src"
  shows "ContentDelete_hash_data (ContentDelete_DeserializePayload wr src
      (ContentDelete_Deserialize wr src (blank ptx))) = ContentDelete_hash_data ptx"
proof -
  have "nonempty root = Some root" using \<open>root \<noteq> []\<close> by (simp add: nonempty_def)
  then show ?thesis
    using assms(1,2) src unfolding ContentDelete_hash_data_def ContentDelete_payload_relayed
    by (auto simp: ContentDelete_Deserialize_def ContentDelete_Serialize_def relay_simps)
qed

lemma json_list_relayed:
  assumes "json_list_ok wr rd field"
    and "find_key src key = Some (case field of None \<Rightarrow> VARR [] | Some s \<Rightarrow> rd s)"
  shows "json_list_data rd (TryGetStr wr src key) = json_list_data rd field"
  using assms
  by (auto simp: TryGetStr.simps json_list_ok_def json_list_data_def Let_def
      split: option.splits UniValue.splits)

lemma Post_relayed_data:
  assumes "m_string2 ptx = Some root" "m_hash ptx \<noteq> []"
    and "json_list_ok wr rd (payload pl_String4 ptx)" "json_list_ok wr rd (payload pl_String5 ptx)"
    and src: "Post_Serialize rd ptx = Some src"
  shows "Post_hash_data rd (Post_DeserializePayload wr src (Post_Deserialize wr src (blank ptx)))
    = Post_hash_data rd ptx"
proof -
  let ?ptx' = "Post_DeserializePayload wr src (Post_Deserialize wr src (blank ptx))"
  have keys: "find_key src ''tags'' = Some (case payload pl_String4 ptx of None \<Rightarrow> VARR [] | Some s \<Rightarrow> rd s)"
    "find_key src ''images'' = Some (case payload pl_String5 ptx of None \<Rightarrow> VARR [] | Some s \<Rightarrow> rd s)"
    "find_key src ''url'' = Some (VSTR (deref_or [] (payload pl_String7 ptx)))"
    "find_key src ''caption'' = Some (VSTR (deref_or [] (payload pl_String2 ptx)))"
    "find_key src ''message'' = Some (VSTR (deref_or [] (payload pl_String3 ptx)))"
    "find_key src ''txidRepost'' = Some (VSTR (deref_or [] (m_string3 ptx)))"
    "find_key src ''txidEdit'' = Some (VSTR (if root \<noteq> m_hash ptx then m_hash ptx else []))"
    "find_key src ''txid'' = Some (VSTR root)"
    using src assms(1) by (auto simp: Post_Serialize_def pushKVs_def Transaction_Serialize_def Let_def)
  have fields: "payload pl_String4 ?ptx' = or_else (TryGetStr wr src ''tags'') None"
    "payload pl_String5 ?ptx' = or_else (TryGetStr wr src ''images'') None"
    "payload pl_String7 ?ptx' = or_else (TryGetStr wr src ''url'') None"
    "payload pl_String2 ?ptx' = or_else (TryGetStr wr src ''caption'') None"
    "payload pl_String3 ?ptx' = or_else (TryGetStr wr src ''message'') None"
    "m_string3 ?ptx' = or_else (TryGetStr wr src ''txidRepost'') None" "m_hash ?ptx' = m_hash ptx"
    "m_string2 ?ptx' = (if TryGetStr wr src ''txidEdit'' = None then Some (m_hash ptx)
       else or_else (TryGetStr wr src ''txid'') (Some (m_hash ptx)))"
    by (simp_all add: Post_DeserializePayload_def Post_Deserialize_def if_ok_set if_ok_on_payload if_ok_pset
        on_payload_def PSetString1_def SetString2_def GeneratePayload_def new_Payload_def payload_def blank_def
        Let_def if_ok_nested)
  have root': "(case m_string2 ?ptx' of None \<Rightarrow> [] | Some r \<Rightarrow> if r \<noteq> m_hash ptx then r else [])
      = (if root \<noteq> m_hash ptx then root else [])"
    using \<open>m_hash ptx \<noteq> []\<close> by (auto simp: fields keys TryGetStr_VSTR nonempty_def or_else_def)
  have [simp]: "or_else x None = x" for x :: "string option"
    by (cases x) (simp_all add: or_else_def)
  show ?thesis
    using assms(1,3,4) keys(1,2) unfolding Post_hash_data_def root' fields(1-7)
    by (simp add: root' keys(3-) TryGetStr_VSTR json_list_relayed)
qed

lemma m_type_relayed:
  "m_type (Post_Deserialize wr src ptx) = m_type ptx" "m_type (Comment_Deserialize wr src ptx) = m_type ptx"
  "m_type (ContentDelete_Deserialize wr src ptx) = m_type ptx" "m_type (User_Deserialize wr src ptx) = m_type ptx"
  "m_type (AccountSetting_Deserialize wr src ptx) = m_type ptx" "m_type (Subscribe_Deserialize wr src ptx) = m_type ptx"
  "m_type (Blocking_Deserialize wr src ptx) = m_type ptx" "m_type (BoostContent_Deserialize wr src ptx) = m_type ptx"
  "m_type (Post_DeserializePayload wr src ptx) = m_type ptx" "m_type (Comment_DeserializePayload wr src ptx) = m_type ptx"
  "m_type (ContentDelete_DeserializePayload wr src ptx) = m_type ptx"
  "m_type (User_DeserializePayload wr src ptx) = m_type ptx"
  "m_type (AccountSetting_DeserializePayload wr src ptx) = m_type ptx"
  "m_type (GeneratePayload ptx) = m_type ptx" "m_type (blank ptx) = m_type ptx"
  by (simp_all add: Post_DeserializePayload_def Comment_DeserializePayload_def ContentDelete_DeserializePayload_def
      User_DeserializePayload_def AccountSetting_DeserializePayload_def GeneratePayload_def blank_def on_payload_def
      Post_Deserialize_def Comment_Deserialize_def ContentDelete_Deserialize_def User_Deserialize_def
      AccountSetting_Deserialize_def Subscribe_Deserialize_def Blocking_Deserialize_def BoostContent_Deserialize_def
      if_ok_def SetAddress_def SetString2_def SetString3_def SetString4_def SetString5_def Let_def split: option.splits)

lemma Post_Serialize_defined: "m_string2 ptx = Some root \<Longrightarrow> \<exists>src. Post_Serialize rd ptx = Some src"
  by (simp add: Post_Serialize_def Let_def)

lemma ContentDelete_Serialize_defined:
  "m_string1 ptx = Some address \<Longrightarrow> m_string2 ptx = Some root \<Longrightarrow> \<exists>src. ContentDelete_Serialize ptx = Some src"
  by (simp add: ContentDelete_Serialize_def)

lemmas relay_dispatch =
  relayed_def Serialize_def Deserialize_def DeserializePayload_def BuildHash_def relayable_def m_type_relayed

lemma relayed_post:
  assumes "relayable wr rd ptx"
    and "m_type ptx = CONTENT_POST \<or> m_type ptx = CONTENT_VIDEO \<or> m_type ptx = CONTENT_ARTICLE"
  shows "\<exists>ptx'. relayed wr rd ptx = Some ptx' \<and> BuildHash H rd ptx' = BuildHash H rd ptx"
proof -
  obtain root where "m_string2 ptx = Some root"
    using assms by (auto simp: relayable_def)
  moreover from this obtain src where "Post_Serialize rd ptx = Some src"
    using Post_Serialize_defined by blast
  ultimately show ?thesis
    using assms by (auto simp: relay_dispatch Post_relayed_data)
qed

lemma relayed_content_delete:
  assumes "relayable wr rd ptx" "m_type ptx = CONTENT_DELETE"
  shows "\<exists>ptx'. relayed wr rd ptx = Some ptx' \<and> BuildHash H rd ptx' = BuildHash H rd ptx"
proof -
  obtain address root where "m_string1 ptx = Some address" "m_string2 ptx = Some root" "root \<noteq> []"
    using assms by (auto simp: relayable_def)
  moreover from this obtain src where "ContentDelete_Serialize ptx = Some src"
    using ContentDelete_Serialize_defined by blast
  ultimately show ?thesis
    using assms by (auto simp: relay_dispatch ContentDelete_relayed_data)
qed

lemma relayed_valued:
  assumes "relayable wr rd ptx"
    and "m_type ptx = ACTION_SCORE_CONTENT \<or> m_type ptx = ACTION_SCORE_COMMENT \<or> m_type ptx = ACTION_COMPLAIN"
  shows "\<exists>ptx'. relayed wr rd ptx = Some ptx' \<and> BuildHash H rd ptx' = BuildHash H rd ptx"
proof -
  obtain n where n: "m_int1 ptx = Some n"
    using assms by (auto simp: relayable_def)
  from assms(2) show ?thesis
    using Score_relayed_data(1)[OF n, of wr] Score_relayed_data(2)[OF n, of wr] Score_relayed_data(3)[OF n, of wr]
    by (elim disjE exE conjE) (simp_all add: relay_dispatch)
qed

text \<open>C27. A social transaction that a peer rebuilds from its JSON form has the same content hash,
  so the commitment in its OP_RETURN output still matches, when its list fields have a JSON
  text that reads back and the fields whose absence the form does not represent are present
  (root of a post, address and root of a deletion, language of an account, value of a score
  or complaint). In particular serialising and rebuilding such a transaction never
  dereferences a null pointer.\<close>

theorem relayed_keeps_hash:
  assumes "relayable wr rd ptx"
  shows "\<exists>ptx'. relayed wr rd ptx = Some ptx' \<and> BuildHash H rd ptx' = BuildHash H rd ptx"
proof (cases "m_type ptx")
  case ACCOUNT_USER
  then obtain l where "payload pl_String1 ptx = Some l"
    using assms by (auto simp: relayable_def)
  with ACCOUNT_USER show ?thesis
    by (simp add: relay_dispatch User_relayed_data)
qed (use relayed_post[OF assms] relayed_content_delete[OF assms] relayed_valued[OF assms]
    in \<open>auto simp: relay_dispatch Comment_relayed_data simple_relayed_data\<close>)

definition witness_wr :: "UniValue \<Rightarrow> string" where
  "witness_wr v = (case v of VARR [] \<Rightarrow> ''[]'' | _ \<Rightarrow> ''[a]'')"

definition witness_rd :: "string \<Rightarrow> UniValue" where
  "witness_rd s = (if s = ''[]'' then VARR [] else if s = ''[a]'' then VARR [VSTR ''a''] else VNULL)"

definition witness_post :: Transaction where
  "witness_post = \<lparr>m_type = CONTENT_POST, m_hash = ''h2'', m_time = 5, m_id = None, m_last = None,
     m_string1 = Some ''addr'', m_string2 = Some ''h1'', m_string3 = None, m_string4 = None,
     m_string5 = None, m_int1 = None,
     m_payload = Some (new_Payload\<lparr>pl_String2 := Some ''caption'', pl_String4 := Some ''[a]''\<rparr>),
     m_outputs = []\<rparr>"

lemma relayed_keeps_hash_witness:
  "relayable witness_wr witness_rd witness_post \<and>
   (\<exists>ptx'. relayed witness_wr witness_rd witness_post = Some ptx' \<and>
      BuildHash id witness_rd ptx' = BuildHash id witness_rd witness_post)"
proof -
  have "relayable witness_wr witness_rd witness_post"
    by (simp add: relayable_def witness_post_def json_list_ok_def payload_def new_Payload_def
        witness_wr_def witness_rd_def)
  from this relayed_keeps_hash[OF this, of id] show ?thesis
    by blast
qed

end
