(* ===== verification/TransactionHelper.thy ===== *)
theory TransactionHelper
  imports Dto Prelude
begin

text \<open>
  \<open>pocketdb/helpers/TransactionHelper.cpp\<close>: how the social layer recognises its transactions
  in the chain. The type of a transaction comes from the second field of the text form of its
  first output script, an OP_RETURN; the third field commits to the content.

  Parameters: \<open>split\<close> is \<open>boost::split\<close> at spaces and tabs, with the hypothesis
  \<open>splits_fields\<close>; \<open>dest\<close> is the address of a script (\<open>ExtractDestination\<close> and
  \<open>EncodeDestination\<close>), the empty string when there is none. \<open>None\<close> is undefined behaviour
  (the first byte of an empty script) or an exception (\<open>std::stoi\<close>).

  The lemmas show that a transaction built with an OP_RETURN of the form the protocol uses is
  parsed back to its type and its commitment, what the type can be, and how a score is read.
\<close>

section \<open>From OP_RETURN to type\<close>

definition GetPocketAuthorAddress :: "(byte list \<Rightarrow> string) \<Rightarrow> CTransaction \<Rightarrow> bool \<times> string" where
  "GetPocketAuthorAddress dest tx =
     (if length (vout tx) < 2 then (False, [])
      else let address = dest (scriptPubKey (vout tx ! 1)) in (address \<noteq> [], address))"

definition ConvertOpReturnToType :: "string \<Rightarrow> TxType" where
  "ConvertOpReturnToType op =
     (if op = OR_POST \<or> op = OR_POSTEDIT then CONTENT_POST
      else if op = OR_VIDEO then CONTENT_VIDEO
      else if op = OR_ARTICLE then CONTENT_ARTICLE
      else if op = OR_CONTENT_BOOST then BOOST_CONTENT
      else if op = OR_CONTENT_DELETE then CONTENT_DELETE
      else if op = OR_SCORE then ACTION_SCORE_CONTENT
      else if op = OR_COMPLAIN then ACTION_COMPLAIN
      else if op = OR_SUBSCRIBE then ACTION_SUBSCRIBE
      else if op = OR_SUBSCRIBEPRIVATE then ACTION_SUBSCRIBE_PRIVATE
      else if op = OR_UNSUBSCRIBE then ACTION_SUBSCRIBE_CANCEL
      else if op = OR_ACCOUNT_SETTING then ACCOUNT_SETTING
      else if op = OR_USERINFO then ACCOUNT_USER
      else if op = OR_VIDEO_SERVER then ACCOUNT_VIDEO_SERVER
      else if op = OR_MESSAGE_SERVER then ACCOUNT_MESSAGE_SERVER
      else if op = OR_BLOCKING then ACTION_BLOCKING
      else if op = OR_UNBLOCKING then ACTION_BLOCKING_CANCEL
      else if op = OR_COMMENT then CONTENT_COMMENT
      else if op = OR_COMMENT_EDIT then CONTENT_COMMENT_EDIT
      else if op = OR_COMMENT_DELETE then CONTENT_COMMENT_DELETE
      else if op = OR_COMMENT_SCORE then ACTION_SCORE_COMMENT
      else TX_DEFAULT)"

text \<open>\<open>ParseAsmType\<close> returns the code and fills \<open>vasm\<close>, empty at every call.\<close>

definition ParseAsmType :: "(string \<Rightarrow> string list) \<Rightarrow> CTransaction \<Rightarrow> (string \<times> string list) option" where
  "ParseAsmType split tx =
     (case vout tx of
        [] \<Rightarrow> Some ([], [])
      | txout # _ \<Rightarrow>
          (case scriptPubKey txout of
             [] \<Rightarrow> None
           | b # _ \<Rightarrow>
               if unat b = OP_RETURN
               then let vasm = split (ScriptToAsmStr (scriptPubKey txout)) in
                 Some (if length vasm \<ge> 2 then vasm ! 1 else [], vasm)
               else Some ([], [])))"

text \<open>The sum of the coinbase outputs is accumulated in a 32-bit \<open>int\<close>.\<close>

definition txOutSum :: "CTransaction \<Rightarrow> int" where
  "txOutSum tx = foldl (\<lambda>i out. int32 (nValue out + i)) 0 (vout tx)"

definition ParseType_asm :: "(string \<Rightarrow> string list) \<Rightarrow> CTransaction \<Rightarrow> (TxType \<times> string list) option" where
  "ParseType_asm split tx =
     (if IsCoinBase tx then Some (if txOutSum tx \<le> 0 then NOT_SUPPORTED else TX_COINBASE, [])
      else if IsCoinStake tx then Some (TX_COINSTAKE, [])
      else do { (op, vasm) \<leftarrow> ParseAsmType split tx; Some (ConvertOpReturnToType op, vasm) })"

definition ParseType :: "(string \<Rightarrow> string list) \<Rightarrow> CTransaction \<Rightarrow> TxType option" where
  "ParseType split tx = map_option fst (ParseType_asm split tx)"

definition ConvertToReindexerTable :: "TxType \<Rightarrow> string" where
  "ConvertToReindexerTable type =
     (case type of
        ACCOUNT_SETTING \<Rightarrow> ''AccountSettings''
      | ACCOUNT_USER \<Rightarrow> ''Users''
      | CONTENT_POST \<Rightarrow> ''Posts''
      | CONTENT_VIDEO \<Rightarrow> ''Posts''
      | CONTENT_ARTICLE \<Rightarrow> ''Posts''
      | CONTENT_DELETE \<Rightarrow> ''Posts''
      | CONTENT_COMMENT \<Rightarrow> ''Comment''
      | CONTENT_COMMENT_EDIT \<Rightarrow> ''Comment''
      | CONTENT_COMMENT_DELETE \<Rightarrow> ''Comment''
      | ACTION_SCORE_CONTENT \<Rightarrow> ''Scores''
      | ACTION_SCORE_COMMENT \<Rightarrow> ''CommentScores''
      | ACTION_COMPLAIN \<Rightarrow> ''Complains''
      | ACTION_BLOCKING_CANCEL \<Rightarrow> ''Blocking''
      | ACTION_BLOCKING \<Rightarrow> ''Blocking''
      | ACTION_SUBSCRIBE_CANCEL \<Rightarrow> ''Subscribes''
      | ACTION_SUBSCRIBE_PRIVATE \<Rightarrow> ''Subscribes''
      | ACTION_SUBSCRIBE \<Rightarrow> ''Subscribes''
      | BOOST_CONTENT \<Rightarrow> ''Boosts''
      | _ \<Rightarrow> [])"

definition ExtractOpReturnHash :: "(string \<Rightarrow> string list) \<Rightarrow> CTransaction \<Rightarrow> string option" where
  "ExtractOpReturnHash split tx = do {
     (_, vasm) \<leftarrow> ParseAsmType split tx;
     Some (if length vasm < 3 then [] else vasm ! 2)
   }"

definition ExtractOpReturnPayload :: "(string \<Rightarrow> string list) \<Rightarrow> CTransaction \<Rightarrow> (bool \<times> string) option" where
  "ExtractOpReturnPayload split tx = do {
     (_, vasm) \<leftarrow> ParseAsmType split tx;
     Some (if length vasm < 4 then (False, []) else (vasm ! 3 \<noteq> [], vasm ! 3))
   }"

definition IsPocketSupportedTransaction :: "(string \<Rightarrow> string list) \<Rightarrow> CTransaction \<Rightarrow> (bool \<times> TxType) option" where
  "IsPocketSupportedTransaction split tx =
     do { txType \<leftarrow> ParseType split tx; Some (txType \<noteq> NOT_SUPPORTED, txType) }"

definition IsPocketTransaction_type :: "TxType \<Rightarrow> bool" where
  "IsPocketTransaction_type txType \<longleftrightarrow>
     txType \<noteq> NOT_SUPPORTED \<and> txType \<noteq> TX_COINBASE \<and> txType \<noteq> TX_COINSTAKE \<and> txType \<noteq> TX_DEFAULT"

definition IsPocketTransaction :: "(string \<Rightarrow> string list) \<Rightarrow> CTransaction \<Rightarrow> bool option" where
  "IsPocketTransaction split tx = map_option IsPocketTransaction_type (ParseType split tx)"

section \<open>Scores\<close>

record ScoreDataDto =
  ScoreType :: TxType
  ScoreTxHash :: string
  ScoreAddressId :: int
  ScoreAddressHash :: string
  ScoreTime :: int
  ScoreValue :: int
  ContentType :: TxType
  ContentTxHash :: string
  ContentId :: int
  ContentAddressId :: int
  ContentAddressHash :: string
  ContentTime :: int

definition new_ScoreDataDto :: ScoreDataDto where
  "new_ScoreDataDto =
     \<lparr>ScoreType = NOT_SUPPORTED, ScoreTxHash = [], ScoreAddressId = 0, ScoreAddressHash = [],
      ScoreTime = 0, ScoreValue = 0, ContentType = NOT_SUPPORTED, ContentTxHash = [], ContentId = 0,
      ContentAddressId = 0, ContentAddressHash = [], ContentTime = 0\<rparr>"

definition bytes_string :: "byte list \<Rightarrow> string" where
  "bytes_string bs = map (\<lambda>b. char_of (unat b)) bs"

definition ParseScore ::
    "(string \<Rightarrow> string list) \<Rightarrow> (byte list \<Rightarrow> string) \<Rightarrow> CTransaction \<Rightarrow> (bool \<times> ScoreDataDto) option" where
  "ParseScore split dest tx = do {
     (type, vasm) \<leftarrow> ParseType_asm split tx;
     let scoreData = new_ScoreDataDto\<lparr>ScoreType := type\<rparr>;
     if type \<noteq> ACTION_SCORE_CONTENT \<and> type \<noteq> ACTION_SCORE_COMMENT then Some (False, scoreData)
     else do {
       scoreData \<leftarrow>
         (if length vasm \<ge> 4 then
            let data = split (bytes_string (ParseHex (vasm ! 3))) in
            if length data \<ge> 2 then do {
              let (ok, addr) = GetPocketAuthorAddress dest tx;
              let scoreData = (if ok then scoreData\<lparr>ScoreAddressHash := addr\<rparr> else scoreData);
              v \<leftarrow> stoi (data ! 1);
              Some (scoreData\<lparr>ContentAddressHash := data ! 0, ScoreValue := v\<rparr>)
            } else Some scoreData
          else Some scoreData);
       let finalCheck = (ScoreAddressHash scoreData \<noteq> [] \<and> ContentAddressHash scoreData \<noteq> []);
       Some (finalCheck, scoreData\<lparr>ScoreTxHash := GetHex (tx_hash tx)\<rparr>)
     }
   }"

section \<open>Instances and names\<close>

text \<open>\<open>CreateInstance\<close> builds an object of the class of the type, whose constructor sets
  \<open>m_type\<close>; it returns null for the types that have no class.\<close>

definition CreateInstance :: "TxType \<Rightarrow> CTransaction \<Rightarrow> Transaction option" where
  "CreateInstance txType tx =
     (case txType of
        TX_COINBASE \<Rightarrow> Some (new_Transaction TX_COINBASE tx)
      | TX_COINSTAKE \<Rightarrow> Some (new_Transaction TX_COINSTAKE tx)
      | TX_DEFAULT \<Rightarrow> Some (new_Transaction TX_DEFAULT tx)
      | ACCOUNT_SETTING \<Rightarrow> Some (new_Transaction ACCOUNT_SETTING tx)
      | ACCOUNT_USER \<Rightarrow> Some (new_Transaction ACCOUNT_USER tx)
      | CONTENT_POST \<Rightarrow> Some (new_Transaction CONTENT_POST tx)
      | CONTENT_VIDEO \<Rightarrow> Some (new_Transaction CONTENT_VIDEO tx)
      | CONTENT_ARTICLE \<Rightarrow> Some (new_Transaction CONTENT_ARTICLE tx)
      | CONTENT_DELETE \<Rightarrow> Some (new_Transaction CONTENT_DELETE tx)
      | BOOST_CONTENT \<Rightarrow> Some (new_Transaction BOOST_CONTENT tx)
      | CONTENT_COMMENT \<Rightarrow> Some (new_Transaction CONTENT_COMMENT tx)
      | CONTENT_COMMENT_EDIT \<Rightarrow> Some (new_Transaction CONTENT_COMMENT_EDIT tx)
      | CONTENT_COMMENT_DELETE \<Rightarrow> Some (new_Transaction CONTENT_COMMENT_DELETE tx)
      | ACTION_SCORE_CONTENT \<Rightarrow> Some (new_Transaction ACTION_SCORE_CONTENT tx)
      | ACTION_SCORE_COMMENT \<Rightarrow> Some (new_Transaction ACTION_SCORE_COMMENT tx)
      | ACTION_SUBSCRIBE \<Rightarrow> Some (new_Transaction ACTION_SUBSCRIBE tx)
      | ACTION_SUBSCRIBE_PRIVATE \<Rightarrow> Some (new_Transaction ACTION_SUBSCRIBE_PRIVATE tx)
      | ACTION_SUBSCRIBE_CANCEL \<Rightarrow> Some (new_Transaction ACTION_SUBSCRIBE_CANCEL tx)
      | ACTION_BLOCKING \<Rightarrow> Some (new_Transaction ACTION_BLOCKING tx)
      | ACTION_BLOCKING_CANCEL \<Rightarrow> Some (new_Transaction ACTION_BLOCKING_CANCEL tx)
      | ACTION_COMPLAIN \<Rightarrow> Some (new_Transaction ACTION_COMPLAIN tx)
      | _ \<Rightarrow> None)"

fun IsIn :: "TxType \<Rightarrow> TxType list \<Rightarrow> bool" where
  "IsIn txType [] = False"
| "IsIn txType (inType # inTypes) = (if inType = txType then True else IsIn txType inTypes)"

definition TxStringType :: "TxType \<Rightarrow> string" where
  "TxStringType type =
     (case type of
        CONTENT_DELETE \<Rightarrow> ''contentDelete''
      | CONTENT_POST \<Rightarrow> ''share''
      | CONTENT_VIDEO \<Rightarrow> ''video''
      | CONTENT_ARTICLE \<Rightarrow> ''article''
      | ACCOUNT_SETTING \<Rightarrow> ''accSet''
      | ACTION_SCORE_CONTENT \<Rightarrow> ''upvoteShare''
      | ACTION_SUBSCRIBE \<Rightarrow> ''subscribe''
      | ACTION_SUBSCRIBE_PRIVATE \<Rightarrow> ''subscribePrivate''
      | ACTION_SUBSCRIBE_CANCEL \<Rightarrow> ''unsubscribe''
      | ACCOUNT_USER \<Rightarrow> ''userInfo''
      | CONTENT_COMMENT \<Rightarrow> ''comment''
      | CONTENT_COMMENT_EDIT \<Rightarrow> ''commentEdit''
      | CONTENT_COMMENT_DELETE \<Rightarrow> ''commentDelete''
      | ACTION_SCORE_COMMENT \<Rightarrow> ''cScore''
      | BOOST_CONTENT \<Rightarrow> ''contentBoost''
      | _ \<Rightarrow> [])"

definition TxIntType :: "string \<Rightarrow> TxType" where
  "TxIntType type =
     (if type = ''contentDelete'' \<or> type = OR_CONTENT_DELETE then CONTENT_DELETE
      else if type = ''share'' \<or> type = ''shareEdit'' \<or> type = OR_POST \<or> type = OR_POSTEDIT then CONTENT_POST
      else if type = ''video'' \<or> type = OR_VIDEO then CONTENT_VIDEO
      else if type = ''article'' \<or> type = OR_ARTICLE then CONTENT_ARTICLE
      else if type = ''accSet'' \<or> type = OR_ACCOUNT_SETTING then ACCOUNT_SETTING
      else if type = ''upvoteShare'' \<or> type = OR_SCORE then ACTION_SCORE_CONTENT
      else if type = ''subscribe'' \<or> type = OR_SUBSCRIBE then ACTION_SUBSCRIBE
      else if type = ''subscribePrivate'' \<or> type = OR_SUBSCRIBEPRIVATE then ACTION_SUBSCRIBE_PRIVATE
      else if type = ''unsubscribe'' \<or> type = OR_UNSUBSCRIBE then ACTION_SUBSCRIBE_CANCEL
      else if type = ''userInfo'' \<or> type = OR_USERINFO then ACCOUNT_USER
      else if type = ''comment'' \<or> type = OR_COMMENT then CONTENT_COMMENT
      else if type = ''commentEdit'' \<or> type = OR_COMMENT_EDIT then CONTENT_COMMENT_EDIT
      else if type = ''commentDelete'' \<or> type = OR_COMMENT_DELETE then CONTENT_COMMENT_DELETE
      else if type = ''cScore'' \<or> type = OR_COMMENT_SCORE then ACTION_SCORE_COMMENT
      else if type = ''contentBoost'' \<or> type = OR_CONTENT_BOOST then BOOST_CONTENT
      else NOT_SUPPORTED)"

section \<open>Fields of a text\<close>

text \<open>The fields \<open>boost::split\<close> with \<open>is_any_of\<close> space and tab yields without compressing
  adjacent separators.\<close>

definition is_separator :: "char \<Rightarrow> bool" where
  "is_separator c \<longleftrightarrow> c = CHR 0x09 \<or> c = CHR '' ''"

fun fields :: "string \<Rightarrow> string list" where
  "fields [] = [[]]"
| "fields (c # cs) = (if is_separator c then [] # fields cs else (c # hd (fields cs)) # tl (fields cs))"

definition splits_fields :: "(string \<Rightarrow> string list) \<Rightarrow> bool" where
  "splits_fields split \<longleftrightarrow> (\<forall>s. split s = fields s)"

lemma fields_word: "\<forall>c \<in> set w. \<not> is_separator c \<Longrightarrow> fields w = [w]"
  by (induction w) auto

lemma fields_word_append:
  "\<forall>c \<in> set w. \<not> is_separator c \<Longrightarrow> fields (w @ '' '' @ s) = w # fields s"
  by (induction w) (auto simp: is_separator_def)

lemma HexStr_no_separator: "\<forall>c \<in> set (HexStr s). \<not> is_separator c"
  using HexStr_not_space by (auto simp: is_separator_def IsSpace_def)

lemma fields_op_return:
  assumes "\<forall>c \<in> set w. \<not> is_separator c"
  shows "fields (w @ concat (map (\<lambda>d. '' '' @ HexStr d) ds)) = w # map HexStr ds"
  using assms
proof (induction ds arbitrary: w)
  case Nil
  then show ?case by (simp add: fields_word)
next
  case (Cons d ds)
  have "fields (w @ '' '' @ HexStr d @ concat (map (\<lambda>d. '' '' @ HexStr d) ds))
      = w # fields (HexStr d @ concat (map (\<lambda>d. '' '' @ HexStr d) ds))"
    by (rule fields_word_append[OF Cons.prems])
  with Cons.IH[OF HexStr_no_separator] show ?case by simp
qed

lemma ParseAsmType_op_return:
  assumes "splits_fields split" "vout tx = out # outs" "scriptPubKey out = op_return_script ds"
    and "\<forall>d \<in> set ds. 4 < length d \<and> length d < 2 ^ 32"
  shows "ParseAsmType split tx =
    Some (if ds = [] then [] else HexStr (hd ds), ''OP_RETURN'' # map HexStr ds)"
proof -
  have "split (ScriptToAsmStr (op_return_script ds)) = ''OP_RETURN'' # map HexStr ds"
    using assms(1) fields_op_return[of "''OP_RETURN''" ds]
    by (simp add: splits_fields_def ScriptToAsmStr_op_return[OF assms(4)] is_separator_def)
  moreover have "op_return_script ds = of_nat OP_RETURN # concat (map (push_data []) ds)"
    by (simp add: op_return_script_def foldl_push_data push_opcode_def)
  ultimately show ?thesis
    using assms(2,3) by (cases ds) (auto simp: ParseAsmType_def Let_def OP_RETURN_def)
qed

text \<open>C28. A transaction that is neither coinbase nor coinstake and whose first output is the
  OP_RETURN script of a type code and a content hash (and further data), each pushed with
  more than four bytes, is parsed to the type of that code, and the hash it commits to is the
  one pushed: nothing is lost between the script builder, the script reader, the text form,
  its fields and the hexadecimal coding.\<close>

theorem ParseType_op_return:
  assumes "splits_fields split" "\<not> IsCoinBase tx" "\<not> IsCoinStake tx"
    and "vout tx = out # outs" "scriptPubKey out = op_return_script (op # h # ds)"
    and "\<forall>d \<in> set (op # h # ds). 4 < length d \<and> length d < 2 ^ 32"
  shows "ParseType split tx = Some (ConvertOpReturnToType (HexStr op)) \<and>
         ExtractOpReturnHash split tx = Some (HexStr h)"
  using ParseAsmType_op_return[OF assms(1,4,5,6)] assms(2,3)
  by (simp add: ParseType_def ParseType_asm_def ExtractOpReturnHash_def)

definition witness_tx :: CTransaction where
  "witness_tx = \<lparr>tx_hash = [1], nTime = 7, vin = [\<lparr>op_hash = [5], op_n = 0\<rparr>],
     vout = [\<lparr>nValue = 0, scriptPubKey = op_return_script [[0x73, 0x68, 0x61, 0x72, 0x65], [1, 2, 3, 4, 5]]\<rparr>]\<rparr>"

lemma ParseType_op_return_witness:
  "splits_fields fields \<and> ParseType fields witness_tx = Some CONTENT_POST \<and>
   ExtractOpReturnHash fields witness_tx = Some ''0102030405''"
proof -
  have fields: "splits_fields fields" by (simp add: splits_fields_def)
  have "ParseType fields witness_tx = Some (ConvertOpReturnToType (HexStr [0x73, 0x68, 0x61, 0x72, 0x65])) \<and>
      ExtractOpReturnHash fields witness_tx = Some (HexStr [1, 2, 3, 4, 5])"
    by (rule ParseType_op_return[OF fields, where ds = "[]"])
       (auto simp: witness_tx_def IsCoinBase_def IsNull_def NULL_INDEX_def IsCoinStake_def)
  moreover have "ConvertOpReturnToType (HexStr [0x73, 0x68, 0x61, 0x72, 0x65]) = CONTENT_POST"
    "HexStr [1, 2, 3, 4, 5] = ''0102030405''"
    by code_simp+
  ultimately show ?thesis using fields by simp
qed

section \<open>Coinbase transactions\<close>

lemma txOutSum_eq: "txOutSum tx = int32 (sum_list (map nValue (vout tx)))"
proof -
  have "foldl (\<lambda>i out. int32 (nValue out + i)) (int32 s) outs = int32 (s + sum_list (map nValue outs))"
    for s and outs :: "CTxOut list"
    by (induction outs arbitrary: s) (simp_all add: algebra_simps)
  from this[of 0 "vout tx"] show ?thesis
    by (simp add: txOutSum_def)
qed

lemma ParseType_coinbase:
  assumes "IsCoinBase tx"
  shows "ParseType split tx =
    Some (if int32 (sum_list (map nValue (vout tx))) \<le> 0 then NOT_SUPPORTED else TX_COINBASE)"
  using assms by (simp add: ParseType_def ParseType_asm_def txOutSum_eq)

text \<open>Outputs of 25 coins in total wrap to a negative sum: the transaction is not supported.\<close>

lemma coinbase_overflow:
  "ParseType split \<lparr>tx_hash = [1], nTime = 7, vin = [\<lparr>op_hash = [0], op_n = 4294967295\<rparr>],
     vout = [\<lparr>nValue = 2500000000, scriptPubKey = []\<rparr>]\<rparr> = Some NOT_SUPPORTED"
  by (subst ParseType_coinbase) (simp_all add: IsCoinBase_def IsNull_def uint256_IsNull_def NULL_INDEX_def
      int32_def)

end
