(* ===== verification/Database.thy ===== *)
theory Database
  imports PocketTypes
begin

text \<open>
  The tables of the node's database, \<open>pocketdb/migrations/main.cpp\<close>: a record per table with
  the columns in the order of the schema, \<open>option\<close> where a column may be NULL and \<open>bool\<close> for
  the 0/1 column \<open>Last\<close>; the database is the record of its tables. \<open>db_keys\<close> states the
  primary keys SQLite enforces. Rows that are not yet in a block (the mempool and rolled-back
  blocks) have no height.
\<close>

record TxRow =
  t_Type :: TxType
  t_Hash :: string
  t_Time :: int
  t_BlockHash :: "string option"
  t_BlockNum :: "int option"
  t_Height :: "int option"
  t_Last :: bool
  t_Id :: "int option"
  t_String1 :: "string option"
  t_String2 :: "string option"
  t_String3 :: "string option"
  t_String4 :: "string option"
  t_String5 :: "string option"
  t_Int1 :: "int option"

record PayloadRow =
  p_TxHash :: string
  p_String1 :: "string option"
  p_String2 :: "string option"
  p_String3 :: "string option"
  p_String4 :: "string option"
  p_String5 :: "string option"
  p_String6 :: "string option"
  p_String7 :: "string option"
  p_Int1 :: "int option"

record OutRow =
  o_TxHash :: string
  o_TxHeight :: "int option"
  o_Number :: int
  o_AddressHash :: string
  o_Value :: int
  o_ScriptPubKey :: string
  o_SpentHeight :: "int option"
  o_SpentTxHash :: "string option"

record RatingRow =
  r_Type :: RatingType
  r_Last :: bool
  r_Height :: int
  r_Id :: int
  r_Value :: int

record BalanceRow =
  b_AddressHash :: string
  b_Last :: bool
  b_Height :: int
  b_Value :: int

record Database =
  Transactions :: "TxRow list"
  PayloadTable :: "PayloadRow list"
  TxOutputs :: "OutRow list"
  Ratings :: "RatingRow list"
  Balances :: "BalanceRow list"

definition db_keys :: "Database \<Rightarrow> bool" where
  "db_keys db \<longleftrightarrow>
     distinct_on t_Hash (Transactions db) \<and>
     distinct_on p_TxHash (PayloadTable db) \<and>
     distinct_on (\<lambda>o'. (o_TxHash o', o_Number o', o_AddressHash o')) (TxOutputs db) \<and>
     distinct_on (\<lambda>r. (r_Type r, r_Height r, r_Id r, r_Value r)) (Ratings db) \<and>
     distinct_on (\<lambda>b. (b_AddressHash b, b_Height b)) (Balances db)"

text \<open>\<open>Type in (...)\<close> on the numbers the column stores.\<close>

definition type_in :: "TxRow \<Rightarrow> int list \<Rightarrow> bool" where
  "type_in r types \<longleftrightarrow> txtype_code (t_Type r) \<in> set types"

text \<open>The aggregate \<open>sum\<close>, NULL on no rows, and the first value of a selection with
  \<open>limit 1\<close>.\<close>

definition sql_sum :: "int list \<Rightarrow> int option" where
  "sql_sum xs = (if xs = [] then None else Some (sum_list xs))"

definition select_first :: "('r \<Rightarrow> bool) \<Rightarrow> ('r \<Rightarrow> 'c option) \<Rightarrow> 'r list \<Rightarrow> 'c option" where
  "select_first P col rows = (case filter P rows of [] \<Rightarrow> None | r # _ \<Rightarrow> col r)"

lemma select_first_SomeD:
  assumes "select_first P col rows = Some c"
  shows "\<exists>r \<in> set rows. P r \<and> col r = Some c"
proof -
  obtain r rs where "filter P rows = r # rs" "col r = Some c"
    using assms by (auto simp: select_first_def split: list.splits)
  then have "r \<in> set (filter P rows)" by simp
  with \<open>col r = Some c\<close> show ?thesis by auto
qed

end
