(* ===== verification/ConsensusRepository.thy ===== *)
theory ConsensusRepository
  imports TransactionHelper Database
begin

text \<open>
  \<open>pocketdb/repositories/ConsensusRepository.cpp\<close>: the questions the consensus rules ask the
  database, one function per method. A pair of a flag and a value is an option; a column read
  with \<open>TryGetColumn...\<close> keeps the default when it is NULL. \<open>GetLastAccount\<close>,
  \<open>GetFirstContent\<close> and \<open>GetLastContent\<close> build an object from a row; the outer \<open>None\<close> is the
  null pointer \<open>CreateTransactionFromListRow\<close> dereferences when the type has no class.
  Where a method reads a number with \<open>TryGetColumnInt\<close> it gets the low 32 bits of the column; a count is taken as it is, since a table has fewer than \<open>2 ^ 31\<close> rows.

  \<open>like\<close> is SQLite's operator with the escape character the query names; the names are byte
  strings, and only ASCII letters are compared without case. How SQLite compares an integer
  with a text (\<open>int_ge_text\<close>) is a parameter of the one query that does so.
\<close>

section \<open>Reading columns\<close>

text \<open>\<open>sqlite3_column_int\<close>; NULL is the pair with the flag \<open>false\<close>.\<close>

definition TryGetColumnInt :: "int option \<Rightarrow> int option" where
  "TryGetColumnInt = map_option int32"

lemma TryGetColumnInt_simps [simp]: "TryGetColumnInt None = None" "TryGetColumnInt (Some x) = Some (int32 x)"
  by (simp_all add: TryGetColumnInt_def)

section \<open>Matching names\<close>

definition lower :: "char \<Rightarrow> char" where
  "lower c = (if 65 \<le> (of_char c :: nat) \<and> (of_char c :: nat) \<le> 90 then char_of (of_char c + 32 :: nat) else c)"

function like :: "string \<Rightarrow> string \<Rightarrow> bool" where
  "like [] s = (s = [])"
| "like (c # p) s =
     (if c = CHR 0x5C then
        (case (p, s) of
           (d # p', x # s') \<Rightarrow> lower x = lower d \<and> like p' s'
         | _ \<Rightarrow> False)
      else if c = CHR 0x25 then
        like p s \<or> (case s of [] \<Rightarrow> False | x # s' \<Rightarrow> like (c # p) s')
      else
        (case s of [] \<Rightarrow> False | x # s' \<Rightarrow> (c = CHR 0x5F \<or> lower x = lower c) \<and> like p s'))"
  by pat_completeness auto
termination
  by (relation "measure (\<lambda>(p, s). length p + length s)") auto

declare like.simps(2) [simp del]

text \<open>\<open>boost::replace_all\<close> of a one-character string, and \<open>BaseRepository::EscapeValue\<close>.\<close>

definition replace_all :: "string \<Rightarrow> char \<Rightarrow> string \<Rightarrow> string" where
  "replace_all s c rep = concat (map (\<lambda>x. if x = c then rep else [x]) s)"

definition EscapeValue :: "string \<Rightarrow> string" where
  "EscapeValue value =
     replace_all (replace_all value (CHR 0x25) [CHR 0x5C, CHR 0x25]) (CHR 0x5F) [CHR 0x5C, CHR 0x5F]"

definition ExistsAnotherByName :: "string \<Rightarrow> string \<Rightarrow> Database \<Rightarrow> bool" where
  "ExistsAnotherByName address name db \<longleftrightarrow>
     (\<exists>ap \<in> set (PayloadTable db). \<exists>t \<in> set (Transactions db).
        type_in t [100, 101, 102] \<and> t_Hash t = p_TxHash ap \<and> t_Height t \<noteq> None \<and> t_Last t \<and>
        (case p_String2 ap of None \<Rightarrow> False | Some n \<Rightarrow> like (EscapeValue name) n) \<and>
        (case t_String1 t of None \<Rightarrow> False | Some a \<Rightarrow> a \<noteq> address))"

section \<open>Objects from rows\<close>

definition row_class :: "TxType \<Rightarrow> bool" where
  "row_class txType \<longleftrightarrow> txType \<noteq> NOT_SUPPORTED \<and> txType \<noteq> ACCOUNT_VIDEO_SERVER \<and> txType \<noteq> ACCOUNT_MESSAGE_SERVER"

text \<open>The default constructors leave all fields but the type null.\<close>

definition CreateInstance_of_type :: "TxType \<Rightarrow> Transaction option" where
  "CreateInstance_of_type txType =
     (if row_class txType then
        Some \<lparr>m_type = txType, m_hash = [], m_time = 0, m_id = None, m_last = None,
          m_string1 = None, m_string2 = None, m_string3 = None, m_string4 = None, m_string5 = None,
          m_int1 = None, m_payload = None, m_outputs = []\<rparr>
      else None)"

definition CreateTransactionFromListRow :: "TxRow \<Rightarrow> PayloadRow option \<Rightarrow> Transaction option" where
  "CreateTransactionFromListRow t p = do {
     ptx \<leftarrow> CreateInstance_of_type (t_Type t);
     Some (ptx\<lparr>m_time := t_Time t, m_hash := t_Hash t, m_last := Some (t_Last t), m_id := t_Id t,
       m_string1 := t_String1 t, m_string2 := t_String2 t, m_string3 := t_String3 t,
       m_string4 := t_String4 t, m_string5 := t_String5 t, m_int1 := t_Int1 t,
       m_payload := map_option (\<lambda>p. new_Payload\<lparr>pl_TxHash := Some (p_TxHash p), pl_String1 := p_String1 p,
         pl_String2 := p_String2 p, pl_String3 := p_String3 p, pl_String4 := p_String4 p,
         pl_String5 := p_String5 p, pl_String6 := p_String6 p, pl_String7 := p_String7 p\<rparr>) p\<rparr>)
   }"

text \<open>The first row of a selection with its payload, if any.\<close>

definition select_tx :: "(TxRow \<Rightarrow> bool) \<Rightarrow> Database \<Rightarrow> Transaction option option" where
  "select_tx P db =
     (case filter P (Transactions db) of
        [] \<Rightarrow> Some None
      | t # _ \<Rightarrow>
          map_option Some (CreateTransactionFromListRow t
            (case filter (\<lambda>p. p_TxHash p = t_Hash t) (PayloadTable db) of [] \<Rightarrow> None | p # _ \<Rightarrow> Some p)))"

definition GetLastAccount :: "string \<Rightarrow> Database \<Rightarrow> Transaction option option" where
  "GetLastAccount address =
     select_tx (\<lambda>t. type_in t [100, 101, 102] \<and> t_String1 t = Some address \<and> t_Last t \<and> t_Height t \<noteq> None)"

definition GetFirstContent :: "string \<Rightarrow> Database \<Rightarrow> Transaction option option" where
  "GetFirstContent rootHash =
     select_tx (\<lambda>t. type_in t [200, 201, 202, 203, 204] \<and> t_Hash t = rootHash \<and>
       t_String2 t = Some rootHash \<and> t_Height t \<noteq> None)"

definition GetLastContent :: "string \<Rightarrow> TxType list \<Rightarrow> Database \<Rightarrow> Transaction option option" where
  "GetLastContent rootHash types =
     select_tx (\<lambda>t. t_Type t \<in> set types \<and> t_String2 t = Some rootHash \<and> t_Last t \<and> t_Height t \<noteq> None)"

section \<open>Accounts, relations and scores\<close>

definition ExistsUserRegistrations :: "string list \<Rightarrow> bool \<Rightarrow> Database \<Rightarrow> bool" where
  "ExistsUserRegistrations addresses mempool db =
     (if addresses = [] then False
      else length (remdups (List.map_filter t_String1
             (filter (\<lambda>t. type_in t [100, 101, 102] \<and>
                (case t_String1 t of None \<Rightarrow> False | Some a \<Rightarrow> a \<in> set addresses) \<and>
                (mempool \<or> t_Height t \<noteq> None)) (Transactions db)))) = length addresses)"

definition GetLastBlockingType :: "string \<Rightarrow> string \<Rightarrow> Database \<Rightarrow> TxType option" where
  "GetLastBlockingType address addressTo db =
     select_first (\<lambda>t. type_in t [305, 306] \<and> t_String1 t = Some address \<and> t_String2 t = Some addressTo \<and>
       t_Height t \<noteq> None \<and> t_Last t) (\<lambda>t. Some (t_Type t)) (Transactions db)"

definition GetLastSubscribeType :: "string \<Rightarrow> string \<Rightarrow> Database \<Rightarrow> TxType option" where
  "GetLastSubscribeType address addressTo db =
     select_first (\<lambda>t. type_in t [302, 303, 304] \<and> t_String1 t = Some address \<and> t_String2 t = Some addressTo \<and>
       t_Height t \<noteq> None \<and> t_Last t) (\<lambda>t. Some (t_Type t)) (Transactions db)"

definition GetContentAddress :: "string \<Rightarrow> Database \<Rightarrow> string option" where
  "GetContentAddress postHash db =
     select_first (\<lambda>t. t_Hash t = postHash \<and> t_Height t \<noteq> None) t_String1 (Transactions db)"

definition ExistsComplain :: "string \<Rightarrow> string \<Rightarrow> Database \<Rightarrow> bool" where
  "ExistsComplain postHash address db \<longleftrightarrow>
     0 < count_where (\<lambda>t. type_in t [307] \<and> t_String1 t = Some address \<and> t_String2 t = Some postHash \<and>
       t_Height t \<noteq> None) (Transactions db)"

definition ExistsScore :: "string \<Rightarrow> string \<Rightarrow> TxType \<Rightarrow> bool \<Rightarrow> Database \<Rightarrow> bool" where
  "ExistsScore address contentHash type mempool db \<longleftrightarrow>
     0 < count_where (\<lambda>t. t_String1 t = Some address \<and> t_String2 t = Some contentHash \<and> t_Type t = type \<and>
       (mempool \<or> t_Height t \<noteq> None)) (Transactions db)"

definition GetUserBalance :: "string \<Rightarrow> Database \<Rightarrow> int" where
  "GetUserBalance address db =
     ifnull (select_first (\<lambda>b. b_AddressHash b = address \<and> b_Last b) (\<lambda>b. Some (b_Value b)) (Balances db)) 0"

text \<open>\<open>GetUserReputation\<close> by identifier and by address.\<close>

definition GetUserReputation_id :: "int \<Rightarrow> Database \<Rightarrow> int" where
  "GetUserReputation_id addressId db =
     ifnull (TryGetColumnInt (select_first (\<lambda>r. r_Type r = RATING_ACCOUNT \<and> r_Id r = addressId \<and> r_Last r)
       (\<lambda>r. Some (r_Value r)) (Ratings db))) 0"

definition GetUserReputation :: "string \<Rightarrow> Database \<Rightarrow> int" where
  "GetUserReputation address db =
     (case select_first (\<lambda>u. type_in u [100, 101, 102] \<and> t_Height u \<noteq> None \<and> t_Last u \<and> t_String1 u = Some address)
        t_Id (Transactions db) of
        None \<Rightarrow> 0
      | Some i \<Rightarrow> GetUserReputation_id i db)"

definition GetAccountRegistrationHeight :: "int \<Rightarrow> Database \<Rightarrow> int" where
  "GetAccountRegistrationHeight addressId db =
     ifnull (TryGetColumnInt (sql_min (List.map_filter t_Height
       (filter (\<lambda>t. type_in t [100, 101, 102] \<and> t_Id t = Some addressId) (Transactions db))))) 0"

text \<open>\<open>order by Height asc limit 1\<close>.\<close>

definition first_by_height :: "(TxRow \<Rightarrow> bool) \<Rightarrow> (TxRow \<Rightarrow> 'c option) \<Rightarrow> TxRow list \<Rightarrow> 'c option" where
  "first_by_height P col txs =
     (case sort_key (\<lambda>t. ifnull (t_Height t) 0) (filter P txs) of [] \<Rightarrow> None | t # _ \<Rightarrow> col t)"

definition GetAccountRegistrationTime :: "int \<Rightarrow> Database \<Rightarrow> int" where
  "GetAccountRegistrationTime addressId db =
     ifnull (first_by_height (\<lambda>t. type_in t [100] \<and> t_Height t \<noteq> None \<and> t_Id t = Some addressId)
       (\<lambda>t. Some (t_Time t)) (Transactions db)) 0"

section \<open>Scores, referrers and likers\<close>

definition height_positive :: "TxRow \<Rightarrow> bool" where
  "height_positive t \<longleftrightarrow> (case t_Height t of None \<Rightarrow> False | Some h \<Rightarrow> 0 < h)"

definition score_rows :: "string \<Rightarrow> TxRow list \<Rightarrow> (TxRow \<times> TxRow \<times> TxRow \<times> TxRow) list" where
  "score_rows txHash txs =
     [(s, sa, c, ca).
        s \<leftarrow> filter (\<lambda>s. t_Hash s = txHash) txs,
        sa \<leftarrow> filter (\<lambda>sa. type_in sa [100, 101, 102] \<and> height_positive sa \<and>
                sql_eq (t_String1 sa) (t_String1 s) \<and> t_Last sa) txs,
        c \<leftarrow> filter (\<lambda>c. type_in c [200, 201, 202, 203, 204, 205, 206, 207] \<and> height_positive c \<and>
                t_String2 s = Some (t_Hash c)) txs,
        ca \<leftarrow> filter (\<lambda>ca. type_in ca [100, 101, 102] \<and> height_positive ca \<and>
                sql_eq (t_String1 ca) (t_String1 c) \<and> t_Last ca) txs]"

definition score_data :: "TxRow \<times> TxRow \<times> TxRow \<times> TxRow \<Rightarrow> ScoreDataDto" where
  "score_data = (\<lambda>(s, sa, c, ca).
     \<lparr>ScoreType = t_Type s, ScoreTxHash = t_Hash s, ScoreAddressId = ifnull (TryGetColumnInt (t_Id sa)) 0,
      ScoreAddressHash = ifnull (t_String1 sa) [], ScoreTime = t_Time s, ScoreValue = ifnull (TryGetColumnInt (t_Int1 s)) 0,
      ContentType = t_Type c, ContentTxHash = t_Hash c, ContentId = ifnull (TryGetColumnInt (t_Id c)) 0,
      ContentAddressId = ifnull (TryGetColumnInt (t_Id ca)) 0, ContentAddressHash = ifnull (t_String1 ca) [],
      ContentTime = t_Time c\<rparr>)"

definition GetScoreData :: "string \<Rightarrow> Database \<Rightarrow> ScoreDataDto option" where
  "GetScoreData txHash db =
     (case score_rows txHash (Transactions db) of [] \<Rightarrow> None | row # _ \<Rightarrow> Some (score_data row))"

text \<open>The query of \<open>GetReferrers\<close> names a column the table does not have (\<open>AddressHash\<close>), so
  preparing it throws, \<open>None\<close>; only with no addresses it returns, an empty map.\<close>

definition GetReferrers :: "string list \<Rightarrow> int \<Rightarrow> Database \<Rightarrow> (string \<times> string) list option" where
  "GetReferrers addresses minHeight db = (if addresses = [] then Some [] else None)"

definition GetReferrer :: "string \<Rightarrow> Database \<Rightarrow> string option" where
  "GetReferrer address db =
     (case first_by_height (\<lambda>t. type_in t [100] \<and> t_Height t \<noteq> None \<and> t_String1 t = Some address)
        t_String2 (Transactions db) of
        None \<Rightarrow> None
      | Some value \<Rightarrow> if value = [] then None else Some value)"

definition GetUserLikersCount :: "int \<Rightarrow> Database \<Rightarrow> int" where
  "GetUserLikersCount addressId db =
     count_where (\<lambda>r. r_Type r = RATING_ACCOUNT_LIKERS \<and> r_Id r = addressId) (Ratings db)"

definition value_in :: "TxRow \<Rightarrow> int list \<Rightarrow> bool" where
  "value_in s values \<longleftrightarrow> (case t_Int1 s of None \<Rightarrow> False | Some v \<Rightarrow> v \<in> set values)"

definition GetScoreContentCount :: "int \<Rightarrow> ScoreDataDto \<Rightarrow> int list \<Rightarrow> int \<Rightarrow> Database \<Rightarrow> int" where
  "GetScoreContentCount height scoreData values scoresOneToOneDepth db =
     (if values = [] then 0
      else sum_list (map (\<lambda>c. count_where (\<lambda>s. sql_eq (t_String2 s) (t_String2 c) \<and> type_in s [300] \<and>
               sql_le (t_Height s) height \<and> t_String1 s = Some (ScoreAddressHash scoreData) \<and>
               t_Time s < ScoreTime scoreData \<and> ScoreTime scoreData - scoresOneToOneDepth \<le> t_Time s \<and>
               value_in s values \<and> t_Hash s \<noteq> ScoreTxHash scoreData) (Transactions db))
             (filter (\<lambda>c. type_in c [200, 201, 202, 207] \<and> t_String1 c = Some (ContentAddressHash scoreData) \<and>
                t_Height c \<noteq> None \<and> t_Last c) (Transactions db))))"

definition GetScoreCommentCount :: "int \<Rightarrow> ScoreDataDto \<Rightarrow> int list \<Rightarrow> int \<Rightarrow> Database \<Rightarrow> int" where
  "GetScoreCommentCount height scoreData values scoresOneToOneDepth db =
     (if values = [] then 0
      else sum_list (map (\<lambda>c. count_where (\<lambda>s. sql_eq (t_String2 s) (t_String2 c) \<and> type_in s [301] \<and>
               sql_le (t_Height s) height \<and> t_String1 s = Some (ScoreAddressHash scoreData) \<and> t_Height s \<noteq> None \<and>
               t_Time s < ScoreTime scoreData \<and> ScoreTime scoreData - scoresOneToOneDepth \<le> t_Time s \<and>
               value_in s values \<and> t_Hash s \<noteq> ScoreTxHash scoreData) (Transactions db))
             (filter (\<lambda>c. type_in c [204, 205, 206] \<and> t_Height c \<noteq> None \<and>
                t_String1 c = Some (ContentAddressHash scoreData) \<and> t_Last c) (Transactions db))))"

definition GetLastAccountHeight :: "string \<Rightarrow> Database \<Rightarrow> int option" where
  "GetLastAccountHeight address db =
     select_first (\<lambda>t. t_String1 t = Some address \<and> t_Last t \<and> t_Height t \<noteq> None) t_Height (Transactions db)"

definition GetTransactionHeight :: "string \<Rightarrow> Database \<Rightarrow> int option" where
  "GetTransactionHeight hash db =
     select_first (\<lambda>t. t_Hash t = hash \<and> t_Height t \<noteq> None) t_Height (Transactions db)"

section \<open>Counts\<close>

text \<open>The text of an integer, to which SQLite converts one it compares with a text column.\<close>

fun nat_text :: "nat \<Rightarrow> string" where
  "nat_text n = (if n < 10 then [char_of (48 + n)] else nat_text (n div 10) @ [char_of (48 + n mod 10)])"

declare nat_text.simps [simp del]

definition int_text :: "int \<Rightarrow> string" where
  "int_text i = (if i < 0 then ''-'' @ nat_text (nat (- i)) else nat_text (nat i))"

definition CountMempoolBlocking :: "string \<Rightarrow> string \<Rightarrow> Database \<Rightarrow> int" where
  "CountMempoolBlocking address addressTo db =
     count_where (\<lambda>r. type_in r [305, 306] \<and> t_Height r = None \<and> t_String1 r = Some address \<and>
         t_String2 r = Some addressTo) (Transactions db)"

definition CountMempoolSubscribe :: "string \<Rightarrow> string \<Rightarrow> Database \<Rightarrow> int" where
  "CountMempoolSubscribe address addressTo db =
     count_where (\<lambda>r. type_in r [302, 303, 304] \<and> t_Height r = None \<and> t_String1 r = Some address \<and>
         t_String2 r = Some addressTo) (Transactions db)"

definition CountMempoolComment :: "string \<Rightarrow> Database \<Rightarrow> int" where
  "CountMempoolComment address db =
     count_where (\<lambda>r. type_in r [204] \<and> t_Height r = None \<and> t_String1 r = Some address \<and>
         t_String2 r = Some (t_Hash r)) (Transactions db)"

definition CountChainCommentTime :: "string \<Rightarrow> int \<Rightarrow> Database \<Rightarrow> int" where
  "CountChainCommentTime address time db =
     count_where (\<lambda>r. type_in r [204] \<and> t_Height r \<noteq> None \<and> time \<le> t_Time r \<and> t_String1 r = Some address \<and>
         t_String2 r = Some (t_Hash r)) (Transactions db)"

definition CountChainCommentHeight :: "string \<Rightarrow> int \<Rightarrow> Database \<Rightarrow> int" where
  "CountChainCommentHeight address height db =
     count_where (\<lambda>r. type_in r [204, 205, 206] \<and> t_Last r \<and> t_Height r \<noteq> None \<and>
         sql_ge (t_Height r) height \<and> t_String1 r = Some address) (Transactions db)"

definition CountMempoolComplain :: "string \<Rightarrow> Database \<Rightarrow> int" where
  "CountMempoolComplain address db =
     count_where (\<lambda>r. type_in r [307] \<and> t_Height r = None \<and> t_String1 r = Some address \<and>
         t_String2 r = Some (t_Hash r)) (Transactions db)"

definition CountChainComplainTime :: "string \<Rightarrow> int \<Rightarrow> Database \<Rightarrow> int" where
  "CountChainComplainTime address time db =
     count_where (\<lambda>r. type_in r [307] \<and> t_Height r \<noteq> None \<and> time \<le> t_Time r \<and> t_String1 r = Some address \<and>
         t_String2 r = Some (t_Hash r)) (Transactions db)"

definition CountChainComplainHeight :: "string \<Rightarrow> int \<Rightarrow> Database \<Rightarrow> int" where
  "CountChainComplainHeight address height db =
     count_where (\<lambda>r. type_in r [307] \<and> t_Height r \<noteq> None \<and> sql_ge (t_Height r) height \<and>
         t_String1 r = Some address \<and> t_String2 r = Some (t_Hash r)) (Transactions db)"

definition CountMempoolPost :: "string \<Rightarrow> Database \<Rightarrow> int" where
  "CountMempoolPost address db =
     count_where (\<lambda>r. type_in r [200] \<and> t_Height r = None \<and> t_String1 r = Some address \<and>
         t_String2 r = Some (t_Hash r)) (Transactions db)"

definition CountChainPostTime :: "string \<Rightarrow> int \<Rightarrow> Database \<Rightarrow> int" where
  "CountChainPostTime address time db =
     count_where (\<lambda>r. type_in r [200] \<and> t_Height r \<noteq> None \<and> t_String1 r = Some address \<and> time \<le> t_Time r \<and>
         t_String2 r = Some (t_Hash r)) (Transactions db)"

definition CountChainPostHeight :: "string \<Rightarrow> int \<Rightarrow> Database \<Rightarrow> int" where
  "CountChainPostHeight address height db =
     count_where (\<lambda>r. type_in r [200] \<and> t_String1 r = Some address \<and> sql_ge (t_Height r) height \<and>
         t_String2 r = Some (t_Hash r)) (Transactions db)"

definition CountMempoolVideo :: "string \<Rightarrow> Database \<Rightarrow> int" where
  "CountMempoolVideo address db =
     count_where (\<lambda>r. type_in r [201] \<and> t_Height r = None \<and> t_String1 r = Some address \<and>
         t_String2 r = Some (t_Hash r)) (Transactions db)"

definition CountChainVideo :: "string \<Rightarrow> int \<Rightarrow> Database \<Rightarrow> int" where
  "CountChainVideo address height db =
     count_where (\<lambda>r. type_in r [201] \<and> t_String1 r = Some address \<and> sql_ge (t_Height r) height \<and>
         t_String2 r = Some (t_Hash r)) (Transactions db)"

definition CountMempoolArticle :: "string \<Rightarrow> Database \<Rightarrow> int" where
  "CountMempoolArticle address db =
     count_where (\<lambda>r. type_in r [202] \<and> t_Height r = None \<and> t_String1 r = Some address \<and>
         t_String2 r = Some (t_Hash r)) (Transactions db)"

definition CountChainArticle :: "string \<Rightarrow> int \<Rightarrow> Database \<Rightarrow> int" where
  "CountChainArticle address height db =
     count_where (\<lambda>r. type_in r [202] \<and> t_String1 r = Some address \<and> sql_ge (t_Height r) height \<and>
         t_String2 r = Some (t_Hash r)) (Transactions db)"

definition CountMempoolScoreComment :: "string \<Rightarrow> Database \<Rightarrow> int" where
  "CountMempoolScoreComment address db =
     count_where (\<lambda>r. type_in r [301] \<and> t_Height r = None \<and> t_String1 r = Some address) (Transactions db)"

definition CountChainScoreCommentTime :: "string \<Rightarrow> int \<Rightarrow> Database \<Rightarrow> int" where
  "CountChainScoreCommentTime address time db =
     count_where (\<lambda>r. type_in r [301] \<and> t_Height r \<noteq> None \<and> t_String1 r = Some address \<and> time \<le> t_Time r) (Transactions db)"

definition CountChainScoreCommentHeight :: "string \<Rightarrow> int \<Rightarrow> Database \<Rightarrow> int" where
  "CountChainScoreCommentHeight address height db =
     count_where (\<lambda>r. type_in r [301] \<and> t_Height r \<noteq> None \<and> sql_ge (t_Height r) height \<and>
         t_String1 r = Some address) (Transactions db)"

definition CountMempoolScoreContent :: "string \<Rightarrow> Database \<Rightarrow> int" where
  "CountMempoolScoreContent address db =
     count_where (\<lambda>r. type_in r [300] \<and> t_Height r = None \<and> t_String1 r = Some address) (Transactions db)"

definition CountChainScoreContentTime :: "string \<Rightarrow> int \<Rightarrow> Database \<Rightarrow> int" where
  "CountChainScoreContentTime address time db =
     count_where (\<lambda>r. type_in r [300] \<and> t_Height r \<noteq> None \<and> t_String1 r = Some address \<and> time \<le> t_Time r) (Transactions db)"

definition CountChainScoreContentHeight :: "string \<Rightarrow> int \<Rightarrow> Database \<Rightarrow> int" where
  "CountChainScoreContentHeight address height db =
     count_where (\<lambda>r. type_in r [300] \<and> t_Height r \<noteq> None \<and> sql_ge (t_Height r) height \<and>
         t_String1 r = Some address) (Transactions db)"

definition CountMempoolUser :: "string \<Rightarrow> Database \<Rightarrow> int" where
  "CountMempoolUser address db =
     count_where (\<lambda>r. type_in r [100] \<and> t_Height r = None \<and> t_String1 r = Some address) (Transactions db)"

definition CountMempoolAccountSetting :: "string \<Rightarrow> Database \<Rightarrow> int" where
  "CountMempoolAccountSetting address db =
     count_where (\<lambda>r. type_in r [103] \<and> t_Height r = None \<and> t_String1 r = Some address) (Transactions db)"

definition CountChainAccountSetting :: "(int \<Rightarrow> string \<Rightarrow> bool) \<Rightarrow> string \<Rightarrow> int \<Rightarrow> Database \<Rightarrow> int" where
  "CountChainAccountSetting int_ge_text address height db =
     count_where (\<lambda>r. type_in r [103] \<and> t_Height r \<noteq> None \<and>
         (case t_Height r of None \<Rightarrow> False | Some h \<Rightarrow> int_ge_text h address) \<and>
         t_String1 r = Some (int_text height)) (Transactions db)"

definition CountChainAccount :: "TxType \<Rightarrow> string \<Rightarrow> int \<Rightarrow> Database \<Rightarrow> int" where
  "CountChainAccount txType address height db =
     count_where (\<lambda>r. t_Type r = txType \<and> t_Height r \<noteq> None \<and> sql_ge (t_Height r) height \<and>
         t_String1 r = Some address) (Transactions db)"

definition CountMempoolCommentEdit :: "string \<Rightarrow> string \<Rightarrow> Database \<Rightarrow> int" where
  "CountMempoolCommentEdit address rootTxHash db =
     count_where (\<lambda>r. type_in r [204, 205, 206] \<and> t_Height r = None \<and> t_String1 r = Some address \<and>
         t_String2 r = Some rootTxHash) (Transactions db)"

definition CountChainCommentEdit :: "string \<Rightarrow> string \<Rightarrow> Database \<Rightarrow> int" where
  "CountChainCommentEdit address rootTxHash db =
     count_where (\<lambda>r. type_in r [204, 205, 206] \<and> t_Height r \<noteq> None \<and>
         t_String2 r \<noteq> None \<and> t_String2 r \<noteq> Some (t_Hash r) \<and> t_String1 r = Some address \<and>
         t_String2 r = Some rootTxHash) (Transactions db)"

definition CountMempoolPostEdit :: "string \<Rightarrow> string \<Rightarrow> Database \<Rightarrow> int" where
  "CountMempoolPostEdit address rootTxHash db =
     count_where (\<lambda>r. type_in r [200, 207] \<and> t_Height r = None \<and> t_String1 r = Some address \<and>
         t_String2 r = Some rootTxHash) (Transactions db)"

definition CountChainPostEdit :: "string \<Rightarrow> string \<Rightarrow> Database \<Rightarrow> int" where
  "CountChainPostEdit address rootTxHash db =
     count_where (\<lambda>r. type_in r [200] \<and> t_Height r \<noteq> None \<and>
         t_String2 r \<noteq> None \<and> t_String2 r \<noteq> Some (t_Hash r) \<and> t_String1 r = Some address \<and>
         t_String2 r = Some rootTxHash) (Transactions db)"

definition CountMempoolVideoEdit :: "string \<Rightarrow> string \<Rightarrow> Database \<Rightarrow> int" where
  "CountMempoolVideoEdit address rootTxHash db =
     count_where (\<lambda>r. type_in r [201, 207] \<and> t_Height r = None \<and> t_String1 r = Some address \<and>
         t_String2 r = Some rootTxHash) (Transactions db)"

definition CountChainVideoEdit :: "string \<Rightarrow> string \<Rightarrow> Database \<Rightarrow> int" where
  "CountChainVideoEdit address rootTxHash db =
     count_where (\<lambda>r. type_in r [201] \<and> t_Height r \<noteq> None \<and>
         t_String2 r \<noteq> None \<and> t_String2 r \<noteq> Some (t_Hash r) \<and> t_String1 r = Some address \<and>
         t_String2 r = Some rootTxHash) (Transactions db)"

definition CountMempoolArticleEdit :: "string \<Rightarrow> string \<Rightarrow> Database \<Rightarrow> int" where
  "CountMempoolArticleEdit address rootTxHash db =
     count_where (\<lambda>r. type_in r [202, 207] \<and> t_Height r = None \<and> t_String1 r = Some address \<and>
         t_String2 r = Some rootTxHash) (Transactions db)"

definition CountChainArticleEdit :: "string \<Rightarrow> string \<Rightarrow> Database \<Rightarrow> int" where
  "CountChainArticleEdit address rootTxHash db =
     count_where (\<lambda>r. type_in r [202] \<and> t_Height r \<noteq> None \<and>
         t_String2 r \<noteq> None \<and> t_String2 r \<noteq> Some (t_Hash r) \<and> t_String1 r = Some address \<and>
         t_String2 r = Some rootTxHash) (Transactions db)"

definition CountMempoolContentDelete :: "string \<Rightarrow> string \<Rightarrow> Database \<Rightarrow> int" where
  "CountMempoolContentDelete address rootTxHash db =
     count_where (\<lambda>r. type_in r [200, 201, 202, 207] \<and> t_Height r = None \<and> t_String1 r = Some address \<and>
         t_String2 r = Some rootTxHash) (Transactions db)"

section \<open>Names are compared without case\<close>

lemma EscapeValue_Nil [simp]: "EscapeValue [] = []"
  by (simp add: EscapeValue_def replace_all_def)

lemma EscapeValue_Cons:
  "EscapeValue (c # name) =
     (if c = CHR 0x25 \<or> c = CHR 0x5F then [CHR 0x5C, c] else [c]) @ EscapeValue name"
  by (simp add: EscapeValue_def replace_all_def)

lemma like_escaped: "like (CHR 0x5C # d # p) s \<longleftrightarrow> (case s of [] \<Rightarrow> False | x # s' \<Rightarrow> lower x = lower d \<and> like p s')"
  by (subst like.simps(2)) (simp split: list.split)

lemma like_literal:
  "c \<noteq> CHR 0x5C \<Longrightarrow> c \<noteq> CHR 0x25 \<Longrightarrow> c \<noteq> CHR 0x5F \<Longrightarrow>
   like (c # p) s \<longleftrightarrow> (case s of [] \<Rightarrow> False | x # s' \<Rightarrow> lower x = lower c \<and> like p s')"
  by (subst like.simps(2)) (simp split: list.split)

lemma like_EscapeValue:
  assumes "CHR 0x5C \<notin> set name"
  shows "like (EscapeValue name) n \<longleftrightarrow> map lower n = map lower name"
  using assms
proof (induction name arbitrary: n)
  case (Cons c name)
  have "like (EscapeValue (c # name)) n \<longleftrightarrow>
      (case n of [] \<Rightarrow> False | x # n' \<Rightarrow> lower x = lower c \<and> like (EscapeValue name) n')"
  proof (cases "c = CHR 0x25 \<or> c = CHR 0x5F")
    case False
    moreover have "c \<noteq> CHR 0x5C" using Cons.prems by auto
    ultimately show ?thesis by (simp add: EscapeValue_Cons like_literal)
  qed (simp add: EscapeValue_Cons like_escaped)
  then show ?case
    using Cons by (auto split: list.splits)
qed simp

text \<open>The escape character itself is not escaped: the pattern for a name with a backslash does
  not match that name, but the name without it.\<close>

lemma EscapeValue_backslash:
  "\<not> like (EscapeValue [CHR ''a'', CHR 0x5C, CHR ''b'']) [CHR ''a'', CHR 0x5C, CHR ''b'']"
  "like (EscapeValue [CHR ''a'', CHR 0x5C, CHR ''b'']) ''ab''"
  by (simp_all add: EscapeValue_Cons like_escaped like_literal lower_def)

text \<open>C23. A name is taken exactly when the last profile of another address has it up to the case of
  ASCII letters, for names without a backslash: the wildcards of the pattern operator are
  escaped.\<close>

theorem ExistsAnotherByName_iff:
  assumes "CHR 0x5C \<notin> set name"
  shows "ExistsAnotherByName address name db \<longleftrightarrow>
    (\<exists>ap \<in> set (PayloadTable db). \<exists>t \<in> set (Transactions db). \<exists>n a.
       type_in t [100, 101, 102] \<and> t_Hash t = p_TxHash ap \<and> t_Height t \<noteq> None \<and> t_Last t \<and>
       p_String2 ap = Some n \<and> map lower n = map lower name \<and> t_String1 t = Some a \<and> a \<noteq> address)"
  unfolding ExistsAnotherByName_def like_EscapeValue[OF assms]
  by (intro bex_cong refl) (auto split: option.splits)

definition named_db :: Database where
  "named_db =
     \<lparr>Transactions = [\<lparr>t_Type = ACCOUNT_USER, t_Hash = ''t1'', t_Time = 5, t_BlockHash = Some ''b1'', t_BlockNum = Some 1,
        t_Height = Some 1, t_Last = True, t_Id = Some 0, t_String1 = Some ''alice'', t_String2 = None,
        t_String3 = None, t_String4 = None, t_String5 = None, t_Int1 = None\<rparr>],
      PayloadTable = [\<lparr>p_TxHash = ''t1'', p_String1 = None, p_String2 = Some ''Nick_1'', p_String3 = None,
        p_String4 = None, p_String5 = None, p_String6 = None, p_String7 = None, p_Int1 = None\<rparr>],
      TxOutputs = [], Ratings = [], Balances = []\<rparr>"

lemma ExistsAnotherByName_iff_witness:
  "CHR 0x5C \<notin> set ''nick_1'' \<and> ExistsAnotherByName ''bob'' ''nick_1'' named_db \<and>
   \<not> ExistsAnotherByName ''bob'' ''nicka1'' named_db"
proof -
  have N: "lower (CHR ''N'') = CHR ''n''" "lower (CHR ''n'') = CHR ''n''" by code_simp+
  have "ExistsAnotherByName ''bob'' ''nick_1'' named_db"
    by (subst ExistsAnotherByName_iff) (simp_all add: named_db_def type_in_def N)
  moreover have "\<not> ExistsAnotherByName ''bob'' ''nicka1'' named_db"
    by (subst ExistsAnotherByName_iff) (simp_all add: named_db_def type_in_def lower_def)
  ultimately show ?thesis by simp
qed

end
