(* ===== verification/RatingsRepository.thy ===== *)
theory RatingsRepository
  imports Database
begin

text \<open>
  \<open>pocketdb/repositories/RatingsRepository.cpp\<close>: the reputation of accounts, the ratings of
  contents and comments and the likers of accounts. A rating row holds the accumulated value,
  one row per height at which it changed, with the flag \<open>Last\<close> on the newest; a liker row
  holds the identifier of one liker of an account and keeps its flag. An insertion that violates
  the primary key throws (\<open>None\<close>).

  \<open>RatingType\<close> is ordered by its number, as the maps of the block processing iterate it.
\<close>

section \<open>Order of the rating types\<close>

instantiation RatingType :: linorder
begin

definition less_eq_RatingType :: "RatingType \<Rightarrow> RatingType \<Rightarrow> bool" where
  "a \<le> b \<longleftrightarrow> ratingtype_code a \<le> ratingtype_code b"

definition less_RatingType :: "RatingType \<Rightarrow> RatingType \<Rightarrow> bool" where
  "a < b \<longleftrightarrow> ratingtype_code a < ratingtype_code b"

instance
  by standard (auto simp: less_eq_RatingType_def less_RatingType_def ratingtype_code_inj[symmetric])

end

section \<open>Ratings\<close>

record Rating =
  rt_Type :: RatingType
  rt_Height :: int
  rt_Id :: int
  rt_Value :: int

definition rating_key :: "RatingRow \<Rightarrow> RatingType \<times> int \<times> int \<times> int" where
  "rating_key r = (r_Type r, r_Height r, r_Id r, r_Value r)"

text \<open>\<open>INSERT OR FAIL\<close> of one row. SQLite adds in 64 bits; the values stay far below
  (shown in \<open>ChainRatings\<close>).\<close>

definition insert_rating_row :: "RatingRow \<Rightarrow> RatingRow list \<Rightarrow> RatingRow list option" where
  "insert_rating_row row rows = (if rating_key row \<in> rating_key ` set rows then None else Some (rows @ [row]))"

definition ExistsLiker :: "int \<Rightarrow> int \<Rightarrow> int \<Rightarrow> Database \<Rightarrow> bool" where
  "ExistsLiker addressId likerId height db \<longleftrightarrow>
     0 < count_where (\<lambda>r. r_Type r = RATING_ACCOUNT_LIKERS \<and> r_Id r = addressId \<and> r_Value r = likerId) (Ratings db)"

definition InsertRating :: "Rating \<Rightarrow> Database \<Rightarrow> Database option" where
  "InsertRating rating db = do {
     rows \<leftarrow> insert_rating_row
       \<lparr>r_Type = rt_Type rating, r_Last = True, r_Height = rt_Height rating, r_Id = rt_Id rating,
        r_Value = ifnull (select_first (\<lambda>r. r_Type r = rt_Type rating \<and> r_Last r \<and> r_Id r = rt_Id rating \<and>
            r_Height r < rt_Height rating) (\<lambda>r. Some (r_Value r)) (Ratings db)) 0 + rt_Value rating\<rparr>
       (Ratings db);
     Some (db\<lparr>Ratings := update_where (\<lambda>r. r_Type r = rt_Type rating \<and> r_Last r \<and> r_Id r = rt_Id rating \<and>
         r_Height r < rt_Height rating) (\<lambda>r. r\<lparr>r_Last := False\<rparr>) rows\<rparr>)
   }"

definition InsertLiker :: "Rating \<Rightarrow> Database \<Rightarrow> Database option" where
  "InsertLiker rating db =
     (if \<exists>r \<in> set (Ratings db). r_Type r = rt_Type rating \<and> r_Id r = rt_Id rating \<and> r_Value r = rt_Value rating
      then Some db
      else map_option (\<lambda>rows. db\<lparr>Ratings := rows\<rparr>)
        (insert_rating_row
          \<lparr>r_Type = rt_Type rating, r_Last = True, r_Height = rt_Height rating, r_Id = rt_Id rating,
           r_Value = rt_Value rating\<rparr> (Ratings db)))"

fun InsertRatings :: "Rating list \<Rightarrow> Database \<Rightarrow> Database option" where
  "InsertRatings [] db = Some db"
| "InsertRatings (rating # ratings) db = do {
     db \<leftarrow> (if rt_Type rating = RATING_ACCOUNT_LIKERS then InsertLiker rating db else InsertRating rating db);
     InsertRatings ratings db
   }"

end
