(* ===== verification/Reputation.thy ===== *)
theory Reputation
  imports ConsensusRepository RatingsRepository Consensus_Base
begin

text \<open>
  \<open>pocketdb/consensus/Reputation.h\<close> and \<open>Reputation.cpp\<close>: which accounts have full or pro
  status, and which scores change the reputation of the scored account. The five classes of
  the hierarchy are the values of \<open>ReputationVersion\<close>; a virtual method is one function that
  branches on the version where a class overrides it. An undefined limit is \<open>None\<close>.
\<close>

datatype ReputationVersion =
    Reputation_0
  | Reputation_151600
  | Reputation_1180000
  | Reputation_1324655
  | Reputation_1324655_2

definition ReputationConsensusFactory_m_rules :: "ReputationVersion ConsensusCheckpoint list" where
  "ReputationConsensusFactory_m_rules =
     [\<lparr>m_main_height = 0, m_test_height = -1, m_func = Reputation_0\<rparr>,
      \<lparr>m_main_height = 151600, m_test_height = -1, m_func = Reputation_151600\<rparr>,
      \<lparr>m_main_height = 1180000, m_test_height = 0, m_func = Reputation_1180000\<rparr>,
      \<lparr>m_main_height = 1324655, m_test_height = 65000, m_func = Reputation_1324655\<rparr>,
      \<lparr>m_main_height = 1324655, m_test_height = 75000, m_func = Reputation_1324655_2\<rparr>]"

section \<open>Account modes\<close>

definition GetAccountMode :: "NetworkId \<Rightarrow> int \<Rightarrow> ReputationVersion \<Rightarrow> int \<Rightarrow> int \<Rightarrow> AccountMode option" where
  "GetAccountMode net height v reputation balance = do {
     thr \<leftarrow> GetConsensusLimit net height ConsensusLimit_threshold_reputation;
     thb \<leftarrow> GetConsensusLimit net height ConsensusLimit_threshold_balance;
     if reputation \<ge> thr \<or> balance \<ge> thb then
       (case v of
          Reputation_0 \<Rightarrow> Some AccountMode_Full
        | Reputation_151600 \<Rightarrow> Some AccountMode_Full
        | Reputation_1180000 \<Rightarrow> Some AccountMode_Full
        | _ \<Rightarrow> do {
            pro \<leftarrow> GetConsensusLimit net height ConsensusLimit_threshold_balance_pro;
            Some (if balance \<ge> pro then AccountMode_Pro else AccountMode_Full)
          })
     else Some AccountMode_Trial
   }"

text \<open>The overload that reads the address from the database.\<close>

definition GetAccountMode_address ::
    "NetworkId \<Rightarrow> int \<Rightarrow> ReputationVersion \<Rightarrow> string \<Rightarrow> Database \<Rightarrow> (AccountMode \<times> int \<times> int) option" where
  "GetAccountMode_address net height v address db =
     (let reputation = GetUserReputation address db;
          balance = GetUserBalance address db
      in map_option (\<lambda>mode. (mode, reputation, balance)) (GetAccountMode net height v reputation balance))"

section \<open>Scores that change a reputation\<close>

definition GetMinLikers :: "NetworkId \<Rightarrow> int \<Rightarrow> ReputationVersion \<Rightarrow> int \<Rightarrow> Database \<Rightarrow> int option" where
  "GetMinLikers net height v addressId db =
     (if v = Reputation_0 \<or> v = Reputation_151600
      then GetConsensusLimit net height ConsensusLimit_threshold_likers_count
      else do {
        minLikersCount \<leftarrow> GetConsensusLimit net height ConsensusLimit_threshold_likers_count;
        depth \<leftarrow> GetConsensusLimit net height ConsensusLimit_threshold_low_likers_depth;
        if height - GetAccountRegistrationHeight addressId db > depth
        then GetConsensusLimit net height ConsensusLimit_threshold_low_likers_count
        else Some minLikersCount
      })"

text \<open>\<open>AllowModifyReputation\<close> of an address.\<close>

definition AllowModifyReputation_address ::
    "NetworkId \<Rightarrow> int \<Rightarrow> ReputationVersion \<Rightarrow> int \<Rightarrow> Database \<Rightarrow> bool option" where
  "AllowModifyReputation_address net height v addressId db = do {
     minUserReputation \<leftarrow> GetConsensusLimit net height ConsensusLimit_threshold_reputation_score;
     if GetUserReputation_id addressId db < minUserReputation then Some False
     else do {
       minLikersCount \<leftarrow> GetMinLikers net height v addressId db;
       if GetUserLikersCount addressId db < minLikersCount then Some False else Some True
     }
   }"

definition SelectAddressScoreContent :: "ReputationVersion \<Rightarrow> ScoreDataDto \<Rightarrow> bool \<Rightarrow> int \<times> string" where
  "SelectAddressScoreContent v scoreData lottery =
     (if v \<noteq> Reputation_0 \<or> lottery then (ScoreAddressId scoreData, ScoreAddressHash scoreData)
      else (ContentAddressId scoreData, ContentAddressHash scoreData))"

definition AllowModifyReputationOverPost ::
    "NetworkId \<Rightarrow> int \<Rightarrow> ReputationVersion \<Rightarrow> ScoreDataDto \<Rightarrow> bool \<Rightarrow> Database \<Rightarrow> bool option" where
  "AllowModifyReputationOverPost net height v scoreData lottery db = do {
     allowed \<leftarrow> AllowModifyReputation_address net height v (fst (SelectAddressScoreContent v scoreData lottery)) db;
     if \<not> allowed then Some False
     else do {
       max_scores_one_to_one \<leftarrow> GetConsensusLimit net height ConsensusLimit_scores_one_to_one;
       scores_one_to_one_depth \<leftarrow> GetConsensusLimit net height ConsensusLimit_scores_one_to_one_depth;
       let values = (if lottery then [4, 5] else [1, 2, 3, 4, 5]);
       Some (\<not> (GetScoreContentCount height scoreData values scores_one_to_one_depth db \<ge> max_scores_one_to_one))
     }
   }"

definition AllowModifyReputationOverComment ::
    "NetworkId \<Rightarrow> int \<Rightarrow> ReputationVersion \<Rightarrow> ScoreDataDto \<Rightarrow> bool \<Rightarrow> Database \<Rightarrow> bool option" where
  "AllowModifyReputationOverComment net height v scoreData lottery db = do {
     allowed \<leftarrow> AllowModifyReputation_address net height v (ScoreAddressId scoreData) db;
     if \<not> allowed then Some False
     else do {
       max_scores_one_to_one \<leftarrow> GetConsensusLimit net height ConsensusLimit_scores_one_to_one_over_comment;
       scores_one_to_one_depth \<leftarrow> GetConsensusLimit net height ConsensusLimit_scores_one_to_one_depth;
       let values = (if lottery then [1] else [-1, 1]);
       Some (\<not> (GetScoreCommentCount height scoreData values scores_one_to_one_depth db \<ge> max_scores_one_to_one))
     }
   }"

definition AllowModifyReputation ::
    "NetworkId \<Rightarrow> int \<Rightarrow> ReputationVersion \<Rightarrow> ScoreDataDto \<Rightarrow> bool \<Rightarrow> Database \<Rightarrow> bool option" where
  "AllowModifyReputation net height v scoreData lottery db =
     (if ScoreType scoreData = ACTION_SCORE_CONTENT
      then AllowModifyReputationOverPost net height v scoreData lottery db
      else if ScoreType scoreData = ACTION_SCORE_COMMENT
      then AllowModifyReputationOverComment net height v scoreData lottery db
      else Some False)"

definition AllowModifyOldPosts :: "NetworkId \<Rightarrow> int \<Rightarrow> int \<Rightarrow> int \<Rightarrow> TxType \<Rightarrow> bool option" where
  "AllowModifyOldPosts net height scoreTime contentTime contentType =
     (if contentType = CONTENT_POST \<or> contentType = CONTENT_VIDEO \<or> contentType = CONTENT_ARTICLE
      then map_option (\<lambda>depth. scoreTime - contentTime < depth)
        (GetConsensusLimit net height ConsensusLimit_scores_depth_modify_reputation)
      else Some True)"

section \<open>New likers\<close>

text \<open>A \<open>std::map\<close> is an association list with ascending keys; \<open>map_update\<close> is
  \<open>m[k] = f(m[k])\<close>, which inserts the default value first when the key is absent.\<close>

fun map_update :: "'v \<Rightarrow> 'k::linorder \<Rightarrow> ('v \<Rightarrow> 'v) \<Rightarrow> ('k \<times> 'v) list \<Rightarrow> ('k \<times> 'v) list" where
  "map_update d k f [] = [(k, f d)]"
| "map_update d k f ((k', v) # kvs) =
     (if k = k' then (k', f v) # kvs
      else if k < k' then (k, f d) # (k', v) # kvs
      else (k', v) # map_update d k f kvs)"

definition add_liker :: "ReputationVersion \<Rightarrow> int \<Rightarrow> int list \<Rightarrow> int list" where
  "add_liker v likerId likers = (if v = Reputation_1324655_2 then likers @ [likerId] else [likerId])"

definition PrepareAccountLikers ::
    "int \<Rightarrow> ReputationVersion \<Rightarrow> Database \<Rightarrow> (int \<times> int list) list \<Rightarrow> (int \<times> int list) list" where
  "PrepareAccountLikers height v db accountLikersSrc =
     fold (\<lambda>(account, likers). fold (\<lambda>likerId accountLikers.
         if \<not> ExistsLiker account likerId height db
         then map_update [] account (add_liker v likerId) accountLikers
         else accountLikers) likers) accountLikersSrc []"

section \<open>The version in force\<close>

interpretation reputation_rules: rule_versions ReputationConsensusFactory_m_rules
  by (rule rule_versionsI) (simp_all add: ReputationConsensusFactory_m_rules_def)

text \<open>C24. On every network the rules of a height are defined, and they are those of the last
  checkpoint of the list that is not above the height: the two checkpoints at 1324655 on the
  main network act as one, the second.\<close>

theorem Reputation_Instance:
  "Instance ReputationConsensusFactory_m_rules net height = Some (
     if net = NetworkTest then
       (if height < 65000 then Reputation_1180000
        else if height < 75000 then Reputation_1324655 else Reputation_1324655_2)
     else
       (if height < 151600 then Reputation_0 else if height < 1180000 then Reputation_151600
        else if height < 1324655 then Reputation_1180000 else Reputation_1324655_2))"
  unfolding reputation_rules.Instance_eq
  by (cases net) (simp_all add: ReputationConsensusFactory_m_rules_def le_max_iff_disj)

end
