(* ===== verification/CheckpointRepository.thy ===== *)
theory CheckpointRepository
  imports PocketTypes Consensus_Base
begin

text \<open>
  \<open>pocketdb/repositories/CheckpointRepository.cpp\<close>: the read-only database of exceptions. Its
  tables list transactions of the old chain that break a rule (with the result code the rule
  returns), blocks whose lottery differs and OP_RETURN hashes that do not match.
\<close>

record SocialRow =
  c_TxHash :: string
  c_TxType :: int
  c_Code :: int

record CheckpointDb =
  Social :: "SocialRow list"
  LotteryTable :: "(int \<times> string) list"
  OpReturn :: "(string \<times> string) list"

definition IsSocialCheckpoint :: "string \<Rightarrow> TxType \<Rightarrow> SocialConsensusResult \<Rightarrow> CheckpointDb \<Rightarrow> bool" where
  "IsSocialCheckpoint txHash txType code cdb \<longleftrightarrow>
     (\<exists>r \<in> set (Social cdb). c_TxHash r = txHash \<and> c_TxType r = txtype_code txType \<and> c_Code r = result_code code)"

definition IsLotteryCheckpoint :: "int \<Rightarrow> string \<Rightarrow> CheckpointDb \<Rightarrow> bool" where
  "IsLotteryCheckpoint height hash cdb \<longleftrightarrow> (height, hash) \<in> set (LotteryTable cdb)"

definition IsOpReturnCheckpoint :: "string \<Rightarrow> string \<Rightarrow> CheckpointDb \<Rightarrow> bool" where
  "IsOpReturnCheckpoint txHash hash cdb \<longleftrightarrow> (txHash, hash) \<in> set (OpReturn cdb)"

end
