(* ===== verification/Html.thy ===== *)
theory Html
  imports Strencodings
begin

text \<open>
  \<open>util/html.cpp\<close>: removing tags, URL encoding and decoding, ASCII lower case. Strings are
  byte strings; \<open>char\<close> is signed, so a byte from 128 is a negative number and \<open>sprintf\<close> with
  \<open>%X\<close> prints it as a 32-bit two's complement number.

  \<open>UrlDecode\<close> reads the variable \<open>ii\<close> before any \<open>sscanf\<close> has set it when the first escape of
  a text has no hexadecimal digit. Its initial content is the parameter \<open>ii\<close> of the model.
\<close>

section \<open>Tags\<close>

fun clear_tags :: "bool \<Rightarrow> string \<Rightarrow> string" where
  "clear_tags copy [] = []"
| "clear_tags copy (c # cs) =
     (if c = CHR ''<'' then clear_tags False cs
      else if c = CHR ''>'' then clear_tags True cs
      else if copy then c # clear_tags copy cs else clear_tags copy cs)"

definition ClearHtmlTags :: "string \<Rightarrow> string" where
  "ClearHtmlTags value' = clear_tags True value'"

section \<open>URL encoding\<close>

definition signed_char :: "char \<Rightarrow> int" where
  "signed_char c = (let n = (of_char c :: nat) in if n < 128 then int n else int n - 256)"

definition is_alnum :: "char \<Rightarrow> bool" where
  "is_alnum c \<longleftrightarrow> (let n = (of_char c :: nat) in (48 \<le> n \<and> n \<le> 57) \<or> (65 \<le> n \<and> n \<le> 90) \<or> (97 \<le> n \<and> n \<le> 122))"

definition upper_digit :: "nat \<Rightarrow> char" where
  "upper_digit d = char_of (if d < 10 then d + 48 else d + 55)"

fun print_hex :: "nat \<Rightarrow> string" where
  "print_hex n = (if n < 16 then [upper_digit n] else print_hex (n div 16) @ [upper_digit (n mod 16)])"

declare print_hex.simps [simp del]

definition url_encode_char :: "char \<Rightarrow> string" where
  "url_encode_char c =
     (if is_alnum c \<or> c \<in> {CHR ''-'', CHR ''_'', CHR ''.'', CHR ''~''} then [c]
      else (if signed_char c < 16 then ''%0'' else ''%'') @ print_hex (nat (signed_char c mod 2 ^ 32)))"

definition UrlEncode :: "string \<Rightarrow> string" where
  "UrlEncode value' = concat (map url_encode_char value')"

text \<open>\<open>sscanf\<close> with \<open>%x\<close> on at most two characters: white space is skipped, a sign is allowed, and
  without a digit nothing is stored. Two characters leave no room for digits after a prefix
  \<open>0x\<close>, which is no match.\<close>

definition is_space :: "char \<Rightarrow> bool" where
  "is_space c \<longleftrightarrow> of_char c \<in> {9, 10, 11, 12, 13, 32 :: nat}"

definition hex_value :: "char \<Rightarrow> nat option" where
  "hex_value c = (let n = of_char c in
     if 48 \<le> n \<and> n \<le> 57 then Some (n - 48)
     else if 65 \<le> n \<and> n \<le> 70 then Some (n - 55)
     else if 97 \<le> n \<and> n \<le> 102 then Some (n - 87)
     else None)"

fun scan_hex :: "string \<Rightarrow> int option" where
  "scan_hex [] = None"
| "scan_hex [c] = map_option int (hex_value c)"
| "scan_hex (c # d # _) =
     (if is_space c \<or> c = CHR ''+'' then map_option int (hex_value d)
      else if c = CHR ''-'' then map_option (\<lambda>v. - int v) (hex_value d)
      else if c = CHR ''0'' \<and> d \<in> {CHR ''x'', CHR ''X''} then None
      else case hex_value c of
          None \<Rightarrow> None
        | Some v \<Rightarrow> (case hex_value d of None \<Rightarrow> Some (int v) | Some w \<Rightarrow> Some (16 * int v + int w)))"

function url_decode :: "int \<Rightarrow> string \<Rightarrow> string" where
  "url_decode ii [] = []"
| "url_decode ii (c # cs) =
     (if c \<noteq> CHR ''%'' then (if c = CHR ''+'' then CHR '' '' else c) # url_decode ii cs
      else let ii = (case scan_hex (take 2 cs) of None \<Rightarrow> ii | Some v \<Rightarrow> v)
        in char_of (nat (ii mod 256)) # url_decode ii (drop 2 cs))"
  by pat_completeness auto
termination
  by (relation "measure (\<lambda>(_, cs). length cs)") auto

definition UrlDecode :: "int \<Rightarrow> string \<Rightarrow> string" where
  "UrlDecode ii value' = url_decode ii value'"

definition StringToLower :: "string \<Rightarrow> string" where
  "StringToLower value' =
     map (\<lambda>c. let n = of_char c :: nat in if 65 \<le> n \<and> n \<le> 90 then char_of (n XOR 32) else c) value'"

section \<open>Decoding inverts encoding on ASCII text\<close>

definition ascii :: "string \<Rightarrow> bool" where
  "ascii s \<longleftrightarrow> (\<forall>c \<in> set s. (of_char c :: nat) < 128)"

lemma hex_value_upper_digit: "d < 16 \<Longrightarrow> hex_value (upper_digit d) = Some d"
  by (auto simp: hex_value_def upper_digit_def Let_def)

lemma upper_digit_plain:
  "d < 16 \<Longrightarrow> \<not> is_space (upper_digit d) \<and> upper_digit d \<notin> {CHR ''+'', CHR ''-'', CHR ''x'', CHR ''X''}"
  by (auto simp: is_space_def upper_digit_def dest!: arg_cong[where f = "of_char :: char \<Rightarrow> nat"])

lemma scan_hex_upper: "a < 16 \<Longrightarrow> b < 16 \<Longrightarrow> scan_hex [upper_digit a, upper_digit b] = Some (16 * int a + int b)"
  using upper_digit_plain[of a] upper_digit_plain[of b]
  by (auto simp: hex_value_upper_digit)

lemma print_hex_one: "n < 16 \<Longrightarrow> print_hex n = [upper_digit n]"
  by (simp add: print_hex.simps)

lemma print_hex_two: "16 \<le> n \<Longrightarrow> n < 256 \<Longrightarrow> print_hex n = [upper_digit (n div 16), upper_digit (n mod 16)]"
  by (subst print_hex.simps) (simp add: print_hex_one)

lemma upper_digit_0: "upper_digit 0 = CHR ''0''"
  by code_simp

lemma url_encode_ascii:
  assumes "(of_char c :: nat) < 128"
  shows "url_encode_char c = [c] \<and> c \<noteq> CHR ''%'' \<and> c \<noteq> CHR ''+'' \<or>
    (\<exists>a b. a < 16 \<and> b < 16 \<and> 16 * a + b = of_char c \<and> url_encode_char c = [CHR ''%'', upper_digit a, upper_digit b])"
proof (cases "is_alnum c \<or> c \<in> {CHR ''-'', CHR ''_'', CHR ''.'', CHR ''~''}")
  case True
  then show ?thesis by (auto simp: url_encode_char_def is_alnum_def)
next
  case False
  define n where "n = (of_char c :: nat)"
  have n: "signed_char c = int n" "n < 128"
    using assms by (auto simp: signed_char_def n_def Let_def)
  have "url_encode_char c = [CHR ''%'', upper_digit (n div 16), upper_digit (n mod 16)]"
    using False n by (cases "n < 16") (simp_all add: url_encode_char_def print_hex_one print_hex_two upper_digit_0)
  moreover have "n div 16 < 16" "n mod 16 < 16" "16 * (n div 16) + n mod 16 = n" using n by auto
  ultimately show ?thesis unfolding n_def by blast
qed

lemma url_decode_encode: "ascii s \<Longrightarrow> url_decode ii (UrlEncode s) = s"
proof (induction s arbitrary: ii)
  case Nil
  then show ?case by (simp add: UrlEncode_def)
next
  case (Cons c s)
  then have c: "(of_char c :: nat) < 128" and s: "url_decode jj (UrlEncode s) = s" for jj
    by (auto simp: ascii_def)
  from url_encode_ascii[OF c] show ?case
  proof (elim disjE exE conjE)
    fix a b :: nat
    assume ab: "a < 16" "b < 16" "16 * a + b = of_char c" "url_encode_char c = [CHR ''%'', upper_digit a, upper_digit b]"
    have "url_decode ii (UrlEncode (c # s)) = char_of (nat ((16 * int a + int b) mod 256)) # s"
      using ab by (simp add: UrlEncode_def scan_hex_upper s[unfolded UrlEncode_def] del: scan_hex.simps)
    also have "nat ((16 * int a + int b) mod 256) = of_char c"
      using ab by (simp flip: ab(3))
    finally show ?thesis by simp
  qed (simp add: UrlEncode_def s[unfolded UrlEncode_def])
qed

text \<open>C26. Decoding an encoded text gives the text back, for every ASCII text and whatever the
  uninitialised variable of the decoder holds.\<close>

theorem UrlDecode_UrlEncode:
  assumes "ascii s"
  shows "UrlDecode ii (UrlEncode s) = s"
  using assms by (simp add: UrlDecode_def url_decode_encode)

lemma UrlDecode_UrlEncode_witness: "ascii ''a b%+'' \<and> UrlDecode 0 (UrlEncode ''a b%+'') = ''a b%+''"
  using UrlDecode_UrlEncode[of "''a b%+''" 0] by (simp add: ascii_def)

text \<open>A byte outside ASCII is encoded with eight digits after a zero, and does not come back.\<close>

lemma upper_digits: "upper_digit 3 = CHR ''3''" "upper_digit 12 = CHR ''C''" "upper_digit 15 = CHR ''F''"
  by code_simp+

lemma print_hex_C3: "print_hex 4294967235 = ''FFFFFFC3''"
  by (simp add: print_hex.simps[of 4294967235] print_hex.simps[of 268435452] print_hex.simps[of 16777215]
      print_hex.simps[of 1048575] print_hex.simps[of 65535] print_hex.simps[of 4095] print_hex_two print_hex_one upper_digits)

lemma byte_C3:
  "\<not> (is_alnum (char_of (195 :: nat)) \<or> char_of (195 :: nat) \<in> {CHR ''-'', CHR ''_'', CHR ''.'', CHR ''~''})"
  "signed_char (char_of (195 :: nat)) = - 61"
  by code_simp+

lemma UrlEncode_byte_C3: "UrlEncode [char_of (195 :: nat)] = ''%0FFFFFFC3''"
  unfolding UrlEncode_def by (simp add: url_encode_char_def byte_C3[simplified] print_hex_C3)

lemma UrlDecode_byte_C3: "UrlDecode ii ''%0FFFFFFC3'' = char_of (15 :: nat) # ''FFFFFC3''"
  by (simp add: UrlDecode_def hex_value_def)

lemma UrlEncode_byte_128: "UrlDecode ii (UrlEncode [char_of (195 :: nat)]) \<noteq> [char_of (195 :: nat)]"
  by (simp add: UrlEncode_byte_C3 UrlDecode_byte_C3)

text \<open>The length of a decoded text does not depend on the uninitialised variable: every escape
  takes up to three characters and gives one.\<close>

function decoded_length :: "string \<Rightarrow> nat" where
  "decoded_length [] = 0"
| "decoded_length (c # cs) = Suc (decoded_length (if c = CHR ''%'' then drop 2 cs else cs))"
  by pat_completeness auto
termination
  by (relation "measure length") auto

lemma UrlDecode_length: "length (UrlDecode ii s) = decoded_length s"
  unfolding UrlDecode_def by (induction ii s rule: url_decode.induct) (simp_all add: Let_def)

end
