(* ===== verification/SocialBase.thy ===== *)
theory SocialBase
  imports Reputation Dto CheckpointRepository TransactionHelper Html
begin

text \<open>
  \<open>pocketdb/consensus/Social.h\<close>: the base class of all rule sets for social transactions.

  A rule set answers \<open>Check\<close> (a transaction on its own) and \<open>Validate\<close> (against the chain and
  the block under construction, or the mempool when there is no block). An answer is a pair of
  a flag and a result code; \<open>None\<close> stands for the dereference of a null pointer, an exception
  or an undefined limit. The virtual methods of the template method \<open>Validate\<close> are its
  arguments.

  \<open>ConsensusEnv\<close> holds what the rules read from outside: the network, the two databases and the
  code that is not modelled, namely the text form of JSON values, the hash of a content, the
  splitting of a text at blanks, the comparison of an integer with a text in SQLite and the
  initial content of the variable in \<open>UrlDecode\<close>.
\<close>

section \<open>Answers\<close>

type_synonym ConsensusValidateResult = "bool \<times> SocialConsensusResult"

record ConsensusEnv =
  env_net :: NetworkId
  env_db :: Database
  env_checkpoints :: CheckpointDb
  env_read :: "string \<Rightarrow> UniValue"
  env_hash :: "string \<Rightarrow> string"
  env_split :: "string \<Rightarrow> string list"
  env_int_ge_text :: "int \<Rightarrow> string \<Rightarrow> bool"
  env_ii :: int

definition Success :: ConsensusValidateResult where
  "Success = (True, SocialConsensusResult_Success)"

text \<open>\<open>if (auto[ok, code] = first; !ok) return {false, code}; return rest;\<close>\<close>

definition and_then ::
    "ConsensusValidateResult option \<Rightarrow> ConsensusValidateResult option \<Rightarrow> ConsensusValidateResult option" where
  "and_then first rest = do { (ok, code) \<leftarrow> first; if ok then rest else Some (False, code) }"

text \<open>\<open>if (condition) return {false, code}; return rest;\<close>\<close>

definition reject_if ::
    "bool \<Rightarrow> SocialConsensusResult \<Rightarrow> ConsensusValidateResult option \<Rightarrow> ConsensusValidateResult option" where
  "reject_if condition code rest = (if condition then Some (False, code) else rest)"

definition limit :: "ConsensusEnv \<Rightarrow> int \<Rightarrow> ConsensusLimit \<Rightarrow> int option" where
  "limit env height type = GetConsensusLimit (env_net env) height type"

definition is_checkpoint :: "ConsensusEnv \<Rightarrow> Transaction \<Rightarrow> SocialConsensusResult \<Rightarrow> bool" where
  "is_checkpoint env ptx code = IsSocialCheckpoint (m_hash ptx) (m_type ptx) code (env_checkpoints env)"

definition IsEmpty :: "string option \<Rightarrow> bool" where
  "IsEmpty ptr \<longleftrightarrow> ptr = None \<or> ptr = Some []"

definition IsEmpty_int :: "int option \<Rightarrow> bool" where
  "IsEmpty_int ptr \<longleftrightarrow> ptr = None"

text \<open>A loop over the transactions of the block with a state and an early return.\<close>

fun for_block ::
    "('s \<Rightarrow> Transaction \<Rightarrow> ('s + ConsensusValidateResult) option) \<Rightarrow> 's \<Rightarrow> Transaction list \<Rightarrow>
     ('s + ConsensusValidateResult) option" where
  "for_block body s [] = Some (Inl s)"
| "for_block body s (blockTx # block) = do {
     r \<leftarrow> body s blockTx;
     (case r of Inl s' \<Rightarrow> for_block body s' block | Inr result \<Rightarrow> Some (Inr result))
   }"

definition after_loop ::
    "('s + ConsensusValidateResult) option \<Rightarrow> ('s \<Rightarrow> ConsensusValidateResult option) \<Rightarrow> ConsensusValidateResult option" where
  "after_loop loop rest = do { r \<leftarrow> loop; (case r of Inl s \<Rightarrow> rest s | Inr result \<Rightarrow> Some result) }"

abbreviation continue :: "'s \<Rightarrow> ('s + ConsensusValidateResult) option" where
  "continue s \<equiv> Some (Inl s)"

abbreviation return_code :: "SocialConsensusResult \<Rightarrow> ('s + ConsensusValidateResult) option" where
  "return_code code \<equiv> Some (Inr (False, code))"

section \<open>The base class\<close>

fun registered_in_block :: "string \<Rightarrow> Transaction list \<Rightarrow> bool option" where
  "registered_in_block address [] = Some False"
| "registered_in_block address (blockTx # block) =
     (if \<not> IsIn (m_type blockTx) [ACCOUNT_USER] then registered_in_block address block
      else do {
        s1 \<leftarrow> m_string1 blockTx;
        if s1 = address then Some True else registered_in_block address block
      })"

fun addresses_not_in_block :: "string list \<Rightarrow> Transaction list \<Rightarrow> string list option" where
  "addresses_not_in_block [] block = Some []"
| "addresses_not_in_block (address # addresses) block = do {
     inBlock \<leftarrow> registered_in_block address block;
     rest \<leftarrow> addresses_not_in_block addresses block;
     Some (if inBlock then rest else address # rest)
   }"

definition check_registrations :: "ConsensusEnv \<Rightarrow> string list \<Rightarrow> Transaction list option \<Rightarrow> bool option" where
  "check_registrations env addresses block =
     (if addresses = [] then Some True
      else do {
        addressesForCheck \<leftarrow>
          (case block of Some txs \<Rightarrow> addresses_not_in_block addresses txs | None \<Rightarrow> Some addresses);
        Some (addressesForCheck = [] \<or> ExistsUserRegistrations addressesForCheck False (env_db env))
      })"

definition ValidateLimits ::
    "(Transaction list \<Rightarrow> ConsensusValidateResult option) \<Rightarrow> ConsensusValidateResult option \<Rightarrow>
     Transaction list option \<Rightarrow> ConsensusValidateResult option" where
  "ValidateLimits ValidateBlock ValidateMempool block =
     (case block of Some txs \<Rightarrow> ValidateBlock txs | None \<Rightarrow> ValidateMempool)"

definition SocialConsensus_Validate ::
    "ConsensusEnv \<Rightarrow> string list option \<Rightarrow> (Transaction list \<Rightarrow> ConsensusValidateResult option) \<Rightarrow>
     ConsensusValidateResult option \<Rightarrow> Transaction list option \<Rightarrow> ConsensusValidateResult option" where
  "SocialConsensus_Validate env GetAddressesForCheckRegistration ValidateBlock ValidateMempool block = do {
     addresses \<leftarrow> GetAddressesForCheckRegistration;
     registered \<leftarrow> check_registrations env addresses block;
     reject_if (\<not> registered) SocialConsensusResult_NotRegistered
       (ValidateLimits ValidateBlock ValidateMempool block)
   }"

definition CheckOpReturnHash :: "ConsensusEnv \<Rightarrow> CTransaction \<Rightarrow> Transaction \<Rightarrow> ConsensusValidateResult option" where
  "CheckOpReturnHash env tx ptx = do {
     ptxORHash \<leftarrow> BuildHash (env_hash env) (env_read env) ptx;
     txORHash \<leftarrow> ExtractOpReturnHash (env_split env) tx;
     reject_if (ptxORHash \<noteq> txORHash \<and> \<not> IsOpReturnCheckpoint (m_hash ptx) ptxORHash (env_checkpoints env))
       SocialConsensusResult_FailedOpReturn (Some Success)
   }"

definition SocialConsensus_Check ::
    "ConsensusValidateResult option \<Rightarrow> ConsensusValidateResult option" where
  "SocialConsensus_Check checkOpReturnHash = and_then checkOpReturnHash (Some Success)"

section \<open>The answers a rule set can give\<close>

text \<open>A flag and a code belong together: the code of an accepted transaction is \<open>Success\<close>, that
  of a rejected one is not.\<close>

definition answer_ok :: "ConsensusValidateResult option \<Rightarrow> bool" where
  "answer_ok v \<longleftrightarrow> (\<forall>ok code. v = Some (ok, code) \<longrightarrow> (ok \<longleftrightarrow> code = SocialConsensusResult_Success))"

named_theorems answer_intros

lemma answer_ok_None [simp]: "answer_ok None"
  by (simp add: answer_ok_def)

lemma answer_ok_Success [simp]: "answer_ok (Some Success)"
  by (simp add: answer_ok_def Success_def)

lemma answer_ok_reject [simp]: "answer_ok (Some (False, code)) \<longleftrightarrow> code \<noteq> SocialConsensusResult_Success"
  by (auto simp: answer_ok_def)

lemma answer_ok_reject_if [answer_intros]:
  "code \<noteq> SocialConsensusResult_Success \<Longrightarrow> answer_ok rest \<Longrightarrow> answer_ok (reject_if condition code rest)"
  by (simp add: reject_if_def)

lemma answer_ok_and_then [answer_intros]: "answer_ok first \<Longrightarrow> answer_ok rest \<Longrightarrow> answer_ok (and_then first rest)"
  by (auto simp: and_then_def answer_ok_def Option.bind_eq_Some_conv split: if_splits)

lemma answer_ok_bind [answer_intros]: "(\<And>x. answer_ok (f x)) \<Longrightarrow> answer_ok (v \<bind> f)"
  by (cases v) auto

lemma answer_ok_if [answer_intros]: "answer_ok a \<Longrightarrow> answer_ok b \<Longrightarrow> answer_ok (if c then a else b)"
  by simp

lemma answer_ok_case_option [answer_intros]:
  "answer_ok a \<Longrightarrow> (\<And>x. answer_ok (f x)) \<Longrightarrow> answer_ok (case v of None \<Rightarrow> a | Some x \<Rightarrow> f x)"
  by (cases v) auto

lemma answer_ok_Let [answer_intros]: "(\<And>x. answer_ok (f x)) \<Longrightarrow> answer_ok (Let v f)"
  by simp

definition loop_ok :: "('s + ConsensusValidateResult) option \<Rightarrow> bool" where
  "loop_ok loop \<longleftrightarrow> (\<forall>result. loop = Some (Inr result) \<longrightarrow> answer_ok (Some result))"

lemma loop_ok_simps [simp]:
  "loop_ok None" "loop_ok (continue s)" "loop_ok (Some (Inr result)) \<longleftrightarrow> answer_ok (Some result)"
  by (simp_all add: loop_ok_def)

lemma loop_ok_bind [answer_intros]: "(\<And>x. loop_ok (f x)) \<Longrightarrow> loop_ok (v \<bind> f)"
  by (cases v) auto

lemma loop_ok_if [answer_intros]: "loop_ok a \<Longrightarrow> loop_ok b \<Longrightarrow> loop_ok (if c then a else b)"
  by simp

lemma loop_ok_for_block [answer_intros]: "(\<And>s t. loop_ok (body s t)) \<Longrightarrow> loop_ok (for_block body s block)"
proof (induction block arbitrary: s)
  case (Cons blockTx block)
  then show ?case by (cases "body s blockTx") (auto simp: loop_ok_def split: sum.splits)
qed simp

lemma answer_ok_after_loop [answer_intros]:
  "loop_ok loop \<Longrightarrow> (\<And>s. answer_ok (rest s)) \<Longrightarrow> answer_ok (after_loop loop rest)"
  by (cases loop) (auto simp: after_loop_def loop_ok_def split: sum.splits)

lemma answer_ok_Validate [answer_intros]:
  "(\<And>txs. answer_ok (vb txs)) \<Longrightarrow> answer_ok vm \<Longrightarrow> answer_ok (SocialConsensus_Validate env addresses vb vm block)"
  unfolding SocialConsensus_Validate_def ValidateLimits_def
  by (intro answer_intros) (auto split: option.split)

lemma answer_ok_CheckOpReturnHash [answer_intros]: "answer_ok (CheckOpReturnHash env tx ptx)"
  unfolding CheckOpReturnHash_def by (intro answer_intros) simp_all

lemma answer_ok_Check [answer_intros]: "answer_ok v \<Longrightarrow> answer_ok (SocialConsensus_Check v)"
  unfolding SocialConsensus_Check_def by (intro answer_intros) simp_all

section \<open>Accepted transactions\<close>

definition accepted :: "ConsensusValidateResult option \<Rightarrow> bool" where
  "accepted v \<longleftrightarrow> (\<exists>code. v = Some (True, code))"

lemma accepted_simps [simp]:
  "accepted (Some Success)" "\<not> accepted None" "accepted (Some (ok, code)) \<longleftrightarrow> ok"
  by (simp_all add: accepted_def Success_def)

lemma accepted_code [code]: "accepted v = (case v of None \<Rightarrow> False | Some (ok, code) \<Rightarrow> ok)"
  by (cases v) auto

lemma accepted_and_then [simp]: "accepted (and_then first rest) \<longleftrightarrow> accepted first \<and> accepted rest"
  by (cases first) (auto simp: and_then_def accepted_def split: if_splits)

lemma accepted_reject_if [simp]: "accepted (reject_if condition code rest) \<longleftrightarrow> \<not> condition \<and> accepted rest"
  by (simp add: reject_if_def)

lemma accepted_bind: "accepted (v \<bind> f) \<longleftrightarrow> (\<exists>x. v = Some x \<and> accepted (f x))"
  by (cases v) auto

lemma accepted_after_loop: "accepted (after_loop loop rest) \<longleftrightarrow>
    (\<exists>s. loop = Some (Inl s) \<and> accepted (rest s)) \<or> (\<exists>code. loop = Some (Inr (True, code)))"
  by (cases loop) (auto simp: after_loop_def accepted_def split: sum.splits)

text \<open>What an accepted transaction has gone through in the base class: every address it needs has
  a profile in the chain or in the block, and the limits of the rule set hold.\<close>

lemma accepted_Validate:
  assumes "accepted (SocialConsensus_Validate env addresses vb vm block)"
  shows "\<exists>as. addresses = Some as \<and> check_registrations env as block = Some True \<and>
    accepted (ValidateLimits vb vm block)"
  using assms by (cases addresses) (auto simp: SocialConsensus_Validate_def accepted_bind)

end
