(* ===== verification/SocialAccounts.thy ===== *)
theory SocialAccounts
  imports SocialBase
begin

text \<open>
  The rules for accounts: \<open>pocketdb/consensus/social/AccountSetting.hpp\<close> and \<open>User.hpp\<close>. A class
  hierarchy is a datatype of versions; a method that a derived class overrides branches on it.
\<close>

definition size_of :: "string option \<Rightarrow> int" where
  "size_of ptr = (case ptr of None \<Rightarrow> 0 | Some s \<Rightarrow> int (length s))"

section \<open>Account settings\<close>

datatype AccountSettingVersion = AccountSetting_0

definition AccountSettingConsensusFactory_m_rules :: "AccountSettingVersion ConsensusCheckpoint list" where
  "AccountSettingConsensusFactory_m_rules = [\<lparr>m_main_height = 0, m_test_height = 0, m_func = AccountSetting_0\<rparr>]"

definition AccountSetting_ValidateLimit :: "ConsensusEnv \<Rightarrow> int \<Rightarrow> int \<Rightarrow> ConsensusValidateResult option" where
  "AccountSetting_ValidateLimit env height count = do {
     daily \<leftarrow> limit env height ConsensusLimit_account_settings_daily_count;
     reject_if (count \<ge> daily) SocialConsensusResult_AccountSettingsLimit (Some Success)
   }"

definition AccountSetting_GetChainCount :: "ConsensusEnv \<Rightarrow> int \<Rightarrow> Transaction \<Rightarrow> int option" where
  "AccountSetting_GetChainCount env height ptx = do {
     address \<leftarrow> m_string1 ptx;
     depth \<leftarrow> limit env height ConsensusLimit_depth;
     Some (CountChainAccountSetting (env_int_ge_text env) address (height - depth) (env_db env))
   }"

definition AccountSetting_ValidateBlock ::
    "ConsensusEnv \<Rightarrow> int \<Rightarrow> Transaction \<Rightarrow> Transaction list \<Rightarrow> ConsensusValidateResult option" where
  "AccountSetting_ValidateBlock env height ptx block =
     after_loop
       (for_block (\<lambda>_ blockTx.
          if \<not> IsIn (m_type blockTx) [ACCOUNT_SETTING] then continue ()
          else if m_hash blockTx = m_hash ptx then continue ()
          else do {
            address \<leftarrow> m_string1 ptx;
            blockAddress \<leftarrow> m_string1 blockTx;
            if address = blockAddress then return_code SocialConsensusResult_AccountSettingsDouble else continue ()
          }) () block)
       (\<lambda>_. do {
          count \<leftarrow> AccountSetting_GetChainCount env height ptx;
          AccountSetting_ValidateLimit env height count
        })"

definition AccountSetting_ValidateMempool ::
    "ConsensusEnv \<Rightarrow> int \<Rightarrow> Transaction \<Rightarrow> ConsensusValidateResult option" where
  "AccountSetting_ValidateMempool env height ptx = do {
     address \<leftarrow> m_string1 ptx;
     reject_if (CountMempoolAccountSetting address (env_db env) > 0) SocialConsensusResult_AccountSettingsDouble
       (do {
          count \<leftarrow> AccountSetting_GetChainCount env height ptx;
          AccountSetting_ValidateLimit env height count
        })
   }"

definition AccountSetting_ValidatePayloadSize ::
    "ConsensusEnv \<Rightarrow> int \<Rightarrow> Transaction \<Rightarrow> ConsensusValidateResult option" where
  "AccountSetting_ValidatePayloadSize env height ptx = do {
     data \<leftarrow> payload pl_String1 ptx;
     maxSize \<leftarrow> limit env height ConsensusLimit_max_account_setting_size;
     reject_if (int (length data) > maxSize) SocialConsensusResult_ContentSizeLimit (Some Success)
   }"

definition AccountSetting_Validate ::
    "ConsensusEnv \<Rightarrow> int \<Rightarrow> Transaction \<Rightarrow> Transaction list option \<Rightarrow> ConsensusValidateResult option" where
  "AccountSetting_Validate env height ptx block =
     and_then
       (SocialConsensus_Validate env (do { address \<leftarrow> m_string1 ptx; Some [address] })
          (AccountSetting_ValidateBlock env height ptx) (AccountSetting_ValidateMempool env height ptx) block)
       (and_then (AccountSetting_ValidatePayloadSize env height ptx) (Some Success))"

definition AccountSetting_Check ::
    "ConsensusEnv \<Rightarrow> CTransaction \<Rightarrow> Transaction \<Rightarrow> ConsensusValidateResult option" where
  "AccountSetting_Check env tx ptx =
     and_then (SocialConsensus_Check (CheckOpReturnHash env tx ptx))
       (reject_if (IsEmpty (m_string1 ptx)) SocialConsensusResult_Failed
       (reject_if (\<not> HasPayload ptx) SocialConsensusResult_Failed
       (reject_if (IsEmpty (payload pl_String1 ptx)) SocialConsensusResult_Failed (Some Success))))"

section \<open>User profiles\<close>

datatype UserVersion = User_0 | User_1180000 | User_1381841

definition UserConsensusFactory_m_rules :: "UserVersion ConsensusCheckpoint list" where
  "UserConsensusFactory_m_rules =
     [\<lparr>m_main_height = 0, m_test_height = -1, m_func = User_0\<rparr>,
      \<lparr>m_main_height = 1180000, m_test_height = 0, m_func = User_1180000\<rparr>,
      \<lparr>m_main_height = 1381841, m_test_height = 162000, m_func = User_1381841\<rparr>]"

definition User_GetChainCount :: "ConsensusEnv \<Rightarrow> int \<Rightarrow> UserVersion \<Rightarrow> Transaction \<Rightarrow> int option" where
  "User_GetChainCount env height v ptx =
     (if v = User_1381841 then do {
        address \<leftarrow> m_string1 ptx;
        depth \<leftarrow> limit env height ConsensusLimit_depth;
        Some (CountChainAccount (m_type ptx) address (height - depth) (env_db env))
      } else Some 0)"

definition User_daily_limit :: "ConsensusEnv \<Rightarrow> int \<Rightarrow> UserVersion \<Rightarrow> Transaction \<Rightarrow> ConsensusValidateResult option" where
  "User_daily_limit env height v ptx = do {
     count \<leftarrow> User_GetChainCount env height v ptx;
     daily \<leftarrow> limit env height ConsensusLimit_edit_user_daily_count;
     reject_if (count > daily) SocialConsensusResult_ChangeInfoLimit (Some Success)
   }"

definition User_ValidateBlock ::
    "ConsensusEnv \<Rightarrow> int \<Rightarrow> UserVersion \<Rightarrow> Transaction \<Rightarrow> Transaction list \<Rightarrow> ConsensusValidateResult option" where
  "User_ValidateBlock env height v ptx block =
     after_loop
       (for_block (\<lambda>_ blockTx.
          if \<not> IsIn (m_type blockTx) [ACCOUNT_USER] then continue ()
          else if m_hash blockTx = m_hash ptx then continue ()
          else do {
            address \<leftarrow> m_string1 ptx;
            blockAddress \<leftarrow> m_string1 blockTx;
            if address = blockAddress \<and> \<not> is_checkpoint env ptx SocialConsensusResult_ChangeInfoDoubleInBlock
            then return_code SocialConsensusResult_ChangeInfoDoubleInBlock else continue ()
          }) () block)
       (\<lambda>_. User_daily_limit env height v ptx)"

definition User_ValidateMempool ::
    "ConsensusEnv \<Rightarrow> int \<Rightarrow> UserVersion \<Rightarrow> Transaction \<Rightarrow> ConsensusValidateResult option" where
  "User_ValidateMempool env height v ptx = do {
     address \<leftarrow> m_string1 ptx;
     reject_if (CountMempoolUser address (env_db env) > 0) SocialConsensusResult_ChangeInfoDoubleInMempool
       (User_daily_limit env height v ptx)
   }"

definition User_ValidateEditLimit ::
    "ConsensusEnv \<Rightarrow> int \<Rightarrow> UserVersion \<Rightarrow> Transaction \<Rightarrow> ConsensusValidateResult option" where
  "User_ValidateEditLimit env height v ptx =
     (case v of
        User_0 \<Rightarrow> do {
          address \<leftarrow> m_string1 ptx;
          prev \<leftarrow> GetLastAccount address (env_db env);
          (case prev of
             None \<Rightarrow> Some Success
           | Some prevTx \<Rightarrow> do {
               depth \<leftarrow> limit env height ConsensusLimit_edit_user_depth;
               reject_if (m_time ptx - m_time prevTx \<le> depth) SocialConsensusResult_ChangeInfoLimit (Some Success)
             })
        }
      | User_1180000 \<Rightarrow> do {
          address \<leftarrow> m_string1 ptx;
          (case GetLastAccountHeight address (env_db env) of
             None \<Rightarrow> Some Success
           | Some prevTxHeight \<Rightarrow> do {
               depth \<leftarrow> limit env height ConsensusLimit_edit_user_depth;
               reject_if (height - prevTxHeight \<le> depth) SocialConsensusResult_ChangeInfoLimit (Some Success)
             })
        }
      | User_1381841 \<Rightarrow> Some Success)"

definition User_ValidateEdit ::
    "ConsensusEnv \<Rightarrow> int \<Rightarrow> UserVersion \<Rightarrow> Transaction \<Rightarrow> ConsensusValidateResult option" where
  "User_ValidateEdit env height v ptx = do {
     address \<leftarrow> m_string1 ptx;
     if GetLastAccountHeight address (env_db env) = None then Some Success
     else and_then (User_ValidateEditLimit env height v ptx) (Some Success)
   }"

definition User_ValidatePayloadSize ::
    "ConsensusEnv \<Rightarrow> int \<Rightarrow> Transaction \<Rightarrow> ConsensusValidateResult option" where
  "User_ValidatePayloadSize env height ptx = do {
     let dataSize = size_of (payload pl_String2 ptx) + size_of (payload pl_String5 ptx) +
       size_of (payload pl_String1 ptx) + size_of (payload pl_String4 ptx) + size_of (payload pl_String3 ptx) +
       size_of (payload pl_String7 ptx) + size_of (m_string2 ptx) + size_of (payload pl_String6 ptx);
     maxSize \<leftarrow> limit env height ConsensusLimit_max_user_size;
     reject_if (dataSize > maxSize) SocialConsensusResult_ContentSizeLimit (Some Success)
   }"

definition User_Validate ::
    "ConsensusEnv \<Rightarrow> int \<Rightarrow> UserVersion \<Rightarrow> Transaction \<Rightarrow> Transaction list option \<Rightarrow> ConsensusValidateResult option" where
  "User_Validate env height v ptx block =
     and_then
       (SocialConsensus_Validate env (Some [])
          (User_ValidateBlock env height v ptx) (User_ValidateMempool env height v ptx) block)
       (do {
          address \<leftarrow> m_string1 ptx;
          name \<leftarrow> payload pl_String2 ptx;
          reject_if (ExistsAnotherByName address name (env_db env) \<and>
              \<not> is_checkpoint env ptx SocialConsensusResult_NicknameDouble)
            SocialConsensusResult_NicknameDouble
            (and_then (User_ValidatePayloadSize env height ptx) (User_ValidateEdit env height v ptx))
        })"

text \<open>The check of the OP_RETURN hash of a profile logs a mismatch and accepts.\<close>

definition User_CheckOpReturnHash :: "ConsensusEnv \<Rightarrow> CTransaction \<Rightarrow> Transaction \<Rightarrow> ConsensusValidateResult option" where
  "User_CheckOpReturnHash env tx ptx = do { txORHash \<leftarrow> ExtractOpReturnHash (env_split env) tx; Some Success }"

definition starts_with :: "string \<Rightarrow> string \<Rightarrow> bool" where
  "starts_with s p \<longleftrightarrow> take (length p) s = p"

definition ends_with :: "string \<Rightarrow> string \<Rightarrow> bool" where
  "ends_with s p \<longleftrightarrow> length p \<le> length s \<and> drop (length s - length p) s = p"

definition User_Check :: "ConsensusEnv \<Rightarrow> CTransaction \<Rightarrow> Transaction \<Rightarrow> ConsensusValidateResult option" where
  "User_Check env tx ptx =
     and_then (SocialConsensus_Check (User_CheckOpReturnHash env tx ptx))
       (reject_if (IsEmpty (m_string1 ptx)) SocialConsensusResult_Failed
       (reject_if (\<not> HasPayload ptx) SocialConsensusResult_Failed
       (reject_if (\<not> IsEmpty (m_string2 ptx) \<and> m_string1 ptx = m_string2 ptx) SocialConsensusResult_ReferrerSelf
       (do {
          name \<leftarrow> payload pl_String2 ptx;
          reject_if ((ends_with name ''%20'' \<or> starts_with name ''%20'') \<and> \<not> is_checkpoint env ptx SocialConsensusResult_Failed)
            SocialConsensusResult_Failed (Some Success)
        }))))"

section \<open>Versions and answers\<close>

interpretation account_setting_rules: rule_versions AccountSettingConsensusFactory_m_rules
  by (rule rule_versionsI) (simp_all add: AccountSettingConsensusFactory_m_rules_def)

interpretation user_rules: rule_versions UserConsensusFactory_m_rules
  by (rule rule_versionsI) (simp_all add: UserConsensusFactory_m_rules_def)

lemma AccountSetting_Validate_answer [answer_intros]: "answer_ok (AccountSetting_Validate env height ptx block)"
  unfolding AccountSetting_Validate_def AccountSetting_ValidateBlock_def AccountSetting_ValidateMempool_def
    AccountSetting_ValidateLimit_def AccountSetting_ValidatePayloadSize_def
  by (intro answer_intros; simp)

lemma AccountSetting_Check_answer [answer_intros]: "answer_ok (AccountSetting_Check env tx ptx)"
  unfolding AccountSetting_Check_def by (intro answer_intros; simp)

lemma User_ValidateEditLimit_answer [answer_intros]: "answer_ok (User_ValidateEditLimit env height v ptx)"
  by (cases v; simp add: User_ValidateEditLimit_def; intro answer_intros; simp)

lemma User_Validate_answer [answer_intros]: "answer_ok (User_Validate env height v ptx block)"
  unfolding User_Validate_def User_ValidateBlock_def User_ValidateMempool_def User_daily_limit_def
    User_ValidatePayloadSize_def User_ValidateEdit_def
  by (intro answer_intros; simp)

lemma User_Check_answer [answer_intros]: "answer_ok (User_Check env tx ptx)"
  unfolding User_Check_def User_CheckOpReturnHash_def by (intro answer_intros; simp)

end
