(* ===== verification/SocialContents.thy ===== *)
theory SocialContents
  imports SocialAccounts
begin

text \<open>
  The rules for contents: \<open>pocketdb/consensus/social/Post.hpp\<close>, \<open>Video.hpp\<close>, \<open>Article.hpp\<close>,
  \<open>ContentDelete.hpp\<close> and \<open>BoostContent.hpp\<close>. The address of a content is \<open>m_string1\<close>, its root
  transaction \<open>m_string2\<close> and the content it relays \<open>m_string3\<close>.
\<close>

section \<open>What the rules share\<close>

definition IsEdit :: "Transaction \<Rightarrow> bool option" where
  "IsEdit ptx = do { root \<leftarrow> m_string2 ptx; Some (root \<noteq> m_hash ptx) }"

text \<open>The mode of an account under the reputation rules of the height.\<close>

definition account_mode :: "ConsensusEnv \<Rightarrow> int \<Rightarrow> string \<Rightarrow> (AccountMode \<times> int \<times> int) option" where
  "account_mode env height address = do {
     v \<leftarrow> Instance ReputationConsensusFactory_m_rules (env_net env) height;
     GetAccountMode_address (env_net env) height v address (env_db env)
   }"

definition mode_limit ::
    "ConsensusEnv \<Rightarrow> int \<Rightarrow> ConsensusLimit \<Rightarrow> ConsensusLimit \<Rightarrow> AccountMode \<Rightarrow> int option" where
  "mode_limit env height full trial mode =
     (if mode_code mode \<ge> mode_code AccountMode_Full then limit env height full else limit env height trial)"

fun strings_size :: "UniValue list \<Rightarrow> int option" where
  "strings_size [] = Some 0"
| "strings_size (v # vs) = do { s \<leftarrow> get_str v; rest \<leftarrow> strings_size vs; Some (int (length s) + rest) }"

definition list_size :: "(string \<Rightarrow> UniValue) \<Rightarrow> string option \<Rightarrow> int option" where
  "list_size rd field = (if IsEmpty field then Some 0 else strings_size (json_elements (rd (the field))))"

text \<open>The size all three classes compute before they compare it with their limit.\<close>

definition content_size :: "(string \<Rightarrow> UniValue) \<Rightarrow> Transaction \<Rightarrow> int option" where
  "content_size rd ptx = do {
     let dataSize = size_of (payload pl_String7 ptx) + size_of (payload pl_String2 ptx) +
       size_of (payload pl_String3 ptx) + size_of (m_string3 ptx) + size_of (payload pl_String6 ptx) +
       size_of (payload pl_String1 ptx);
     let dataSize = dataSize + (if m_string2 ptx \<noteq> None \<and> m_string2 ptx \<noteq> Some (m_hash ptx) then size_of (m_string2 ptx) else 0);
     tags \<leftarrow> list_size rd (payload pl_String4 ptx);
     images \<leftarrow> list_size rd (payload pl_String5 ptx);
     Some (dataSize + tags + images)
   }"

section \<open>Posts\<close>

datatype PostVersion = Post_0 | Post_1124000 | Post_1180000

definition PostConsensusFactory_m_rules :: "PostVersion ConsensusCheckpoint list" where
  "PostConsensusFactory_m_rules =
     [\<lparr>m_main_height = 0, m_test_height = -1, m_func = Post_0\<rparr>,
      \<lparr>m_main_height = 1124000, m_test_height = -1, m_func = Post_1124000\<rparr>,
      \<lparr>m_main_height = 1180000, m_test_height = -1, m_func = Post_1180000\<rparr>]"

definition Post_GetLimit :: "ConsensusEnv \<Rightarrow> int \<Rightarrow> AccountMode \<Rightarrow> int option" where
  "Post_GetLimit env height mode = mode_limit env height ConsensusLimit_full_post ConsensusLimit_trial_post mode"

definition Post_ValidateLimit :: "ConsensusEnv \<Rightarrow> int \<Rightarrow> Transaction \<Rightarrow> int \<Rightarrow> ConsensusValidateResult option" where
  "Post_ValidateLimit env height ptx count = do {
     address \<leftarrow> m_string1 ptx;
     (mode, reputation, balance) \<leftarrow> account_mode env height address;
     maxCount \<leftarrow> Post_GetLimit env height mode;
     reject_if (count \<ge> maxCount \<and> \<not> is_checkpoint env ptx SocialConsensusResult_ContentLimit)
       SocialConsensusResult_ContentLimit (Some Success)
   }"

definition Post_AllowBlockLimitTime :: "PostVersion \<Rightarrow> Transaction \<Rightarrow> Transaction \<Rightarrow> bool" where
  "Post_AllowBlockLimitTime v ptx blockPtx = (if v = Post_0 then m_time blockPtx \<le> m_time ptx else True)"

definition Post_GetChainCount :: "ConsensusEnv \<Rightarrow> int \<Rightarrow> PostVersion \<Rightarrow> Transaction \<Rightarrow> int option" where
  "Post_GetChainCount env height v ptx = do {
     address \<leftarrow> m_string1 ptx;
     depth \<leftarrow> limit env height ConsensusLimit_depth;
     Some (if v = Post_1180000 then CountChainPostHeight address (height - depth) (env_db env)
           else CountChainPostTime address (m_time ptx - depth) (env_db env))
   }"

definition Post_AllowEditWindow ::
    "ConsensusEnv \<Rightarrow> int \<Rightarrow> PostVersion \<Rightarrow> Transaction \<Rightarrow> Transaction \<Rightarrow> bool option" where
  "Post_AllowEditWindow env height v ptx originalTx =
     (if v = Post_1180000 then
        (case GetTransactionHeight (m_hash originalTx) (env_db env) of
           None \<Rightarrow> Some False
         | Some originalTxHeight \<Rightarrow> do {
             depth \<leftarrow> limit env height ConsensusLimit_edit_post_depth;
             Some (height - originalTxHeight \<le> depth)
           })
      else do {
        depth \<leftarrow> limit env height ConsensusLimit_edit_post_depth;
        Some (m_time ptx - m_time originalTx \<le> depth)
      })"

definition Post_ValidateEditOneLimit :: "ConsensusEnv \<Rightarrow> int \<Rightarrow> Transaction \<Rightarrow> ConsensusValidateResult option" where
  "Post_ValidateEditOneLimit env height ptx = do {
     address \<leftarrow> m_string1 ptx;
     root \<leftarrow> m_string2 ptx;
     maxCount \<leftarrow> limit env height ConsensusLimit_post_edit_count;
     reject_if (CountChainPostEdit address root (env_db env) \<ge> maxCount) SocialConsensusResult_ContentEditLimit (Some Success)
   }"

definition Post_ValidateEditBlock ::
    "ConsensusEnv \<Rightarrow> int \<Rightarrow> Transaction \<Rightarrow> Transaction list \<Rightarrow> ConsensusValidateResult option" where
  "Post_ValidateEditBlock env height ptx block =
     after_loop
       (for_block (\<lambda>_ blockTx.
          if \<not> IsIn (m_type blockTx) [CONTENT_POST, CONTENT_DELETE] then continue ()
          else if m_hash blockTx = m_hash ptx then continue ()
          else do {
            root \<leftarrow> m_string2 ptx;
            blockRoot \<leftarrow> m_string2 blockTx;
            if root = blockRoot then return_code SocialConsensusResult_DoubleContentEdit else continue ()
          }) () block)
       (\<lambda>_. Post_ValidateEditOneLimit env height ptx)"

definition Post_ValidateEditMempool :: "ConsensusEnv \<Rightarrow> int \<Rightarrow> Transaction \<Rightarrow> ConsensusValidateResult option" where
  "Post_ValidateEditMempool env height ptx = do {
     address \<leftarrow> m_string1 ptx;
     root \<leftarrow> m_string2 ptx;
     reject_if (CountMempoolPostEdit address root (env_db env) > 0) SocialConsensusResult_DoubleContentEdit
       (Post_ValidateEditOneLimit env height ptx)
   }"

definition Post_ValidateBlock ::
    "ConsensusEnv \<Rightarrow> int \<Rightarrow> PostVersion \<Rightarrow> Transaction \<Rightarrow> Transaction list \<Rightarrow> ConsensusValidateResult option" where
  "Post_ValidateBlock env height v ptx block = do {
     edit \<leftarrow> IsEdit ptx;
     if edit then Post_ValidateEditBlock env height ptx block
     else do {
       count \<leftarrow> Post_GetChainCount env height v ptx;
       after_loop
         (for_block (\<lambda>count blockTx.
            if \<not> IsIn (m_type blockTx) [CONTENT_POST] then continue count
            else do {
              address \<leftarrow> m_string1 ptx;
              blockAddress \<leftarrow> m_string1 blockTx;
              if address \<noteq> blockAddress then continue count
              else do {
                edit \<leftarrow> IsEdit blockTx;
                if edit then continue count
                else if m_hash blockTx = m_hash ptx then continue count
                else if Post_AllowBlockLimitTime v ptx blockTx then continue (count + 1) else continue count
              }
            }) count block)
         (\<lambda>count. Post_ValidateLimit env height ptx count)
     }
   }"

definition Post_ValidateMempool :: "ConsensusEnv \<Rightarrow> int \<Rightarrow> PostVersion \<Rightarrow> Transaction \<Rightarrow> ConsensusValidateResult option" where
  "Post_ValidateMempool env height v ptx = do {
     edit \<leftarrow> IsEdit ptx;
     if edit then Post_ValidateEditMempool env height ptx
     else do {
       count \<leftarrow> Post_GetChainCount env height v ptx;
       address \<leftarrow> m_string1 ptx;
       Post_ValidateLimit env height ptx (count + CountMempoolPost address (env_db env))
     }
   }"

definition Post_ValidatePayloadSize :: "ConsensusEnv \<Rightarrow> int \<Rightarrow> Transaction \<Rightarrow> ConsensusValidateResult option" where
  "Post_ValidatePayloadSize env height ptx = do {
     dataSize \<leftarrow> content_size (env_read env) ptx;
     maxSize \<leftarrow> limit env height ConsensusLimit_max_post_size;
     reject_if (dataSize > maxSize) SocialConsensusResult_ContentSizeLimit (Some Success)
   }"

definition Post_ValidateEdit :: "ConsensusEnv \<Rightarrow> int \<Rightarrow> PostVersion \<Rightarrow> Transaction \<Rightarrow> ConsensusValidateResult option" where
  "Post_ValidateEdit env height v ptx = do {
     root \<leftarrow> m_string2 ptx;
     lastContent \<leftarrow> GetLastContent root [CONTENT_POST, CONTENT_VIDEO, CONTENT_ARTICLE, CONTENT_DELETE] (env_db env);
     reject_if (case lastContent of None \<Rightarrow> False | Some lastTx \<Rightarrow> m_type lastTx \<noteq> CONTENT_POST) SocialConsensusResult_NotAllowed
       (do {
          original \<leftarrow> GetFirstContent root (env_db env);
          (case original of
             None \<Rightarrow> Some (False, SocialConsensusResult_NotFound)
           | Some originalTx \<Rightarrow>
             reject_if (lastContent = None) SocialConsensusResult_NotFound
             (reject_if (m_type originalTx \<noteq> m_type ptx) SocialConsensusResult_NotAllowed
             (do {
                address \<leftarrow> m_string1 ptx;
                originalAddress \<leftarrow> m_string1 originalTx;
                reject_if (address \<noteq> originalAddress) SocialConsensusResult_ContentEditUnauthorized
                  (do {
                     window \<leftarrow> Post_AllowEditWindow env height v ptx originalTx;
                     reject_if (\<not> window) SocialConsensusResult_ContentEditLimit (Post_ValidateEditOneLimit env height ptx)
                   })
              })))
        })
   }"

text \<open>The part of \<open>Validate\<close> about a relayed content.\<close>

definition Post_ValidateRelay :: "ConsensusEnv \<Rightarrow> Transaction \<Rightarrow> ConsensusValidateResult option" where
  "Post_ValidateRelay env ptx =
     (if IsEmpty (m_string3 ptx) then Some Success
      else do {
        relay \<leftarrow> GetLastContent (the (m_string3 ptx)) [CONTENT_POST, CONTENT_VIDEO, CONTENT_ARTICLE, CONTENT_DELETE] (env_db env);
        reject_if (relay = None \<and> \<not> is_checkpoint env ptx SocialConsensusResult_RelayContentNotFound)
          SocialConsensusResult_RelayContentNotFound
          (reject_if (case relay of None \<Rightarrow> False | Some relayTx \<Rightarrow> m_type relayTx = CONTENT_DELETE)
             SocialConsensusResult_RepostDeletedContent (Some Success))
      })"

definition Post_Validate ::
    "ConsensusEnv \<Rightarrow> int \<Rightarrow> PostVersion \<Rightarrow> Transaction \<Rightarrow> Transaction list option \<Rightarrow> ConsensusValidateResult option" where
  "Post_Validate env height v ptx block =
     and_then
       (SocialConsensus_Validate env (do { address \<leftarrow> m_string1 ptx; Some [address] })
          (Post_ValidateBlock env height v ptx) (Post_ValidateMempool env height v ptx) block)
       (and_then (Post_ValidateRelay env ptx)
       (and_then (Post_ValidatePayloadSize env height ptx)
       (do { edit \<leftarrow> IsEdit ptx; if edit then Post_ValidateEdit env height v ptx else Some Success })))"

definition Post_Check :: "ConsensusEnv \<Rightarrow> CTransaction \<Rightarrow> Transaction \<Rightarrow> ConsensusValidateResult option" where
  "Post_Check env tx ptx =
     and_then (SocialConsensus_Check (CheckOpReturnHash env tx ptx))
       (reject_if (IsEmpty (m_string1 ptx)) SocialConsensusResult_Failed (Some Success))"

section \<open>Videos\<close>

datatype VideoVersion = Video_0

definition VideoConsensusFactory_m_rules :: "VideoVersion ConsensusCheckpoint list" where
  "VideoConsensusFactory_m_rules =
     [\<lparr>m_main_height = 0, m_test_height = -1, m_func = Video_0\<rparr>]"

definition Video_GetLimit :: "ConsensusEnv \<Rightarrow> int \<Rightarrow> AccountMode \<Rightarrow> int option" where
  "Video_GetLimit env height mode =
     (if mode = AccountMode_Pro then limit env height ConsensusLimit_pro_video
      else if mode = AccountMode_Full then limit env height ConsensusLimit_full_video
      else limit env height ConsensusLimit_trial_video)"

definition Video_ValidateLimit :: "ConsensusEnv \<Rightarrow> int \<Rightarrow> Transaction \<Rightarrow> int \<Rightarrow> ConsensusValidateResult option" where
  "Video_ValidateLimit env height ptx count = do {
     address \<leftarrow> m_string1 ptx;
     (mode, reputation, balance) \<leftarrow> account_mode env height address;
     maxCount \<leftarrow> Video_GetLimit env height mode;
     reject_if (count \<ge> maxCount)
       SocialConsensusResult_ContentLimit (Some Success)
   }"

definition Video_GetChainCount :: "ConsensusEnv \<Rightarrow> int \<Rightarrow> Transaction \<Rightarrow> int option" where
  "Video_GetChainCount env height ptx = do {
     address \<leftarrow> m_string1 ptx;
     depth \<leftarrow> limit env height ConsensusLimit_depth;
     Some (CountChainVideo address (height - depth) (env_db env))
   }"

definition Video_AllowEditWindow :: "ConsensusEnv \<Rightarrow> int \<Rightarrow> Transaction \<Rightarrow> bool option" where
  "Video_AllowEditWindow env height originalTx =
     (case GetTransactionHeight (m_hash originalTx) (env_db env) of
        None \<Rightarrow> Some False
      | Some originalTxHeight \<Rightarrow> do {
          depth \<leftarrow> limit env height ConsensusLimit_edit_video_depth;
          Some (height - originalTxHeight \<le> depth)
        })"

definition Video_ValidateEditOneLimit :: "ConsensusEnv \<Rightarrow> int \<Rightarrow> Transaction \<Rightarrow> ConsensusValidateResult option" where
  "Video_ValidateEditOneLimit env height ptx = do {
     address \<leftarrow> m_string1 ptx;
     root \<leftarrow> m_string2 ptx;
     maxCount \<leftarrow> limit env height ConsensusLimit_video_edit_count;
     reject_if (CountChainVideoEdit address root (env_db env) \<ge> maxCount) SocialConsensusResult_ContentEditLimit (Some Success)
   }"

definition Video_ValidateEditBlock ::
    "ConsensusEnv \<Rightarrow> int \<Rightarrow> Transaction \<Rightarrow> Transaction list \<Rightarrow> ConsensusValidateResult option" where
  "Video_ValidateEditBlock env height ptx block =
     after_loop
       (for_block (\<lambda>_ blockTx.
          if \<not> IsIn (m_type blockTx) [CONTENT_VIDEO, CONTENT_DELETE] then continue ()
          else if m_hash blockTx = m_hash ptx then continue ()
          else do {
            root \<leftarrow> m_string2 ptx;
            blockRoot \<leftarrow> m_string2 blockTx;
            if root = blockRoot then return_code SocialConsensusResult_DoubleContentEdit else continue ()
          }) () block)
       (\<lambda>_. Video_ValidateEditOneLimit env height ptx)"

definition Video_ValidateEditMempool :: "ConsensusEnv \<Rightarrow> int \<Rightarrow> Transaction \<Rightarrow> ConsensusValidateResult option" where
  "Video_ValidateEditMempool env height ptx = do {
     address \<leftarrow> m_string1 ptx;
     root \<leftarrow> m_string2 ptx;
     reject_if (CountMempoolVideoEdit address root (env_db env) > 0) SocialConsensusResult_DoubleContentEdit
       (Video_ValidateEditOneLimit env height ptx)
   }"

definition Video_ValidateBlock ::
    "ConsensusEnv \<Rightarrow> int \<Rightarrow> Transaction \<Rightarrow> Transaction list \<Rightarrow> ConsensusValidateResult option" where
  "Video_ValidateBlock env height ptx block = do {
     edit \<leftarrow> IsEdit ptx;
     if edit then Video_ValidateEditBlock env height ptx block
     else do {
       count \<leftarrow> Video_GetChainCount env height ptx;
       after_loop
         (for_block (\<lambda>count blockTx.
            if \<not> IsIn (m_type blockTx) [CONTENT_VIDEO] then continue count
            else do {
              address \<leftarrow> m_string1 ptx;
              blockAddress \<leftarrow> m_string1 blockTx;
              if address \<noteq> blockAddress then continue count
              else if m_hash blockTx = m_hash ptx then continue count
              else do {
                edit \<leftarrow> IsEdit blockTx;
                if edit then continue count else continue (count + 1)
              }
            }) count block)
         (\<lambda>count. Video_ValidateLimit env height ptx count)
     }
   }"

definition Video_ValidateMempool :: "ConsensusEnv \<Rightarrow> int \<Rightarrow> Transaction \<Rightarrow> ConsensusValidateResult option" where
  "Video_ValidateMempool env height ptx = do {
     edit \<leftarrow> IsEdit ptx;
     if edit then Video_ValidateEditMempool env height ptx
     else do {
       count \<leftarrow> Video_GetChainCount env height ptx;
       address \<leftarrow> m_string1 ptx;
       Video_ValidateLimit env height ptx (count + CountMempoolVideo address (env_db env))
     }
   }"

definition Video_ValidatePayloadSize :: "ConsensusEnv \<Rightarrow> int \<Rightarrow> Transaction \<Rightarrow> ConsensusValidateResult option" where
  "Video_ValidatePayloadSize env height ptx = do {
     dataSize \<leftarrow> content_size (env_read env) ptx;
     maxSize \<leftarrow> limit env height ConsensusLimit_max_video_size;
     reject_if (dataSize > maxSize) SocialConsensusResult_ContentSizeLimit (Some Success)
   }"

definition Video_ValidateEdit :: "ConsensusEnv \<Rightarrow> int \<Rightarrow> Transaction \<Rightarrow> ConsensusValidateResult option" where
  "Video_ValidateEdit env height ptx = do {
     root \<leftarrow> m_string2 ptx;
     lastContent \<leftarrow> GetLastContent root [CONTENT_POST, CONTENT_VIDEO, CONTENT_DELETE] (env_db env);
     reject_if (case lastContent of None \<Rightarrow> False | Some lastTx \<Rightarrow> m_type lastTx \<noteq> CONTENT_VIDEO) SocialConsensusResult_NotAllowed
       (do {
          original \<leftarrow> GetFirstContent root (env_db env);
          (case original of
             None \<Rightarrow> Some (False, SocialConsensusResult_NotFound)
           | Some originalTx \<Rightarrow>
             reject_if (lastContent = None) SocialConsensusResult_NotFound
             (reject_if (m_type originalTx \<noteq> m_type ptx) SocialConsensusResult_NotAllowed
             (do {
                address \<leftarrow> m_string1 ptx;
                originalAddress \<leftarrow> m_string1 originalTx;
                reject_if (address \<noteq> originalAddress) SocialConsensusResult_ContentEditUnauthorized
                  (do {
                     window \<leftarrow> Video_AllowEditWindow env height originalTx;
                     reject_if (\<not> window) SocialConsensusResult_ContentEditLimit (Some Success)
                   })
              })))
        })
   }"

definition Video_Validate ::
    "ConsensusEnv \<Rightarrow> int \<Rightarrow> Transaction \<Rightarrow> Transaction list option \<Rightarrow> ConsensusValidateResult option" where
  "Video_Validate env height ptx block =
     and_then
       (SocialConsensus_Validate env (do { address \<leftarrow> m_string1 ptx; Some [address] })
          (Video_ValidateBlock env height ptx) (Video_ValidateMempool env height ptx) block)
       (and_then (Video_ValidatePayloadSize env height ptx)
       (do { edit \<leftarrow> IsEdit ptx; if edit then Video_ValidateEdit env height ptx else Some Success }))"

definition Video_Check :: "ConsensusEnv \<Rightarrow> CTransaction \<Rightarrow> Transaction \<Rightarrow> ConsensusValidateResult option" where
  "Video_Check env tx ptx =
     and_then (SocialConsensus_Check (CheckOpReturnHash env tx ptx))
       (reject_if (IsEmpty (m_string1 ptx)) SocialConsensusResult_Failed
       (reject_if (\<not> IsEmpty (m_string3 ptx)) SocialConsensusResult_NotAllowed (Some Success)))"

section \<open>Articles\<close>

datatype ArticleVersion = Article_0 | Article_accept

definition ArticleConsensusFactory_m_rules :: "ArticleVersion ConsensusCheckpoint list" where
  "ArticleConsensusFactory_m_rules =
     [\<lparr>m_main_height = 0, m_test_height = 0, m_func = Article_0\<rparr>,
      \<lparr>m_main_height = 1586000, m_test_height = 528000, m_func = Article_accept\<rparr>]"

definition Article_GetLimit :: "ConsensusEnv \<Rightarrow> int \<Rightarrow> AccountMode \<Rightarrow> int option" where
  "Article_GetLimit env height mode = mode_limit env height ConsensusLimit_full_article ConsensusLimit_trial_article mode"

definition Article_ValidateLimit :: "ConsensusEnv \<Rightarrow> int \<Rightarrow> Transaction \<Rightarrow> int \<Rightarrow> ConsensusValidateResult option" where
  "Article_ValidateLimit env height ptx count = do {
     address \<leftarrow> m_string1 ptx;
     (mode, reputation, balance) \<leftarrow> account_mode env height address;
     maxCount \<leftarrow> Article_GetLimit env height mode;
     reject_if (count \<ge> maxCount \<and> \<not> is_checkpoint env ptx SocialConsensusResult_ContentLimit)
       SocialConsensusResult_ContentLimit (Some Success)
   }"

definition Article_GetChainCount :: "ConsensusEnv \<Rightarrow> int \<Rightarrow> Transaction \<Rightarrow> int option" where
  "Article_GetChainCount env height ptx = do {
     address \<leftarrow> m_string1 ptx;
     depth \<leftarrow> limit env height ConsensusLimit_depth;
     Some (CountChainArticle address (height - depth) (env_db env))
   }"

definition Article_AllowEditWindow :: "ConsensusEnv \<Rightarrow> int \<Rightarrow> Transaction \<Rightarrow> bool option" where
  "Article_AllowEditWindow env height originalTx =
     (case GetTransactionHeight (m_hash originalTx) (env_db env) of
        None \<Rightarrow> Some False
      | Some originalTxHeight \<Rightarrow> do {
          depth \<leftarrow> limit env height ConsensusLimit_edit_article_depth;
          Some (height - originalTxHeight \<le> depth)
        })"

definition Article_ValidateEditOneLimit :: "ConsensusEnv \<Rightarrow> int \<Rightarrow> Transaction \<Rightarrow> ConsensusValidateResult option" where
  "Article_ValidateEditOneLimit env height ptx = do {
     address \<leftarrow> m_string1 ptx;
     root \<leftarrow> m_string2 ptx;
     maxCount \<leftarrow> limit env height ConsensusLimit_article_edit_count;
     reject_if (CountChainArticleEdit address root (env_db env) \<ge> maxCount) SocialConsensusResult_ContentEditLimit (Some Success)
   }"

definition Article_ValidateEditBlock ::
    "ConsensusEnv \<Rightarrow> int \<Rightarrow> Transaction \<Rightarrow> Transaction list \<Rightarrow> ConsensusValidateResult option" where
  "Article_ValidateEditBlock env height ptx block =
     after_loop
       (for_block (\<lambda>_ blockTx.
          if \<not> IsIn (m_type blockTx) [CONTENT_ARTICLE, CONTENT_DELETE] then continue ()
          else if m_hash blockTx = m_hash ptx then continue ()
          else do {
            root \<leftarrow> m_string2 ptx;
            blockRoot \<leftarrow> m_string2 blockTx;
            if root = blockRoot then return_code SocialConsensusResult_DoubleContentEdit else continue ()
          }) () block)
       (\<lambda>_. Article_ValidateEditOneLimit env height ptx)"

definition Article_ValidateEditMempool :: "ConsensusEnv \<Rightarrow> int \<Rightarrow> Transaction \<Rightarrow> ConsensusValidateResult option" where
  "Article_ValidateEditMempool env height ptx = do {
     address \<leftarrow> m_string1 ptx;
     root \<leftarrow> m_string2 ptx;
     reject_if (CountMempoolArticleEdit address root (env_db env) > 0) SocialConsensusResult_DoubleContentEdit
       (Article_ValidateEditOneLimit env height ptx)
   }"

definition Article_ValidateBlock ::
    "ConsensusEnv \<Rightarrow> int \<Rightarrow> Transaction \<Rightarrow> Transaction list \<Rightarrow> ConsensusValidateResult option" where
  "Article_ValidateBlock env height ptx block = do {
     edit \<leftarrow> IsEdit ptx;
     if edit then Article_ValidateEditBlock env height ptx block
     else do {
       count \<leftarrow> Article_GetChainCount env height ptx;
       after_loop
         (for_block (\<lambda>count blockTx.
            if \<not> IsIn (m_type blockTx) [CONTENT_ARTICLE] then continue count
            else do {
              address \<leftarrow> m_string1 ptx;
              blockAddress \<leftarrow> m_string1 blockTx;
              if address \<noteq> blockAddress then continue count
              else do {
                edit \<leftarrow> IsEdit blockTx;
                if edit then continue count
                else if m_hash blockTx = m_hash ptx then continue count
                else continue (count + 1)
              }
            }) count block)
         (\<lambda>count. Article_ValidateLimit env height ptx count)
     }
   }"

definition Article_ValidateMempool :: "ConsensusEnv \<Rightarrow> int \<Rightarrow> Transaction \<Rightarrow> ConsensusValidateResult option" where
  "Article_ValidateMempool env height ptx = do {
     edit \<leftarrow> IsEdit ptx;
     if edit then Article_ValidateEditMempool env height ptx
     else do {
       count \<leftarrow> Article_GetChainCount env height ptx;
       address \<leftarrow> m_string1 ptx;
       Article_ValidateLimit env height ptx (count + CountMempoolArticle address (env_db env))
     }
   }"

definition Article_ValidatePayloadSize :: "ConsensusEnv \<Rightarrow> int \<Rightarrow> Transaction \<Rightarrow> ConsensusValidateResult option" where
  "Article_ValidatePayloadSize env height ptx = do {
     dataSize \<leftarrow> content_size (env_read env) ptx;
     maxSize \<leftarrow> limit env height ConsensusLimit_max_article_size;
     reject_if (dataSize > maxSize) SocialConsensusResult_ContentSizeLimit (Some Success)
   }"

definition Article_ValidateEdit :: "ConsensusEnv \<Rightarrow> int \<Rightarrow> Transaction \<Rightarrow> ConsensusValidateResult option" where
  "Article_ValidateEdit env height ptx = do {
     root \<leftarrow> m_string2 ptx;
     lastContent \<leftarrow> GetLastContent root [CONTENT_ARTICLE] (env_db env);
     reject_if (lastContent = None) SocialConsensusResult_NotFound
       (do {
          original \<leftarrow> GetFirstContent root (env_db env);
          (case original of
             None \<Rightarrow> Some (False, SocialConsensusResult_NotFound)
           | Some originalTx \<Rightarrow>
             (reject_if (m_type originalTx \<noteq> m_type ptx) SocialConsensusResult_NotAllowed
             (do {
                address \<leftarrow> m_string1 ptx;
                originalAddress \<leftarrow> m_string1 originalTx;
                reject_if (address \<noteq> originalAddress) SocialConsensusResult_ContentEditUnauthorized
                  (do {
                     window \<leftarrow> Article_AllowEditWindow env height originalTx;
                     reject_if (\<not> window) SocialConsensusResult_ContentEditLimit (Article_ValidateEditOneLimit env height ptx)
                   })
              })))
        })
   }"

definition Article_Validate ::
    "ConsensusEnv \<Rightarrow> int \<Rightarrow> Transaction \<Rightarrow> Transaction list option \<Rightarrow> ConsensusValidateResult option" where
  "Article_Validate env height ptx block =
     and_then
       (SocialConsensus_Validate env (do { address \<leftarrow> m_string1 ptx; Some [address] })
          (Article_ValidateBlock env height ptx) (Article_ValidateMempool env height ptx) block)
       (and_then (Article_ValidatePayloadSize env height ptx)
       (do { edit \<leftarrow> IsEdit ptx; if edit then Article_ValidateEdit env height ptx else Some Success }))"

definition Article_EnableAccept :: "ArticleVersion \<Rightarrow> ConsensusValidateResult" where
  "Article_EnableAccept v = (case v of Article_0 \<Rightarrow> (False, SocialConsensusResult_NotAllowed) | Article_accept \<Rightarrow> Success)"

definition Article_Check ::
    "ConsensusEnv \<Rightarrow> ArticleVersion \<Rightarrow> CTransaction \<Rightarrow> Transaction \<Rightarrow> ConsensusValidateResult option" where
  "Article_Check env v tx ptx =
     and_then (SocialConsensus_Check (CheckOpReturnHash env tx ptx))
       (reject_if (IsEmpty (m_string1 ptx)) SocialConsensusResult_Failed
       (reject_if (\<not> IsEmpty (m_string3 ptx)) SocialConsensusResult_NotAllowed (Some (Article_EnableAccept v))))"

section \<open>Deleting a content\<close>

datatype ContentDeleteVersion = ContentDelete_0

definition ContentDeleteConsensusFactory_m_rules :: "ContentDeleteVersion ConsensusCheckpoint list" where
  "ContentDeleteConsensusFactory_m_rules = [\<lparr>m_main_height = 0, m_test_height = 0, m_func = ContentDelete_0\<rparr>]"

definition ContentDelete_ValidateBlock :: "Transaction \<Rightarrow> Transaction list \<Rightarrow> ConsensusValidateResult option" where
  "ContentDelete_ValidateBlock ptx block =
     after_loop
       (for_block (\<lambda>_ blockTx.
          if \<not> IsIn (m_type blockTx) [CONTENT_POST, CONTENT_VIDEO, CONTENT_ARTICLE, CONTENT_DELETE] then continue ()
          else if m_hash blockTx = m_hash ptx then continue ()
          else do {
            root \<leftarrow> m_string2 ptx;
            blockRoot \<leftarrow> m_string2 blockTx;
            if root = blockRoot then return_code SocialConsensusResult_ContentDeleteDouble else continue ()
          }) () block)
       (\<lambda>_. Some Success)"

definition ContentDelete_ValidateMempool :: "ConsensusEnv \<Rightarrow> Transaction \<Rightarrow> ConsensusValidateResult option" where
  "ContentDelete_ValidateMempool env ptx = do {
     address \<leftarrow> m_string1 ptx;
     root \<leftarrow> m_string2 ptx;
     reject_if (CountMempoolContentDelete address root (env_db env) > 0) SocialConsensusResult_ContentDeleteDouble (Some Success)
   }"

definition ContentDelete_Validate ::
    "ConsensusEnv \<Rightarrow> Transaction \<Rightarrow> Transaction list option \<Rightarrow> ConsensusValidateResult option" where
  "ContentDelete_Validate env ptx block =
     and_then
       (SocialConsensus_Validate env (do { address \<leftarrow> m_string1 ptx; Some [address] })
          (ContentDelete_ValidateBlock ptx) (ContentDelete_ValidateMempool env ptx) block)
       (do {
          root \<leftarrow> m_string2 ptx;
          actual \<leftarrow> GetLastContent root [CONTENT_POST, CONTENT_VIDEO, CONTENT_ARTICLE, CONTENT_DELETE] (env_db env);
          (case actual of
             None \<Rightarrow> Some (False, SocialConsensusResult_NotFound)
           | Some actuallTx \<Rightarrow>
               reject_if (m_type actuallTx = CONTENT_DELETE) SocialConsensusResult_ContentDeleteDouble
                 (do {
                    address \<leftarrow> m_string1 ptx;
                    actualAddress \<leftarrow> m_string1 actuallTx;
                    reject_if (address \<noteq> actualAddress) SocialConsensusResult_ContentDeleteUnauthorized (Some Success)
                  }))
        })"

definition ContentDelete_Check :: "ConsensusEnv \<Rightarrow> CTransaction \<Rightarrow> Transaction \<Rightarrow> ConsensusValidateResult option" where
  "ContentDelete_Check env tx ptx =
     and_then (SocialConsensus_Check (CheckOpReturnHash env tx ptx))
       (reject_if (IsEmpty (m_string1 ptx)) SocialConsensusResult_Failed
       (reject_if (IsEmpty (m_string2 ptx)) SocialConsensusResult_Failed (Some Success)))"

section \<open>Boosting a content\<close>

datatype BoostContentVersion = BoostContent_0 | BoostContent_accept

definition BoostContentConsensusFactory_m_rules :: "BoostContentVersion ConsensusCheckpoint list" where
  "BoostContentConsensusFactory_m_rules =
     [\<lparr>m_main_height = 0, m_test_height = 0, m_func = BoostContent_0\<rparr>,
      \<lparr>m_main_height = 1586000, m_test_height = 528100, m_func = BoostContent_accept\<rparr>]"

definition BoostContent_EnableAccept :: "BoostContentVersion \<Rightarrow> ConsensusValidateResult" where
  "BoostContent_EnableAccept v =
     (case v of BoostContent_0 \<Rightarrow> (False, SocialConsensusResult_NotAllowed) | BoostContent_accept \<Rightarrow> Success)"

definition BoostContent_Validate ::
    "ConsensusEnv \<Rightarrow> Transaction \<Rightarrow> Transaction list option \<Rightarrow> ConsensusValidateResult option" where
  "BoostContent_Validate env ptx block =
     and_then
       (SocialConsensus_Validate env (do { address \<leftarrow> m_string1 ptx; Some [address] })
          (\<lambda>_. Some Success) (Some Success) block)
       (do {
          contentTxHash \<leftarrow> m_string2 ptx;
          content \<leftarrow> GetLastContent contentTxHash [CONTENT_POST, CONTENT_VIDEO, CONTENT_ARTICLE, CONTENT_DELETE] (env_db env);
          (case content of
             None \<Rightarrow> Some (False, SocialConsensusResult_NotFound)
           | Some contentTx \<Rightarrow>
               reject_if (m_type contentTx = CONTENT_DELETE) SocialConsensusResult_CommentDeletedContent (Some Success))
        })"

definition BoostContent_Check ::
    "ConsensusEnv \<Rightarrow> BoostContentVersion \<Rightarrow> CTransaction \<Rightarrow> Transaction \<Rightarrow> ConsensusValidateResult option" where
  "BoostContent_Check env v tx ptx =
     and_then (SocialConsensus_Check (CheckOpReturnHash env tx ptx))
       (reject_if (IsEmpty (m_string1 ptx)) SocialConsensusResult_Failed
       (reject_if (IsEmpty (m_string2 ptx)) SocialConsensusResult_Failed (Some (BoostContent_EnableAccept v))))"

section \<open>Versions and answers\<close>

interpretation post_rules: rule_versions PostConsensusFactory_m_rules
  by (rule rule_versionsI) (simp_all add: PostConsensusFactory_m_rules_def)

interpretation video_rules: rule_versions VideoConsensusFactory_m_rules
  by (rule rule_versionsI) (simp_all add: VideoConsensusFactory_m_rules_def)

interpretation article_rules: rule_versions ArticleConsensusFactory_m_rules
  by (rule rule_versionsI) (simp_all add: ArticleConsensusFactory_m_rules_def)

interpretation content_delete_rules: rule_versions ContentDeleteConsensusFactory_m_rules
  by (rule rule_versionsI) (simp_all add: ContentDeleteConsensusFactory_m_rules_def)

interpretation boost_content_rules: rule_versions BoostContentConsensusFactory_m_rules
  by (rule rule_versionsI) (simp_all add: BoostContentConsensusFactory_m_rules_def)

lemma Post_limits_answer [answer_intros]:
  "answer_ok (Post_ValidateLimit env height ptx count)" "answer_ok (Post_ValidateEditOneLimit env height ptx)"
  unfolding Post_ValidateLimit_def Post_ValidateEditOneLimit_def by (intro answer_intros; auto intro!: answer_intros)+

lemma Post_ValidateBlock_answer [answer_intros]: "answer_ok (Post_ValidateBlock env height v ptx txs)"
  unfolding Post_ValidateBlock_def Post_ValidateEditBlock_def by (intro answer_intros; simp)

lemma Post_ValidateEdit_answer [answer_intros]: "answer_ok (Post_ValidateEdit env height v ptx)"
  unfolding Post_ValidateEdit_def by (intro answer_intros; simp)

lemma Post_Validate_answer [answer_intros]: "answer_ok (Post_Validate env height v ptx block)"
  unfolding Post_Validate_def Post_ValidateMempool_def Post_ValidateEditMempool_def Post_ValidatePayloadSize_def Post_ValidateRelay_def
  by (intro answer_intros; simp)

lemma Post_Check_answer [answer_intros]: "answer_ok (Post_Check env tx ptx)"
  unfolding Post_Check_def by (intro answer_intros; simp)

lemma Video_limits_answer [answer_intros]:
  "answer_ok (Video_ValidateLimit env height ptx count)" "answer_ok (Video_ValidateEditOneLimit env height ptx)"
  unfolding Video_ValidateLimit_def Video_ValidateEditOneLimit_def by (intro answer_intros; auto intro!: answer_intros)+

lemma Video_ValidateBlock_answer [answer_intros]: "answer_ok (Video_ValidateBlock env height ptx txs)"
  unfolding Video_ValidateBlock_def Video_ValidateEditBlock_def by (intro answer_intros; simp)

lemma Video_ValidateEdit_answer [answer_intros]: "answer_ok (Video_ValidateEdit env height ptx)"
  unfolding Video_ValidateEdit_def by (intro answer_intros; simp)

lemma Video_Validate_answer [answer_intros]: "answer_ok (Video_Validate env height ptx block)"
  unfolding Video_Validate_def Video_ValidateMempool_def Video_ValidateEditMempool_def Video_ValidatePayloadSize_def
  by (intro answer_intros; simp)

lemma Video_Check_answer [answer_intros]: "answer_ok (Video_Check env tx ptx)"
  unfolding Video_Check_def by (intro answer_intros; simp)

lemma Article_limits_answer [answer_intros]:
  "answer_ok (Article_ValidateLimit env height ptx count)" "answer_ok (Article_ValidateEditOneLimit env height ptx)"
  unfolding Article_ValidateLimit_def Article_ValidateEditOneLimit_def by (intro answer_intros; auto intro!: answer_intros)+

lemma Article_ValidateBlock_answer [answer_intros]: "answer_ok (Article_ValidateBlock env height ptx txs)"
  unfolding Article_ValidateBlock_def Article_ValidateEditBlock_def by (intro answer_intros; simp)

lemma Article_ValidateEdit_answer [answer_intros]: "answer_ok (Article_ValidateEdit env height ptx)"
  unfolding Article_ValidateEdit_def by (intro answer_intros; simp)

lemma Article_Validate_answer [answer_intros]: "answer_ok (Article_Validate env height ptx block)"
  unfolding Article_Validate_def Article_ValidateMempool_def Article_ValidateEditMempool_def Article_ValidatePayloadSize_def
  by (intro answer_intros; simp)

lemma Article_Check_answer [answer_intros]: "answer_ok (Article_Check env v tx ptx)"
  unfolding Article_Check_def Article_EnableAccept_def by (intro answer_intros; simp split: ArticleVersion.split)

lemma ContentDelete_Validate_answer [answer_intros]: "answer_ok (ContentDelete_Validate env ptx block)"
  unfolding ContentDelete_Validate_def ContentDelete_ValidateBlock_def ContentDelete_ValidateMempool_def
  by (intro answer_intros; simp)

lemma ContentDelete_Check_answer [answer_intros]: "answer_ok (ContentDelete_Check env tx ptx)"
  unfolding ContentDelete_Check_def by (intro answer_intros; simp)

lemma BoostContent_Validate_answer [answer_intros]: "answer_ok (BoostContent_Validate env ptx block)"
  unfolding BoostContent_Validate_def by (intro answer_intros; simp)

lemma BoostContent_Check_answer [answer_intros]: "answer_ok (BoostContent_Check env v tx ptx)"
  unfolding BoostContent_Check_def BoostContent_EnableAccept_def
  by (intro answer_intros; simp split: BoostContentVersion.split)

end
