(* ===== verification/SocialComments.thy ===== *)
theory SocialComments
  imports SocialContents
begin

text \<open>
  The rules for comments: \<open>pocketdb/consensus/social/Comment.hpp\<close>, \<open>CommentEdit.hpp\<close> and
  \<open>CommentDelete.hpp\<close>. The address of a comment is \<open>m_string1\<close>, its root transaction
  \<open>m_string2\<close>, the content it belongs to \<open>m_string3\<close>, and \<open>m_string4\<close> and \<open>m_string5\<close> are the
  comments it is a child of and answers. \<open>TransactionRepository::Exists\<close> and \<open>ExistsInChain\<close>
  are the two queries the rules read besides those of the consensus repository.
\<close>

section \<open>Queries on transactions\<close>

definition Exists :: "string \<Rightarrow> Database \<Rightarrow> bool" where
  "Exists hash db \<longleftrightarrow> (\<exists>t \<in> set (Transactions db). t_Hash t = hash)"

definition ExistsInChain :: "string \<Rightarrow> Database \<Rightarrow> bool" where
  "ExistsInChain hash db \<longleftrightarrow> count_where (\<lambda>t. t_Hash t = hash \<and> t_Height t \<noteq> None) (Transactions db) \<ge> 1"

section \<open>Comments\<close>

datatype CommentVersion = Comment_0 | Comment_1124000 | Comment_1180000

definition CommentConsensusFactory_m_rules :: "CommentVersion ConsensusCheckpoint list" where
  "CommentConsensusFactory_m_rules =
     [\<lparr>m_main_height = 0, m_test_height = -1, m_func = Comment_0\<rparr>,
      \<lparr>m_main_height = 1124000, m_test_height = -1, m_func = Comment_1124000\<rparr>,
      \<lparr>m_main_height = 1180000, m_test_height = 0, m_func = Comment_1180000\<rparr>]"

definition Comment_GetLimit :: "ConsensusEnv \<Rightarrow> int \<Rightarrow> AccountMode \<Rightarrow> int option" where
  "Comment_GetLimit env height mode = mode_limit env height ConsensusLimit_full_comment ConsensusLimit_trial_comment mode"

definition Comment_CheckBlockLimitTime :: "CommentVersion \<Rightarrow> Transaction \<Rightarrow> Transaction \<Rightarrow> bool" where
  "Comment_CheckBlockLimitTime v ptx blockPtx = (if v = Comment_0 then m_time blockPtx \<le> m_time ptx else True)"

definition Comment_ValidateLimit :: "ConsensusEnv \<Rightarrow> int \<Rightarrow> Transaction \<Rightarrow> int \<Rightarrow> ConsensusValidateResult option" where
  "Comment_ValidateLimit env height ptx count = do {
     address \<leftarrow> m_string1 ptx;
     (mode, reputation, balance) \<leftarrow> account_mode env height address;
     maxCount \<leftarrow> Comment_GetLimit env height mode;
     reject_if (count \<ge> maxCount) SocialConsensusResult_CommentLimit (Some Success)
   }"

definition Comment_GetChainCount :: "ConsensusEnv \<Rightarrow> int \<Rightarrow> CommentVersion \<Rightarrow> Transaction \<Rightarrow> int option" where
  "Comment_GetChainCount env height v ptx = do {
     address \<leftarrow> m_string1 ptx;
     depth \<leftarrow> limit env height ConsensusLimit_depth;
     Some (if v = Comment_1180000 then CountChainCommentHeight address (height - depth) (env_db env)
           else CountChainCommentTime address (m_time ptx - depth) (env_db env))
   }"

definition comment_size_ok :: "ConsensusEnv \<Rightarrow> int \<Rightarrow> Transaction \<Rightarrow> bool option" where
  "comment_size_ok env height ptx = do {
     let dataSize = (case payload pl_String1 ptx of None \<Rightarrow> 0 | Some msg \<Rightarrow> int (length (UrlDecode (env_ii env) msg)));
     maxSize \<leftarrow> limit env height ConsensusLimit_max_comment_size;
     Some (dataSize \<le> maxSize)
   }"

definition Comment_ValidatePayloadSize :: "ConsensusEnv \<Rightarrow> int \<Rightarrow> Transaction \<Rightarrow> ConsensusValidateResult option" where
  "Comment_ValidatePayloadSize env height ptx = do {
     ok \<leftarrow> comment_size_ok env height ptx;
     reject_if (\<not> ok) SocialConsensusResult_ContentSizeLimit (Some Success)
   }"

definition Comment_ValidateBlock ::
    "ConsensusEnv \<Rightarrow> int \<Rightarrow> CommentVersion \<Rightarrow> Transaction \<Rightarrow> Transaction list \<Rightarrow> ConsensusValidateResult option" where
  "Comment_ValidateBlock env height v ptx block = do {
     count \<leftarrow> Comment_GetChainCount env height v ptx;
     after_loop
       (for_block (\<lambda>count blockTx.
          if \<not> IsIn (m_type blockTx) [CONTENT_COMMENT] then continue count
          else if m_hash blockTx = m_hash ptx then continue count
          else do {
            address \<leftarrow> m_string1 ptx;
            blockAddress \<leftarrow> m_string1 blockTx;
            if address = blockAddress \<and> Comment_CheckBlockLimitTime v ptx blockTx then continue (count + 1)
            else continue count
          }) count block)
       (\<lambda>count. Comment_ValidateLimit env height ptx count)
   }"

definition Comment_ValidateMempool ::
    "ConsensusEnv \<Rightarrow> int \<Rightarrow> CommentVersion \<Rightarrow> Transaction \<Rightarrow> ConsensusValidateResult option" where
  "Comment_ValidateMempool env height v ptx = do {
     count \<leftarrow> Comment_GetChainCount env height v ptx;
     address \<leftarrow> m_string1 ptx;
     Comment_ValidateLimit env height ptx (count + CountMempoolComment address (env_db env))
   }"

text \<open>\<open>Validate\<close> first looks the parent and the answered comment up, then the content, the
  blocking by its author and the size. The rule about the content is that of edits as well.\<close>

definition comment_exists :: "ConsensusEnv \<Rightarrow> string \<Rightarrow> bool option" where
  "comment_exists env hash = do {
     last \<leftarrow> GetLastContent hash [CONTENT_COMMENT, CONTENT_COMMENT_EDIT] (env_db env);
     Some (last \<noteq> None)
   }"

definition ValidateCommented :: "ConsensusEnv \<Rightarrow> Transaction \<Rightarrow> ConsensusValidateResult option" where
  "ValidateCommented env ptx = do {
     postTxHash \<leftarrow> m_string3 ptx;
     content \<leftarrow> GetLastContent postTxHash [CONTENT_POST, CONTENT_VIDEO, CONTENT_ARTICLE, CONTENT_DELETE] (env_db env);
     (case content of
        None \<Rightarrow> Some (False, SocialConsensusResult_NotFound)
      | Some contentTx \<Rightarrow>
          reject_if (m_type contentTx = CONTENT_DELETE) SocialConsensusResult_CommentDeletedContent
            (do {
               contentAddress \<leftarrow> m_string1 contentTx;
               address \<leftarrow> m_string1 ptx;
               reject_if (GetLastBlockingType contentAddress address (env_db env) = Some ACTION_BLOCKING)
                 SocialConsensusResult_Blocking (Some Success)
             }))
   }"

definition Comment_Validate ::
    "ConsensusEnv \<Rightarrow> int \<Rightarrow> CommentVersion \<Rightarrow> Transaction \<Rightarrow> Transaction list option \<Rightarrow> ConsensusValidateResult option" where
  "Comment_Validate env height v ptx block =
     and_then
       (SocialConsensus_Validate env (do { address \<leftarrow> m_string1 ptx; Some [address] })
          (Comment_ValidateBlock env height v ptx) (Comment_ValidateMempool env height v ptx) block)
       (do {
          parentOk \<leftarrow> (if IsEmpty (m_string4 ptx) then Some True else comment_exists env (the (m_string4 ptx)));
          reject_if (\<not> parentOk) SocialConsensusResult_InvalidParentComment
            (do {
               answerOk \<leftarrow> (if IsEmpty (m_string5 ptx) then Some True else comment_exists env (the (m_string5 ptx)));
               reject_if (\<not> answerOk) SocialConsensusResult_InvalidParentComment
                 (and_then (ValidateCommented env ptx)
                 (and_then (Comment_ValidatePayloadSize env height ptx) (Some Success)))
             })
        })"

definition Comment_Check ::
    "ConsensusEnv \<Rightarrow> int \<Rightarrow> CTransaction \<Rightarrow> Transaction \<Rightarrow> ConsensusValidateResult option" where
  "Comment_Check env height tx ptx =
     and_then (SocialConsensus_Check (CheckOpReturnHash env tx ptx))
       (reject_if (IsEmpty (m_string1 ptx)) SocialConsensusResult_Failed
       (reject_if (IsEmpty (m_string3 ptx)) SocialConsensusResult_Failed
       (reject_if (\<not> HasPayload ptx) SocialConsensusResult_Failed
       (reject_if (IsEmpty (payload pl_String1 ptx)) SocialConsensusResult_Failed
       (do {
          ok \<leftarrow> comment_size_ok env height ptx;
          reject_if (\<not> ok) SocialConsensusResult_Size (Some Success)
        })))))"

section \<open>Editing a comment\<close>

datatype CommentEditVersion = CommentEdit_0 | CommentEdit_1180000

definition CommentEditConsensusFactory_m_rules :: "CommentEditVersion ConsensusCheckpoint list" where
  "CommentEditConsensusFactory_m_rules =
     [\<lparr>m_main_height = 0, m_test_height = -1, m_func = CommentEdit_0\<rparr>,
      \<lparr>m_main_height = 1180000, m_test_height = 0, m_func = CommentEdit_1180000\<rparr>]"

text \<open>The loop over the block is that of deletions too, with another code.\<close>

definition comment_double_in_block ::
    "SocialConsensusResult \<Rightarrow> Transaction \<Rightarrow> Transaction list \<Rightarrow> ConsensusValidateResult option" where
  "comment_double_in_block code ptx block =
     after_loop
       (for_block (\<lambda>_ blockTx.
          if \<not> IsIn (m_type blockTx) [CONTENT_COMMENT, CONTENT_COMMENT_EDIT, CONTENT_COMMENT_DELETE] then continue ()
          else if m_hash blockTx = m_hash ptx then continue ()
          else do {
            root \<leftarrow> m_string2 ptx;
            blockRoot \<leftarrow> m_string2 blockTx;
            if root = blockRoot then return_code code else continue ()
          }) () block)
       (\<lambda>_. Some Success)"

definition CommentEdit_ValidateBlock :: "Transaction \<Rightarrow> Transaction list \<Rightarrow> ConsensusValidateResult option" where
  "CommentEdit_ValidateBlock ptx block = comment_double_in_block SocialConsensusResult_DoubleCommentEdit ptx block"

definition CommentEdit_ValidateMempool :: "ConsensusEnv \<Rightarrow> Transaction \<Rightarrow> ConsensusValidateResult option" where
  "CommentEdit_ValidateMempool env ptx = do {
     address \<leftarrow> m_string1 ptx;
     root \<leftarrow> m_string2 ptx;
     reject_if (CountMempoolCommentEdit address root (env_db env) > 0) SocialConsensusResult_DoubleCommentEdit (Some Success)
   }"

definition CommentEdit_AllowEditWindow ::
    "ConsensusEnv \<Rightarrow> int \<Rightarrow> CommentEditVersion \<Rightarrow> Transaction \<Rightarrow> Transaction \<Rightarrow> bool option" where
  "CommentEdit_AllowEditWindow env height v ptx originalTx =
     (case v of
        CommentEdit_0 \<Rightarrow> do {
          depth \<leftarrow> limit env height ConsensusLimit_edit_comment_depth;
          Some (m_time ptx - m_time originalTx \<le> depth)
        }
      | CommentEdit_1180000 \<Rightarrow>
          (case GetTransactionHeight (m_hash originalTx) (env_db env) of
             None \<Rightarrow> Some False
           | Some originalTxHeight \<Rightarrow> do {
               depth \<leftarrow> limit env height ConsensusLimit_edit_comment_depth;
               Some (height - originalTxHeight \<le> depth)
             }))"

definition CommentEdit_ValidateEditOneLimit :: "ConsensusEnv \<Rightarrow> int \<Rightarrow> Transaction \<Rightarrow> ConsensusValidateResult option" where
  "CommentEdit_ValidateEditOneLimit env height ptx = do {
     address \<leftarrow> m_string1 ptx;
     root \<leftarrow> m_string2 ptx;
     maxCount \<leftarrow> limit env height ConsensusLimit_comment_edit_count;
     reject_if (CountChainCommentEdit address root (env_db env) \<ge> maxCount) SocialConsensusResult_CommentEditLimit (Some Success)
   }"

definition CommentEdit_ValidatePayloadSize :: "ConsensusEnv \<Rightarrow> int \<Rightarrow> Transaction \<Rightarrow> ConsensusValidateResult option" where
  "CommentEdit_ValidatePayloadSize env height ptx = do {
     ok \<leftarrow> comment_size_ok env height ptx;
     reject_if (\<not> ok) SocialConsensusResult_ContentSizeLimit (Some Success)
   }"

definition hash_or_empty :: "string option \<Rightarrow> string" where
  "hash_or_empty ptr = (if IsEmpty ptr then [] else the ptr)"

definition CommentEdit_Validate ::
    "ConsensusEnv \<Rightarrow> int \<Rightarrow> CommentEditVersion \<Rightarrow> Transaction \<Rightarrow> Transaction list option \<Rightarrow> ConsensusValidateResult option" where
  "CommentEdit_Validate env height v ptx block =
     and_then
       (SocialConsensus_Validate env (do { address \<leftarrow> m_string1 ptx; Some [address] })
          (CommentEdit_ValidateBlock ptx) (CommentEdit_ValidateMempool env ptx) block)
       (do {
          root \<leftarrow> m_string2 ptx;
          actual \<leftarrow> GetLastContent root [CONTENT_COMMENT, CONTENT_COMMENT_EDIT, CONTENT_COMMENT_DELETE] (env_db env);
          reject_if (case actual of None \<Rightarrow> True | Some actuallTx \<Rightarrow> m_type actuallTx = CONTENT_COMMENT_DELETE)
            SocialConsensusResult_CommentDeletedEdit
            (do {
               original \<leftarrow> GetFirstContent root (env_db env);
               (case original of
                  None \<Rightarrow> Some (False, SocialConsensusResult_NotFound)
                | Some originalTx \<Rightarrow>
                    let origParentTxHash = hash_or_empty (m_string4 originalTx);
                        origAnswerTxHash = hash_or_empty (m_string5 originalTx)
                    in reject_if (hash_or_empty (m_string4 ptx) \<noteq> origParentTxHash) SocialConsensusResult_InvalidParentComment
                      (do {
                         parentOk \<leftarrow> (if origParentTxHash = [] then Some True else comment_exists env origParentTxHash);
                         reject_if (\<not> parentOk) SocialConsensusResult_InvalidParentComment
                        (reject_if (hash_or_empty (m_string5 ptx) \<noteq> origAnswerTxHash) SocialConsensusResult_InvalidAnswerComment
                           (do {
                              answerOk \<leftarrow> (if origAnswerTxHash = [] then Some True else comment_exists env origAnswerTxHash);
                              reject_if (\<not> answerOk) SocialConsensusResult_InvalidAnswerComment
                                (do {
                                   window \<leftarrow> CommentEdit_AllowEditWindow env height v ptx originalTx;
                                   reject_if (\<not> window) SocialConsensusResult_CommentEditLimit
                                     (and_then (ValidateCommented env ptx)
                                     (and_then (CommentEdit_ValidatePayloadSize env height ptx)
                                        (CommentEdit_ValidateEditOneLimit env height ptx)))
                                 })
                            }))
                       }))
             })
        })"

definition CommentEdit_Check ::
    "ConsensusEnv \<Rightarrow> int \<Rightarrow> CTransaction \<Rightarrow> Transaction \<Rightarrow> ConsensusValidateResult option" where
  "CommentEdit_Check env height tx ptx =
     and_then (SocialConsensus_Check (CheckOpReturnHash env tx ptx))
       (reject_if (IsEmpty (m_string1 ptx)) SocialConsensusResult_Failed
       (reject_if (IsEmpty (m_string3 ptx)) SocialConsensusResult_Failed
       (reject_if (IsEmpty (m_string2 ptx)) SocialConsensusResult_Failed
       (reject_if (\<not> HasPayload ptx) SocialConsensusResult_Size
       (reject_if (IsEmpty (payload pl_String1 ptx)) SocialConsensusResult_Size
       (do {
          ok \<leftarrow> comment_size_ok env height ptx;
          reject_if (\<not> ok) SocialConsensusResult_Size (Some Success)
        }))))))"

section \<open>Deleting a comment\<close>

datatype CommentDeleteVersion = CommentDelete_0

definition CommentDeleteConsensusFactory_m_rules :: "CommentDeleteVersion ConsensusCheckpoint list" where
  "CommentDeleteConsensusFactory_m_rules = [\<lparr>m_main_height = 0, m_test_height = 0, m_func = CommentDelete_0\<rparr>]"

definition CommentDelete_ValidateBlock :: "Transaction \<Rightarrow> Transaction list \<Rightarrow> ConsensusValidateResult option" where
  "CommentDelete_ValidateBlock ptx block = comment_double_in_block SocialConsensusResult_DoubleCommentDelete ptx block"

definition CommentDelete_ValidateMempool :: "ConsensusEnv \<Rightarrow> Transaction \<Rightarrow> ConsensusValidateResult option" where
  "CommentDelete_ValidateMempool env ptx = do {
     address \<leftarrow> m_string1 ptx;
     root \<leftarrow> m_string2 ptx;
     reject_if (CountMempoolCommentEdit address root (env_db env) > 0) SocialConsensusResult_DoubleCommentDelete (Some Success)
   }"

definition CommentDelete_Validate ::
    "ConsensusEnv \<Rightarrow> Transaction \<Rightarrow> Transaction list option \<Rightarrow> ConsensusValidateResult option" where
  "CommentDelete_Validate env ptx block =
     and_then
       (SocialConsensus_Validate env (do { address \<leftarrow> m_string1 ptx; Some [address] })
          (CommentDelete_ValidateBlock ptx) (CommentDelete_ValidateMempool env ptx) block)
       (do {
          root \<leftarrow> m_string2 ptx;
          actual \<leftarrow> GetLastContent root [CONTENT_COMMENT, CONTENT_COMMENT_EDIT, CONTENT_COMMENT_DELETE] (env_db env);
          reject_if (case actual of None \<Rightarrow> True | Some actuallTx \<Rightarrow> m_type actuallTx = CONTENT_COMMENT_DELETE)
            SocialConsensusResult_NotFound
            (do {
               original \<leftarrow> GetFirstContent root (env_db env);
               (case original of
                  None \<Rightarrow> Some (False, SocialConsensusResult_NotFound)
                | Some originalTx \<Rightarrow>
                    let origParentTxHash = hash_or_empty (m_string4 originalTx);
                        origAnswerTxHash = hash_or_empty (m_string5 originalTx)
                    in reject_if (hash_or_empty (m_string4 ptx) \<noteq> origParentTxHash)
                         SocialConsensusResult_InvalidParentComment
                      (reject_if (\<not> IsEmpty (m_string4 originalTx) \<and> \<not> ExistsInChain origParentTxHash (env_db env))
                         SocialConsensusResult_InvalidParentComment
                      (reject_if (hash_or_empty (m_string5 ptx) \<noteq> origAnswerTxHash)
                         SocialConsensusResult_InvalidAnswerComment
                      (reject_if (\<not> IsEmpty (m_string5 originalTx) \<and> \<not> Exists origAnswerTxHash (env_db env))
                         SocialConsensusResult_InvalidAnswerComment (Some Success)))))
             })
        })"

definition CommentDelete_Check :: "ConsensusEnv \<Rightarrow> CTransaction \<Rightarrow> Transaction \<Rightarrow> ConsensusValidateResult option" where
  "CommentDelete_Check env tx ptx =
     and_then (SocialConsensus_Check (CheckOpReturnHash env tx ptx))
       (reject_if (IsEmpty (m_string1 ptx)) SocialConsensusResult_Failed
       (reject_if (IsEmpty (m_string3 ptx)) SocialConsensusResult_Failed
       (reject_if (HasPayload ptx) SocialConsensusResult_Failed (Some Success))))"

section \<open>Versions and answers\<close>

interpretation comment_rules: rule_versions CommentConsensusFactory_m_rules
  by (rule rule_versionsI) (simp_all add: CommentConsensusFactory_m_rules_def)

interpretation comment_edit_rules: rule_versions CommentEditConsensusFactory_m_rules
  by (rule rule_versionsI) (simp_all add: CommentEditConsensusFactory_m_rules_def)

interpretation comment_delete_rules: rule_versions CommentDeleteConsensusFactory_m_rules
  by (rule rule_versionsI) (simp_all add: CommentDeleteConsensusFactory_m_rules_def)

lemma ValidateCommented_answer [answer_intros]: "answer_ok (ValidateCommented env ptx)"
  unfolding ValidateCommented_def by (intro answer_intros; simp)

lemma Comment_ValidateLimit_answer [answer_intros]: "answer_ok (Comment_ValidateLimit env height ptx count)"
  unfolding Comment_ValidateLimit_def by (intro answer_intros; auto intro!: answer_intros)

lemma Comment_Validate_answer [answer_intros]: "answer_ok (Comment_Validate env height v ptx block)"
  unfolding Comment_Validate_def Comment_ValidateBlock_def Comment_ValidateMempool_def Comment_ValidatePayloadSize_def
  by (intro answer_intros; simp)

lemma Comment_Check_answer [answer_intros]: "answer_ok (Comment_Check env height tx ptx)"
  unfolding Comment_Check_def by (intro answer_intros; simp)

lemma comment_double_in_block_answer [answer_intros]:
  "code \<noteq> SocialConsensusResult_Success \<Longrightarrow> answer_ok (comment_double_in_block code ptx block)"
  unfolding comment_double_in_block_def by (intro answer_intros; simp)

lemma CommentEdit_Validate_answer [answer_intros]: "answer_ok (CommentEdit_Validate env height v ptx block)"
  unfolding CommentEdit_Validate_def CommentEdit_ValidateBlock_def CommentEdit_ValidateMempool_def
    CommentEdit_ValidatePayloadSize_def CommentEdit_ValidateEditOneLimit_def
  by (intro answer_intros; simp)

lemma CommentEdit_Check_answer [answer_intros]: "answer_ok (CommentEdit_Check env height tx ptx)"
  unfolding CommentEdit_Check_def by (intro answer_intros; simp)

lemma CommentDelete_Validate_answer [answer_intros]: "answer_ok (CommentDelete_Validate env ptx block)"
  unfolding CommentDelete_Validate_def CommentDelete_ValidateBlock_def CommentDelete_ValidateMempool_def
  by (intro answer_intros; simp)

lemma CommentDelete_Check_answer [answer_intros]: "answer_ok (CommentDelete_Check env tx ptx)"
  unfolding CommentDelete_Check_def by (intro answer_intros; simp)

end
