(* ===== verification/SocialActions.thy ===== *)
theory SocialActions
  imports SocialComments
begin

text \<open>
  The rules for actions: scores of contents and comments, complaints, subscriptions and
  blockings, \<open>pocketdb/consensus/social/ScoreContent.hpp\<close>, \<open>ScoreComment.hpp\<close>, \<open>Complain.hpp\<close>,
  \<open>Subscribe.hpp\<close>, \<open>SubscribePrivate.hpp\<close>, \<open>SubscribeCancel.hpp\<close>, \<open>Blocking.hpp\<close> and
  \<open>BlockingCancel.hpp\<close>. The acting address is \<open>m_string1\<close>, its target \<open>m_string2\<close> and the value
  of a score or the reason of a complaint \<open>m_int1\<close>.
\<close>

section \<open>What the rules share\<close>

abbreviation contents :: "TxType list" where
  "contents \<equiv> [CONTENT_POST, CONTENT_VIDEO, CONTENT_ARTICLE, CONTENT_DELETE]"

abbreviation comments :: "TxType list" where
  "comments \<equiv> [CONTENT_COMMENT, CONTENT_COMMENT_EDIT, CONTENT_COMMENT_DELETE]"

text \<open>The target of an action, in the chain or else in the block.\<close>

fun find_in_block :: "TxType list \<Rightarrow> string \<Rightarrow> Transaction list \<Rightarrow> Transaction option option" where
  "find_in_block types hash [] = Some None"
| "find_in_block types hash (blockTx # block) =
     (if \<not> IsIn (m_type blockTx) types then find_in_block types hash block
      else do {
        s2 \<leftarrow> m_string2 blockTx;
        if s2 = hash then Some (Some blockTx) else find_in_block types hash block
      })"

definition last_content ::
    "ConsensusEnv \<Rightarrow> TxType list \<Rightarrow> string \<Rightarrow> Transaction list option \<Rightarrow> Transaction option option" where
  "last_content env types hash block = do {
     lastContent \<leftarrow> GetLastContent hash types (env_db env);
     (case (lastContent, block) of
        (None, Some txs) \<Rightarrow> find_in_block types hash txs
      | _ \<Rightarrow> Some lastContent)
   }"

text \<open>The OP_RETURN of a score may carry the address of the author and the value.\<close>

definition check_op_return_payload ::
    "ConsensusEnv \<Rightarrow> CTransaction \<Rightarrow> string \<Rightarrow> Transaction \<Rightarrow> ConsensusValidateResult option" where
  "check_op_return_payload env tx author ptx = do {
     (ok, txOpReturnPayload) \<leftarrow> ExtractOpReturnPayload (env_split env) tx;
     if ok then do {
       val \<leftarrow> m_int1 ptx;
       let opReturnPayloadHex = HexStr (map (\<lambda>c. of_nat (of_char c)) (author @ '' '' @ show_int val));
       reject_if (txOpReturnPayload \<noteq> opReturnPayloadHex) SocialConsensusResult_FailedOpReturn (Some Success)
     } else Some Success
   }"

section \<open>Scores of contents\<close>

datatype ScoreContentVersion =
    ScoreContent_0
  | ScoreContent_430000
  | ScoreContent_514184
  | ScoreContent_1124000
  | ScoreContent_1180000
  | ScoreContent_1324655

definition ScoreContentConsensusFactory_m_rules :: "ScoreContentVersion ConsensusCheckpoint list" where
  "ScoreContentConsensusFactory_m_rules =
     [\<lparr>m_main_height = 0, m_test_height = -1, m_func = ScoreContent_0\<rparr>,
      \<lparr>m_main_height = 430000, m_test_height = -1, m_func = ScoreContent_430000\<rparr>,
      \<lparr>m_main_height = 514184, m_test_height = -1, m_func = ScoreContent_514184\<rparr>,
      \<lparr>m_main_height = 1124000, m_test_height = -1, m_func = ScoreContent_1124000\<rparr>,
      \<lparr>m_main_height = 1180000, m_test_height = 0, m_func = ScoreContent_1180000\<rparr>,
      \<lparr>m_main_height = 1324655, m_test_height = 65000, m_func = ScoreContent_1324655\<rparr>]"

definition ScoreContent_GetScoresLimit :: "ConsensusEnv \<Rightarrow> int \<Rightarrow> AccountMode \<Rightarrow> int option" where
  "ScoreContent_GetScoresLimit env height mode =
     mode_limit env height ConsensusLimit_full_score ConsensusLimit_trial_score mode"

definition ScoreContent_CheckBlockLimitTime :: "ScoreContentVersion \<Rightarrow> Transaction \<Rightarrow> Transaction \<Rightarrow> bool" where
  "ScoreContent_CheckBlockLimitTime v ptx blockTx =
     (if v \<in> {ScoreContent_0, ScoreContent_430000, ScoreContent_514184} then m_time blockTx \<le> m_time ptx else True)"

definition ScoreContent_ValidateLowReputation :: "ScoreContentVersion \<Rightarrow> Transaction \<Rightarrow> AccountMode \<Rightarrow> bool option" where
  "ScoreContent_ValidateLowReputation v ptx mode =
     (if v = ScoreContent_1324655 then
        (if mode \<noteq> AccountMode_Trial then Some True else do { val \<leftarrow> m_int1 ptx; Some (val > 2) })
      else Some True)"

definition ScoreContent_ValidateLimit ::
    "ConsensusEnv \<Rightarrow> int \<Rightarrow> ScoreContentVersion \<Rightarrow> Transaction \<Rightarrow> int \<Rightarrow> ConsensusValidateResult option" where
  "ScoreContent_ValidateLimit env height v ptx count = do {
     address \<leftarrow> m_string1 ptx;
     (mode, reputation, balance) \<leftarrow> account_mode env height address;
     maxCount \<leftarrow> ScoreContent_GetScoresLimit env height mode;
     reject_if (count \<ge> maxCount) SocialConsensusResult_ScoreLimit
       (do {
          ok \<leftarrow> ScoreContent_ValidateLowReputation v ptx mode;
          reject_if (\<not> ok) SocialConsensusResult_ScoreLowReputation (Some Success)
        })
   }"

definition ScoreContent_ValidateBlocking ::
    "ConsensusEnv \<Rightarrow> ScoreContentVersion \<Rightarrow> string \<Rightarrow> Transaction \<Rightarrow> ConsensusValidateResult option" where
  "ScoreContent_ValidateBlocking env v contentAddress ptx =
     (if v = ScoreContent_430000 then do {
        address \<leftarrow> m_string1 ptx;
        reject_if (GetLastBlockingType contentAddress address (env_db env) = Some ACTION_BLOCKING)
          SocialConsensusResult_Blocking (Some Success)
      } else Some Success)"

definition ScoreContent_GetChainCount :: "ConsensusEnv \<Rightarrow> int \<Rightarrow> ScoreContentVersion \<Rightarrow> Transaction \<Rightarrow> int option" where
  "ScoreContent_GetChainCount env height v ptx = do {
     address \<leftarrow> m_string1 ptx;
     depth \<leftarrow> limit env height ConsensusLimit_depth;
     Some (if v \<in> {ScoreContent_1180000, ScoreContent_1324655}
           then CountChainScoreContentHeight address (height - depth) (env_db env)
           else CountChainScoreContentTime address (m_time ptx - depth) (env_db env))
   }"

definition ScoreContent_ValidateBlock ::
    "ConsensusEnv \<Rightarrow> int \<Rightarrow> ScoreContentVersion \<Rightarrow> Transaction \<Rightarrow> Transaction list \<Rightarrow> ConsensusValidateResult option" where
  "ScoreContent_ValidateBlock env height v ptx block = do {
     count \<leftarrow> ScoreContent_GetChainCount env height v ptx;
     after_loop
       (for_block (\<lambda>count blockTx.
          if \<not> IsIn (m_type blockTx) [ACTION_SCORE_CONTENT] then continue count
          else if m_hash blockTx = m_hash ptx then continue count
          else do {
            address \<leftarrow> m_string1 ptx;
            blockAddress \<leftarrow> m_string1 blockTx;
            if address = blockAddress then do {
              let count = (if ScoreContent_CheckBlockLimitTime v ptx blockTx then count + 1 else count);
              blockContent \<leftarrow> m_string2 blockTx;
              content \<leftarrow> m_string2 ptx;
              if blockContent = content \<and> \<not> is_checkpoint env ptx SocialConsensusResult_DoubleScore
              then return_code SocialConsensusResult_DoubleScore else continue count
            } else continue count
          }) count block)
       (\<lambda>count. ScoreContent_ValidateLimit env height v ptx count)
   }"

definition ScoreContent_ValidateMempool ::
    "ConsensusEnv \<Rightarrow> int \<Rightarrow> ScoreContentVersion \<Rightarrow> Transaction \<Rightarrow> ConsensusValidateResult option" where
  "ScoreContent_ValidateMempool env height v ptx = do {
     address \<leftarrow> m_string1 ptx;
     content \<leftarrow> m_string2 ptx;
     reject_if (ExistsScore address content ACTION_SCORE_CONTENT True (env_db env)) SocialConsensusResult_DoubleScore
       (do {
          count \<leftarrow> ScoreContent_GetChainCount env height v ptx;
          ScoreContent_ValidateLimit env height v ptx (count + CountMempoolScoreContent address (env_db env))
        })
   }"

definition ScoreContent_Validate ::
    "ConsensusEnv \<Rightarrow> int \<Rightarrow> ScoreContentVersion \<Rightarrow> CTransaction \<Rightarrow> Transaction \<Rightarrow> Transaction list option \<Rightarrow>
     ConsensusValidateResult option" where
  "ScoreContent_Validate env height v tx ptx block =
     and_then
       (SocialConsensus_Validate env (do { address \<leftarrow> m_string1 ptx; Some [address] })
          (ScoreContent_ValidateBlock env height v ptx) (ScoreContent_ValidateMempool env height v ptx) block)
       (do {
          address \<leftarrow> m_string1 ptx;
          content \<leftarrow> m_string2 ptx;
          reject_if (ExistsScore address content ACTION_SCORE_CONTENT False (env_db env)) SocialConsensusResult_DoubleScore
            (do {
               last \<leftarrow> last_content env contents content block;
               (case last of
                  None \<Rightarrow> Some (False, SocialConsensusResult_NotFound)
                | Some lastContent \<Rightarrow> do {
                    author \<leftarrow> m_string1 lastContent;
                    reject_if (address = author) SocialConsensusResult_SelfScore
                   (reject_if (m_type lastContent = CONTENT_DELETE) SocialConsensusResult_ScoreDeletedContent
                   (and_then (ScoreContent_ValidateBlocking env v author ptx)
                   (and_then (check_op_return_payload env tx author ptx) (Some Success))))
                  })
             })
        })"

definition ScoreContent_Check :: "ConsensusEnv \<Rightarrow> CTransaction \<Rightarrow> Transaction \<Rightarrow> ConsensusValidateResult option" where
  "ScoreContent_Check env tx ptx =
     and_then (SocialConsensus_Check (CheckOpReturnHash env tx ptx))
       (reject_if (IsEmpty (m_string1 ptx)) SocialConsensusResult_Failed
       (reject_if (IsEmpty (m_string2 ptx)) SocialConsensusResult_Failed
       (reject_if (IsEmpty_int (m_int1 ptx)) SocialConsensusResult_Failed
       (do {
          val \<leftarrow> m_int1 ptx;
          reject_if (val < 1 \<or> val > 5) SocialConsensusResult_Failed (Some Success)
        }))))"

section \<open>Scores of comments\<close>

datatype ScoreCommentVersion =
    ScoreComment_0
  | ScoreComment_430000
  | ScoreComment_514184
  | ScoreComment_1124000
  | ScoreComment_1180000

definition ScoreCommentConsensusFactory_m_rules :: "ScoreCommentVersion ConsensusCheckpoint list" where
  "ScoreCommentConsensusFactory_m_rules =
     [\<lparr>m_main_height = 0, m_test_height = -1, m_func = ScoreComment_0\<rparr>,
      \<lparr>m_main_height = 430000, m_test_height = -1, m_func = ScoreComment_430000\<rparr>,
      \<lparr>m_main_height = 514184, m_test_height = -1, m_func = ScoreComment_514184\<rparr>,
      \<lparr>m_main_height = 1124000, m_test_height = -1, m_func = ScoreComment_1124000\<rparr>,
      \<lparr>m_main_height = 1180000, m_test_height = 0, m_func = ScoreComment_1180000\<rparr>]"

definition ScoreComment_GetScoresLimit :: "ConsensusEnv \<Rightarrow> int \<Rightarrow> AccountMode \<Rightarrow> int option" where
  "ScoreComment_GetScoresLimit env height mode =
     mode_limit env height ConsensusLimit_full_comment_score ConsensusLimit_trial_comment_score mode"

definition ScoreComment_CheckBlockLimitTime :: "ScoreCommentVersion \<Rightarrow> Transaction \<Rightarrow> Transaction \<Rightarrow> bool" where
  "ScoreComment_CheckBlockLimitTime v ptx blockTx =
     (if v \<in> {ScoreComment_0, ScoreComment_430000, ScoreComment_514184} then m_time blockTx \<le> m_time ptx else True)"

definition ScoreComment_ValidateLimit ::
    "ConsensusEnv \<Rightarrow> int \<Rightarrow> Transaction \<Rightarrow> int \<Rightarrow> ConsensusValidateResult option" where
  "ScoreComment_ValidateLimit env height ptx count = do {
     address \<leftarrow> m_string1 ptx;
     (mode, reputation, balance) \<leftarrow> account_mode env height address;
     maxCount \<leftarrow> ScoreComment_GetScoresLimit env height mode;
     reject_if (count \<ge> maxCount) SocialConsensusResult_CommentScoreLimit (Some Success)
   }"

definition ScoreComment_ValidateBlocking ::
    "ConsensusEnv \<Rightarrow> ScoreCommentVersion \<Rightarrow> string \<Rightarrow> Transaction \<Rightarrow> ConsensusValidateResult option" where
  "ScoreComment_ValidateBlocking env v commentAddress ptx =
     (if v = ScoreComment_430000 then do {
        address \<leftarrow> m_string1 ptx;
        reject_if (GetLastBlockingType commentAddress address (env_db env) = Some ACTION_BLOCKING)
          SocialConsensusResult_Blocking (Some Success)
      } else Some Success)"

definition ScoreComment_GetChainCount :: "ConsensusEnv \<Rightarrow> int \<Rightarrow> ScoreCommentVersion \<Rightarrow> Transaction \<Rightarrow> int option" where
  "ScoreComment_GetChainCount env height v ptx = do {
     address \<leftarrow> m_string1 ptx;
     depth \<leftarrow> limit env height ConsensusLimit_depth;
     Some (if v = ScoreComment_1180000
           then CountChainScoreCommentHeight address (height - depth) (env_db env)
           else CountChainScoreCommentTime address (m_time ptx - depth) (env_db env))
   }"

definition ScoreComment_ValidateBlock ::
    "ConsensusEnv \<Rightarrow> int \<Rightarrow> ScoreCommentVersion \<Rightarrow> Transaction \<Rightarrow> Transaction list \<Rightarrow> ConsensusValidateResult option" where
  "ScoreComment_ValidateBlock env height v ptx block = do {
     count \<leftarrow> ScoreComment_GetChainCount env height v ptx;
     after_loop
       (for_block (\<lambda>count blockTx.
          if \<not> IsIn (m_type blockTx) [ACTION_SCORE_COMMENT] then continue count
          else if m_hash blockTx = m_hash ptx then continue count
          else do {
            address \<leftarrow> m_string1 ptx;
            blockAddress \<leftarrow> m_string1 blockTx;
            if address = blockAddress then do {
              let count = (if ScoreComment_CheckBlockLimitTime v ptx blockTx then count + 1 else count);
              blockComment \<leftarrow> m_string2 blockTx;
              comment \<leftarrow> m_string2 ptx;
              if blockComment = comment then return_code SocialConsensusResult_DoubleCommentScore else continue count
            } else continue count
          }) count block)
       (\<lambda>count. ScoreComment_ValidateLimit env height ptx count)
   }"

definition ScoreComment_ValidateMempool ::
    "ConsensusEnv \<Rightarrow> int \<Rightarrow> ScoreCommentVersion \<Rightarrow> Transaction \<Rightarrow> ConsensusValidateResult option" where
  "ScoreComment_ValidateMempool env height v ptx = do {
     address \<leftarrow> m_string1 ptx;
     comment \<leftarrow> m_string2 ptx;
     reject_if (ExistsScore address comment ACTION_SCORE_COMMENT True (env_db env)) SocialConsensusResult_DoubleCommentScore
       (do {
          count \<leftarrow> ScoreComment_GetChainCount env height v ptx;
          ScoreComment_ValidateLimit env height ptx (count + CountMempoolScoreComment address (env_db env))
        })
   }"

definition ScoreComment_Validate ::
    "ConsensusEnv \<Rightarrow> int \<Rightarrow> ScoreCommentVersion \<Rightarrow> CTransaction \<Rightarrow> Transaction \<Rightarrow> Transaction list option \<Rightarrow>
     ConsensusValidateResult option" where
  "ScoreComment_Validate env height v tx ptx block =
     and_then
       (SocialConsensus_Validate env (do { address \<leftarrow> m_string1 ptx; Some [address] })
          (ScoreComment_ValidateBlock env height v ptx) (ScoreComment_ValidateMempool env height v ptx) block)
       (do {
          address \<leftarrow> m_string1 ptx;
          comment \<leftarrow> m_string2 ptx;
          reject_if (ExistsScore address comment ACTION_SCORE_COMMENT False (env_db env)) SocialConsensusResult_DoubleCommentScore
            (do {
               last \<leftarrow> last_content env comments comment block;
               (case last of
                  None \<Rightarrow> Some (False, SocialConsensusResult_NotFound)
                | Some lastContent \<Rightarrow>
                    reject_if (m_type lastContent = CONTENT_COMMENT_DELETE \<and> \<not> is_checkpoint env ptx SocialConsensusResult_NotFound)
                      SocialConsensusResult_NotFound
                      (do {
                         author \<leftarrow> m_string1 lastContent;
                         reject_if (address = author) SocialConsensusResult_SelfCommentScore
                        (and_then (ScoreComment_ValidateBlocking env v author ptx)
                        (and_then (check_op_return_payload env tx author ptx) (Some Success)))
                       }))
             })
        })"

definition ScoreComment_Check :: "ConsensusEnv \<Rightarrow> CTransaction \<Rightarrow> Transaction \<Rightarrow> ConsensusValidateResult option" where
  "ScoreComment_Check env tx ptx =
     and_then (SocialConsensus_Check (CheckOpReturnHash env tx ptx))
       (reject_if (IsEmpty (m_string1 ptx)) SocialConsensusResult_Failed
       (reject_if (IsEmpty (m_string2 ptx)) SocialConsensusResult_Failed
       (reject_if (IsEmpty_int (m_int1 ptx)) SocialConsensusResult_Failed
       (do {
          val \<leftarrow> m_int1 ptx;
          reject_if (val \<noteq> 1 \<and> val \<noteq> -1) SocialConsensusResult_Failed (Some Success)
        }))))"

end
