(* ===== verification/SocialRelations.thy ===== *)
theory SocialRelations
  imports SocialActions
begin

text \<open>
  The rules for complaints, subscriptions and blockings,
  \<open>pocketdb/consensus/social/Complain.hpp\<close>, \<open>Subscribe.hpp\<close>, \<open>SubscribePrivate.hpp\<close>,
  \<open>SubscribeCancel.hpp\<close>, \<open>Blocking.hpp\<close> and \<open>BlockingCancel.hpp\<close>, and the answers of all rules for
  actions.
\<close>

section \<open>Complaints\<close>

datatype ComplainVersion = Complain_0 | Complain_1124000 | Complain_1180000

definition ComplainConsensusFactory_m_rules :: "ComplainVersion ConsensusCheckpoint list" where
  "ComplainConsensusFactory_m_rules =
     [\<lparr>m_main_height = 0, m_test_height = -1, m_func = Complain_0\<rparr>,
      \<lparr>m_main_height = 1124000, m_test_height = -1, m_func = Complain_1124000\<rparr>,
      \<lparr>m_main_height = 1180000, m_test_height = 0, m_func = Complain_1180000\<rparr>]"

definition Complain_GetComplainsLimit :: "ConsensusEnv \<Rightarrow> int \<Rightarrow> AccountMode \<Rightarrow> int option" where
  "Complain_GetComplainsLimit env height mode =
     mode_limit env height ConsensusLimit_full_complain ConsensusLimit_trial_complain mode"

definition Complain_ValidateLimit :: "ConsensusEnv \<Rightarrow> int \<Rightarrow> Transaction \<Rightarrow> int \<Rightarrow> ConsensusValidateResult option" where
  "Complain_ValidateLimit env height ptx count = do {
     address \<leftarrow> m_string1 ptx;
     (mode, reputation, balance) \<leftarrow> account_mode env height address;
     maxCount \<leftarrow> Complain_GetComplainsLimit env height mode;
     reject_if (count \<ge> maxCount) SocialConsensusResult_ComplainLimit
       (do {
          minimumReputation \<leftarrow> limit env height ConsensusLimit_threshold_reputation;
          reject_if (reputation < minimumReputation) SocialConsensusResult_ComplainLowReputation (Some Success)
        })
   }"

definition Complain_CheckBlockLimitTime :: "ComplainVersion \<Rightarrow> Transaction \<Rightarrow> Transaction \<Rightarrow> bool" where
  "Complain_CheckBlockLimitTime v ptx blockPtx = (if v = Complain_0 then m_time blockPtx \<le> m_time ptx else True)"

definition Complain_GetChainCount :: "ConsensusEnv \<Rightarrow> int \<Rightarrow> ComplainVersion \<Rightarrow> Transaction \<Rightarrow> int option" where
  "Complain_GetChainCount env height v ptx = do {
     address \<leftarrow> m_string1 ptx;
     depth \<leftarrow> limit env height ConsensusLimit_depth;
     Some (if v = Complain_1180000 then CountChainComplainHeight address (height - depth) (env_db env)
           else CountChainComplainTime address (m_time ptx - depth) (env_db env))
   }"

definition Complain_ValidateBlock ::
    "ConsensusEnv \<Rightarrow> int \<Rightarrow> ComplainVersion \<Rightarrow> Transaction \<Rightarrow> Transaction list \<Rightarrow> ConsensusValidateResult option" where
  "Complain_ValidateBlock env height v ptx block = do {
     count \<leftarrow> Complain_GetChainCount env height v ptx;
     after_loop
       (for_block (\<lambda>count blockTx.
          if \<not> IsIn (m_type blockTx) [ACTION_COMPLAIN] then continue count
          else if m_hash blockTx = m_hash ptx then continue count
          else do {
            address \<leftarrow> m_string1 ptx;
            blockAddress \<leftarrow> m_string1 blockTx;
            if address = blockAddress then do {
              let count = (if Complain_CheckBlockLimitTime v ptx blockTx then count + 1 else count);
              post \<leftarrow> m_string2 ptx;
              blockPost \<leftarrow> m_string2 blockTx;
              if post = blockPost \<and> \<not> is_checkpoint env ptx SocialConsensusResult_DoubleComplain
              then return_code SocialConsensusResult_DoubleComplain else continue count
            } else continue count
          }) count block)
       (\<lambda>count. Complain_ValidateLimit env height ptx count)
   }"

definition Complain_ValidateMempool ::
    "ConsensusEnv \<Rightarrow> int \<Rightarrow> ComplainVersion \<Rightarrow> Transaction \<Rightarrow> ConsensusValidateResult option" where
  "Complain_ValidateMempool env height v ptx = do {
     count \<leftarrow> Complain_GetChainCount env height v ptx;
     address \<leftarrow> m_string1 ptx;
     Complain_ValidateLimit env height ptx (count + CountMempoolComplain address (env_db env))
   }"

definition Complain_Validate ::
    "ConsensusEnv \<Rightarrow> int \<Rightarrow> ComplainVersion \<Rightarrow> Transaction \<Rightarrow> Transaction list option \<Rightarrow> ConsensusValidateResult option" where
  "Complain_Validate env height v ptx block =
     and_then
       (SocialConsensus_Validate env (do { address \<leftarrow> m_string1 ptx; Some [address] })
          (Complain_ValidateBlock env height v ptx) (Complain_ValidateMempool env height v ptx) block)
       (do {
          post \<leftarrow> m_string2 ptx;
          last \<leftarrow> last_content env contents post block;
          (case last of
             None \<Rightarrow> Some (False, SocialConsensusResult_NotFound)
           | Some lastContent \<Rightarrow> do {
               author \<leftarrow> m_string1 lastContent;
               address \<leftarrow> m_string1 ptx;
               reject_if (author = address) SocialConsensusResult_SelfComplain
              (reject_if (m_type lastContent = CONTENT_DELETE) SocialConsensusResult_ComplainDeletedContent
              (reject_if (ExistsComplain post address (env_db env)) SocialConsensusResult_DoubleComplain (Some Success)))
             })
        })"

definition Complain_Check :: "ConsensusEnv \<Rightarrow> CTransaction \<Rightarrow> Transaction \<Rightarrow> ConsensusValidateResult option" where
  "Complain_Check env tx ptx =
     and_then (SocialConsensus_Check (CheckOpReturnHash env tx ptx))
       (reject_if (IsEmpty (m_string1 ptx)) SocialConsensusResult_Failed
       (reject_if (IsEmpty (m_string2 ptx)) SocialConsensusResult_Failed
       (reject_if (IsEmpty_int (m_int1 ptx)) SocialConsensusResult_Failed (Some Success))))"

section \<open>Subscriptions\<close>

text \<open>The three classes share the loop over the block, the rule for the mempool and \<open>Check\<close>; each
  has its own condition on the last subscription of the pair in the chain.\<close>

datatype SubscribeVersion = Subscribe_0

definition SubscribeConsensusFactory_m_rules :: "SubscribeVersion ConsensusCheckpoint list" where
  "SubscribeConsensusFactory_m_rules = [\<lparr>m_main_height = 0, m_test_height = 0, m_func = Subscribe_0\<rparr>]"

datatype SubscribePrivateVersion = SubscribePrivate_0

definition SubscribePrivateConsensusFactory_m_rules :: "SubscribePrivateVersion ConsensusCheckpoint list" where
  "SubscribePrivateConsensusFactory_m_rules = [\<lparr>m_main_height = 0, m_test_height = 0, m_func = SubscribePrivate_0\<rparr>]"

datatype SubscribeCancelVersion = SubscribeCancel_0

definition SubscribeCancelConsensusFactory_m_rules :: "SubscribeCancelVersion ConsensusCheckpoint list" where
  "SubscribeCancelConsensusFactory_m_rules = [\<lparr>m_main_height = 0, m_test_height = 0, m_func = SubscribeCancel_0\<rparr>]"

definition pair_addresses :: "Transaction \<Rightarrow> string list option" where
  "pair_addresses ptx = do { address \<leftarrow> m_string1 ptx; addressTo \<leftarrow> m_string2 ptx; Some [address, addressTo] }"

definition Subscribe_ValidateBlock ::
    "ConsensusEnv \<Rightarrow> Transaction \<Rightarrow> Transaction list \<Rightarrow> ConsensusValidateResult option" where
  "Subscribe_ValidateBlock env ptx block =
     after_loop
       (for_block (\<lambda>_ blockTx.
          if \<not> IsIn (m_type blockTx) [ACTION_SUBSCRIBE, ACTION_SUBSCRIBE_PRIVATE, ACTION_SUBSCRIBE_CANCEL] then continue ()
          else if m_hash blockTx = m_hash ptx then continue ()
          else do {
            address \<leftarrow> m_string1 ptx;
            blockAddress \<leftarrow> m_string1 blockTx;
            if address = blockAddress then do {
              addressTo \<leftarrow> m_string2 ptx;
              blockAddressTo \<leftarrow> m_string2 blockTx;
              if addressTo = blockAddressTo \<and> \<not> is_checkpoint env ptx SocialConsensusResult_DoubleSubscribe
              then return_code SocialConsensusResult_DoubleSubscribe else continue ()
            } else continue ()
          }) () block)
       (\<lambda>_. Some Success)"

definition Subscribe_ValidateMempool :: "ConsensusEnv \<Rightarrow> Transaction \<Rightarrow> ConsensusValidateResult option" where
  "Subscribe_ValidateMempool env ptx = do {
     address \<leftarrow> m_string1 ptx;
     addressTo \<leftarrow> m_string2 ptx;
     reject_if (CountMempoolSubscribe address addressTo (env_db env) > 0) SocialConsensusResult_ManyTransactions (Some Success)
   }"

definition subscription_rule ::
    "ConsensusEnv \<Rightarrow> (TxType option \<Rightarrow> bool) \<Rightarrow> SocialConsensusResult \<Rightarrow> Transaction \<Rightarrow> Transaction list option \<Rightarrow>
     ConsensusValidateResult option" where
  "subscription_rule env invalid code ptx block =
     and_then
       (SocialConsensus_Validate env (pair_addresses ptx)
          (Subscribe_ValidateBlock env ptx) (Subscribe_ValidateMempool env ptx) block)
       (do {
          address \<leftarrow> m_string1 ptx;
          addressTo \<leftarrow> m_string2 ptx;
          reject_if (invalid (GetLastSubscribeType address addressTo (env_db env)) \<and> \<not> is_checkpoint env ptx code)
            code (Some Success)
        })"

definition Subscribe_Validate ::
    "ConsensusEnv \<Rightarrow> Transaction \<Rightarrow> Transaction list option \<Rightarrow> ConsensusValidateResult option" where
  "Subscribe_Validate env =
     subscription_rule env (\<lambda>last. last = Some ACTION_SUBSCRIBE) SocialConsensusResult_DoubleSubscribe"

definition SubscribePrivate_Validate ::
    "ConsensusEnv \<Rightarrow> Transaction \<Rightarrow> Transaction list option \<Rightarrow> ConsensusValidateResult option" where
  "SubscribePrivate_Validate env =
     subscription_rule env (\<lambda>last. last = Some ACTION_SUBSCRIBE_PRIVATE) SocialConsensusResult_DoubleSubscribe"

definition SubscribeCancel_Validate ::
    "ConsensusEnv \<Rightarrow> Transaction \<Rightarrow> Transaction list option \<Rightarrow> ConsensusValidateResult option" where
  "SubscribeCancel_Validate env =
     subscription_rule env (\<lambda>last. last = None \<or> last = Some ACTION_SUBSCRIBE_CANCEL) SocialConsensusResult_InvalideSubscribe"

definition Subscribe_Check :: "ConsensusEnv \<Rightarrow> CTransaction \<Rightarrow> Transaction \<Rightarrow> ConsensusValidateResult option" where
  "Subscribe_Check env tx ptx =
     and_then (SocialConsensus_Check (CheckOpReturnHash env tx ptx))
       (reject_if (IsEmpty (m_string1 ptx)) SocialConsensusResult_Failed
       (reject_if (IsEmpty (m_string2 ptx)) SocialConsensusResult_Failed
       (reject_if (m_string1 ptx = m_string2 ptx) SocialConsensusResult_SelfSubscribe (Some Success))))"

definition SubscribePrivate_Check :: "ConsensusEnv \<Rightarrow> CTransaction \<Rightarrow> Transaction \<Rightarrow> ConsensusValidateResult option" where
  "SubscribePrivate_Check = Subscribe_Check"

definition SubscribeCancel_Check :: "ConsensusEnv \<Rightarrow> CTransaction \<Rightarrow> Transaction \<Rightarrow> ConsensusValidateResult option" where
  "SubscribeCancel_Check = Subscribe_Check"

section \<open>Blockings\<close>

datatype BlockingVersion = Blocking_0

definition BlockingConsensusFactory_m_rules :: "BlockingVersion ConsensusCheckpoint list" where
  "BlockingConsensusFactory_m_rules = [\<lparr>m_main_height = 0, m_test_height = 0, m_func = Blocking_0\<rparr>]"

datatype BlockingCancelVersion = BlockingCancel_0

definition BlockingCancelConsensusFactory_m_rules :: "BlockingCancelVersion ConsensusCheckpoint list" where
  "BlockingCancelConsensusFactory_m_rules = [\<lparr>m_main_height = 0, m_test_height = 0, m_func = BlockingCancel_0\<rparr>]"

definition Blocking_ValidateBlock :: "Transaction \<Rightarrow> Transaction list \<Rightarrow> ConsensusValidateResult option" where
  "Blocking_ValidateBlock ptx block =
     after_loop
       (for_block (\<lambda>_ blockTx.
          if \<not> IsIn (m_type blockTx) [ACTION_BLOCKING, ACTION_BLOCKING_CANCEL] then continue ()
          else if m_hash blockTx = m_hash ptx then continue ()
          else do {
            address \<leftarrow> m_string1 ptx;
            blockAddress \<leftarrow> m_string1 blockTx;
            if address = blockAddress then do {
              addressTo \<leftarrow> m_string2 ptx;
              blockAddressTo \<leftarrow> m_string2 blockTx;
              if addressTo = blockAddressTo then return_code SocialConsensusResult_ManyTransactions else continue ()
            } else continue ()
          }) () block)
       (\<lambda>_. Some Success)"

definition Blocking_ValidateMempool :: "ConsensusEnv \<Rightarrow> Transaction \<Rightarrow> ConsensusValidateResult option" where
  "Blocking_ValidateMempool env ptx = do {
     address \<leftarrow> m_string1 ptx;
     addressTo \<leftarrow> m_string2 ptx;
     reject_if (CountMempoolBlocking address addressTo (env_db env) > 0) SocialConsensusResult_ManyTransactions (Some Success)
   }"

definition blocking_rule ::
    "ConsensusEnv \<Rightarrow> (TxType option \<Rightarrow> bool) \<Rightarrow> SocialConsensusResult \<Rightarrow> Transaction \<Rightarrow> Transaction list option \<Rightarrow>
     ConsensusValidateResult option" where
  "blocking_rule env invalid code ptx block =
     and_then
       (SocialConsensus_Validate env (pair_addresses ptx)
          (Blocking_ValidateBlock ptx) (Blocking_ValidateMempool env ptx) block)
       (do {
          address \<leftarrow> m_string1 ptx;
          addressTo \<leftarrow> m_string2 ptx;
          reject_if (invalid (GetLastBlockingType address addressTo (env_db env)) \<and> \<not> is_checkpoint env ptx code)
            code (Some Success)
        })"

definition Blocking_Validate ::
    "ConsensusEnv \<Rightarrow> Transaction \<Rightarrow> Transaction list option \<Rightarrow> ConsensusValidateResult option" where
  "Blocking_Validate env =
     blocking_rule env (\<lambda>last. last = Some ACTION_BLOCKING) SocialConsensusResult_DoubleBlocking"

definition BlockingCancel_Validate ::
    "ConsensusEnv \<Rightarrow> Transaction \<Rightarrow> Transaction list option \<Rightarrow> ConsensusValidateResult option" where
  "BlockingCancel_Validate env =
     blocking_rule env (\<lambda>last. last \<noteq> Some ACTION_BLOCKING) SocialConsensusResult_InvalidBlocking"

definition Blocking_Check :: "ConsensusEnv \<Rightarrow> CTransaction \<Rightarrow> Transaction \<Rightarrow> ConsensusValidateResult option" where
  "Blocking_Check env tx ptx =
     and_then (SocialConsensus_Check (CheckOpReturnHash env tx ptx))
       (reject_if (IsEmpty (m_string1 ptx)) SocialConsensusResult_Failed
       (reject_if (IsEmpty (m_string2 ptx)) SocialConsensusResult_Failed
       (reject_if (m_string1 ptx = m_string2 ptx) SocialConsensusResult_SelfBlocking (Some Success))))"

definition BlockingCancel_Check :: "ConsensusEnv \<Rightarrow> CTransaction \<Rightarrow> Transaction \<Rightarrow> ConsensusValidateResult option" where
  "BlockingCancel_Check = Blocking_Check"

section \<open>Versions and answers\<close>

interpretation score_content_rules: rule_versions ScoreContentConsensusFactory_m_rules
  by (rule rule_versionsI) (simp_all add: ScoreContentConsensusFactory_m_rules_def)

interpretation score_comment_rules: rule_versions ScoreCommentConsensusFactory_m_rules
  by (rule rule_versionsI) (simp_all add: ScoreCommentConsensusFactory_m_rules_def)

interpretation complain_rules: rule_versions ComplainConsensusFactory_m_rules
  by (rule rule_versionsI) (simp_all add: ComplainConsensusFactory_m_rules_def)

interpretation subscribe_rules: rule_versions SubscribeConsensusFactory_m_rules
  by (rule rule_versionsI) (simp_all add: SubscribeConsensusFactory_m_rules_def)

interpretation subscribe_private_rules: rule_versions SubscribePrivateConsensusFactory_m_rules
  by (rule rule_versionsI) (simp_all add: SubscribePrivateConsensusFactory_m_rules_def)

interpretation subscribe_cancel_rules: rule_versions SubscribeCancelConsensusFactory_m_rules
  by (rule rule_versionsI) (simp_all add: SubscribeCancelConsensusFactory_m_rules_def)

interpretation blocking_rules: rule_versions BlockingConsensusFactory_m_rules
  by (rule rule_versionsI) (simp_all add: BlockingConsensusFactory_m_rules_def)

interpretation blocking_cancel_rules: rule_versions BlockingCancelConsensusFactory_m_rules
  by (rule rule_versionsI) (simp_all add: BlockingCancelConsensusFactory_m_rules_def)

lemma check_op_return_payload_answer [answer_intros]: "answer_ok (check_op_return_payload env tx author ptx)"
  unfolding check_op_return_payload_def by (auto intro!: answer_intros)

lemma score_limits_answer [answer_intros]:
  "answer_ok (ScoreContent_ValidateLimit env height v ptx count)" "answer_ok (ScoreComment_ValidateLimit env height ptx count)"
  "answer_ok (Complain_ValidateLimit env height ptx count)"
  unfolding ScoreContent_ValidateLimit_def ScoreComment_ValidateLimit_def Complain_ValidateLimit_def
  by (intro answer_intros; auto intro!: answer_intros)+

lemma loop_ok_Let [answer_intros]: "(\<And>x. loop_ok (f x)) \<Longrightarrow> loop_ok (Let v f)"
  by simp

lemma ScoreContent_Validate_answer [answer_intros]: "answer_ok (ScoreContent_Validate env height v tx ptx block)"
  unfolding ScoreContent_Validate_def ScoreContent_ValidateBlock_def ScoreContent_ValidateMempool_def
    ScoreContent_ValidateBlocking_def
  by (intro answer_intros; simp)

lemma ScoreContent_Check_answer [answer_intros]: "answer_ok (ScoreContent_Check env tx ptx)"
  unfolding ScoreContent_Check_def by (intro answer_intros; simp)

lemma ScoreComment_Validate_answer [answer_intros]: "answer_ok (ScoreComment_Validate env height v tx ptx block)"
  unfolding ScoreComment_Validate_def ScoreComment_ValidateBlock_def ScoreComment_ValidateMempool_def
    ScoreComment_ValidateBlocking_def
  by (intro answer_intros; simp)

lemma ScoreComment_Check_answer [answer_intros]: "answer_ok (ScoreComment_Check env tx ptx)"
  unfolding ScoreComment_Check_def by (intro answer_intros; simp)

lemma Complain_Validate_answer [answer_intros]: "answer_ok (Complain_Validate env height v ptx block)"
  unfolding Complain_Validate_def Complain_ValidateBlock_def Complain_ValidateMempool_def
  by (intro answer_intros; simp)

lemma Complain_Check_answer [answer_intros]: "answer_ok (Complain_Check env tx ptx)"
  unfolding Complain_Check_def by (intro answer_intros; simp)

lemma subscription_rule_answer [answer_intros]:
  "code \<noteq> SocialConsensusResult_Success \<Longrightarrow> answer_ok (subscription_rule env invalid code ptx block)"
  unfolding subscription_rule_def Subscribe_ValidateBlock_def Subscribe_ValidateMempool_def
  by (intro answer_intros; simp)

lemma Subscribe_Validate_answer [answer_intros]:
  "answer_ok (Subscribe_Validate env ptx block)" "answer_ok (SubscribePrivate_Validate env ptx block)"
  "answer_ok (SubscribeCancel_Validate env ptx block)"
  unfolding Subscribe_Validate_def SubscribePrivate_Validate_def SubscribeCancel_Validate_def
  by (intro answer_intros; simp)+

lemma Subscribe_Check_answer [answer_intros]:
  "answer_ok (Subscribe_Check env tx ptx)" "answer_ok (SubscribePrivate_Check env tx ptx)" "answer_ok (SubscribeCancel_Check env tx ptx)"
  unfolding SubscribePrivate_Check_def SubscribeCancel_Check_def Subscribe_Check_def by (intro answer_intros; simp)+

lemma blocking_rule_answer [answer_intros]:
  "code \<noteq> SocialConsensusResult_Success \<Longrightarrow> answer_ok (blocking_rule env invalid code ptx block)"
  unfolding blocking_rule_def Blocking_ValidateBlock_def Blocking_ValidateMempool_def
  by (intro answer_intros; simp)

lemma Blocking_Validate_answer [answer_intros]:
  "answer_ok (Blocking_Validate env ptx block)" "answer_ok (BlockingCancel_Validate env ptx block)"
  unfolding Blocking_Validate_def BlockingCancel_Validate_def by (intro answer_intros; simp)+

lemma Blocking_Check_answer [answer_intros]:
  "answer_ok (Blocking_Check env tx ptx)" "answer_ok (BlockingCancel_Check env tx ptx)"
  unfolding BlockingCancel_Check_def Blocking_Check_def by (intro answer_intros; simp)+

end
