(* ===== verification/SocialHelper.thy ===== *)
theory SocialHelper
  imports SocialRelations
begin

text \<open>
  \<open>pocketdb/consensus/Helper.cpp\<close>: the entry points of the social consensus. \<open>check\<close> and
  \<open>validate\<close> choose the rule set by the type of the transaction and its version by the height;
  the overloads of \<open>Check\<close> and \<open>Validate\<close> apply them to a transaction for the mempool, to one
  for a block under construction and to all transactions of a block.
\<close>

section \<open>Dispatch\<close>

definition isConsensusable :: "TxType \<Rightarrow> bool" where
  "isConsensusable txType \<longleftrightarrow> txType \<notin> {TX_COINBASE, TX_COINSTAKE, TX_DEFAULT}"

definition Helper_check ::
    "ConsensusEnv \<Rightarrow> int \<Rightarrow> CTransaction \<Rightarrow> Transaction \<Rightarrow> ConsensusValidateResult option" where
  "Helper_check env height tx ptx =
     (if \<not> isConsensusable (m_type ptx) then Some Success
      else case m_type ptx of
         ACCOUNT_SETTING \<Rightarrow> do { _ \<leftarrow> Instance AccountSettingConsensusFactory_m_rules (env_net env) height; AccountSetting_Check env tx ptx }
      | ACCOUNT_USER \<Rightarrow> do { _ \<leftarrow> Instance UserConsensusFactory_m_rules (env_net env) height; User_Check env tx ptx }
      | CONTENT_POST \<Rightarrow> do { _ \<leftarrow> Instance PostConsensusFactory_m_rules (env_net env) height; Post_Check env tx ptx }
      | CONTENT_VIDEO \<Rightarrow> do { _ \<leftarrow> Instance VideoConsensusFactory_m_rules (env_net env) height; Video_Check env tx ptx }
      | CONTENT_ARTICLE \<Rightarrow> do { v \<leftarrow> Instance ArticleConsensusFactory_m_rules (env_net env) height; Article_Check env v tx ptx }
      | CONTENT_COMMENT \<Rightarrow> do { _ \<leftarrow> Instance CommentConsensusFactory_m_rules (env_net env) height; Comment_Check env height tx ptx }
      | CONTENT_COMMENT_EDIT \<Rightarrow> do { _ \<leftarrow> Instance CommentEditConsensusFactory_m_rules (env_net env) height; CommentEdit_Check env height tx ptx }
      | CONTENT_COMMENT_DELETE \<Rightarrow> do { _ \<leftarrow> Instance CommentDeleteConsensusFactory_m_rules (env_net env) height; CommentDelete_Check env tx ptx }
      | CONTENT_DELETE \<Rightarrow> do { _ \<leftarrow> Instance ContentDeleteConsensusFactory_m_rules (env_net env) height; ContentDelete_Check env tx ptx }
      | BOOST_CONTENT \<Rightarrow> do { v \<leftarrow> Instance BoostContentConsensusFactory_m_rules (env_net env) height; BoostContent_Check env v tx ptx }
      | ACTION_SCORE_CONTENT \<Rightarrow> do { _ \<leftarrow> Instance ScoreContentConsensusFactory_m_rules (env_net env) height; ScoreContent_Check env tx ptx }
      | ACTION_SCORE_COMMENT \<Rightarrow> do { _ \<leftarrow> Instance ScoreCommentConsensusFactory_m_rules (env_net env) height; ScoreComment_Check env tx ptx }
      | ACTION_SUBSCRIBE \<Rightarrow> do { _ \<leftarrow> Instance SubscribeConsensusFactory_m_rules (env_net env) height; Subscribe_Check env tx ptx }
      | ACTION_SUBSCRIBE_PRIVATE \<Rightarrow> do { _ \<leftarrow> Instance SubscribePrivateConsensusFactory_m_rules (env_net env) height; SubscribePrivate_Check env tx ptx }
      | ACTION_SUBSCRIBE_CANCEL \<Rightarrow> do { _ \<leftarrow> Instance SubscribeCancelConsensusFactory_m_rules (env_net env) height; SubscribeCancel_Check env tx ptx }
      | ACTION_BLOCKING \<Rightarrow> do { _ \<leftarrow> Instance BlockingConsensusFactory_m_rules (env_net env) height; Blocking_Check env tx ptx }
      | ACTION_BLOCKING_CANCEL \<Rightarrow> do { _ \<leftarrow> Instance BlockingCancelConsensusFactory_m_rules (env_net env) height; BlockingCancel_Check env tx ptx }
      | ACTION_COMPLAIN \<Rightarrow> do { _ \<leftarrow> Instance ComplainConsensusFactory_m_rules (env_net env) height; Complain_Check env tx ptx }
      | _ \<Rightarrow> Some Success)"

definition Helper_validate ::
    "ConsensusEnv \<Rightarrow> int \<Rightarrow> Transaction list option \<Rightarrow> CTransaction \<Rightarrow> Transaction \<Rightarrow> ConsensusValidateResult option" where
  "Helper_validate env height block tx ptx =
     (if \<not> isConsensusable (m_type ptx) then Some Success
      else case m_type ptx of
         ACCOUNT_SETTING \<Rightarrow> do { _ \<leftarrow> Instance AccountSettingConsensusFactory_m_rules (env_net env) height; AccountSetting_Validate env height ptx block }
      | ACCOUNT_USER \<Rightarrow> do { v \<leftarrow> Instance UserConsensusFactory_m_rules (env_net env) height; User_Validate env height v ptx block }
      | CONTENT_POST \<Rightarrow> do { v \<leftarrow> Instance PostConsensusFactory_m_rules (env_net env) height; Post_Validate env height v ptx block }
      | CONTENT_VIDEO \<Rightarrow> do { _ \<leftarrow> Instance VideoConsensusFactory_m_rules (env_net env) height; Video_Validate env height ptx block }
      | CONTENT_ARTICLE \<Rightarrow> do { _ \<leftarrow> Instance ArticleConsensusFactory_m_rules (env_net env) height; Article_Validate env height ptx block }
      | CONTENT_COMMENT \<Rightarrow> do { v \<leftarrow> Instance CommentConsensusFactory_m_rules (env_net env) height; Comment_Validate env height v ptx block }
      | CONTENT_COMMENT_EDIT \<Rightarrow> do { v \<leftarrow> Instance CommentEditConsensusFactory_m_rules (env_net env) height; CommentEdit_Validate env height v ptx block }
      | CONTENT_COMMENT_DELETE \<Rightarrow> do { _ \<leftarrow> Instance CommentDeleteConsensusFactory_m_rules (env_net env) height; CommentDelete_Validate env ptx block }
      | CONTENT_DELETE \<Rightarrow> do { _ \<leftarrow> Instance ContentDeleteConsensusFactory_m_rules (env_net env) height; ContentDelete_Validate env ptx block }
      | BOOST_CONTENT \<Rightarrow> do { _ \<leftarrow> Instance BoostContentConsensusFactory_m_rules (env_net env) height; BoostContent_Validate env ptx block }
      | ACTION_SCORE_CONTENT \<Rightarrow> do { v \<leftarrow> Instance ScoreContentConsensusFactory_m_rules (env_net env) height; ScoreContent_Validate env height v tx ptx block }
      | ACTION_SCORE_COMMENT \<Rightarrow> do { v \<leftarrow> Instance ScoreCommentConsensusFactory_m_rules (env_net env) height; ScoreComment_Validate env height v tx ptx block }
      | ACTION_SUBSCRIBE \<Rightarrow> do { _ \<leftarrow> Instance SubscribeConsensusFactory_m_rules (env_net env) height; Subscribe_Validate env ptx block }
      | ACTION_SUBSCRIBE_PRIVATE \<Rightarrow> do { _ \<leftarrow> Instance SubscribePrivateConsensusFactory_m_rules (env_net env) height; SubscribePrivate_Validate env ptx block }
      | ACTION_SUBSCRIBE_CANCEL \<Rightarrow> do { _ \<leftarrow> Instance SubscribeCancelConsensusFactory_m_rules (env_net env) height; SubscribeCancel_Validate env ptx block }
      | ACTION_BLOCKING \<Rightarrow> do { _ \<leftarrow> Instance BlockingConsensusFactory_m_rules (env_net env) height; Blocking_Validate env ptx block }
      | ACTION_BLOCKING_CANCEL \<Rightarrow> do { _ \<leftarrow> Instance BlockingCancelConsensusFactory_m_rules (env_net env) height; BlockingCancel_Validate env ptx block }
      | ACTION_COMPLAIN \<Rightarrow> do { v \<leftarrow> Instance ComplainConsensusFactory_m_rules (env_net env) height; Complain_Validate env height v ptx block }
      | _ \<Rightarrow> Some Success)"

section \<open>Entry points\<close>

text \<open>\<open>find_if\<close> over the social data of a block.\<close>

definition find_ptx :: "Transaction list \<Rightarrow> CTransaction \<Rightarrow> Transaction option" where
  "find_ptx pBlock tx = find (\<lambda>ptx. m_hash ptx = GetHex (tx_hash tx)) pBlock"

text \<open>The loop of \<open>Validate\<close> over a block, for the function it applies to each transaction.\<close>

fun validate_loop ::
    "(CTransaction \<Rightarrow> Transaction \<Rightarrow> ConsensusValidateResult option) \<Rightarrow> Transaction list \<Rightarrow> CTransaction list \<Rightarrow>
     ConsensusValidateResult option" where
  "validate_loop rule pBlock [] = Some Success"
| "validate_loop rule pBlock (tx # txs) =
     (case find_ptx pBlock tx of
        Some ptx \<Rightarrow> and_then (rule tx ptx) (validate_loop rule pBlock txs)
      | None \<Rightarrow> validate_loop rule pBlock txs)"

definition Helper_Validate_block ::
    "ConsensusEnv \<Rightarrow> CBlock \<Rightarrow> Transaction list \<Rightarrow> int \<Rightarrow> ConsensusValidateResult option" where
  "Helper_Validate_block env block pBlock height =
     validate_loop (Helper_validate env height (Some pBlock)) pBlock (vtx block)"

definition Helper_Validate_mempool ::
    "ConsensusEnv \<Rightarrow> CTransaction \<Rightarrow> Transaction \<Rightarrow> int \<Rightarrow> ConsensusValidateResult option" where
  "Helper_Validate_mempool env tx ptx height =
     (if Exists (m_hash ptx) (env_db env) then Some Success
      else and_then (Helper_validate env height None tx ptx) (Some Success))"

definition Helper_Validate_construct ::
    "ConsensusEnv \<Rightarrow> CTransaction \<Rightarrow> Transaction \<Rightarrow> Transaction list option \<Rightarrow> int \<Rightarrow> ConsensusValidateResult option" where
  "Helper_Validate_construct env tx ptx pBlock height =
     and_then (Helper_validate env height pBlock tx ptx) (Some Success)"

text \<open>The loop of \<open>Check\<close> over a block: transactions of unsupported types and the coinbase of a
  proof-of-stake block have no social data, all others must have it.\<close>

fun check_loop ::
    "(string \<Rightarrow> string list) \<Rightarrow> bool \<Rightarrow> (CTransaction \<Rightarrow> Transaction \<Rightarrow> ConsensusValidateResult option) \<Rightarrow>
     Transaction list \<Rightarrow> CTransaction list \<Rightarrow> ConsensusValidateResult option" where
  "check_loop split coinstakeBlock rule pBlock [] = Some Success"
| "check_loop split coinstakeBlock rule pBlock (tx # txs) = do {
     txType \<leftarrow> ParseType split tx;
     if txType = NOT_SUPPORTED \<or> coinstakeBlock \<and> txType = TX_COINBASE
     then check_loop split coinstakeBlock rule pBlock txs
     else (case find_ptx pBlock tx of
        None \<Rightarrow> Some (False, SocialConsensusResult_PocketDataNotFound)
      | Some ptx \<Rightarrow> and_then (rule tx ptx) (check_loop split coinstakeBlock rule pBlock txs))
   }"

definition Helper_Check_block ::
    "ConsensusEnv \<Rightarrow> CBlock \<Rightarrow> Transaction list option \<Rightarrow> int \<Rightarrow> ConsensusValidateResult option" where
  "Helper_Check_block env block pBlock height =
     (case pBlock of
        None \<Rightarrow> Some (False, SocialConsensusResult_PocketDataNotFound)
      | Some ptxs \<Rightarrow>
          check_loop (env_split env) (\<exists>tx \<in> set (vtx block). IsCoinStake tx) (Helper_check env height) ptxs (vtx block))"

definition Helper_Check_tx ::
    "ConsensusEnv \<Rightarrow> CTransaction \<Rightarrow> Transaction \<Rightarrow> int \<Rightarrow> ConsensusValidateResult option" where
  "Helper_Check_tx env tx ptx height =
     (if Exists (m_hash ptx) (env_db env) then Some Success
      else and_then (Helper_check env height tx ptx) (Some Success))"

section \<open>A rule for each transaction gives a rule for the block\<close>

text \<open>What the loops rely on: every answer pairs its flag with a code.\<close>

locale transaction_rule =
  fixes rule :: "CTransaction \<Rightarrow> Transaction \<Rightarrow> ConsensusValidateResult option"
  assumes rule_answer: "answer_ok (rule tx ptx)"
begin

lemma validate_loop_answer: "answer_ok (validate_loop rule pBlock txs)"
  by (induction txs) (auto split: option.split intro!: answer_intros rule_answer)

lemma check_loop_answer: "answer_ok (check_loop split coinstakeBlock rule pBlock txs)"
  by (induction txs) (auto split: option.split intro!: answer_intros rule_answer)

lemma validate_loop_accepted: "accepted (validate_loop rule pBlock txs) \<longleftrightarrow>
    (\<forall>tx \<in> set txs. \<forall>ptx. find_ptx pBlock tx = Some ptx \<longrightarrow> accepted (rule tx ptx))"
  by (induction txs) (auto split: option.split)

lemma validate_loop_rejected:
  assumes "validate_loop rule pBlock txs = Some (False, code)"
  shows "\<exists>before tx after ptx. txs = before @ tx # after \<and> find_ptx pBlock tx = Some ptx \<and>
    rule tx ptx = Some (False, code) \<and> accepted (validate_loop rule pBlock before)"
  using assms
proof (induction txs)
  case (Cons tx txs)
  show ?case
  proof (cases "find_ptx pBlock tx")
    case None
    with Cons obtain before tx' after ptx where "txs = before @ tx' # after" "find_ptx pBlock tx' = Some ptx"
      "rule tx' ptx = Some (False, code)" "accepted (validate_loop rule pBlock before)" by auto
    with None show ?thesis by (intro exI[of _ "tx # before"]) auto
  next
    case (Some ptx)
    show ?thesis
    proof (cases "accepted (rule tx ptx)")
      case True
      then have "validate_loop rule pBlock txs = Some (False, code)"
        using Cons.prems Some by (auto simp: and_then_def accepted_def)
      with Cons.IH obtain before tx' after ptx' where "txs = before @ tx' # after" "find_ptx pBlock tx' = Some ptx'"
        "rule tx' ptx' = Some (False, code)" "accepted (validate_loop rule pBlock before)" by auto
      with Some True show ?thesis by (intro exI[of _ "tx # before"]) auto
    next
      case False
      then have "rule tx ptx = Some (False, code)"
        using Cons.prems Some by (cases "rule tx ptx") (auto simp: and_then_def accepted_def split: if_splits)
      with Some show ?thesis by (intro exI[of _ "[]"]) auto
    qed
  qed
qed (simp add: Success_def)

end

lemma Helper_validate_answer: "answer_ok (Helper_validate env height block tx ptx)"
  unfolding Helper_validate_def by (cases "m_type ptx") (auto intro!: answer_intros)

lemma Helper_check_answer: "answer_ok (Helper_check env height tx ptx)"
  unfolding Helper_check_def by (cases "m_type ptx") (auto intro!: answer_intros)

interpretation block_validation: transaction_rule "Helper_validate env height block" for env height block
  by unfold_locales (rule Helper_validate_answer)

interpretation block_check: transaction_rule "Helper_check env height" for env height
  by unfold_locales (rule Helper_check_answer)

end
