(* ===== verification/SocialSafety.thy ===== *)
theory SocialSafety
  imports SocialHelper
begin

text \<open>
  What the social consensus guarantees about the transactions and blocks it accepts.
\<close>

section \<open>Loops over a block\<close>

lemma for_block_Inl: "for_block body s (t # ts) = Some (Inl s') \<longleftrightarrow>
    (\<exists>s2. body s t = Some (Inl s2) \<and> for_block body s2 ts = Some (Inl s'))"
proof (cases "body s t")
  case (Some r)
  then show ?thesis by (cases r) auto
qed simp

lemma for_block_Inr: "for_block body s (t # ts) = Some (Inr r) \<longleftrightarrow>
    body s t = Some (Inr r) \<or> (\<exists>s2. body s t = Some (Inl s2) \<and> for_block body s2 ts = Some (Inr r))"
proof (cases "body s t")
  case (Some r)
  then show ?thesis by (cases r) auto
qed simp

declare for_block.simps(2) [simp del]

text \<open>A loop that ends without an early return has run its body on every transaction.\<close>

lemma for_block_each:
  "for_block body s block = Some (Inl s') \<Longrightarrow> t \<in> set block \<Longrightarrow> \<exists>s1 s2. body s1 t = Some (Inl s2)"
  by (induction block arbitrary: s) (auto simp: for_block_Inl)

text \<open>A loop whose body only adds computes a sum.\<close>

lemma for_block_sum:
  fixes s :: int
  assumes "\<And>s t s2. body s t = Some (Inl s2) \<Longrightarrow> s2 = s + c t"
  shows "for_block body s block = Some (Inl s') \<Longrightarrow> s' = s + sum_list (map c block)"
proof (induction block arbitrary: s)
  case (Cons blockTx block)
  then obtain s2 where s2: "body s blockTx = Some (Inl s2)" "for_block body s2 block = Some (Inl s')"
    by (auto simp: for_block_Inl)
  from Cons.IH[OF s2(2)] assms[OF s2(1)] show ?case by simp
qed simp

text \<open>The bodies of the rules never return early with an accepting answer.\<close>

definition rejecting :: "('s \<Rightarrow> Transaction \<Rightarrow> ('s + ConsensusValidateResult) option) \<Rightarrow> bool" where
  "rejecting body \<longleftrightarrow> (\<forall>s t code. body s t \<noteq> Some (Inr (True, code)))"

lemma for_block_rejects: "rejecting body \<Longrightarrow> for_block body s block \<noteq> Some (Inr (True, code))"
  by (induction block arbitrary: s) (auto simp: for_block_Inr rejecting_def)

lemma accepted_loop:
  assumes "accepted (after_loop (for_block body s block) rest)" "rejecting body"
  shows "\<exists>s'. for_block body s block = Some (Inl s') \<and> accepted (rest s')"
  using assms(1) for_block_rejects[OF assms(2), of s block] unfolding accepted_after_loop by simp

lemma accepted_loop_each:
  assumes "accepted (after_loop (for_block body s block) rest)" "t \<in> set block" "rejecting body"
  shows "\<exists>s1 s2. body s1 t = Some (Inl s2)"
proof -
  obtain s' where "for_block body s block = Some (Inl s')"
    using accepted_loop[OF assms(1,3)] by (elim exE conjE)
  from for_block_each[OF this assms(2)] show ?thesis .
qed

lemma IsIn_iff [simp]: "IsIn t ts \<longleftrightarrow> t \<in> set ts"
  by (induction ts) auto

section \<open>Blocks\<close>

text \<open>C5. A block is accepted exactly when the rule of its type accepts every transaction of the
  block that has social data, each against the whole block.\<close>

theorem Helper_Validate_block_iff:
  "accepted (Helper_Validate_block env block pBlock height) \<longleftrightarrow>
     (\<forall>tx \<in> set (vtx block). \<forall>ptx. find_ptx pBlock tx = Some ptx \<longrightarrow>
        accepted (Helper_validate env height (Some pBlock) tx ptx))"
  unfolding Helper_Validate_block_def by (rule block_validation.validate_loop_accepted)

text \<open>C6. When a block is rejected, the code is that of its first transaction that fails, and all
  before it pass.\<close>

theorem Helper_Validate_block_rejected:
  assumes "Helper_Validate_block env block pBlock height = Some (False, code)"
  shows "code \<noteq> SocialConsensusResult_Success \<and>
    (\<exists>before tx after ptx. vtx block = before @ tx # after \<and> find_ptx pBlock tx = Some ptx \<and>
       Helper_validate env height (Some pBlock) tx ptx = Some (False, code) \<and>
       (\<forall>tx' \<in> set before. \<forall>ptx'. find_ptx pBlock tx' = Some ptx' \<longrightarrow>
          accepted (Helper_validate env height (Some pBlock) tx' ptx')))"
proof -
  obtain before tx after ptx where "vtx block = before @ tx # after" "find_ptx pBlock tx = Some ptx"
    "Helper_validate env height (Some pBlock) tx ptx = Some (False, code)"
    "accepted (validate_loop (Helper_validate env height (Some pBlock)) pBlock before)"
    using block_validation.validate_loop_rejected[OF assms[unfolded Helper_Validate_block_def]] by blast
  moreover have "code \<noteq> SocialConsensusResult_Success"
    using block_validation.validate_loop_answer[of env height "Some pBlock" pBlock "vtx block"] assms
    by (auto simp: Helper_Validate_block_def answer_ok_def)
  ultimately show ?thesis
    unfolding block_validation.validate_loop_accepted by blast
qed

section \<open>The limit on comments\<close>

definition comments_by :: "string \<Rightarrow> Transaction list \<Rightarrow> int" where
  "comments_by a pBlock = int (length (filter (\<lambda>p. m_type p = CONTENT_COMMENT \<and> m_string1 p = Some a) pBlock))"

lemma Comment_version_main:
  "1180000 \<le> height \<Longrightarrow> Instance CommentConsensusFactory_m_rules NetworkMain height = Some Comment_1180000"
  unfolding comment_rules.Instance_eq by (simp add: CommentConsensusFactory_m_rules_def)

text \<open>The count that is compared with the limit: the comments of the author in the chain and the
  other ones in the block.\<close>

lemma Comment_ValidateBlock_count:
  assumes "accepted (Comment_ValidateBlock env height Comment_1180000 ptx block)" and a: "m_string1 ptx = Some a"
  shows "\<exists>depth. limit env height ConsensusLimit_depth = Some depth \<and>
    accepted (Comment_ValidateLimit env height ptx (CountChainCommentHeight a (height - depth) (env_db env) +
      comments_by a (filter (\<lambda>p. m_hash p \<noteq> m_hash ptx) block)))"
proof -
  let ?c = "\<lambda>p. if m_type p = CONTENT_COMMENT \<and> m_string1 p = Some a \<and> m_hash p \<noteq> m_hash ptx then 1 else 0 :: int"
  from assms obtain depth s where d: "limit env height ConsensusLimit_depth = Some depth"
    and s: "for_block (\<lambda>count blockTx.
          if \<not> IsIn (m_type blockTx) [CONTENT_COMMENT] then continue count
          else if m_hash blockTx = m_hash ptx then continue count
          else do {
            address \<leftarrow> m_string1 ptx;
            blockAddress \<leftarrow> m_string1 blockTx;
            if address = blockAddress \<and> Comment_CheckBlockLimitTime Comment_1180000 ptx blockTx then continue (count + 1)
            else continue count
          }) (CountChainCommentHeight a (height - depth) (env_db env)) block = Some (Inl s)"
    and l: "accepted (Comment_ValidateLimit env height ptx s)"
    unfolding Comment_ValidateBlock_def Comment_GetChainCount_def
    by (auto simp: accepted_bind Option.bind_eq_Some_conv rejecting_def dest!: accepted_loop split: if_splits)
  have "s = CountChainCommentHeight a (height - depth) (env_db env) + sum_list (map ?c block)"
    by (rule for_block_sum[OF _ s])
      (auto simp: a Comment_CheckBlockLimitTime_def Option.bind_eq_Some_conv split: if_splits)
  moreover have "sum_list (map ?c block) = comments_by a (filter (\<lambda>p. m_hash p \<noteq> m_hash ptx) block)"
    by (induction block) (auto simp: comments_by_def)
  ultimately show ?thesis using d l by auto
qed

lemma main_limits:
  "1180000 \<le> height \<Longrightarrow> GetConsensusLimit NetworkMain height ConsensusLimit_depth = Some 1440"
  "0 \<le> height \<Longrightarrow> GetConsensusLimit NetworkMain height ConsensusLimit_full_comment = Some 300"
  "0 \<le> height \<Longrightarrow> GetConsensusLimit NetworkMain height ConsensusLimit_trial_comment = Some 150"
proof -
  have entries: "map_at (map_at m_consensus_limits ConsensusLimit_depth) NetworkMain = [(0, 86400), (1180000, 1440)]"
    "map_at (map_at m_consensus_limits ConsensusLimit_full_comment) NetworkMain = [(0, 300)]"
    "map_at (map_at m_consensus_limits ConsensusLimit_trial_comment) NetworkMain = [(0, 150)]"
    by code_simp+
  show "1180000 \<le> height \<Longrightarrow> GetConsensusLimit NetworkMain height ConsensusLimit_depth = Some 1440"
    by (simp add: GetConsensusLimit_def entries pred_upper_bound_def)
  show "0 \<le> height \<Longrightarrow> GetConsensusLimit NetworkMain height ConsensusLimit_full_comment = Some 300"
    "0 \<le> height \<Longrightarrow> GetConsensusLimit NetworkMain height ConsensusLimit_trial_comment = Some 150"
    by (simp_all add: GetConsensusLimit_def entries pred_upper_bound_def)
qed

lemma comments_by_others:
  assumes "distinct (map m_hash block)" "ptx \<in> set block" "m_type ptx = CONTENT_COMMENT" "m_string1 ptx = Some a"
  shows "comments_by a block = comments_by a (filter (\<lambda>p. m_hash p \<noteq> m_hash ptx) block) + 1"
  using assms
proof (induction block)
  case (Cons p block)
  show ?case
  proof (cases "p = ptx")
    case True
    then have "m_hash ptx \<notin> m_hash ` set block" using Cons.prems(1) by simp
    then have "\<forall>q \<in> set block. m_hash q \<noteq> m_hash ptx" by (metis image_eqI)
    then have "filter (\<lambda>p. m_hash p \<noteq> m_hash ptx) block = block" by (simp add: filter_id_conv)
    with True Cons.prems show ?thesis by (simp add: comments_by_def)
  next
    case False
    with Cons.prems have "ptx \<in> set block" "m_hash p \<noteq> m_hash ptx" by auto
    with Cons show ?thesis by (auto simp: comments_by_def)
  qed
qed simp

lemma find_ptx_distinct:
  assumes "distinct (map m_hash pBlock)" "ptx \<in> set pBlock" "GetHex (tx_hash tx) = m_hash ptx"
  shows "find_ptx pBlock tx = Some ptx"
  using assms unfolding find_ptx_def by (induction pBlock) (auto simp: rev_image_eqI)

text \<open>C7. Past height 1180000 of the main network, an accepted block takes no author above 300
  comments in the last 1440 blocks, the block itself included, and no author in trial mode above
  150. Every social object of the block belongs to one of its transactions and no two have the
  same hash.\<close>

theorem block_comment_limit:
  assumes block: "accepted (Helper_Validate_block env block pBlock height)"
    and main: "env_net env = NetworkMain" "1180000 \<le> height"
    and data: "distinct (map m_hash pBlock)" "\<forall>p \<in> set pBlock. \<exists>tx \<in> set (vtx block). GetHex (tx_hash tx) = m_hash p"
    and ptx: "ptx \<in> set pBlock" "m_type ptx = CONTENT_COMMENT" "m_string1 ptx = Some a"
  shows "\<exists>mode reputation balance. account_mode env height a = Some (mode, reputation, balance) \<and>
    CountChainCommentHeight a (height - 1440) (env_db env) + comments_by a pBlock
      \<le> (if mode = AccountMode_Trial then 150 else 300)"
proof -
  from data(2) ptx(1) obtain tx where tx: "tx \<in> set (vtx block)" "GetHex (tx_hash tx) = m_hash ptx" by auto
  have "accepted (Helper_validate env height (Some pBlock) tx ptx)"
    using block tx find_ptx_distinct[OF data(1) ptx(1) tx(2)]
    unfolding Helper_Validate_block_def block_validation.validate_loop_accepted by blast
  then have "accepted (Comment_Validate env height Comment_1180000 ptx (Some pBlock))"
    by (simp add: Helper_validate_def isConsensusable_def ptx main Comment_version_main)
  then have "accepted (Comment_ValidateBlock env height Comment_1180000 ptx pBlock)"
    by (auto simp: Comment_Validate_def ValidateLimits_def dest!: accepted_Validate)
  from Comment_ValidateBlock_count[OF this ptx(3)]
  have "accepted (Comment_ValidateLimit env height ptx (CountChainCommentHeight a (height - 1440) (env_db env) +
      comments_by a (filter (\<lambda>p. m_hash p \<noteq> m_hash ptx) pBlock)))"
    using main by (auto simp: limit_def main_limits)
  moreover have "comments_by a pBlock = comments_by a (filter (\<lambda>p. m_hash p \<noteq> m_hash ptx) pBlock) + 1"
    using comments_by_others[OF data(1) ptx] .
  ultimately show ?thesis
    using main ptx(3)
    by (auto simp: Comment_ValidateLimit_def accepted_bind Comment_GetLimit_def mode_limit_def limit_def main_limits
        split: if_splits AccountMode.splits)
qed

section \<open>Registered authors\<close>

definition profile_in_chain :: "string \<Rightarrow> Database \<Rightarrow> bool" where
  "profile_in_chain a db \<longleftrightarrow>
     (\<exists>r \<in> set (Transactions db). type_in r [100, 101, 102] \<and> t_String1 r = Some a \<and> t_Height r \<noteq> None)"

definition profile_in_block :: "string \<Rightarrow> Transaction list option \<Rightarrow> bool" where
  "profile_in_block a block \<longleftrightarrow> (\<exists>txs. block = Some txs \<and> (\<exists>t \<in> set txs. m_type t = ACCOUNT_USER \<and> m_string1 t = Some a))"

lemma ExistsUserRegistrations_all:
  assumes "ExistsUserRegistrations as False db" "a \<in> set as"
  shows "profile_in_chain a db"
proof -
  let ?rows = "filter (\<lambda>t. type_in t [100, 101, 102] \<and>
      (case t_String1 t of None \<Rightarrow> False | Some a \<Rightarrow> a \<in> set as) \<and> t_Height t \<noteq> None) (Transactions db)"
  let ?found = "List.map_filter t_String1 ?rows"
  have found: "set ?found = {a \<in> set as. profile_in_chain a db}"
    by (auto simp: map_filter_def profile_in_chain_def image_iff split: option.splits) force
  have "card (set ?found) = length as"
    using assms by (auto simp: ExistsUserRegistrations_def length_remdups_card_conv split: if_splits)
  then have "card (set as) \<le> card (set ?found)" using card_length[of as] by simp
  moreover have "set ?found \<subseteq> set as" using found by auto
  ultimately have "set ?found = set as" by (meson card_seteq finite_set)
  with assms(2) found show ?thesis by auto
qed

lemma registered_in_block_True: "registered_in_block a txs = Some True \<Longrightarrow> profile_in_block a (Some txs)"
  by (induction txs) (auto simp: profile_in_block_def Option.bind_eq_Some_conv split: if_splits)

lemma addresses_not_in_block_rest:
  "addresses_not_in_block as txs = Some rest \<Longrightarrow> a \<in> set as \<Longrightarrow> a \<notin> set rest \<Longrightarrow> profile_in_block a (Some txs)"
  by (induction as arbitrary: rest)
     (auto simp: Option.bind_eq_Some_conv registered_in_block_True split: if_splits)

lemma check_registrations_all:
  assumes "check_registrations env as block = Some True" "a \<in> set as"
  shows "profile_in_chain a (env_db env) \<or> profile_in_block a block"
proof (cases block)
  case None
  then show ?thesis using assms ExistsUserRegistrations_all[of as "env_db env" a]
    by (auto simp: check_registrations_def split: if_splits)
next
  case (Some txs)
  with assms obtain rest where rest: "addresses_not_in_block as txs = Some rest"
    "rest = [] \<or> ExistsUserRegistrations rest False (env_db env)"
    by (auto simp: check_registrations_def Option.bind_eq_Some_conv split: if_splits)
  show ?thesis
  proof (cases "a \<in> set rest")
    case True
    then show ?thesis using rest(2) ExistsUserRegistrations_all[of rest "env_db env" a] by auto
  next
    case False
    then show ?thesis using addresses_not_in_block_rest[OF rest(1) assms(2)] Some by simp
  qed
qed

text \<open>The types of the transactions that an account other than a new one sends.\<close>

definition account_types :: "TxType set" where
  "account_types = {ACCOUNT_SETTING, CONTENT_POST, CONTENT_VIDEO, CONTENT_ARTICLE, CONTENT_COMMENT, CONTENT_COMMENT_EDIT,
     CONTENT_COMMENT_DELETE, CONTENT_DELETE, BOOST_CONTENT, ACTION_SCORE_CONTENT, ACTION_SCORE_COMMENT, ACTION_SUBSCRIBE,
     ACTION_SUBSCRIBE_PRIVATE, ACTION_SUBSCRIBE_CANCEL, ACTION_BLOCKING, ACTION_BLOCKING_CANCEL, ACTION_COMPLAIN}"

lemmas all_Validate_defs =
  AccountSetting_Validate_def Post_Validate_def Video_Validate_def Article_Validate_def Comment_Validate_def
  CommentEdit_Validate_def CommentDelete_Validate_def ContentDelete_Validate_def BoostContent_Validate_def
  ScoreContent_Validate_def ScoreComment_Validate_def Subscribe_Validate_def SubscribePrivate_Validate_def
  SubscribeCancel_Validate_def subscription_rule_def Blocking_Validate_def BlockingCancel_Validate_def
  blocking_rule_def Complain_Validate_def

lemma accepted_single:
  "accepted (and_then (SocialConsensus_Validate env (do { address \<leftarrow> m_string1 ptx; Some [address] }) vb vm block) rest) \<Longrightarrow>
     \<exists>a. m_string1 ptx = Some a \<and> check_registrations env [a] block = Some True"
  by (auto simp: Option.bind_eq_Some_conv dest!: accepted_Validate)

lemma accepted_pair:
  "accepted (and_then (SocialConsensus_Validate env (pair_addresses ptx) vb vm block) rest) \<Longrightarrow>
     \<exists>a b. m_string1 ptx = Some a \<and> check_registrations env [a, b] block = Some True"
  by (auto simp: pair_addresses_def Option.bind_eq_Some_conv dest!: accepted_Validate) blast

lemma accepted_registrations:
  assumes "accepted (Helper_validate env height block tx ptx)" "m_type ptx \<in> account_types"
  shows "\<exists>a b. m_string1 ptx = Some a \<and>
    (check_registrations env [a] block = Some True \<or> check_registrations env [a, b] block = Some True)"
  using assms unfolding account_types_def Helper_validate_def isConsensusable_def
  by (elim insertE emptyE)
    (auto simp: accepted_bind all_Validate_defs simp del: accepted_and_then dest!: accepted_single accepted_pair)

text \<open>C8. The author of every accepted transaction other than a profile has a profile in the chain
  or in the same block.\<close>

theorem accepted_author_registered:
  assumes "accepted (Helper_validate env height block tx ptx)" "m_type ptx \<in> account_types"
  shows "\<exists>a. m_string1 ptx = Some a \<and> (profile_in_chain a (env_db env) \<or> profile_in_block a block)"
proof -
  from accepted_registrations[OF assms] obtain a b where a: "m_string1 ptx = Some a"
    and "check_registrations env [a] block = Some True \<or> check_registrations env [a, b] block = Some True" by blast
  then have "profile_in_chain a (env_db env) \<or> profile_in_block a block"
    using check_registrations_all[of env "[a]" block a] check_registrations_all[of env "[a, b]" block a] by auto
  with a show ?thesis by simp
qed

section \<open>Changes by the author only\<close>

lemma CreateTransactionFromListRow_fields:
  "CreateTransactionFromListRow t p = Some ptx \<Longrightarrow>
     m_type ptx = t_Type t \<and> m_hash ptx = t_Hash t \<and> m_string1 ptx = t_String1 t \<and> m_string2 ptx = t_String2 t"
  by (auto simp: CreateTransactionFromListRow_def CreateInstance_of_type_def Option.bind_eq_Some_conv split: if_splits)

lemma select_tx_row:
  assumes "select_tx P db = Some (Some ptx)"
  shows "\<exists>r \<in> set (Transactions db). P r \<and> m_type ptx = t_Type r \<and> m_hash ptx = t_Hash r \<and>
    m_string1 ptx = t_String1 r \<and> m_string2 ptx = t_String2 r"
proof (cases "filter P (Transactions db)")
  case (Cons r rs)
  then have "r \<in> set (Transactions db)" "P r"
    by (metis Cons_eq_filterD in_set_conv_decomp)+
  moreover from Cons assms obtain p where "CreateTransactionFromListRow r p = Some ptx"
    by (auto simp: select_tx_def)
  ultimately show ?thesis using CreateTransactionFromListRow_fields by blast
qed (use assms in \<open>simp add: select_tx_def\<close>)

lemma accepted_case [simp]:
  "accepted (case v of None \<Rightarrow> Some (False, code) | Some x \<Rightarrow> f x) \<longleftrightarrow> (\<exists>x. v = Some x \<and> accepted (f x))"
  by (cases v) auto

definition has_original :: "ConsensusEnv \<Rightarrow> Transaction \<Rightarrow> bool" where
  "has_original env ptx \<longleftrightarrow>
     (\<exists>root original. m_string2 ptx = Some root \<and> GetFirstContent root (env_db env) = Some (Some original) \<and>
        m_type original = m_type ptx \<and> m_string1 original = m_string1 ptx)"

lemma Post_edit_original: "accepted (Post_ValidateEdit env height v ptx) \<Longrightarrow> has_original env ptx"
  unfolding Post_ValidateEdit_def has_original_def by (auto simp: accepted_bind)

lemma Video_edit_original: "accepted (Video_ValidateEdit env height ptx) \<Longrightarrow> has_original env ptx"
  unfolding Video_ValidateEdit_def has_original_def by (auto simp: accepted_bind)

lemma Article_edit_original: "accepted (Article_ValidateEdit env height ptx) \<Longrightarrow> has_original env ptx"
  unfolding Article_ValidateEdit_def has_original_def by (auto simp: accepted_bind)

lemmas edit_original = Post_edit_original Video_edit_original Article_edit_original

text \<open>C9. An accepted edit of a post, video or article has the type and the author of the content it
  replaces, which is in the chain.\<close>

theorem edit_by_author:
  assumes "accepted (Helper_validate env height block tx ptx)"
    and "m_type ptx \<in> {CONTENT_POST, CONTENT_VIDEO, CONTENT_ARTICLE}" "IsEdit ptx = Some True"
  shows "\<exists>r \<in> set (Transactions (env_db env)). m_string2 ptx = Some (t_Hash r) \<and> t_Height r \<noteq> None \<and>
    t_Type r = m_type ptx \<and> t_String1 r = m_string1 ptx"
proof -
  have "has_original env ptx"
    using assms unfolding Helper_validate_def isConsensusable_def
    by (auto simp: accepted_bind Post_Validate_def Video_Validate_def Article_Validate_def intro: edit_original)
  then obtain root original where o: "m_string2 ptx = Some root" "GetFirstContent root (env_db env) = Some (Some original)"
    "m_type original = m_type ptx" "m_string1 original = m_string1 ptx"
    unfolding has_original_def by blast
  from select_tx_row[OF o(2)[unfolded GetFirstContent_def]] o show ?thesis by auto
qed

text \<open>C10. An accepted deletion of a content comes from the author of its last version, which is in
  the chain and not deleted.\<close>

theorem delete_by_author:
  assumes "accepted (Helper_validate env height block tx ptx)" and "m_type ptx = CONTENT_DELETE"
  shows "\<exists>r \<in> set (Transactions (env_db env)). t_String2 r = m_string2 ptx \<and> t_Height r \<noteq> None \<and> t_Last r \<and>
    t_Type r \<in> {CONTENT_POST, CONTENT_VIDEO, CONTENT_ARTICLE} \<and> t_String1 r = m_string1 ptx"
proof -
  from assms obtain root actual where
    "m_string2 ptx = Some root" "GetLastContent root contents (env_db env) = Some (Some actual)"
    "m_type actual \<noteq> CONTENT_DELETE" "m_string1 actual = m_string1 ptx"
    unfolding Helper_validate_def isConsensusable_def
    by (auto simp: accepted_bind ContentDelete_Validate_def)
  with select_tx_row[of _ "env_db env" actual] show ?thesis
    unfolding GetLastContent_def by fastforce
qed

section \<open>Scores\<close>

lemma count_where_none: "\<not> 0 < count_where P xs \<Longrightarrow> x \<in> set xs \<Longrightarrow> \<not> P x"
  by (auto simp: count_where_def filter_empty_conv)

lemma find_in_block_some:
  "find_in_block types hash txs = Some (Some p) \<Longrightarrow> p \<in> set txs \<and> m_type p \<in> set types \<and> m_string2 p = Some hash"
  by (induction txs) (auto simp: Option.bind_eq_Some_conv split: if_splits)

lemma ScoreContent_loop:
  assumes "accepted (ScoreContent_ValidateBlock env height v ptx pBlock)"
    and "p \<in> set pBlock" "m_type p = ACTION_SCORE_CONTENT" "m_hash p \<noteq> m_hash ptx"
    and "m_string1 p = m_string1 ptx" "m_string2 p = m_string2 ptx"
  shows "is_checkpoint env ptx SocialConsensusResult_DoubleScore"
  using assms(1) unfolding ScoreContent_ValidateBlock_def accepted_bind
  apply (elim exE conjE)
  apply (drule accepted_loop_each[OF _ assms(2)])
  subgoal by (auto simp: rejecting_def Option.bind_eq_Some_conv split: if_splits)
  using assms(3-) by (auto simp: Option.bind_eq_Some_conv split: if_splits)

text \<open>C11. An accepted score of a content in a block is the first of its author for this content, in
  the chain and, unless it is a listed exception, in the block; the content is not deleted and
  not the author's own.\<close>

theorem score_once:
  assumes "accepted (Helper_validate env height (Some pBlock) tx ptx)"
    and "m_type ptx = ACTION_SCORE_CONTENT" "m_string1 ptx = Some a" "m_string2 ptx = Some c"
  shows "(\<forall>r \<in> set (Transactions (env_db env)). t_Type r = ACTION_SCORE_CONTENT \<longrightarrow> t_String1 r = Some a \<longrightarrow>
        t_String2 r = Some c \<longrightarrow> t_Height r = None) \<and>
    (\<forall>p \<in> set pBlock. m_type p = ACTION_SCORE_CONTENT \<longrightarrow> m_string1 p = Some a \<longrightarrow> m_string2 p = Some c \<longrightarrow>
        m_hash p = m_hash ptx \<or> is_checkpoint env ptx SocialConsensusResult_DoubleScore) \<and>
    (\<exists>content. last_content env contents c (Some pBlock) = Some (Some content) \<and> m_type content \<noteq> CONTENT_DELETE \<and>
        m_string1 content \<noteq> Some a)"
proof -
  from assms obtain v where v: "accepted (ScoreContent_Validate env height v tx ptx (Some pBlock))"
    by (auto simp: Helper_validate_def isConsensusable_def accepted_bind)
  then have "\<not> ExistsScore a c ACTION_SCORE_CONTENT False (env_db env)"
    and content: "\<exists>content. last_content env contents c (Some pBlock) = Some (Some content) \<and>
      m_type content \<noteq> CONTENT_DELETE \<and> m_string1 content \<noteq> Some a"
    using assms(3,4) by (auto simp: ScoreContent_Validate_def accepted_bind)
  then have "\<forall>r \<in> set (Transactions (env_db env)). t_Type r = ACTION_SCORE_CONTENT \<longrightarrow> t_String1 r = Some a \<longrightarrow>
        t_String2 r = Some c \<longrightarrow> t_Height r = None"
    unfolding ExistsScore_def using count_where_none by fastforce
  moreover have "accepted (ScoreContent_ValidateBlock env height v ptx pBlock)"
    using v by (auto simp: ScoreContent_Validate_def ValidateLimits_def dest!: accepted_Validate)
  ultimately show ?thesis
    using ScoreContent_loop[of env height v ptx pBlock] assms(3,4) content by auto
qed

section \<open>Activation\<close>

lemma EnableAccept_iff [simp]:
  "accepted (Some (Article_EnableAccept v)) \<longleftrightarrow> v = Article_accept"
  "accepted (Some (BoostContent_EnableAccept w)) \<longleftrightarrow> w = BoostContent_accept"
  by (cases v; simp add: Article_EnableAccept_def) (cases w; simp add: BoostContent_EnableAccept_def)

text \<open>C25. Articles and boosts are rejected by \<open>check\<close> below their activation heights: 1586000 on the
  main network, 528000 and 528100 on the test network.\<close>

theorem activation_heights:
  assumes "accepted (Helper_check env height tx ptx)"
  shows "(m_type ptx = CONTENT_ARTICLE \<longrightarrow> (if env_net env = NetworkTest then 528000 else 1586000) \<le> height) \<and>
    (m_type ptx = BOOST_CONTENT \<longrightarrow> (if env_net env = NetworkTest then 528100 else 1586000) \<le> height)"
proof (intro conjI impI)
  assume "m_type ptx = CONTENT_ARTICLE"
  with assms have "Instance ArticleConsensusFactory_m_rules (env_net env) height = Some Article_accept"
    by (auto simp: Helper_check_def isConsensusable_def accepted_bind Article_Check_def)
  then show "(if env_net env = NetworkTest then 528000 else 1586000) \<le> height"
    unfolding article_rules.Instance_eq
    by (cases "env_net env") (auto simp: ArticleConsensusFactory_m_rules_def split: if_splits)
next
  assume "m_type ptx = BOOST_CONTENT"
  with assms have "Instance BoostContentConsensusFactory_m_rules (env_net env) height = Some BoostContent_accept"
    by (auto simp: Helper_check_def isConsensusable_def accepted_bind BoostContent_Check_def)
  then show "(if env_net env = NetworkTest then 528100 else 1586000) \<le> height"
    unfolding boost_content_rules.Instance_eq
    by (cases "env_net env") (auto simp: BoostContentConsensusFactory_m_rules_def split: if_splits)
qed

section \<open>Examples\<close>

text \<open>Two registered accounts, a post of one of them, and transactions about it.\<close>

definition example_row :: "TxType \<Rightarrow> string \<Rightarrow> int \<Rightarrow> int \<Rightarrow> string \<Rightarrow> string \<Rightarrow> TxRow" where
  "example_row type hash height i s1 s2 =
     \<lparr>t_Type = type, t_Hash = hash, t_Time = 5, t_BlockHash = Some ''b'', t_BlockNum = Some 1, t_Height = Some height,
      t_Last = True, t_Id = Some i, t_String1 = Some s1, t_String2 = Some s2, t_String3 = None, t_String4 = None,
      t_String5 = None, t_Int1 = None\<rparr>"

definition example_db :: Database where
  "example_db =
     \<lparr>Transactions = [example_row ACCOUNT_USER ''u1'' 7 1 ''alice'' ''x'', example_row ACCOUNT_USER ''u2'' 8 2 ''bob'' ''x'',
        example_row CONTENT_POST ''p1'' 1199990 3 ''bob'' ''p1''],
      PayloadTable = [], TxOutputs = [], Ratings = [], Balances = []\<rparr>"

definition example_env :: ConsensusEnv where
  "example_env =
     \<lparr>env_net = NetworkMain, env_db = example_db, env_checkpoints = \<lparr>Social = [], LotteryTable = [], OpReturn = []\<rparr>,
      env_read = (\<lambda>_. VNULL), env_hash = (\<lambda>_. []), env_split = TransactionHelper.fields, env_int_ge_text = (\<lambda>_ _. False), env_ii = 0\<rparr>"

definition example_tx :: CTransaction where
  "example_tx = \<lparr>tx_hash = [9], nTime = 7, vin = [], vout = []\<rparr>"

definition example_block :: CBlock where
  "example_block = \<lparr>block_hash = [8], vtx = [example_tx]\<rparr>"

definition example_ptx :: "TxType \<Rightarrow> string \<Rightarrow> string \<Rightarrow> Transaction" where
  "example_ptx type s1 s2 =
     \<lparr>m_type = type, m_hash = ''09'', m_time = 7, m_id = None, m_last = None, m_string1 = Some s1, m_string2 = Some s2,
      m_string3 = None, m_string4 = None, m_string5 = None, m_int1 = Some 5, m_payload = None, m_outputs = []\<rparr>"

definition example_comment :: "string \<Rightarrow> Transaction" where
  "example_comment author = (example_ptx CONTENT_COMMENT author ''09'')\<lparr>m_string3 := Some ''p1'',
     m_payload := Some (new_Payload\<lparr>pl_String1 := Some ''hi''\<rparr>)\<rparr>"

lemma example_comment_accepted:
  "accepted (Helper_Validate_block example_env example_block [example_comment ''alice''] 1200000)"
  by code_simp

lemma Helper_Validate_block_iff_witness:
  "accepted (Helper_Validate_block example_env example_block [example_comment ''alice''] 1200000) \<and>
   accepted (Helper_validate example_env 1200000 (Some [example_comment ''alice'']) example_tx (example_comment ''alice''))"
proof -
  have "find_ptx [example_comment ''alice''] example_tx = Some (example_comment ''alice'')" by code_simp
  then show ?thesis
    using Helper_Validate_block_iff[of example_env example_block "[example_comment ''alice'']" 1200000]
      example_comment_accepted by (simp add: example_block_def)
qed

lemma example_rejected:
  "Helper_Validate_block example_env example_block [example_comment ''carol''] 1200000 =
     Some (False, SocialConsensusResult_NotRegistered)"
  by code_simp

lemma Helper_Validate_block_rejected_witness:
  "\<exists>before tx after ptx. vtx example_block = before @ tx # after \<and> find_ptx [example_comment ''carol''] tx = Some ptx \<and>
     Helper_validate example_env 1200000 (Some [example_comment ''carol'']) tx ptx =
       Some (False, SocialConsensusResult_NotRegistered)"
  using Helper_Validate_block_rejected[OF example_rejected] by blast

lemma block_comment_limit_witness:
  "\<exists>mode reputation balance. account_mode example_env 1200000 ''alice'' = Some (mode, reputation, balance) \<and>
    CountChainCommentHeight ''alice'' (1200000 - 1440) example_db + comments_by ''alice'' [example_comment ''alice'']
      \<le> (if mode = AccountMode_Trial then 150 else 300)"
proof -
  have "GetHex [9] = ''09''" by code_simp
  then have "\<exists>tx \<in> set (vtx example_block). GetHex (tx_hash tx) = m_hash (example_comment ''alice'')"
    by (simp add: example_block_def example_tx_def example_comment_def example_ptx_def)
  then show ?thesis
    using block_comment_limit[OF example_comment_accepted, of "example_comment ''alice''" "''alice''"]
    by (simp add: example_env_def example_comment_def example_ptx_def)
qed

lemma example_accepted:
  "accepted (Helper_validate example_env 1200000 None example_tx (example_ptx CONTENT_POST ''bob'' ''p1''))"
  "accepted (Helper_validate example_env 1200000 None example_tx (example_ptx CONTENT_DELETE ''bob'' ''p1''))"
  "accepted (Helper_validate example_env 1200000 (Some []) example_tx (example_ptx ACTION_SCORE_CONTENT ''alice'' ''p1''))"
  by code_simp+

lemma accepted_author_registered_witness:
  "\<exists>a. m_string1 (example_ptx CONTENT_DELETE ''bob'' ''p1'') = Some a \<and>
     (profile_in_chain a example_db \<or> profile_in_block a None)"
  using accepted_author_registered[OF example_accepted(2)]
  by (simp add: example_ptx_def account_types_def example_env_def)

lemma edit_by_author_witness:
  "\<exists>r \<in> set (Transactions example_db). t_Hash r = ''p1'' \<and> t_String1 r = Some ''bob''"
  using edit_by_author[OF example_accepted(1)] by (auto simp: example_ptx_def example_env_def IsEdit_def)

lemma delete_by_author_witness:
  "\<exists>r \<in> set (Transactions example_db). t_String2 r = Some ''p1'' \<and> t_String1 r = Some ''bob''"
  using delete_by_author[OF example_accepted(2)] by (auto simp: example_ptx_def example_env_def)

lemma score_once_witness:
  "\<exists>content. last_content example_env contents ''p1'' (Some []) = Some (Some content) \<and> m_type content \<noteq> CONTENT_DELETE \<and>
     m_string1 content \<noteq> Some ''alice''"
  using score_once[OF example_accepted(3), of "''alice''" "''p1''"] by (simp add: example_ptx_def)

lemma example_checked:
  "accepted (Helper_check example_env 1586000 example_tx (example_ptx CONTENT_ARTICLE ''bob'' ''09''))"
  by code_simp

lemma activation_heights_witness:
  "accepted (Helper_check example_env 1586000 example_tx (example_ptx CONTENT_ARTICLE ''bob'' ''09'')) \<and>
   (if env_net example_env = NetworkTest then 528000 else 1586000) \<le> (1586000 :: int)"
  using activation_heights[OF example_checked] example_checked by (simp add: example_ptx_def)

text \<open>The rules for edits of comments do not compare the author with that of the original: an edit
  by another account passes both \<open>check\<close> and \<open>validate\<close>.\<close>

definition stranger_env :: ConsensusEnv where
  "stranger_env = example_env\<lparr>env_db := example_db\<lparr>Transactions := Transactions example_db @
     [(example_row CONTENT_COMMENT ''c1'' 1199995 4 ''bob'' ''c1'')\<lparr>t_String3 := Some ''p1''\<rparr>]\<rparr>\<rparr>"

definition stranger_edit :: Transaction where
  "stranger_edit = (example_ptx CONTENT_COMMENT_EDIT ''alice'' ''c1'')\<lparr>m_string3 := Some ''p1'',
     m_payload := Some (new_Payload\<lparr>pl_String1 := Some ''hi''\<rparr>)\<rparr>"

lemma comment_edit_by_stranger:
  "accepted (Helper_check stranger_env 1200000 example_tx stranger_edit)"
  "accepted (Helper_validate stranger_env 1200000 None example_tx stranger_edit)"
  "map_option (map_option m_string1) (GetFirstContent ''c1'' (env_db stranger_env)) = Some (Some (Some ''bob''))"
  "m_string1 stranger_edit = Some ''alice''"
  by code_simp+

text \<open>The counts of complaints ask for a complaint about itself: when no complaint is, none counts.\<close>

lemma complaints_not_counted:
  assumes "\<forall>r \<in> set (Transactions db). t_Type r = ACTION_COMPLAIN \<longrightarrow> t_String2 r \<noteq> Some (t_Hash r)"
  shows "CountMempoolComplain a db = 0" "CountChainComplainTime a time db = 0" "CountChainComplainHeight a height db = 0"
proof -
  have "t_Type r = ACTION_COMPLAIN" if "type_in r [307]" for r
    using that by (cases "t_Type r") (simp_all add: type_in_def)
  with assms show "CountMempoolComplain a db = 0" "CountChainComplainTime a time db = 0" "CountChainComplainHeight a height db = 0"
    unfolding CountMempoolComplain_def CountChainComplainTime_def CountChainComplainHeight_def count_where_def
    by (auto simp: filter_empty_conv)
qed

end
