(* ===== verification/ChainRepository.thy ===== *)
theory ChainRepository
  imports Database
begin

text \<open>
  \<open>pocketdb/repositories/ChainRepository.cpp\<close>: the index of the chain. Connecting a block sets
  the height of its transactions and outputs, marks the outputs it spends, gives every account,
  content, comment, blocking and subscription an identifier shared by all versions of the same
  entity with the flag \<open>Last\<close> on the newest one, and appends the changed balances.
  Disconnecting blocks restores the flags and removes the rest.

  Each method is one function on the database, statement by statement. A statement that violates
  a primary key throws; \<open>IndexBlock\<close> is then \<open>None\<close> and the SQL transaction is rolled back.
  A selection with \<open>limit 1\<close> and no order takes the first row of the table that qualifies;
  the invariant of the index makes the choice unique.
\<close>

section \<open>Heights and outputs\<close>

definition UpdateTransactionHeight :: "string \<Rightarrow> int \<Rightarrow> int \<Rightarrow> string \<Rightarrow> Database \<Rightarrow> Database" where
  "UpdateTransactionHeight blockHash blockNumber height txHash db =
     db\<lparr>Transactions := update_where (\<lambda>r. t_Hash r = txHash)
          (\<lambda>r. r\<lparr>t_BlockHash := Some blockHash, t_BlockNum := Some blockNumber, t_Height := Some height\<rparr>)
          (Transactions db),
        TxOutputs := update_where (\<lambda>o'. o_TxHash o' = txHash)
          (\<lambda>o'. o'\<lparr>o_TxHeight := Some height\<rparr>) (TxOutputs db)\<rparr>"

definition UpdateTransactionOutputs :: "TransactionIndexingInfo \<Rightarrow> int \<Rightarrow> Database \<Rightarrow> Database" where
  "UpdateTransactionOutputs txInfo height db =
     fold (\<lambda>input db. db\<lparr>TxOutputs :=
            update_where (\<lambda>o'. o_TxHash o' = fst input \<and> o_Number o' = snd input)
              (\<lambda>o'. o'\<lparr>o_SpentHeight := Some height, o_SpentTxHash := Some (ti_Hash txInfo)\<rparr>)
              (TxOutputs db)\<rparr>)
       (ti_Inputs txInfo) db"

section \<open>Balances\<close>

text \<open>The inner query of \<open>IndexBalances\<close>: per address the sum of the outputs created at the
  height, and the negated sum of those spent at it. SQLite adds in 64 bits and fails beyond; the
  model adds integers, since no sum of amounts of the chain exceeds the money supply, which is far
  below \<open>2 ^ 63\<close>.\<close>

definition group_sums :: "OutRow list \<Rightarrow> (string \<times> int) list" where
  "group_sums rows =
     map (\<lambda>a. (a, sum_list (map o_Value (filter (\<lambda>o'. o_AddressHash o' = a) rows))))
       (remdups (map o_AddressHash rows))"

definition saldo :: "int \<Rightarrow> OutRow list \<Rightarrow> (string \<times> int) list" where
  "saldo height outs =
     group_sums (filter (\<lambda>o'. o_TxHeight o' = Some height) outs) @
     map (\<lambda>(a, s). (a, - s)) (group_sums (filter (\<lambda>o'. o_SpentHeight o' = Some height) outs))"

text \<open>The outer query joins each of these rows with the last balances of its address and groups
  by address; \<open>matches\<close> has one row at most when the index is consistent.\<close>

definition new_balance :: "int \<Rightarrow> (string \<times> int) list \<Rightarrow> BalanceRow list \<Rightarrow> string \<Rightarrow> BalanceRow" where
  "new_balance height saldos balances a =
     (let amount = sum_list (map snd (filter (\<lambda>s. fst s = a) saldos));
          matches = filter (\<lambda>b. b_AddressHash b = a \<and> b_Last b) balances
      in \<lparr>b_AddressHash = a, b_Last = True, b_Height = height,
          b_Value = (case matches of
                       [] \<Rightarrow> amount
                     | b # _ \<Rightarrow> int (length matches) * amount + b_Value b)\<rparr>)"

definition IndexBalances :: "int \<Rightarrow> Database \<Rightarrow> Database option" where
  "IndexBalances height db =
     (let saldos = saldo height (TxOutputs db);
          new = map (new_balance height saldos (Balances db)) (remdups (map fst saldos));
          inserted = Balances db @ new
      in if \<not> distinct_on (\<lambda>b. (b_AddressHash b, b_Height b)) inserted then None
         else Some (db\<lparr>Balances :=
                update_where
                  (\<lambda>b. b_Last b \<and> b_Height b < height \<and>
                     (\<exists>b' \<in> set inserted. b_Height b' = height \<and> b_AddressHash b' = b_AddressHash b))
                  (\<lambda>b. b\<lparr>b_Last := False\<rparr>) inserted\<rparr>))"

section \<open>Identifiers and the last version\<close>

text \<open>The identifier an earlier version of the same entity has: accounts by type and address,
  contents and comments by their root, blockings and subscriptions by the two addresses.\<close>

definition account_id :: "TxRow list \<Rightarrow> TxRow \<Rightarrow> int option" where
  "account_id txs r =
     select_first (\<lambda>a. t_Type a = t_Type r \<and> t_Last a \<and> sql_eq (t_String1 a) (t_String1 r) \<and>
       t_Height a \<noteq> None) t_Id txs"

definition content_id :: "TxRow list \<Rightarrow> TxRow \<Rightarrow> int option" where
  "content_id txs r =
     select_first (\<lambda>c. type_in c [200, 201, 202, 207] \<and> t_Last c \<and>
       sql_eq (t_String2 c) (t_String2 r) \<and> t_Height c \<noteq> None) t_Id txs"

definition comment_id :: "TxRow list \<Rightarrow> TxRow \<Rightarrow> int option" where
  "comment_id txs r =
     sql_max (List.map_filter t_Id (filter (\<lambda>c. type_in c [204, 205, 206] \<and> t_Last c \<and>
       sql_eq (t_String2 c) (t_String2 r) \<and> t_Height c \<noteq> None) txs))"

definition blocking_id :: "TxRow list \<Rightarrow> TxRow \<Rightarrow> int option" where
  "blocking_id txs r =
     select_first (\<lambda>a. type_in a [305, 306] \<and> t_Last a \<and> sql_eq (t_String1 a) (t_String1 r) \<and>
       sql_eq (t_String2 a) (t_String2 r) \<and> t_Height a \<noteq> None) t_Id txs"

definition subscribe_id :: "TxRow list \<Rightarrow> TxRow \<Rightarrow> int option" where
  "subscribe_id txs r =
     select_first (\<lambda>a. type_in a [302, 303, 304] \<and> t_Last a \<and> sql_eq (t_String1 a) (t_String1 r) \<and>
       sql_eq (t_String2 a) (t_String2 r) \<and> t_Height a \<noteq> None) t_Id txs"

definition next_id :: "TxRow list \<Rightarrow> int" where
  "next_id txs = ifnull (map_option (\<lambda>m. m + 1) (sql_max (List.map_filter t_Id txs))) 0"

definition set_id :: "(TxRow list \<Rightarrow> TxRow \<Rightarrow> int option) \<Rightarrow> string \<Rightarrow> TxRow list \<Rightarrow> TxRow list" where
  "set_id sel txHash txs =
     update_where (\<lambda>r. t_Hash r = txHash)
       (\<lambda>r. r\<lparr>t_Id := Some (ifnull (sel txs r) (next_id txs)), t_Last := True\<rparr>) txs"

definition ClearOldLast :: "string \<Rightarrow> TxRow list \<Rightarrow> TxRow list" where
  "ClearOldLast txHash txs =
     update_where
       (\<lambda>r. \<exists>t \<in> set txs. t_Hash t = txHash \<and> sql_eq (t_Id r) (t_Id t) \<and> t_Last r \<and> t_Hash r \<noteq> t_Hash t)
       (\<lambda>r. r\<lparr>t_Last := False\<rparr>) txs"

definition IndexAccount :: "string \<Rightarrow> Database \<Rightarrow> Database" where
  "IndexAccount txHash db =
     db\<lparr>Transactions := ClearOldLast txHash (set_id account_id txHash (Transactions db))\<rparr>"

definition IndexContent :: "string \<Rightarrow> Database \<Rightarrow> Database" where
  "IndexContent txHash db =
     db\<lparr>Transactions := ClearOldLast txHash (set_id content_id txHash (Transactions db))\<rparr>"

definition IndexComment :: "string \<Rightarrow> Database \<Rightarrow> Database" where
  "IndexComment txHash db =
     db\<lparr>Transactions := ClearOldLast txHash (set_id comment_id txHash (Transactions db))\<rparr>"

definition IndexBlocking :: "string \<Rightarrow> Database \<Rightarrow> Database" where
  "IndexBlocking txHash db =
     db\<lparr>Transactions := ClearOldLast txHash (set_id blocking_id txHash (Transactions db))\<rparr>"

definition IndexSubscribe :: "string \<Rightarrow> Database \<Rightarrow> Database" where
  "IndexSubscribe txHash db =
     db\<lparr>Transactions := ClearOldLast txHash (set_id subscribe_id txHash (Transactions db))\<rparr>"

definition boost_fee :: "OutRow list \<Rightarrow> string \<Rightarrow> int option" where
  "boost_fee outs txHash = do {
     i \<leftarrow> sql_sum (map o_Value (filter (\<lambda>o'. o_SpentTxHash o' = Some txHash) outs));
     o' \<leftarrow> sql_sum (map o_Value (filter (\<lambda>o'. o_TxHash o' = txHash) outs));
     Some (i - o')
   }"

definition IndexBoostContent :: "string \<Rightarrow> Database \<Rightarrow> Database" where
  "IndexBoostContent txHash db =
     db\<lparr>Transactions := update_where (\<lambda>r. t_Hash r = txHash \<and> type_in r [208])
          (\<lambda>r. r\<lparr>t_Int1 := boost_fee (TxOutputs db) (t_Hash r)\<rparr>) (Transactions db)\<rparr>"

section \<open>Connecting a block\<close>

definition index_tx :: "string \<Rightarrow> int \<Rightarrow> TransactionIndexingInfo \<Rightarrow> Database \<Rightarrow> Database" where
  "index_tx blockHash height txInfo db =
     (let db = UpdateTransactionHeight blockHash (ti_BlockNumber txInfo) height (ti_Hash txInfo) db;
          db = UpdateTransactionOutputs txInfo height db;
          db = (if IsAccount txInfo then IndexAccount (ti_Hash txInfo) db else db);
          db = (if IsContent txInfo then IndexContent (ti_Hash txInfo) db else db);
          db = (if IsComment txInfo then IndexComment (ti_Hash txInfo) db else db);
          db = (if IsBlocking txInfo then IndexBlocking (ti_Hash txInfo) db else db);
          db = (if IsSubscribe txInfo then IndexSubscribe (ti_Hash txInfo) db else db)
      in if IsBoostContent txInfo then IndexBoostContent (ti_Hash txInfo) db else db)"

definition IndexBlock ::
    "string \<Rightarrow> int \<Rightarrow> TransactionIndexingInfo list \<Rightarrow> Database \<Rightarrow> Database option" where
  "IndexBlock blockHash height txs db = IndexBalances height (fold (index_tx blockHash height) txs db)"

section \<open>Disconnecting blocks\<close>

text \<open>The three restoring statements share a form: for every entity whose last version is at or
  above the height, the versions at the greatest height below it that lost the flag get it back.
  \<open>restore_last\<close> has it, over the entity, height and flag of a row.\<close>

definition restore_last ::
    "('r \<Rightarrow> 'k option) \<Rightarrow> ('r \<Rightarrow> int option) \<Rightarrow> ('r \<Rightarrow> bool) \<Rightarrow> (bool \<Rightarrow> 'r \<Rightarrow> 'r) \<Rightarrow> int \<Rightarrow> 'r list \<Rightarrow> 'r list" where
  "restore_last entity height is_last set_last h rows =
     update_where
       (\<lambda>r. \<exists>t1 \<in> set rows. sql_ge (height t1) h \<and> is_last t1 \<and> sql_eq (entity r) (entity t1) \<and>
          sql_eq (height r)
            (sql_max (List.map_filter height
              (filter (\<lambda>t2. sql_eq (entity t2) (entity t1) \<and> sql_lt (height t2) h \<and> \<not> is_last t2) rows))))
       (set_last True) rows"

definition restore_transactions :: "int \<Rightarrow> TxRow list \<Rightarrow> TxRow list" where
  "restore_transactions = restore_last t_Id t_Height t_Last (\<lambda>l r. r\<lparr>t_Last := l\<rparr>)"

text \<open>The statement on \<open>Ratings\<close> joins on the identifier without the type.\<close>

definition restore_ratings :: "int \<Rightarrow> RatingRow list \<Rightarrow> RatingRow list" where
  "restore_ratings h rows =
     update_where
       (\<lambda>r. \<exists>r1 \<in> set rows. r_Height r1 \<ge> h \<and> r_Last r1 \<and> r_Type r = r_Type r1 \<and> r_Id r = r_Id r1 \<and>
          sql_eq (Some (r_Height r))
            (sql_max (map r_Height
              (filter (\<lambda>r2. \<not> r_Last r2 \<and> r_Id r2 = r_Id r1 \<and> r_Height r2 < h) rows))))
       (\<lambda>r. r\<lparr>r_Last := True\<rparr>) rows"

definition restore_balances :: "int \<Rightarrow> BalanceRow list \<Rightarrow> BalanceRow list" where
  "restore_balances = restore_last (\<lambda>b. Some (b_AddressHash b)) (\<lambda>b. Some (b_Height b)) b_Last
     (\<lambda>l b. b\<lparr>b_Last := l\<rparr>)"

definition RestoreOldLast :: "int \<Rightarrow> Database \<Rightarrow> Database" where
  "RestoreOldLast height db =
     db\<lparr>Transactions := restore_transactions height (Transactions db),
        Ratings := restore_ratings height (Ratings db),
        Balances := restore_balances height (Balances db)\<rparr>"

definition RollbackHeight :: "int \<Rightarrow> Database \<Rightarrow> Database" where
  "RollbackHeight height db =
     db\<lparr>Transactions := update_where (\<lambda>r. sql_ge (t_Height r) height)
          (\<lambda>r. r\<lparr>t_BlockHash := None, t_BlockNum := None, t_Height := None, t_Last := False, t_Id := None\<rparr>)
          (Transactions db),
        TxOutputs :=
          update_where (\<lambda>o'. sql_ge (o_TxHeight o') height) (\<lambda>o'. o'\<lparr>o_TxHeight := None\<rparr>)
            (update_where (\<lambda>o'. sql_ge (o_SpentHeight o') height)
              (\<lambda>o'. o'\<lparr>o_SpentHeight := None, o_SpentTxHash := None\<rparr>) (TxOutputs db)),
        Ratings := delete_where (\<lambda>r. r_Height r \<ge> height) (Ratings db),
        Balances := delete_where (\<lambda>b. b_Height b \<ge> height) (Balances db)\<rparr>"

definition Rollback :: "int \<Rightarrow> Database \<Rightarrow> Database" where
  "Rollback height db = RollbackHeight height (RestoreOldLast height db)"

text \<open>Dropping and creating the SQL indexes around it leaves the tables as they are.\<close>

definition ClearDatabase :: "Database \<Rightarrow> Database" where
  "ClearDatabase db = RollbackHeight 0 db"

definition ExistsBlock :: "string \<Rightarrow> int \<Rightarrow> Database \<Rightarrow> bool \<times> bool" where
  "ExistsBlock blockHash height db =
     ((\<exists>r \<in> set (Transactions db). t_BlockHash r = Some blockHash \<and> t_Height r = Some height),
      \<not> (\<exists>r \<in> set (Transactions db). t_Height r = Some (height + 1)))"

end
