(* ===== verification/ChainPostProcessing.thy ===== *)
theory ChainPostProcessing
  imports Reputation ChainRepository
begin

text \<open>
  \<open>pocketdb/services/ChainPostProcessing.cpp\<close>: what a node does with the database when a block
  becomes part of the chain. \<open>PrepareTransactions\<close> extracts what the index needs of each
  supported transaction; \<open>IndexChain\<close> runs the chain index; \<open>IndexRatings\<close> sums the effect
  of the scores of the block on accounts, contents and comments, collects new likers and
  appends the ratings. \<open>None\<close> stands for an exception, an undefined limit and the undefined
  reads of \<open>ParseType\<close>.
\<close>

section \<open>The transactions of a block\<close>

text \<open>An output index is stored in a signed 32-bit integer.\<close>

definition to_int32 :: "nat \<Rightarrow> int" where
  "to_int32 n = (if n < 2 ^ 31 then int n else int n - 2 ^ 32)"

definition indexing_info :: "nat \<Rightarrow> CTransaction \<Rightarrow> TxType \<Rightarrow> TransactionIndexingInfo" where
  "indexing_info i tx txType =
     \<lparr>ti_Hash = GetHex (tx_hash tx), ti_BlockNumber = int i, ti_Time = nTime tx, ti_Type = txType,
      ti_Inputs = (if IsCoinBase tx then []
                   else map (\<lambda>inp. (GetHex (op_hash inp), to_int32 (op_n inp))) (vin tx))\<rparr>"

fun prepare_loop ::
    "(string \<Rightarrow> string list) \<Rightarrow> nat \<Rightarrow> CTransaction list \<Rightarrow> TransactionIndexingInfo list option" where
  "prepare_loop split i [] = Some []"
| "prepare_loop split i (tx # txs) = do {
     txType \<leftarrow> ParseType split tx;
     infos \<leftarrow> prepare_loop split (Suc i) txs;
     Some (if txType \<noteq> NOT_SUPPORTED then indexing_info i tx txType # infos else infos)
   }"

definition PrepareTransactions :: "(string \<Rightarrow> string list) \<Rightarrow> CBlock \<Rightarrow> TransactionIndexingInfo list option" where
  "PrepareTransactions split block = prepare_loop split 0 (vtx block)"

definition IndexChain :: "string \<Rightarrow> int \<Rightarrow> TransactionIndexingInfo list \<Rightarrow> Database \<Rightarrow> Database option" where
  "IndexChain blockHash height txs db = IndexBlock blockHash height txs db"

section \<open>Ratings of a block\<close>

type_synonym rating_values = "(RatingType \<times> (int \<times> int) list) list"
type_synonym liker_map = "(int \<times> int list) list"

text \<open>\<open>ratingValues[type][id] += delta\<close>, on values of type \<open>int\<close>. Signed overflow is undefined in C++;
  the model wraps around, as compilers do.\<close>

definition add_rating :: "RatingType \<Rightarrow> int \<Rightarrow> int \<Rightarrow> rating_values \<Rightarrow> rating_values" where
  "add_rating type i delta = map_update [] type (map_update 0 i (\<lambda>v. int32 (v + delta)))"

definition BuildAccountLikers :: "ScoreDataDto \<Rightarrow> liker_map \<Rightarrow> liker_map" where
  "BuildAccountLikers scoreData =
     map_update [] (ContentAddressId scoreData)
       (\<lambda>likers. if ScoreAddressId scoreData \<in> set likers then likers else likers @ [ScoreAddressId scoreData])"

text \<open>The effect of one score that may change reputations.\<close>

definition apply_score :: "ScoreDataDto \<Rightarrow> rating_values \<times> liker_map \<Rightarrow> rating_values \<times> liker_map" where
  "apply_score scoreData = (\<lambda>(ratingValues, accountLikersSrc).
     if ScoreType scoreData = ACTION_SCORE_CONTENT then
       (add_rating RATING_CONTENT (ContentId scoreData) (int32 (ScoreValue scoreData - 3))
          (add_rating RATING_ACCOUNT (ContentAddressId scoreData) (int32 (int32 (ScoreValue scoreData - 3) * 10)) ratingValues),
        if ScoreValue scoreData = 4 \<or> ScoreValue scoreData = 5
        then BuildAccountLikers scoreData accountLikersSrc else accountLikersSrc)
     else if ScoreType scoreData = ACTION_SCORE_COMMENT then
       (add_rating RATING_COMMENT (ContentId scoreData) (ScoreValue scoreData)
          (add_rating RATING_ACCOUNT (ContentAddressId scoreData) (ScoreValue scoreData) ratingValues),
        if ScoreValue scoreData = 1
        then BuildAccountLikers scoreData accountLikersSrc else accountLikersSrc)
     else (ratingValues, accountLikersSrc))"

text \<open>Whether a score counts: its content is recent enough and its author may change reputations.\<close>

definition score_allowed :: "NetworkId \<Rightarrow> int \<Rightarrow> ReputationVersion \<Rightarrow> Database \<Rightarrow> ScoreDataDto \<Rightarrow> bool option" where
  "score_allowed net height v db scoreData = do {
     allowModifyOldPosts \<leftarrow> AllowModifyOldPosts net height (ScoreTime scoreData) (ContentTime scoreData) (ContentType scoreData);
     if \<not> allowModifyOldPosts then Some False
     else AllowModifyReputation net height v scoreData False db
   }"

fun scores_loop ::
    "NetworkId \<Rightarrow> int \<Rightarrow> ReputationVersion \<Rightarrow> Database \<Rightarrow> TransactionIndexingInfo list \<Rightarrow>
       rating_values \<times> liker_map \<Rightarrow> (rating_values \<times> liker_map) option" where
  "scores_loop net height v db [] acc = Some acc"
| "scores_loop net height v db (txInfo # txs) acc =
     (if \<not> IsActionScore txInfo then scores_loop net height v db txs acc
      else do {
        scoreData \<leftarrow> GetScoreData (ti_Hash txInfo) db;
        allowed \<leftarrow> score_allowed net height v db scoreData;
        scores_loop net height v db txs (if allowed then apply_score scoreData acc else acc)
      })"

definition rating_records :: "int \<Rightarrow> rating_values \<Rightarrow> Rating list" where
  "rating_records height ratingValues =
     concat (map (\<lambda>(type, items).
       map (\<lambda>(i, val). \<lparr>rt_Type = type, rt_Height = height, rt_Id = i, rt_Value = val\<rparr>)
         (filter (\<lambda>(i, val). val \<noteq> 0) items)) ratingValues)"

definition liker_records :: "int \<Rightarrow> liker_map \<Rightarrow> Rating list" where
  "liker_records height accountLikers =
     concat (map (\<lambda>(acc, likers).
       map (\<lambda>lkrId. \<lparr>rt_Type = RATING_ACCOUNT_LIKERS, rt_Height = height, rt_Id = acc, rt_Value = lkrId\<rparr>) likers)
       accountLikers)"

definition IndexRatings :: "NetworkId \<Rightarrow> int \<Rightarrow> TransactionIndexingInfo list \<Rightarrow> Database \<Rightarrow> Database option" where
  "IndexRatings net height txs db = do {
     reputationConsensus \<leftarrow> Instance ReputationConsensusFactory_m_rules net height;
     (ratingValues, accountLikersSrc) \<leftarrow> scores_loop net height reputationConsensus db txs ([], []);
     let ratings = rating_records height ratingValues @
           liker_records height (PrepareAccountLikers height reputationConsensus db accountLikersSrc);
     if ratings = [] then Some db else InsertRatings ratings db
   }"

section \<open>Blocks\<close>

definition Index :: "(string \<Rightarrow> string list) \<Rightarrow> NetworkId \<Rightarrow> CBlock \<Rightarrow> int \<Rightarrow> Database \<Rightarrow> Database option" where
  "Index split net block height db = do {
     txs \<leftarrow> PrepareTransactions split block;
     db \<leftarrow> IndexChain (GetHex (block_hash block)) height txs db;
     IndexRatings net height txs db
   }"

definition ChainPostProcessing_Rollback :: "int \<Rightarrow> Database \<Rightarrow> Database" where
  "ChainPostProcessing_Rollback height db = Rollback height db"

end
