(* ===== verification/ChainRatings.thy ===== *)
theory ChainRatings
  imports ChainPostProcessing
begin

text \<open>
  Reputations accumulate. The nested maps of \<open>IndexRatings\<close> compute, per account, content and
  comment, the sum of the effects of the scores of the block that count; the statements of
  \<open>InsertRating\<close> add that sum to the last value; the likers of an account stay distinct.
\<close>

section \<open>Ordered maps\<close>

definition keys_ok :: "('k::linorder \<times> 'v) list \<Rightarrow> bool" where
  "keys_ok kvs \<longleftrightarrow> sorted_wrt (<) (map fst kvs)"

definition map_get :: "'v \<Rightarrow> ('k \<times> 'v) list \<Rightarrow> 'k \<Rightarrow> 'v" where
  "map_get d kvs k = (case map_of kvs k of None \<Rightarrow> d | Some v \<Rightarrow> v)"

lemma map_get_simps [simp]:
  "map_get d [] k = d"
  "map_get d ((k', v) # kvs) k = (if k = k' then v else map_get d kvs k)"
  by (simp_all add: map_get_def)

lemma keys_map_update: "fst ` set (map_update d k f kvs) = insert k (fst ` set kvs)"
  by (induction d k f kvs rule: map_update.induct) (simp_all add: insert_commute)

lemma keys_ok_simps [simp]: "keys_ok []" "keys_ok [kv]"
  by (simp_all add: keys_ok_def)

lemma keys_ok_map_update: "keys_ok kvs \<Longrightarrow> keys_ok (map_update d k f kvs)"
proof (induction kvs)
  case (Cons kv kvs)
  obtain k' v where kv: "kv = (k', v)" by force
  have IH: "keys_ok (map_update d k f kvs)" using Cons by (simp add: keys_ok_def)
  have "\<forall>x \<in> fst ` set (map_update d k f kvs). k' < x" if "k' < k"
    unfolding keys_map_update using Cons.prems that by (auto simp: keys_ok_def kv)
  with IH Cons.prems show ?case by (auto simp: keys_ok_def kv)
qed (simp add: keys_ok_def)

lemma map_get_fresh: "k \<notin> fst ` set kvs \<Longrightarrow> map_get d kvs k = d"
  by (induction kvs) auto

lemma map_get_update:
  "keys_ok kvs \<Longrightarrow> map_get d (map_update d k f kvs) k' = (if k' = k then f (map_get d kvs k) else map_get d kvs k')"
proof (induction kvs)
  case (Cons kv kvs)
  obtain k1 v where kv: "kv = (k1, v)" by force
  have ok: "keys_ok kvs" using Cons.prems by (simp add: keys_ok_def)
  show ?case
  proof (cases "k < k1")
    case True
    then have "k \<notin> fst ` set (kv # kvs)" using Cons.prems by (auto simp: keys_ok_def kv)
    then have "map_get d (kv # kvs) k = d" by (rule map_get_fresh)
    with True show ?thesis by (auto simp: kv)
  next
    case False
    with Cons.IH[OF ok] show ?thesis by (auto simp: kv)
  qed
qed simp

lemma map_update_values:
  "(k', v) \<in> set (map_update d k f kvs) \<Longrightarrow> (k', v) \<in> set kvs \<or> k' = k \<and> (v = f d \<or> (\<exists>v0. (k, v0) \<in> set kvs \<and> v = f v0))"
  by (induction kvs) (auto split: if_splits)

lemma map_get_mem: "keys_ok kvs \<Longrightarrow> (k, v) \<in> set kvs \<Longrightarrow> map_get d kvs k = v"
  by (induction kvs) (auto simp: keys_ok_def)

lemma map_get_notin: "map_get d kvs k \<noteq> d \<Longrightarrow> (k, map_get d kvs k) \<in> set kvs"
  by (induction kvs) (auto split: if_splits)

lemma keys_ok_distinct: "keys_ok kvs \<Longrightarrow> distinct (map fst kvs)"
  by (simp add: keys_ok_def strict_sorted_iff)

section \<open>The sums of a block\<close>

definition rating_values_ok :: "rating_values \<Rightarrow> bool" where
  "rating_values_ok rv \<longleftrightarrow> keys_ok rv \<and> (\<forall>(t, items) \<in> set rv. keys_ok items)"

definition rating_sum :: "rating_values \<Rightarrow> RatingType \<Rightarrow> int \<Rightarrow> int" where
  "rating_sum rv t i = map_get 0 (map_get [] rv t) i"

text \<open>The effect of a score on the value \<open>t\<close>, \<open>i\<close>, as the protocol describes it.\<close>

definition score_effect :: "RatingType \<Rightarrow> int \<Rightarrow> ScoreDataDto \<Rightarrow> int" where
  "score_effect t i s =
     (if ScoreType s = ACTION_SCORE_CONTENT then
        (if t = RATING_ACCOUNT \<and> i = ContentAddressId s then 10 * (ScoreValue s - 3)
         else if t = RATING_CONTENT \<and> i = ContentId s then ScoreValue s - 3 else 0)
      else if ScoreType s = ACTION_SCORE_COMMENT then
        (if t = RATING_ACCOUNT \<and> i = ContentAddressId s then ScoreValue s
         else if t = RATING_COMMENT \<and> i = ContentId s then ScoreValue s else 0)
      else 0)"

lemma inner_ok: "rating_values_ok rv \<Longrightarrow> keys_ok (map_get [] rv t)"
proof (cases "map_get [] rv t = []")
  case True
  then show ?thesis by (simp add: keys_ok_def)
next
  case False
  assume "rating_values_ok rv"
  with map_get_notin[OF False] show ?thesis unfolding rating_values_ok_def by blast
qed

lemma rating_values_ok_add:
  assumes "rating_values_ok rv"
  shows "rating_values_ok (add_rating t i \<delta> rv)"
proof -
  have "keys_ok items" if "(t', items) \<in> set (add_rating t i \<delta> rv)" for t' items
    using map_update_values[OF that[unfolded add_rating_def]] assms
    by (auto simp: rating_values_ok_def intro!: keys_ok_map_update)
  with assms show ?thesis by (auto simp: rating_values_ok_def add_rating_def keys_ok_map_update)
qed

lemma rating_sum_add:
  assumes "rating_values_ok rv"
  shows "rating_sum (add_rating t i \<delta> rv) t' i' =
    (if t' = t \<and> i' = i then int32 (rating_sum rv t' i' + \<delta>) else rating_sum rv t' i')"
proof -
  have "keys_ok rv" using assms by (simp add: rating_values_ok_def)
  with inner_ok[OF assms] show ?thesis by (auto simp: rating_sum_def add_rating_def map_get_update)
qed

text \<open>The sums are kept in an \<open>int\<close>.\<close>

definition rating_sums_fit :: "rating_values \<Rightarrow> bool" where
  "rating_sums_fit rv \<longleftrightarrow> (\<forall>t i. int32 (rating_sum rv t i) = rating_sum rv t i)"

lemma apply_score_sum:
  assumes "rating_values_ok rv" "rating_sums_fit rv" "apply_score s (rv, likers) = (rv', likers')"
  shows "rating_values_ok rv'" "rating_sum rv' t i = int32 (rating_sum rv t i + score_effect t i s)"
proof -
  have fit: "int32 (rating_sum rv t i) = rating_sum rv t i" using assms(2) by (simp add: rating_sums_fit_def)
  show "rating_values_ok rv'"
    using assms(1,3) by (auto simp: apply_score_def rating_values_ok_add split: if_splits)
  show "rating_sum rv' t i = int32 (rating_sum rv t i + score_effect t i s)"
    using assms(1,3) fit
    by (auto simp: apply_score_def rating_sum_add rating_values_ok_add score_effect_def mult.commute split: if_splits)
qed

text \<open>Wrapping at every step is wrapping once at the end.\<close>

lemma fold_apply_score_sum:
  assumes "rating_values_ok rv" "rating_sums_fit rv" "fold apply_score ss (rv, likers) = (rv', likers')"
  shows "rating_values_ok rv' \<and> rating_sum rv' t i = int32 (rating_sum rv t i + sum_list (map (score_effect t i) ss))"
  using assms
proof (induction ss arbitrary: rv likers)
  case Nil
  then show ?case by (simp add: rating_sums_fit_def)
next
  case (Cons s ss)
  obtain rv1 likers1 where step: "apply_score s (rv, likers) = (rv1, likers1)" by force
  note one = apply_score_sum[OF Cons.prems(1,2) step]
  have "rating_sums_fit rv1" by (simp add: rating_sums_fit_def one(2))
  with Cons.IH[OF one(1) this, of likers1] Cons.prems(3) step show ?case by (simp add: one(2) add.assoc)
qed

text \<open>The scores of a block that count, in its order.\<close>

fun counted_scores ::
    "NetworkId \<Rightarrow> int \<Rightarrow> ReputationVersion \<Rightarrow> Database \<Rightarrow> TransactionIndexingInfo list \<Rightarrow> ScoreDataDto list option" where
  "counted_scores net height v db [] = Some []"
| "counted_scores net height v db (txInfo # txs) =
     (if \<not> IsActionScore txInfo then counted_scores net height v db txs
      else do {
        scoreData \<leftarrow> GetScoreData (ti_Hash txInfo) db;
        allowed \<leftarrow> score_allowed net height v db scoreData;
        rest \<leftarrow> counted_scores net height v db txs;
        Some (if allowed then scoreData # rest else rest)
      })"

lemma scores_loop_counted:
  "scores_loop net height v db txs acc = map_option (\<lambda>ss. fold apply_score ss acc) (counted_scores net height v db txs)"
  by (induction txs arbitrary: acc) (auto split: option.splits Option.bind_splits)

section \<open>Inserting the ratings of a block\<close>

definition last_rating :: "RatingType \<Rightarrow> int \<Rightarrow> RatingRow list \<Rightarrow> int" where
  "last_rating t i rows =
     ifnull (select_first (\<lambda>r. r_Type r = t \<and> r_Id r = i \<and> r_Last r) (\<lambda>r. Some (r_Value r)) rows) 0"

lemma GetUserReputation_id_last: "GetUserReputation_id i db = int32 (last_rating RATING_ACCOUNT i (Ratings db))"
  by (simp add: GetUserReputation_id_def last_rating_def ifnull_def split: option.split)

text \<open>Ratings other than likers are versioned by type and identifier.\<close>

definition record_key :: "Rating \<Rightarrow> RatingType \<times> int" where
  "record_key rating = (rt_Type rating, rt_Id rating)"

definition strip_rating :: "(RatingType \<times> int) set \<Rightarrow> RatingRow \<Rightarrow> RatingRow" where
  "strip_rating K r = (if (r_Type r, r_Id r) \<in> K \<and> r_Last r then r\<lparr>r_Last := False\<rparr> else r)"

lemma strip_rating_simps [simp]:
  "r_Type (strip_rating K r) = r_Type r" "r_Id (strip_rating K r) = r_Id r"
  "r_Height (strip_rating K r) = r_Height r" "r_Value (strip_rating K r) = r_Value r"
  "r_Last (strip_rating K r) \<longleftrightarrow> r_Last r \<and> (r_Type r, r_Id r) \<notin> K"
  by (auto simp: strip_rating_def)

lemma strip_rating_id: "(r_Type r, r_Id r) \<notin> K \<Longrightarrow> strip_rating K r = r"
  by (simp add: strip_rating_def)

lemma strip_rating_strip: "strip_rating K (strip_rating {k} r) = strip_rating (insert k K) r"
  by (simp add: strip_rating_def)

lemma select_first_append:
  "select_first P (\<lambda>r. Some (f r)) (xs @ ys) =
     (case select_first P (\<lambda>r. Some (f r)) xs of None \<Rightarrow> select_first P (\<lambda>r. Some (f r)) ys | Some v \<Rightarrow> Some v)"
  by (auto simp: select_first_def split: list.splits)

lemma last_rating_insert:
  "last_rating t i (map (strip_rating {(t', i')}) rows @ [n]) =
     (if (t, i) = (t', i') then (if r_Type n = t \<and> r_Id n = i \<and> r_Last n then r_Value n else 0)
      else if r_Type n = t \<and> r_Id n = i \<and> r_Last n then
        ifnull (select_first (\<lambda>r. r_Type r = t \<and> r_Id r = i \<and> r_Last r) (\<lambda>r. Some (r_Value r)) rows) (r_Value n)
      else last_rating t i rows)"
proof -
  let ?P = "\<lambda>r. r_Type r = t \<and> r_Id r = i \<and> r_Last r"
  have other: "select_first ?P (\<lambda>r. Some (r_Value r)) (map (strip_rating {(t', i')}) rows) =
      select_first ?P (\<lambda>r. Some (r_Value r)) rows" if "(t, i) \<noteq> (t', i')"
  proof -
    have "filter ?P (map (strip_rating {(t', i')}) rows) = filter ?P rows"
      using that by (induction rows) (auto simp: strip_rating_def)
    then show ?thesis by (simp add: select_first_def)
  qed
  have same: "select_first ?P (\<lambda>r. Some (r_Value r)) (map (strip_rating {(t, i)}) rows) = None"
    by (simp add: select_first_def filter_empty_conv filter_map comp_def)
  show ?thesis
    using other same
    by (auto simp: last_rating_def select_first_append select_first_def[of _ _ "[n]"] split: option.split)
qed

lemma InsertRating_step:
  assumes "\<forall>r \<in> set (Ratings db). (r_Type r, r_Id r) = record_key rating \<longrightarrow> r_Height r < rt_Height rating"
  shows "\<exists>n. InsertRating rating db = Some (db\<lparr>Ratings := map (strip_rating {record_key rating}) (Ratings db) @ [n]\<rparr>) \<and>
    n = \<lparr>r_Type = rt_Type rating, r_Last = True, r_Height = rt_Height rating, r_Id = rt_Id rating,
         r_Value = last_rating (rt_Type rating) (rt_Id rating) (Ratings db) + rt_Value rating\<rparr>"
proof -
  let ?P = "\<lambda>r. r_Type r = rt_Type rating \<and> r_Last r \<and> r_Id r = rt_Id rating \<and> r_Height r < rt_Height rating"
  let ?Q = "\<lambda>r. r_Type r = rt_Type rating \<and> r_Id r = rt_Id rating \<and> r_Last r"
  have PQ: "?P r \<longleftrightarrow> ?Q r" if "r \<in> set (Ratings db)" for r
    using assms that by (auto simp: record_key_def)
  have "filter ?P (Ratings db) = filter ?Q (Ratings db)"
    using PQ by (auto intro: filter_cong)
  then have val: "ifnull (select_first ?P (\<lambda>r. Some (r_Value r)) (Ratings db)) 0 =
      last_rating (rt_Type rating) (rt_Id rating) (Ratings db)"
    by (simp add: last_rating_def select_first_def)
  let ?n = "\<lparr>r_Type = rt_Type rating, r_Last = True, r_Height = rt_Height rating, r_Id = rt_Id rating,
      r_Value = last_rating (rt_Type rating) (rt_Id rating) (Ratings db) + rt_Value rating\<rparr>"
  have "insert_rating_row ?n (Ratings db) = Some (Ratings db @ [?n])"
    using assms by (auto simp: insert_rating_row_def rating_key_def record_key_def)
  moreover have "update_where ?P (\<lambda>r. r\<lparr>r_Last := False\<rparr>) (Ratings db @ [?n]) =
      map (strip_rating {record_key rating}) (Ratings db) @ [?n]"
    using PQ by (auto simp: update_where_def strip_rating_def record_key_def)
  ultimately show ?thesis by (simp add: InsertRating_def val)
qed

lemma InsertLiker_step:
  assumes "rt_Type rating = RATING_ACCOUNT_LIKERS"
  obtains new where "InsertLiker rating db = Some (db\<lparr>Ratings := Ratings db @ new\<rparr>)"
    "\<forall>n \<in> set new. r_Type n = RATING_ACCOUNT_LIKERS \<and> r_Height n = rt_Height rating \<and> r_Last n \<and>
       r_Id n = rt_Id rating \<and> r_Value n = rt_Value rating"
    "distinct_on (\<lambda>r. (r_Id r, r_Value r)) (filter (\<lambda>r. r_Type r = RATING_ACCOUNT_LIKERS) (Ratings db)) \<Longrightarrow>
     distinct_on (\<lambda>r. (r_Id r, r_Value r)) (filter (\<lambda>r. r_Type r = RATING_ACCOUNT_LIKERS) (Ratings db @ new))"
    "distinct_on rating_key (Ratings db) \<Longrightarrow> distinct_on rating_key (Ratings db @ new)"
proof (cases "\<exists>r \<in> set (Ratings db). r_Type r = rt_Type rating \<and> r_Id r = rt_Id rating \<and> r_Value r = rt_Value rating")
  case True
  then show ?thesis by (intro that[of "[]"]) (simp_all add: InsertLiker_def)
next
  case False
  let ?n = "\<lparr>r_Type = rt_Type rating, r_Last = True, r_Height = rt_Height rating, r_Id = rt_Id rating,
      r_Value = rt_Value rating\<rparr>"
  have "rating_key ?n \<notin> rating_key ` set (Ratings db)"
    using False by (auto simp: rating_key_def)
  then have "InsertLiker rating db = Some (db\<lparr>Ratings := Ratings db @ [?n]\<rparr>)"
    unfolding InsertLiker_def if_not_P[OF False] by (simp add: insert_rating_row_def)
  moreover have "distinct_on rating_key (Ratings db @ [?n])" if "distinct_on rating_key (Ratings db)"
    using that \<open>rating_key ?n \<notin> rating_key ` set (Ratings db)\<close> by (simp add: distinct_on_def)
  moreover have "distinct_on (\<lambda>r. (r_Id r, r_Value r)) (filter (\<lambda>r. r_Type r = RATING_ACCOUNT_LIKERS) (Ratings db @ [?n]))"
    if "distinct_on (\<lambda>r. (r_Id r, r_Value r)) (filter (\<lambda>r. r_Type r = RATING_ACCOUNT_LIKERS) (Ratings db))"
    using that False assms by (auto simp: distinct_on_def)
  ultimately show ?thesis
    using assms by (intro that[of "[?n]"]) simp_all
qed

definition likers_distinct :: "RatingRow list \<Rightarrow> bool" where
  "likers_distinct rows \<longleftrightarrow>
     distinct_on (\<lambda>r. (r_Id r, r_Value r)) (filter (\<lambda>r. r_Type r = RATING_ACCOUNT_LIKERS) rows)"

definition rated_keys :: "Rating list \<Rightarrow> (RatingType \<times> int) set" where
  "rated_keys ratings = record_key ` {rating \<in> set ratings. rt_Type rating \<noteq> RATING_ACCOUNT_LIKERS}"

text \<open>The rows after the insertions: the old ones, stripped where the block changed the rating, and
  the new ones.\<close>

definition rated_block :: "int \<Rightarrow> (RatingType \<times> int) set \<Rightarrow> RatingRow list \<Rightarrow> RatingRow list \<Rightarrow> bool" where
  "rated_block h K rows rows' \<longleftrightarrow> (\<exists>new. rows' = map (strip_rating K) rows @ new \<and>
     (\<forall>n \<in> set new. r_Height n = h \<and> r_Last n \<and> (r_Type n \<noteq> RATING_ACCOUNT_LIKERS \<longrightarrow> (r_Type n, r_Id n) \<in> K)) \<and>
     (\<forall>k \<in> K. \<exists>n \<in> set new. (r_Type n, r_Id n) = k) \<and>
     distinct_on (\<lambda>n. (r_Type n, r_Id n)) (filter (\<lambda>n. r_Type n \<noteq> RATING_ACCOUNT_LIKERS) new))"

lemma rated_block_Nil: "rated_block h {} rows rows"
proof -
  have "map (strip_rating {}) rows = rows" by (simp add: strip_rating_id map_idI)
  then show ?thesis by (auto simp: rated_block_def distinct_on_def intro!: exI[of _ "[]"])
qed

lemma rated_block_Cons:
  assumes "rated_block h K (map (strip_rating {k}) rows @ [n]) rows'" "k \<notin> K"
    and "(r_Type n, r_Id n) = k" "r_Height n = h" "r_Last n"
  shows "rated_block h (insert k K) rows rows'"
proof -
  obtain new where new: "rows' = map (strip_rating K) (map (strip_rating {k}) rows @ [n]) @ new"
    "\<forall>n \<in> set new. r_Height n = h \<and> r_Last n \<and> (r_Type n \<noteq> RATING_ACCOUNT_LIKERS \<longrightarrow> (r_Type n, r_Id n) \<in> K)"
    "\<forall>k \<in> K. \<exists>n \<in> set new. (r_Type n, r_Id n) = k"
    "distinct_on (\<lambda>n. (r_Type n, r_Id n)) (filter (\<lambda>n. r_Type n \<noteq> RATING_ACCOUNT_LIKERS) new)"
    using assms(1) unfolding rated_block_def by blast
  have "rows' = map (strip_rating (insert k K)) rows @ (n # new)"
    using new(1) assms(2,3) by (simp add: strip_rating_strip comp_def strip_rating_id)
  moreover have "distinct_on (\<lambda>n. (r_Type n, r_Id n)) (filter (\<lambda>n. r_Type n \<noteq> RATING_ACCOUNT_LIKERS) (n # new))"
    using new(2,4) assms(2,3) by (auto simp: distinct_on_def)
  ultimately show ?thesis
    unfolding rated_block_def using new(2,3) assms(3-5) by (intro exI[of _ "n # new"]) auto
qed

lemma rated_block_liker:
  assumes "rated_block h K (rows @ new0) rows'"
    and "\<forall>n \<in> set new0. r_Type n = RATING_ACCOUNT_LIKERS \<and> r_Height n = h \<and> r_Last n"
    and "\<forall>k \<in> K. fst k \<noteq> RATING_ACCOUNT_LIKERS"
  shows "rated_block h K rows rows'"
proof -
  obtain new where new: "rows' = map (strip_rating K) (rows @ new0) @ new"
    "\<forall>n \<in> set new. r_Height n = h \<and> r_Last n \<and> (r_Type n \<noteq> RATING_ACCOUNT_LIKERS \<longrightarrow> (r_Type n, r_Id n) \<in> K)"
    "\<forall>k \<in> K. \<exists>n \<in> set new. (r_Type n, r_Id n) = k"
    "distinct_on (\<lambda>n. (r_Type n, r_Id n)) (filter (\<lambda>n. r_Type n \<noteq> RATING_ACCOUNT_LIKERS) new)"
    using assms(1) unfolding rated_block_def by blast
  have "map (strip_rating K) new0 = new0"
    using assms(2,3) by (intro map_idI strip_rating_id) force
  then have "rows' = map (strip_rating K) rows @ (new0 @ new)" using new(1) by simp
  moreover have "filter (\<lambda>n. r_Type n \<noteq> RATING_ACCOUNT_LIKERS) (new0 @ new) = filter (\<lambda>n. r_Type n \<noteq> RATING_ACCOUNT_LIKERS) new"
    using assms(2) by (simp add: filter_empty_conv)
  ultimately show ?thesis
    unfolding rated_block_def using new(2-4) assms(2) by (intro exI[of _ "new0 @ new"]) auto
qed

lemma filter_strip_likers:
  "\<forall>i. (RATING_ACCOUNT_LIKERS, i) \<notin> K \<Longrightarrow>
   filter (\<lambda>r. r_Type r = RATING_ACCOUNT_LIKERS) (map (strip_rating K) rows) =
     filter (\<lambda>r. r_Type r = RATING_ACCOUNT_LIKERS) rows"
  by (induction rows) (auto simp: strip_rating_def)

text \<open>What inserting a list of ratings does.\<close>

definition ratings_added :: "int \<Rightarrow> Rating list \<Rightarrow> RatingRow list \<Rightarrow> RatingRow list \<Rightarrow> bool" where
  "ratings_added h ratings rows rows' \<longleftrightarrow>
     rated_block h (rated_keys ratings) rows rows' \<and>
     (\<forall>t i. t \<noteq> RATING_ACCOUNT_LIKERS \<longrightarrow> last_rating t i rows' = last_rating t i rows +
        sum_list (map rt_Value (filter (\<lambda>rating. record_key rating = (t, i)) ratings))) \<and>
     (likers_distinct rows \<longrightarrow> likers_distinct rows') \<and>
     (distinct_on rating_key rows \<longrightarrow> distinct_on rating_key rows')"

lemma ratings_added_liker:
  assumes added: "ratings_added h ratings (rows @ new) rows'" and liker: "rt_Type rating = RATING_ACCOUNT_LIKERS"
    and new: "\<forall>n \<in> set new. r_Type n = RATING_ACCOUNT_LIKERS \<and> r_Height n = h \<and> r_Last n"
    and "likers_distinct rows \<longrightarrow> likers_distinct (rows @ new)"
    and "distinct_on rating_key rows \<longrightarrow> distinct_on rating_key (rows @ new)"
  shows "ratings_added h (rating # ratings) rows rows'"
proof -
  have keys: "rated_keys (rating # ratings) = rated_keys ratings"
    "\<forall>k \<in> rated_keys ratings. fst k \<noteq> RATING_ACCOUNT_LIKERS"
    using liker by (auto simp: rated_keys_def record_key_def)
  have "last_rating t i (rows @ new) = last_rating t i rows" if "t \<noteq> RATING_ACCOUNT_LIKERS" for t i
  proof -
    have "filter (\<lambda>r. r_Type r = t \<and> r_Id r = i \<and> r_Last r) new = []"
      using new that by (auto simp: filter_empty_conv)
    then show ?thesis by (simp add: last_rating_def select_first_def)
  qed
  moreover have "record_key rating = (t, i) \<Longrightarrow> t = RATING_ACCOUNT_LIKERS" for t i
    using liker by (simp add: record_key_def)
  moreover have "rated_block h (rated_keys ratings) rows rows'"
    using added new keys(2) by (intro rated_block_liker[of h _ rows new]) (auto simp: ratings_added_def)
  ultimately show ?thesis
    using added assms(4,5) keys(1) by (auto simp: ratings_added_def)
qed

lemma ratings_added_rating:
  assumes added: "ratings_added h ratings (map (strip_rating {record_key rating}) rows @ [n]) rows'"
    and rated: "rt_Type rating \<noteq> RATING_ACCOUNT_LIKERS" "record_key rating \<notin> rated_keys ratings"
    and n: "n = \<lparr>r_Type = rt_Type rating, r_Last = True, r_Height = h, r_Id = rt_Id rating,
         r_Value = last_rating (rt_Type rating) (rt_Id rating) rows + rt_Value rating\<rparr>"
    and below: "\<forall>r \<in> set rows. (r_Type r, r_Id r) = record_key rating \<longrightarrow> r_Height r < h"
  shows "ratings_added h (rating # ratings) rows rows'"
proof -
  let ?rows1 = "map (strip_rating {record_key rating}) rows @ [n]"
  have keys: "rated_keys (rating # ratings) = insert (record_key rating) (rated_keys ratings)"
    using rated by (auto simp: rated_keys_def)
  have "last_rating t i ?rows1 = last_rating t i rows + (if record_key rating = (t, i) then rt_Value rating else 0)" for t i
    using n last_rating_insert[of t i "rt_Type rating" "rt_Id rating" rows n] by (auto simp: record_key_def)
  moreover have "likers_distinct ?rows1 = likers_distinct rows"
    using rated n filter_strip_likers[of "{record_key rating}" rows]
    by (simp add: likers_distinct_def record_key_def)
  moreover have "distinct_on rating_key ?rows1" if "distinct_on rating_key rows"
    using that below n by (auto simp: distinct_on_def rating_key_def[abs_def] record_key_def comp_def)
  moreover have "rated_block h (insert (record_key rating) (rated_keys ratings)) rows rows'"
    using added rated(2) n
    by (intro rated_block_Cons[of h _ _ rows n]) (simp_all add: ratings_added_def record_key_def)
  ultimately show ?thesis
    using added keys by (auto simp: ratings_added_def)
qed

lemma InsertRatings_spec:
  assumes "\<forall>rating \<in> set ratings. rt_Height rating = h"
    and "distinct (map record_key (filter (\<lambda>rating. rt_Type rating \<noteq> RATING_ACCOUNT_LIKERS) ratings))"
    and "\<forall>r \<in> set (Ratings db). (r_Type r, r_Id r) \<in> rated_keys ratings \<longrightarrow> r_Height r < h"
  shows "\<exists>rows'. InsertRatings ratings db = Some (db\<lparr>Ratings := rows'\<rparr>) \<and> ratings_added h ratings (Ratings db) rows'"
  using assms
proof (induction ratings arbitrary: db)
  case Nil
  then show ?case
    by (intro exI[of _ "Ratings db"]) (simp add: ratings_added_def rated_keys_def rated_block_Nil)
next
  case (Cons rating ratings)
  have h: "rt_Height rating = h" "\<forall>rating \<in> set ratings. rt_Height rating = h" using Cons.prems(1) by simp_all
  have IH: "\<exists>rows'. InsertRatings ratings (db\<lparr>Ratings := rows1\<rparr>) = Some (db\<lparr>Ratings := rows'\<rparr>) \<and>
      ratings_added h ratings rows1 rows'"
    if "\<forall>r \<in> set rows1. (r_Type r, r_Id r) \<in> rated_keys ratings \<longrightarrow> r_Height r < h" for rows1
  proof -
    have "distinct (map record_key (filter (\<lambda>rating. rt_Type rating \<noteq> RATING_ACCOUNT_LIKERS) ratings))"
      using Cons.prems(2) by (simp split: if_splits)
    from Cons.IH[OF h(2) this, of "db\<lparr>Ratings := rows1\<rparr>"] that show ?thesis by simp
  qed
  show ?case
  proof (cases "rt_Type rating = RATING_ACCOUNT_LIKERS")
    case True
    obtain new where new: "InsertLiker rating db = Some (db\<lparr>Ratings := Ratings db @ new\<rparr>)"
      "\<forall>n \<in> set new. r_Type n = RATING_ACCOUNT_LIKERS \<and> r_Height n = h \<and> r_Last n"
      "likers_distinct (Ratings db) \<longrightarrow> likers_distinct (Ratings db @ new)"
      "distinct_on rating_key (Ratings db) \<longrightarrow> distinct_on rating_key (Ratings db @ new)"
      by (rule InsertLiker_step[OF True, of db]) (simp add: h(1) likers_distinct_def)
    have "\<forall>r \<in> set (Ratings db @ new). (r_Type r, r_Id r) \<in> rated_keys ratings \<longrightarrow> r_Height r < h"
      using Cons.prems(3) new(2) by (auto simp: rated_keys_def record_key_def)
    then obtain rows' where "InsertRatings ratings (db\<lparr>Ratings := Ratings db @ new\<rparr>) = Some (db\<lparr>Ratings := rows'\<rparr>)"
      "ratings_added h ratings (Ratings db @ new) rows'" using IH by blast
    with ratings_added_liker[OF this(2) True new(2-4)] new(1) True show ?thesis
      by (intro exI[of _ rows']) simp
  next
    case False
    then have keys: "rated_keys (rating # ratings) = insert (record_key rating) (rated_keys ratings)"
      "record_key rating \<notin> rated_keys ratings"
      using Cons.prems(2) by (auto simp: rated_keys_def)
    have below: "\<forall>r \<in> set (Ratings db). (r_Type r, r_Id r) = record_key rating \<longrightarrow> r_Height r < h"
      using Cons.prems(3) keys(1) by auto
    then obtain n where n: "InsertRating rating db = Some (db\<lparr>Ratings := map (strip_rating {record_key rating}) (Ratings db) @ [n]\<rparr>)"
      "n = \<lparr>r_Type = rt_Type rating, r_Last = True, r_Height = h, r_Id = rt_Id rating,
         r_Value = last_rating (rt_Type rating) (rt_Id rating) (Ratings db) + rt_Value rating\<rparr>"
      using InsertRating_step[of db rating] h(1) by auto
    have "\<forall>r \<in> set (map (strip_rating {record_key rating}) (Ratings db) @ [n]).
        (r_Type r, r_Id r) \<in> rated_keys ratings \<longrightarrow> r_Height r < h"
      using Cons.prems(3) keys n(2) by (auto simp: record_key_def)
    then obtain rows' where
      "InsertRatings ratings (db\<lparr>Ratings := map (strip_rating {record_key rating}) (Ratings db) @ [n]\<rparr>) = Some (db\<lparr>Ratings := rows'\<rparr>)"
      "ratings_added h ratings (map (strip_rating {record_key rating}) (Ratings db) @ [n]) rows'" using IH by blast
    with ratings_added_rating[OF this(2) False keys(2) n(2) below] n(1) False show ?thesis
      by (intro exI[of _ rows']) simp
  qed
qed

section \<open>The ratings a block inserts\<close>

definition item_records :: "int \<Rightarrow> RatingType \<Rightarrow> (int \<times> int) list \<Rightarrow> Rating list" where
  "item_records h t items =
     map (\<lambda>(i, val). \<lparr>rt_Type = t, rt_Height = h, rt_Id = i, rt_Value = val\<rparr>) (filter (\<lambda>(i, val). val \<noteq> 0) items)"

lemma rating_records_Cons:
  "rating_records h [] = []"
  "rating_records h ((t, items) # rv) = item_records h t items @ rating_records h rv"
  by (simp_all add: rating_records_def item_records_def)

lemma item_records_simps [simp]:
  "item_records h t [] = []"
  "item_records h t ((i, v) # items) =
     (if v \<noteq> 0 then \<lparr>rt_Type = t, rt_Height = h, rt_Id = i, rt_Value = v\<rparr> # item_records h t items
      else item_records h t items)"
  by (simp_all add: item_records_def)

lemma item_records_mem: "r \<in> set (item_records h t items) \<Longrightarrow>
    rt_Type r = t \<and> rt_Height r = h \<and> (rt_Id r, rt_Value r) \<in> set items \<and> rt_Value r \<noteq> 0"
  by (auto simp: item_records_def)

lemma item_records_distinct: "distinct (map fst items) \<Longrightarrow> distinct (map record_key (item_records h t items))"
  by (induction items) (auto simp: record_key_def dest: item_records_mem, metis fst_conv image_eqI item_records_mem)

lemma item_records_sum:
  "distinct (map fst items) \<Longrightarrow>
   sum_list (map rt_Value (filter (\<lambda>r. record_key r = (t', i)) (item_records h t items))) =
     (if t' = t then map_get 0 items i else 0)"
proof (induction items)
  case (Cons item items)
  obtain j v where item: "item = (j, v)" by force
  have "map_get 0 items j = 0" using Cons.prems by (intro map_get_fresh) (simp add: item)
  with Cons show ?case by (auto simp: item record_key_def)
qed simp

lemma rating_records_mem:
  assumes "rating_values_ok rv" "r \<in> set (rating_records h rv)"
  shows "rt_Height r = h" "rating_sum rv (rt_Type r) (rt_Id r) = rt_Value r" "rt_Value r \<noteq> 0"
    "rt_Type r \<in> fst ` set rv"
proof -
  obtain t items where ti: "(t, items) \<in> set rv" "r \<in> set (item_records h t items)"
    using assms(2) unfolding rating_records_def item_records_def[symmetric] by auto
  then have r: "rt_Type r = t" "rt_Height r = h" "(rt_Id r, rt_Value r) \<in> set items" "rt_Value r \<noteq> 0"
    using item_records_mem by blast+
  have "map_get [] rv t = items" "keys_ok items"
    using assms(1) ti(1) map_get_mem[of rv t items] by (auto simp: rating_values_ok_def)
  with r show "rating_sum rv (rt_Type r) (rt_Id r) = rt_Value r"
    using map_get_mem[of items] by (simp add: rating_sum_def)
  show "rt_Height r = h" "rt_Value r \<noteq> 0" "rt_Type r \<in> fst ` set rv" using r ti(1) by force+
qed

lemma rating_records_distinct: "rating_values_ok rv \<Longrightarrow> distinct (map record_key (rating_records h rv))"
proof (induction rv)
  case (Cons kv rv)
  obtain t items where kv: "kv = (t, items)" by force
  have ok: "rating_values_ok rv" and d: "distinct (map fst items)" and t: "t \<notin> fst ` set rv"
    using Cons.prems keys_ok_distinct[of items] by (auto simp: rating_values_ok_def keys_ok_def kv)
  have "set (map record_key (item_records h t items)) \<inter> set (map record_key (rating_records h rv)) = {}"
    using t item_records_mem[of _ h t items] rating_records_mem(4)[OF ok, of _ h] by (force simp: record_key_def)
  with Cons.IH[OF ok] item_records_distinct[OF d] show ?case by (simp add: kv rating_records_Cons)
qed (simp add: rating_records_Cons)

lemma rating_records_sum:
  "rating_values_ok rv \<Longrightarrow>
   sum_list (map rt_Value (filter (\<lambda>r. record_key r = (t, i)) (rating_records h rv))) = rating_sum rv t i"
proof (induction rv)
  case (Cons kv rv)
  obtain t' items where kv: "kv = (t', items)" by force
  have ok: "rating_values_ok rv" and d: "distinct (map fst items)" and t: "t' \<notin> fst ` set rv"
    using Cons.prems keys_ok_distinct[of items] by (auto simp: rating_values_ok_def keys_ok_def kv)
  have "rating_sum rv t' i = 0" using map_get_fresh[OF t, of "[]"] by (simp add: rating_sum_def)
  with Cons.IH[OF ok] item_records_sum[OF d] show ?case
    by (simp add: kv rating_records_Cons rating_sum_def)
qed (simp add: rating_records_Cons rating_sum_def)

text \<open>No score changes a liker.\<close>

lemma score_effect_likers [simp]: "score_effect RATING_ACCOUNT_LIKERS i s = 0"
  by (simp add: score_effect_def)

lemma sum_list_zero: "(\<And>x. x \<in> set xs \<Longrightarrow> f x = 0) \<Longrightarrow> sum_list (map f xs) = (0::int)"
  by (induction xs) auto

lemma block_ratings:
  assumes "fold apply_score ss ([], []) = (rv, src)"
    and ratings_def: "ratings = rating_records h rv @ liker_records h accountLikers"
  shows "\<forall>rating \<in> set ratings. rt_Height rating = h"
    and "distinct (map record_key (filter (\<lambda>rating. rt_Type rating \<noteq> RATING_ACCOUNT_LIKERS) ratings))"
    and "t \<noteq> RATING_ACCOUNT_LIKERS \<Longrightarrow>
      sum_list (map rt_Value (filter (\<lambda>rating. record_key rating = (t, i)) ratings)) = int32 (sum_list (map (score_effect t i) ss))"
    and "(t, i) \<in> rated_keys ratings \<Longrightarrow> \<exists>s \<in> set ss. score_effect t i s \<noteq> 0"
proof -
  have ok: "rating_values_ok rv" and sum: "\<And>t i. rating_sum rv t i = int32 (sum_list (map (score_effect t i) ss))"
    using fold_apply_score_sum[OF _ _ assms(1)] by (simp_all add: rating_values_ok_def rating_sums_fit_def rating_sum_def)
  have likers: "rt_Type l = RATING_ACCOUNT_LIKERS \<and> rt_Height l = h" if "l \<in> set (liker_records h accountLikers)" for l
    using that by (auto simp: liker_records_def)
  have "rt_Type r \<noteq> RATING_ACCOUNT_LIKERS" if "r \<in> set (rating_records h rv)" for r
    using rating_records_mem(2,3)[OF ok that] sum[of "rt_Type r" "rt_Id r"] sum_list_zero[of ss "score_effect RATING_ACCOUNT_LIKERS (rt_Id r)"]
    by auto
  then have "filter (\<lambda>rating. rt_Type rating \<noteq> RATING_ACCOUNT_LIKERS) (rating_records h rv) = rating_records h rv"
    by (simp add: filter_id_conv)
  moreover have "filter (\<lambda>rating. rt_Type rating \<noteq> RATING_ACCOUNT_LIKERS) (liker_records h accountLikers) = []"
    using likers by (simp add: filter_empty_conv)
  ultimately show "distinct (map record_key (filter (\<lambda>rating. rt_Type rating \<noteq> RATING_ACCOUNT_LIKERS) ratings))"
    using rating_records_distinct[OF ok, of h] by (simp add: ratings_def)
  show "\<forall>rating \<in> set ratings. rt_Height rating = h"
    using rating_records_mem(1)[OF ok] likers by (auto simp: ratings_def)
  have "\<exists>s \<in> set ss. score_effect t i s \<noteq> 0" if "r \<in> set (rating_records h rv)" "record_key r = (t, i)" for r
  proof (rule ccontr)
    assume "\<not> (\<exists>s \<in> set ss. score_effect t i s \<noteq> 0)"
    then have "sum_list (map (score_effect t i) ss) = 0" by (intro sum_list_zero) blast
    with rating_records_mem(2,3)[OF ok that(1)] that(2) sum[of t i] show False by (simp add: record_key_def)
  qed
  then show "(t, i) \<in> rated_keys ratings \<Longrightarrow> \<exists>s \<in> set ss. score_effect t i s \<noteq> 0"
    using likers by (auto simp: rated_keys_def ratings_def)
  assume "t \<noteq> RATING_ACCOUNT_LIKERS"
  then have "filter (\<lambda>rating. record_key rating = (t, i)) (liker_records h accountLikers) = []"
    using likers by (auto simp: filter_empty_conv record_key_def)
  then show "sum_list (map rt_Value (filter (\<lambda>rating. record_key rating = (t, i)) ratings)) = int32 (sum_list (map (score_effect t i) ss))"
    using rating_records_sum[OF ok, of t i h] sum[of t i] by (simp add: ratings_def)
qed

text \<open>\<open>IndexRatings\<close> on a table below the height of the block.\<close>

lemma IndexRatings_spec:
  assumes v: "Instance ReputationConsensusFactory_m_rules net h = Some v"
    and ss: "counted_scores net h v db txs = Some ss"
    and below: "\<forall>r \<in> set (Ratings db). r_Height r < h"
  shows "\<exists>ratings rows'. IndexRatings net h txs db = Some (db\<lparr>Ratings := rows'\<rparr>) \<and>
    ratings_added h ratings (Ratings db) rows' \<and>
    (\<forall>t i. t \<noteq> RATING_ACCOUNT_LIKERS \<longrightarrow>
      sum_list (map rt_Value (filter (\<lambda>rating. record_key rating = (t, i)) ratings)) = int32 (sum_list (map (score_effect t i) ss))) \<and>
    (\<forall>(t, i) \<in> rated_keys ratings. \<exists>s \<in> set ss. score_effect t i s \<noteq> 0)"
proof -
  obtain rv src where acc: "fold apply_score ss ([], []) = (rv, src)" by force
  let ?ratings = "rating_records h rv @ liker_records h (PrepareAccountLikers h v db src)"
  obtain rows' where rows': "InsertRatings ?ratings db = Some (db\<lparr>Ratings := rows'\<rparr>)"
    "ratings_added h ?ratings (Ratings db) rows'"
    using InsertRatings_spec[OF block_ratings(1,2)[OF acc refl]] below by blast
  have "IndexRatings net h txs db = (if ?ratings = [] then Some db else InsertRatings ?ratings db)"
    by (simp add: IndexRatings_def v scores_loop_counted ss acc Let_def del: append_is_Nil_conv)
  also have "\<dots> = InsertRatings ?ratings db" by (simp del: append_is_Nil_conv)
  finally show ?thesis
    using rows' block_ratings(3,4)[OF acc refl] by (intro exI[of _ ?ratings] exI[of _ rows']) auto
qed

section \<open>Reputations and likers\<close>

lemma ratings_added_last:
  "ratings_added h ratings rows rows' \<Longrightarrow> t \<noteq> RATING_ACCOUNT_LIKERS \<Longrightarrow> last_rating t i rows' = last_rating t i rows +
     sum_list (map rt_Value (filter (\<lambda>rating. record_key rating = (t, i)) ratings))"
  by (simp add: ratings_added_def)

text \<open>C20. A block changes the rating of an account, a content or a comment by the effect of every
  counted score of the block on it: for the author ten times the distance from three for a content
  score and the value itself for a comment score, for the content the distance from three, for the
  comment the value. The sum of a block is an \<open>int\<close> and wraps around, and so does the reputation
  that is read; as long as the reputation fits in an \<open>int\<close> the one after the block is the one
  before it plus the sum. \<open>IndexRatings\<close> succeeds whenever no rating is at the height of the block
  yet, the data of the scores is found and the limits are defined.\<close>

theorem IndexRatings_reputation:
  assumes "Instance ReputationConsensusFactory_m_rules net h = Some v"
    and "counted_scores net h v db txs = Some ss" "\<forall>r \<in> set (Ratings db). r_Height r < h"
  shows "\<exists>db'. IndexRatings net h txs db = Some db' \<and>
    (\<forall>t i. t \<noteq> RATING_ACCOUNT_LIKERS \<longrightarrow>
       last_rating t i (Ratings db') = last_rating t i (Ratings db) + int32 (sum_list (map (score_effect t i) ss))) \<and>
    (\<forall>i. GetUserReputation_id i db' =
       int32 (GetUserReputation_id i db + sum_list (map (score_effect RATING_ACCOUNT i) ss))) \<and>
    (\<forall>i n. n = GetUserReputation_id i db + sum_list (map (score_effect RATING_ACCOUNT i) ss) \<longrightarrow>
       - (2 ^ 31) \<le> n \<longrightarrow> n < 2 ^ 31 \<longrightarrow> GetUserReputation_id i db' = n)"
proof -
  obtain ratings rows' where rows': "IndexRatings net h txs db = Some (db\<lparr>Ratings := rows'\<rparr>)"
    "ratings_added h ratings (Ratings db) rows'"
    "\<forall>t i. t \<noteq> RATING_ACCOUNT_LIKERS \<longrightarrow>
      sum_list (map rt_Value (filter (\<lambda>rating. record_key rating = (t, i)) ratings)) = int32 (sum_list (map (score_effect t i) ss))"
    using IndexRatings_spec[OF assms] by blast
  have last: "last_rating t i rows' = last_rating t i (Ratings db) + int32 (sum_list (map (score_effect t i) ss))"
    if "t \<noteq> RATING_ACCOUNT_LIKERS" for t i
    using ratings_added_last[OF rows'(2) that] rows'(3) that by simp
  have rep: "GetUserReputation_id i (db\<lparr>Ratings := rows'\<rparr>) =
      int32 (GetUserReputation_id i db + sum_list (map (score_effect RATING_ACCOUNT i) ss))" for i
    by (simp add: GetUserReputation_id_last last)
  show ?thesis
    by (rule exI[of _ "db\<lparr>Ratings := rows'\<rparr>"]) (use rows'(1) last rep in \<open>simp add: int32_id\<close>)
qed

definition rated_row :: "TxType \<Rightarrow> string \<Rightarrow> int option \<Rightarrow> string \<Rightarrow> string option \<Rightarrow> int option \<Rightarrow> TxRow" where
  "rated_row type hash i address s2 val =
     \<lparr>t_Type = type, t_Hash = hash, t_Time = 1000, t_BlockHash = Some ''b'', t_BlockNum = Some 1,
      t_Height = Some 50, t_Last = (i \<noteq> None), t_Id = i, t_String1 = Some address, t_String2 = s2,
      t_String3 = None, t_String4 = None, t_String5 = None, t_Int1 = val\<rparr>"

definition rated_db :: Database where
  "rated_db =
     \<lparr>Transactions = [rated_row ACCOUNT_USER ''u1'' (Some 0) ''alice'' None None,
        rated_row ACCOUNT_USER ''u2'' (Some 1) ''bob'' None None,
        rated_row CONTENT_POST ''p1'' (Some 2) ''alice'' (Some ''p1'') None,
        rated_row ACTION_SCORE_CONTENT ''s1'' None ''bob'' (Some ''p1'') (Some 5)],
      PayloadTable = [], TxOutputs = [],
      Ratings = [\<lparr>r_Type = RATING_ACCOUNT, r_Last = True, r_Height = 40, r_Id = 0, r_Value = 7\<rparr>],
      Balances = []\<rparr>"

definition rated_txs :: "TransactionIndexingInfo list" where
  "rated_txs = [\<lparr>ti_Hash = ''s1'', ti_BlockNumber = 1, ti_Time = 1000, ti_Type = ACTION_SCORE_CONTENT, ti_Inputs = []\<rparr>]"

definition rated_score :: ScoreDataDto where
  "rated_score =
     \<lparr>ScoreType = ACTION_SCORE_CONTENT, ScoreTxHash = ''s1'', ScoreAddressId = 1, ScoreAddressHash = ''bob'',
      ScoreTime = 1000, ScoreValue = 5, ContentType = CONTENT_POST, ContentTxHash = ''p1'', ContentId = 2,
      ContentAddressId = 0, ContentAddressHash = ''alice'', ContentTime = 1000\<rparr>"

lemma rated_scores: "counted_scores NetworkMain 50 Reputation_0 rated_db rated_txs = Some [rated_score]"
  by code_simp

lemma rated_rules: "Instance ReputationConsensusFactory_m_rules NetworkMain 50 = Some Reputation_0"
  by code_simp

lemma rated_below: "\<forall>r \<in> set (Ratings rated_db). r_Height r < 50"
  by (simp add: rated_db_def)

lemma IndexRatings_reputation_witness:
  "\<exists>db'. IndexRatings NetworkMain 50 rated_txs rated_db = Some db' \<and> GetUserReputation_id 0 db' = 27 \<and>
     last_rating RATING_CONTENT 2 (Ratings db') = 2"
proof -
  have before: "GetUserReputation_id 0 rated_db = 7" "score_effect RATING_ACCOUNT 0 rated_score = 20"
    "last_rating RATING_CONTENT 2 (Ratings rated_db) = 0" "score_effect RATING_CONTENT 2 rated_score = 2"
    by (simp_all add: GetUserReputation_id_def last_rating_def select_first_def rated_db_def score_effect_def rated_score_def int32_id)
  obtain db' where db': "IndexRatings NetworkMain 50 rated_txs rated_db = Some db'"
    "\<forall>t i. t \<noteq> RATING_ACCOUNT_LIKERS \<longrightarrow> last_rating t i (Ratings db') =
       last_rating t i (Ratings rated_db) + int32 (sum_list (map (score_effect t i) [rated_score]))"
    "\<forall>i n. n = GetUserReputation_id i rated_db + sum_list (map (score_effect RATING_ACCOUNT i) [rated_score]) \<longrightarrow>
       - (2 ^ 31) \<le> n \<longrightarrow> n < 2 ^ 31 \<longrightarrow> GetUserReputation_id i db' = n"
    using IndexRatings_reputation[OF rated_rules rated_scores rated_below] by blast
  have "GetUserReputation_id 0 db' = 27" using db'(3)[rule_format, of 27 0] before(1,2) by simp
  moreover have "last_rating RATING_CONTENT 2 (Ratings db') = 2"
    using db'(2)[rule_format, of RATING_CONTENT 2] before(3,4) by (simp add: int32_id)
  ultimately show ?thesis using db'(1) by blast
qed

section \<open>Ratings stay within the columns\<close>






lemma likers_count:
  assumes "likers_distinct (Ratings db)"
  shows "GetUserLikersCount a db = int (card {l. ExistsLiker a l h db})"
proof -
  let ?rows = "filter (\<lambda>r. r_Type r = RATING_ACCOUNT_LIKERS \<and> r_Id r = a) (Ratings db)"
  have "distinct (map (\<lambda>r. (r_Id r, r_Value r)) (filter (\<lambda>r. r_Id r = a) (filter (\<lambda>r. r_Type r = RATING_ACCOUNT_LIKERS) (Ratings db))))"
    using assms unfolding likers_distinct_def distinct_on_def by (rule distinct_map_filter)
  moreover have "filter (\<lambda>r. r_Id r = a) (filter (\<lambda>r. r_Type r = RATING_ACCOUNT_LIKERS) (Ratings db)) = ?rows"
    unfolding filter_filter ..
  moreover have "map (\<lambda>r. (r_Id r, r_Value r)) ?rows = map (\<lambda>v. (a, v)) (map r_Value ?rows)" by simp
  ultimately have "distinct (map (\<lambda>v. (a, v)) (map r_Value ?rows))" by (simp only:)
  then have "distinct (map r_Value ?rows)" unfolding distinct_map by (rule conjunct1)
  moreover have "{l. ExistsLiker a l h db} = set (map r_Value ?rows)"
    by (auto simp: ExistsLiker_def count_where_pos_iff)
  ultimately show ?thesis
    by (simp add: GetUserLikersCount_def count_where_def distinct_card del: set_map)
qed

text \<open>C22. The number of likers that decides whether an account may change reputations is the number of
  different accounts that like it: a block never records a liker twice, so when no liker is
  recorded twice before it, counting the rows counts the likers afterwards.\<close>

theorem IndexRatings_likers:
  assumes "Instance ReputationConsensusFactory_m_rules net h = Some v"
    and "counted_scores net h v db txs = Some ss" "\<forall>r \<in> set (Ratings db). r_Height r < h"
    and "likers_distinct (Ratings db)"
  shows "\<exists>db'. IndexRatings net h txs db = Some db' \<and> likers_distinct (Ratings db') \<and>
    (\<forall>a. GetUserLikersCount a db' = int (card {l. ExistsLiker a l h db'}))"
proof -
  obtain ratings rows' where rows': "IndexRatings net h txs db = Some (db\<lparr>Ratings := rows'\<rparr>)"
    "ratings_added h ratings (Ratings db) rows'"
    using IndexRatings_spec[OF assms(1-3)] by blast
  then have "likers_distinct (Ratings (db\<lparr>Ratings := rows'\<rparr>))"
    using assms(4) by (simp add: ratings_added_def)
  with rows'(1) likers_count[OF this] show ?thesis by blast
qed

lemma IndexRatings_likers_witness:
  "likers_distinct (Ratings rated_db) \<and>
   (\<exists>db'. IndexRatings NetworkMain 50 rated_txs rated_db = Some db' \<and>
      GetUserLikersCount 0 db' = int (card {l. ExistsLiker 0 l 50 db'}))"
proof -
  have l: "likers_distinct (Ratings rated_db)"
    by (simp add: likers_distinct_def rated_db_def distinct_on_def)
  with IndexRatings_likers[OF rated_rules rated_scores rated_below l] show ?thesis by blast
qed

end
