(* ===== verification/Versioned.thy ===== *)
theory Versioned
  imports ChainRepository
begin

text \<open>
  The discipline of the column \<open>Last\<close>. Several tables keep all versions of an entity, one row
  per version and height, with a flag on the newest. The locale \<open>versioned\<close> has what a row must
  offer (the entity, the height, the flag and its update) and proves once that
  \<open>restore_last\<close> undoes the effect of a block on the flags; transactions and balances
  interpret it.
\<close>

section \<open>The invariant of a versioned table\<close>

text \<open>Among the rows of an entity the flagged one is strictly newer than all others, every
  entity has a flagged row, and only rows of an entity are flagged.\<close>

definition versions_ok ::
    "('r \<Rightarrow> 'k option) \<Rightarrow> ('r \<Rightarrow> int option) \<Rightarrow> ('r \<Rightarrow> bool) \<Rightarrow> 'r set \<Rightarrow> bool" where
  "versions_ok entity height is_last R \<longleftrightarrow>
     (\<forall>r \<in> R. \<forall>s \<in> R. r \<noteq> s \<longrightarrow> sql_eq (entity r) (entity s) \<longrightarrow> is_last r \<longrightarrow>
        (\<exists>a b. height r = Some a \<and> height s = Some b \<and> b < a)) \<and>
     (\<forall>r \<in> R. entity r \<noteq> None \<longrightarrow> height r \<noteq> None \<and> (\<exists>s \<in> R. entity s = entity r \<and> is_last s)) \<and>
     (\<forall>r \<in> R. is_last r \<longrightarrow> entity r \<noteq> None)"

text \<open>\<open>advanced\<close> relates the rows before and after a block at height \<open>h\<close>: apart from the rows at
  that height every row is an old one, unchanged or stripped of its flag; a row is stripped
  exactly when a row of its entity at \<open>h\<close> took the flag over.\<close>

definition cleared_from :: "('r \<Rightarrow> bool) \<Rightarrow> (bool \<Rightarrow> 'r \<Rightarrow> 'r) \<Rightarrow> 'r \<Rightarrow> 'r \<Rightarrow> bool" where
  "cleared_from is_last set_last r0 r \<longleftrightarrow> r = r0 \<or> (is_last r0 \<and> r = set_last False r0)"

definition advanced ::
    "('r \<Rightarrow> 'k option) \<Rightarrow> ('r \<Rightarrow> int option) \<Rightarrow> ('r \<Rightarrow> bool) \<Rightarrow> (bool \<Rightarrow> 'r \<Rightarrow> 'r) \<Rightarrow> int \<Rightarrow>
       'r set \<Rightarrow> 'r set \<Rightarrow> bool" where
  "advanced entity height is_last set_last h R0 R \<longleftrightarrow>
     (\<forall>r0 \<in> R0. entity r0 \<noteq> None \<longrightarrow> (\<exists>r \<in> R. cleared_from is_last set_last r0 r)) \<and>
     (\<forall>r \<in> R. height r = Some h \<or> (\<exists>r0 \<in> R0. cleared_from is_last set_last r0 r)) \<and>
     (\<forall>r0 \<in> R0. is_last r0 \<longrightarrow> set_last False r0 \<in> R \<longrightarrow>
        (\<exists>n \<in> R. height n = Some h \<and> is_last n \<and> sql_eq (entity n) (entity r0))) \<and>
     (\<forall>r \<in> R. \<forall>n \<in> R. height n = Some h \<longrightarrow> sql_eq (entity n) (entity r) \<longrightarrow> is_last r \<longrightarrow> height r = Some h)"

section \<open>Restoring the flags\<close>

locale versioned =
  fixes entity :: "'r \<Rightarrow> 'k option" and height :: "'r \<Rightarrow> int option"
    and is_last :: "'r \<Rightarrow> bool" and set_last :: "bool \<Rightarrow> 'r \<Rightarrow> 'r"
  assumes entity_set_last [simp]: "entity (set_last l r) = entity r"
    and height_set_last [simp]: "height (set_last l r) = height r"
    and is_last_set_last [simp]: "is_last (set_last l r) = l"
    and set_last_same [simp]: "set_last (is_last r) r = r"
    and set_last_twice [simp]: "set_last l (set_last l' r) = set_last l r"
begin

lemma set_last_True [simp]: "is_last r \<Longrightarrow> set_last True r = r"
  using set_last_same[of r] by simp

lemma cleared_same:
  "cleared_from is_last set_last r0 r \<Longrightarrow> entity r = entity r0 \<and> height r = height r0"
  by (auto simp: cleared_from_def)

lemma strictly_newer:
  assumes "versions_ok entity height is_last R" "r \<in> R" "s \<in> R" "r \<noteq> s" "is_last r"
    and "sql_eq (entity r) (entity s)" "height r = Some a" "height s = Some b"
  shows "b < a"
  using assms unfolding versions_ok_def by (metis option.inject)

lemma strictly_newer_eq:
  assumes "versions_ok entity height is_last R" "r \<in> R" "s \<in> R" "is_last r"
    and "sql_eq (entity r) (entity s)" "height r = Some a" "height s = Some b"
  shows "b \<le> a"
  using strictly_newer[OF assms(1,2,3)] assms by (cases "r = s") force+

text \<open>The condition under which \<open>restore_last\<close> sets the flag of a row.\<close>

lemma restore_last_map:
  "restore_last entity height is_last set_last h rows =
     map (\<lambda>r. if \<exists>t1 \<in> set rows. sql_ge (height t1) h \<and> is_last t1 \<and> sql_eq (entity r) (entity t1) \<and>
            sql_eq (height r) (sql_max (List.map_filter height
              (filter (\<lambda>t2. sql_eq (entity t2) (entity t1) \<and> sql_lt (height t2) h \<and> \<not> is_last t2) rows)))
          then set_last True r else r) rows"
  by (simp add: restore_last_def update_where_def)

lemma old_rows_below:
  assumes "advanced entity height is_last set_last h R0 R"
    and "\<forall>r0 \<in> R0. \<forall>a. height r0 = Some a \<longrightarrow> a < h" "r \<in> R" "height r = Some a" "h \<le> a"
  shows "a = h"
  using assms cleared_same unfolding advanced_def by (metis linorder_not_less option.inject)

text \<open>The greatest height at which a version of the entity of a stripped row lost the flag is the
  height of that row.\<close>

lemma max_cleared_height:
  assumes adv: "advanced entity height is_last set_last h R0 (set rows)"
    and ok: "versions_ok entity height is_last R0"
    and below: "\<forall>r0 \<in> R0. \<forall>a. height r0 = Some a \<longrightarrow> a < h"
    and r0: "r0 \<in> R0" "is_last r0" "set_last False r0 \<in> set rows" "height r0 = Some a"
    and k: "sql_eq k (entity r0)"
  shows "sql_max (List.map_filter height
      (filter (\<lambda>t2. sql_eq (entity t2) k \<and> sql_lt (height t2) h \<and> \<not> is_last t2) rows)) = Some a"
proof (rule sql_max_SomeI)
  show "a \<in> set (List.map_filter height
      (filter (\<lambda>t2. sql_eq (entity t2) k \<and> sql_lt (height t2) h \<and> \<not> is_last t2) rows))"
    using r0 below k by (force simp: List.map_filter_def sql_eq_sym)
next
  fix b
  assume "b \<in> set (List.map_filter height
      (filter (\<lambda>t2. sql_eq (entity t2) k \<and> sql_lt (height t2) h \<and> \<not> is_last t2) rows))"
  then obtain t2 where t2: "t2 \<in> set rows" "sql_eq (entity t2) k" "height t2 = Some b" "b < h"
    by (auto simp: List.map_filter_def)
  then obtain t where "t \<in> R0" "cleared_from is_last set_last t t2"
    using adv unfolding advanced_def by (metis less_irrefl option.inject)
  with t2 k have "sql_eq (entity r0) (entity t)" "height t = Some b"
    using cleared_same[of t t2] by (auto simp: sql_eq_def)
  with strictly_newer_eq[OF ok r0(1) \<open>t \<in> R0\<close> r0(2)] r0(4) show "b \<le> a" by blast
qed

text \<open>A row that was not the last version before the block is not flagged by mistake.\<close>

lemma not_restored:
  assumes adv: "advanced entity height is_last set_last h R0 (set rows)"
    and ok: "versions_ok entity height is_last R0"
    and below: "\<forall>r0 \<in> R0. \<forall>a. height r0 = Some a \<longrightarrow> a < h"
    and r: "r \<in> R0" "\<not> is_last r"
    and t1: "t1 \<in> set rows" "sql_ge (height t1) h" "sql_eq (entity r) (entity t1)"
  shows "\<not> sql_eq (height r) (sql_max (List.map_filter height
      (filter (\<lambda>t2. sql_eq (entity t2) (entity t1) \<and> sql_lt (height t2) h \<and> \<not> is_last t2) rows)))"
proof -
  have new: "height t1 = Some h"
    using old_rows_below[OF adv below t1(1)] t1(2) by (cases "height t1") auto
  obtain s where s: "s \<in> R0" "entity s = entity r" "is_last s"
    using ok r(1) t1(3) unfolding versions_ok_def sql_eq_def by metis
  moreover have key: "sql_eq (entity s) (entity r)"
    using s(2) t1(3) by (metis sql_eq_def)
  ultimately obtain a b where ab: "height s = Some a" "height r = Some b" "b < a"
    using ok r unfolding versions_ok_def by metis
  obtain s' where s': "s' \<in> set rows" "cleared_from is_last set_last s s'"
    using adv s(1) key unfolding advanced_def sql_eq_def by metis
  have "a < h" using below s(1) ab(1) by blast
  then have "\<not> is_last s'"
    using adv new t1 s' key ab(1) cleared_same[OF s'(2)] unfolding advanced_def
    by (metis less_irrefl option.inject sql_eq_def)
  then have "s' = set_last False s"
    using s'(2) s(3) by (auto simp: cleared_from_def)
  moreover have "sql_eq (entity t1) (entity s)"
    using key t1(3) by (metis sql_eq_def)
  ultimately show ?thesis
    using max_cleared_height[OF adv ok below s(1,3) _ ab(1), of "entity t1"] s'(1) ab by simp
qed

lemma restore_row:
  assumes adv: "advanced entity height is_last set_last h R0 (set rows)"
    and ok: "versions_ok entity height is_last R0"
    and below: "\<forall>r0 \<in> R0. \<forall>a. height r0 = Some a \<longrightarrow> a < h"
    and r: "r0 \<in> R0" "r \<in> set rows" "cleared_from is_last set_last r0 r"
  shows "(if \<exists>t1 \<in> set rows. sql_ge (height t1) h \<and> is_last t1 \<and> sql_eq (entity r) (entity t1) \<and>
            sql_eq (height r) (sql_max (List.map_filter height
              (filter (\<lambda>t2. sql_eq (entity t2) (entity t1) \<and> sql_lt (height t2) h \<and> \<not> is_last t2) rows)))
          then set_last True r else r) = r0"
proof (cases "is_last r0")
  case True
  show ?thesis
  proof (cases "r = r0")
    case False
    then have cleared: "r = set_last False r0"
      using r(3) by (simp add: cleared_from_def)
    then obtain n where n: "n \<in> set rows" "height n = Some h" "is_last n" "sql_eq (entity n) (entity r0)"
      using adv r(1,2) True unfolding advanced_def by metis
    obtain a where a: "height r0 = Some a"
      using ok r(1) True unfolding versions_ok_def by (metis option.exhaust)
    have "sql_max (List.map_filter height
        (filter (\<lambda>t2. sql_eq (entity t2) (entity n) \<and> sql_lt (height t2) h \<and> \<not> is_last t2) rows)) = Some a"
      using max_cleared_height[OF adv ok below r(1) True _ a n(4)] cleared r(2) by simp
    with n a True cleared show ?thesis
      by (auto simp: sql_eq_sym)
  qed (simp add: True)
next
  case False
  then have "r = r0" using r(3) by (simp add: cleared_from_def)
  with not_restored[OF adv ok below r(1) False] show ?thesis by auto
qed

text \<open>Appending a newest version of some entities and stripping their old ones.\<close>

lemma advanced_append:
  assumes ok: "versions_ok entity height is_last (set rows)"
    and below: "\<forall>r \<in> set rows. \<forall>a. height r = Some a \<longrightarrow> a < h"
    and new: "\<forall>n \<in> set new. height n = Some h \<and> is_last n"
    and strip: "\<And>r. strip r = (if is_last r \<and> (\<exists>n \<in> set new. sql_eq (entity n) (entity r)) then set_last False r else r)"
  shows "advanced entity height is_last set_last h (set rows) (set (map strip rows @ new))"
  unfolding advanced_def
proof (intro conjI ballI impI)
  fix r0 assume "r0 \<in> set rows"
  then show "\<exists>r \<in> set (map strip rows @ new). cleared_from is_last set_last r0 r"
    by (intro bexI[of _ "strip r0"]) (auto simp: strip cleared_from_def)
next
  fix r assume "r \<in> set (map strip rows @ new)"
  then show "height r = Some h \<or> (\<exists>r0 \<in> set rows. cleared_from is_last set_last r0 r)"
    using new by (auto simp: strip cleared_from_def)
next
  fix r0 assume r0: "r0 \<in> set rows" "is_last r0" "set_last False r0 \<in> set (map strip rows @ new)"
  have "set_last False r0 \<notin> set new" using new by (metis is_last_set_last)
  then obtain r where r: "r \<in> set rows" "set_last False r0 = strip r" using r0(3) by auto
  then have same: "entity r = entity r0" "height r = height r0"
    by (metis strip entity_set_last height_set_last)+
  show "\<exists>n \<in> set (map strip rows @ new). height n = Some h \<and> is_last n \<and> sql_eq (entity n) (entity r0)"
  proof (cases "is_last r")
    case True
    with r(2) have "\<exists>n \<in> set new. sql_eq (entity n) (entity r)" by (metis strip is_last_set_last)
    with new same show ?thesis by auto
  next
    case False
    with r0(2) have "r \<noteq> r0" "sql_eq (entity r0) (entity r)"
      using ok r0(1) same unfolding versions_ok_def sql_eq_def by auto
    with ok r0(1,2) r(1) same(2) show ?thesis unfolding versions_ok_def by (metis less_irrefl option.inject)
  qed
next
  fix r n assume rn: "r \<in> set (map strip rows @ new)" "n \<in> set (map strip rows @ new)" "height n = Some h"
    "sql_eq (entity n) (entity r)" "is_last r"
  have "n \<in> set new" using rn(2,3) below by (auto simp: strip split: if_splits)
  then show "height r = Some h"
    using rn(1,4,5) new by (auto simp: strip split: if_splits)
qed

lemma versions_append:
  assumes ok: "versions_ok entity height is_last (set rows)"
    and below: "\<forall>r \<in> set rows. \<forall>a. height r = Some a \<longrightarrow> a < h"
    and new: "\<forall>n \<in> set new. height n = Some h \<and> is_last n \<and> entity n \<noteq> None"
    and single: "\<forall>n \<in> set new. \<forall>m \<in> set new. entity n = entity m \<longrightarrow> n = m"
    and strip: "\<And>r. strip r = (if is_last r \<and> (\<exists>n \<in> set new. sql_eq (entity n) (entity r)) then set_last False r else r)"
  shows "versions_ok entity height is_last (set (map strip rows @ new))"
proof -
  have strip_simps: "entity (strip r) = entity r" "height (strip r) = height r" for r
    by (simp_all add: strip)
  have flagged: "is_last (strip r) \<Longrightarrow> strip r = r \<and> is_last r \<and> (\<forall>n \<in> set new. \<not> sql_eq (entity n) (entity r))" for r
    by (auto simp: strip split: if_splits)
  have old: "\<exists>a. height r = Some a \<and> a < h" if "r \<in> set rows" "entity r \<noteq> None" for r
    using ok below that unfolding versions_ok_def by (metis option.exhaust)
  show ?thesis
    unfolding versions_ok_def
  proof (intro conjI ballI impI)
    fix r s assume rs: "r \<in> set (map strip rows @ new)" "s \<in> set (map strip rows @ new)" "r \<noteq> s"
      "sql_eq (entity r) (entity s)" "is_last r"
    consider "r \<in> set new" "s \<in> set new" | s0 where "r \<in> set new" "s0 \<in> set rows" "s = strip s0"
      | r0 where "r0 \<in> set rows" "r = strip r0" "s \<in> set new"
      | r0 s0 where "r0 \<in> set rows" "r = strip r0" "s0 \<in> set rows" "s = strip s0"
      using rs(1,2) by auto
    then show "\<exists>a b. height r = Some a \<and> height s = Some b \<and> b < a"
    proof cases
      case 1
      with rs(3,4) single show ?thesis by (metis sql_eq_def)
    next
      case (2 s0)
      moreover have "entity s0 \<noteq> None" using rs(4) 2 by (metis sql_eq_def strip_simps(1))
      ultimately show ?thesis using new old[of s0] by (auto simp: strip_simps)
    next
      case (3 r0)
      with flagged[of r0] rs(4,5) show ?thesis by (auto simp: sql_eq_sym)
    next
      case (4 r0 s0)
      with flagged[of r0] rs(3-5) have "is_last r0" "sql_eq (entity r0) (entity s0)" "r = r0"
        by (auto simp: strip_simps)
      moreover have "r0 \<noteq> s0" using 4 rs(3) by auto
      ultimately show ?thesis using ok 4 unfolding versions_ok_def by (simp add: strip_simps)
    qed
  next
    fix r assume r: "r \<in> set (map strip rows @ new)" "entity r \<noteq> None"
    then show "height r \<noteq> None" using new old by (fastforce simp: strip_simps)
    show "\<exists>s \<in> set (map strip rows @ new). entity s = entity r \<and> is_last s"
    proof (cases "\<exists>n \<in> set new. entity n = entity r")
      case True
      with new show ?thesis by auto
    next
      case False
      then obtain r0 where "r0 \<in> set rows" "entity r0 = entity r" using r(1) by (auto simp: strip_simps)
      then obtain s where s: "s \<in> set rows" "entity s = entity r" "is_last s"
        using ok r(2) unfolding versions_ok_def by metis
      then have "strip s = s" using False by (auto simp: strip sql_eq_def)
      with s show ?thesis by force
    qed
  next
    fix r assume "r \<in> set (map strip rows @ new)" "is_last r"
    then show "entity r \<noteq> None"
      using new flagged ok unfolding versions_ok_def by (auto simp: strip_simps)
  qed
qed

end

end
