(* ===== verification/ChainIndex.thy ===== *)
theory ChainIndex
  imports Versioned
begin

text \<open>
  The chain index is undone by its rollback. The transactions of a block take the flag \<open>Last\<close>
  over from earlier versions of their entities (\<open>take_over\<close>); the table stays \<open>advanced\<close> from
  the one before the block, so the restoring statement finds exactly the rows that lost the
  flag, and resetting the rows of the block gives the table before it. The same holds for the
  outputs and the balances.
\<close>

interpretation tx_rows: versioned t_Id t_Height t_Last "\<lambda>l r. r\<lparr>t_Last := l\<rparr>"
  by unfold_locales auto

interpretation balance_rows: versioned "\<lambda>b. Some (b_AddressHash b)" "\<lambda>b. Some (b_Height b)" b_Last
  "\<lambda>l b. b\<lparr>b_Last := l\<rparr>"
  by unfold_locales auto

abbreviation tx_advanced :: "int \<Rightarrow> TxRow set \<Rightarrow> TxRow set \<Rightarrow> bool" where
  "tx_advanced \<equiv> advanced t_Id t_Height t_Last (\<lambda>l r. r\<lparr>t_Last := l\<rparr>)"

abbreviation tx_cleared :: "TxRow \<Rightarrow> TxRow \<Rightarrow> bool" where
  "tx_cleared \<equiv> cleared_from t_Last (\<lambda>l r. r\<lparr>t_Last := l\<rparr>)"

abbreviation tx_versions :: "TxRow list \<Rightarrow> bool" where
  "tx_versions txs \<equiv> versions_ok t_Id t_Height t_Last (set txs)"

section \<open>One transaction of a block\<close>

definition reset_row :: "TxRow \<Rightarrow> TxRow" where
  "reset_row r = r\<lparr>t_BlockHash := None, t_BlockNum := None, t_Height := None, t_Last := False, t_Id := None\<rparr>"

definition unindexed :: "TxRow \<Rightarrow> bool" where
  "unindexed r \<longleftrightarrow> reset_row r = r"

text \<open>The fee of a boost is the one column the rollback leaves behind.\<close>

definition same_but_fee :: "TxRow \<Rightarrow> TxRow \<Rightarrow> bool" where
  "same_but_fee r0 r \<longleftrightarrow> r\<lparr>t_Int1 := t_Int1 r0\<rparr> = r0 \<and> (t_Type r0 \<noteq> BOOST_CONTENT \<longrightarrow> r = r0)"

text \<open>A row of the table before the block and the row it has become: \<open>seen\<close> are the hashes
  indexed so far.\<close>

definition indexed_row :: "int \<Rightarrow> string set \<Rightarrow> TxRow \<Rightarrow> TxRow \<Rightarrow> bool" where
  "indexed_row h seen r0 r \<longleftrightarrow> t_Hash r = t_Hash r0 \<and>
     (if t_Hash r0 \<in> seen then unindexed r0 \<and> t_Height r = Some h \<and> same_but_fee r0 (reset_row r)
      else tx_cleared r0 r)"

text \<open>Taking over: the row with hash \<open>x\<close> becomes \<open>f\<close> of it with identifier \<open>k\<close>; every other
  flagged row with this identifier loses its flag.\<close>

definition take_over :: "string \<Rightarrow> (TxRow \<Rightarrow> TxRow) \<Rightarrow> int option \<Rightarrow> TxRow list \<Rightarrow> TxRow list" where
  "take_over x f k txs =
     map (\<lambda>r. if t_Hash r = x then f r
              else if t_Last r \<and> sql_eq (t_Id r) k then r\<lparr>t_Last := False\<rparr> else r) txs"

lemma tx_cleared_cases:
  "tx_cleared r0 r \<Longrightarrow> (r = r0 \<Longrightarrow> P) \<Longrightarrow> (t_Last r0 \<Longrightarrow> r = r0\<lparr>t_Last := False\<rparr> \<Longrightarrow> P) \<Longrightarrow> P"
  by (auto simp: cleared_from_def)

lemma tx_cleared_again: "tx_cleared r0 r \<Longrightarrow> t_Last r \<Longrightarrow> tx_cleared r0 (r\<lparr>t_Last := False\<rparr>)"
  by (auto simp: cleared_from_def)

lemma unindexed_simps: "unindexed r \<Longrightarrow> t_Id r = None \<and> t_Height r = None \<and> \<not> t_Last r"
  by (metis unindexed_def reset_row_def TxRow.select_convs TxRow.surjective TxRow.update_convs)

lemma indexed_row_take_over:
  assumes "indexed_row h seen r0 r" "x \<notin> seen" "t_Hash r0 = x \<Longrightarrow> unindexed r0"
    and "\<And>r. t_Hash (f r) = t_Hash r" "\<And>r. t_Height (f r) = Some h"
    and "\<And>r. unindexed r \<Longrightarrow> same_but_fee r (reset_row (f r))"
  shows "indexed_row h (insert x seen) r0
    (if t_Hash r = x then f r else if t_Last r \<and> sql_eq (t_Id r) k then r\<lparr>t_Last := False\<rparr> else r)"
proof (cases "t_Hash r0 = x")
  case True
  then have "r = r0"
    using assms(1-3) unindexed_simps[of r0] by (auto simp: indexed_row_def elim: tx_cleared_cases)
  with True assms show ?thesis by (auto simp: indexed_row_def)
next
  case False
  with assms(1,2) show ?thesis
    by (auto simp: indexed_row_def reset_row_def same_but_fee_def intro: tx_cleared_again)
qed

section \<open>The table stays advanced\<close>

text \<open>What holds of the table while the transactions of a block are indexed.\<close>

definition indexing :: "int \<Rightarrow> string set \<Rightarrow> TxRow list \<Rightarrow> TxRow list \<Rightarrow> bool" where
  "indexing h seen txs0 txs \<longleftrightarrow>
     list_all2 (indexed_row h seen) txs0 txs \<and> tx_advanced h (set txs0) (set txs) \<and>
     (\<forall>r0 \<in> set txs0. \<forall>a. t_Height r0 = Some a \<longrightarrow> a < h)"

lemma list_all2_set1: "list_all2 P xs ys \<Longrightarrow> x \<in> set xs \<Longrightarrow> \<exists>y \<in> set ys. P x y"
  by (metis in_set_conv_nth list_all2_conv_all_nth)

lemma list_all2_set2: "list_all2 P xs ys \<Longrightarrow> y \<in> set ys \<Longrightarrow> \<exists>x \<in> set xs. P x y"
  by (metis in_set_conv_nth list_all2_conv_all_nth)

lemma indexing_row: "indexing h seen txs0 txs \<Longrightarrow> r \<in> set txs \<Longrightarrow> \<exists>r0 \<in> set txs0. indexed_row h seen r0 r"
  unfolding indexing_def by (elim conjE) (rule list_all2_set2)

lemma indexing_pending:
  assumes "indexing h seen txs0 txs" "r \<in> set txs" "t_Hash r = x" "x \<notin> seen"
    and "\<forall>r0 \<in> set txs0. t_Hash r0 = x \<longrightarrow> unindexed r0"
  shows "unindexed r"
proof -
  obtain r0 where "r0 \<in> set txs0" "indexed_row h seen r0 r"
    using indexing_row[OF assms(1,2)] by blast
  then show ?thesis
    using assms(3-5) unindexed_simps[of r0] by (auto simp: indexed_row_def elim: tx_cleared_cases)
qed

lemma take_over_rows:
  assumes "list_all2 (indexed_row h seen) txs0 txs" "x \<notin> seen"
    and "\<forall>r0 \<in> set txs0. t_Hash r0 = x \<longrightarrow> unindexed r0"
    and f: "\<And>r. t_Hash (f r) = t_Hash r" "\<And>r. t_Height (f r) = Some h"
      "\<And>r. unindexed r \<Longrightarrow> same_but_fee r (reset_row (f r))"
  shows "list_all2 (indexed_row h (insert x seen)) txs0 (take_over x f k txs)"
  unfolding take_over_def list_all2_map2
proof (rule list.rel_mono_strong[OF assms(1)])
  fix r0 r assume "r0 \<in> set txs0" "indexed_row h seen r0 r"
  then show "indexed_row h (insert x seen) r0
      (if t_Hash r = x then f r else if t_Last r \<and> sql_eq (t_Id r) k then r\<lparr>t_Last := False\<rparr> else r)"
    using assms(2,3) f by (intro indexed_row_take_over) blast+
qed

lemma old_or_new:
  assumes "list_all2 (indexed_row h seen) txs0 txs" "r \<in> set txs"
  shows "t_Height r = Some h \<or> (\<exists>r0 \<in> set txs0. tx_cleared r0 r)"
  using list_all2_set2[OF assms] by (auto simp: indexed_row_def split: if_splits)

lemma take_over_cases:
  assumes "r' \<in> set (take_over x f k txs)"
  obtains r where "r \<in> set txs" "t_Hash r = x" "r' = f r"
  | r where "r \<in> set txs" "t_Hash r \<noteq> x" "t_Last r" "sql_eq (t_Id r) k" "r' = r\<lparr>t_Last := False\<rparr>"
  | "r' \<in> set txs" "t_Hash r' \<noteq> x" "\<not> (t_Last r' \<and> sql_eq (t_Id r') k)"
  using assms by (auto simp: take_over_def split: if_splits)

lemma take_over_keeps:
  "r \<in> set txs \<Longrightarrow> t_Hash r \<noteq> x \<Longrightarrow> \<not> (t_Last r \<and> sql_eq (t_Id r) k) \<Longrightarrow> r \<in> set (take_over x f k txs)"
  by (force simp: take_over_def)

lemma take_over_advanced:
  assumes ix: "indexing h seen txs0 txs" and x: "x \<notin> seen" "x \<in> t_Hash ` set txs"
    and fresh: "\<forall>r0 \<in> set txs0. t_Hash r0 = x \<longrightarrow> unindexed r0"
    and f: "\<And>r. t_Hash (f r) = t_Hash r" "\<And>r. t_Height (f r) = Some h"
      "\<And>r. unindexed r \<Longrightarrow> same_but_fee r (reset_row (f r))"
      "\<And>r. unindexed r \<Longrightarrow> t_Id (f r) = k \<and> (t_Last (f r) \<longleftrightarrow> k \<noteq> None)"
  shows "tx_advanced h (set txs0) (set (take_over x f k txs))"
proof -
  let ?txs' = "take_over x f k txs"
  have rows: "list_all2 (indexed_row h (insert x seen)) txs0 ?txs'"
    using ix x fresh f(1-3) by (intro take_over_rows) (auto simp: indexing_def)
  have adv: "tx_advanced h (set txs0) (set txs)" and below: "\<forall>r0 \<in> set txs0. \<forall>a. t_Height r0 = Some a \<longrightarrow> a < h"
    using ix by (auto simp: indexing_def)
  have pending: "unindexed r" if "r \<in> set txs" "t_Hash r = x" for r
    using indexing_pending[OF ix that x(1)] fresh by blast
  obtain rx where rx: "rx \<in> set txs" "t_Hash rx = x" using x(2) by auto
  then have nx: "f rx \<in> set ?txs'" "t_Height (f rx) = Some h" "t_Id (f rx) = k" "t_Last (f rx) \<longleftrightarrow> k \<noteq> None"
    using f pending by (auto simp: take_over_def)
  have new_kept: "\<exists>n' \<in> set ?txs'. t_Height n' = Some h \<and> t_Last n' \<and> t_Id n' = t_Id n"
    if n: "n \<in> set txs" "t_Height n = Some h" "t_Last n" "t_Id n \<noteq> None" for n
  proof (cases "sql_eq (t_Id n) k")
    case True
    with nx show ?thesis by (metis sql_eq_def)
  next
    case False
    have "t_Hash n \<noteq> x" using pending[OF n(1)] unindexed_simps n(2) by fastforce
    with False n take_over_keeps show ?thesis by blast
  qed
  show ?thesis
    unfolding advanced_def
  proof (intro conjI ballI impI)
    fix r0 assume r0: "r0 \<in> set txs0" "t_Id r0 \<noteq> None"
    obtain r where r: "r \<in> set ?txs'" "indexed_row h (insert x seen) r0 r"
      using list_all2_set1[OF rows r0(1)] by auto
    then have "tx_cleared r0 r"
      using r0(2) unindexed_simps[of r0] by (auto simp: indexed_row_def split: if_splits)
    with r(1) show "\<exists>r \<in> set ?txs'. tx_cleared r0 r" by blast
  next
    fix r assume "r \<in> set ?txs'"
    then show "t_Height r = Some h \<or> (\<exists>r0 \<in> set txs0. tx_cleared r0 r)"
      by (rule old_or_new[OF rows])
  next
    fix r0 assume r0: "r0 \<in> set txs0" "t_Last r0" "r0\<lparr>t_Last := False\<rparr> \<in> set ?txs'"
    from r0(3) show "\<exists>n \<in> set ?txs'. t_Height n = Some h \<and> t_Last n \<and> sql_eq (t_Id n) (t_Id r0)"
    proof (cases rule: take_over_cases)
      case (1 r)
      then have "t_Height r0 = Some h" using f(2)[of r] by (metis TxRow.select_convs(6) TxRow.surjective TxRow.update_convs(7))
      with below r0(1) show ?thesis by blast
    next
      case (2 r)
      then have "t_Id r0 = t_Id r" by (metis TxRow.select_convs(8) TxRow.surjective TxRow.update_convs(7))
      with 2(4) nx show ?thesis by (metis sql_eq_def)
    next
      case 3
      then obtain n where "n \<in> set txs" "t_Height n = Some h" "t_Last n" "sql_eq (t_Id n) (t_Id r0)"
        using adv r0(1,2) unfolding advanced_def by blast
      with new_kept[of n] show ?thesis by (metis sql_eq_def)
    qed
  next
    fix r n assume rn: "r \<in> set ?txs'" "n \<in> set ?txs'" "t_Height n = Some h" "sql_eq (t_Id n) (t_Id r)" "t_Last r"
    from rn(1) show "t_Height r = Some h"
    proof (cases rule: take_over_cases)
      case (1 r')
      then show ?thesis using f(2) by simp
    next
      case (2 r')
      with rn(5) show ?thesis by simp
    next
      case 3
      have notk: "\<not> sql_eq (t_Id r) k" using 3(3) rn(5) by blast
      from rn(2) obtain n' where n': "n' \<in> set txs" "t_Height n' = Some h" "t_Id n' = t_Id n"
      proof (cases rule: take_over_cases)
        case (1 n1)
        then show ?thesis using notk f(4)[OF pending[OF 1(1,2)]] rn(4) by (metis sql_eq_def)
      next
        case (2 n1)
        then show ?thesis using that[of n1] rn(3) by simp
      next
        case 3
        then show ?thesis using that[of n] rn(3) by simp
      qed
      then show ?thesis
        using adv 3(1) rn(4,5) unfolding advanced_def by metis
    qed
  qed
qed

section \<open>Indexing a transaction takes over\<close>

definition id_query :: "TransactionIndexingInfo \<Rightarrow> (TxRow list \<Rightarrow> TxRow \<Rightarrow> int option) option" where
  "id_query txInfo =
     (if IsAccount txInfo then Some account_id
      else if IsContent txInfo then Some content_id
      else if IsComment txInfo then Some comment_id
      else if IsBlocking txInfo then Some blocking_id
      else if IsSubscribe txInfo then Some subscribe_id
      else None)"

definition set_height :: "string \<Rightarrow> int \<Rightarrow> TransactionIndexingInfo \<Rightarrow> TxRow \<Rightarrow> TxRow" where
  "set_height blockHash height txInfo r =
     r\<lparr>t_BlockHash := Some blockHash, t_BlockNum := Some (ti_BlockNumber txInfo), t_Height := Some height\<rparr>"

lemma UpdateTransactionOutputs_other [simp]:
  "Transactions (UpdateTransactionOutputs txInfo height db) = Transactions db"
  "PayloadTable (UpdateTransactionOutputs txInfo height db) = PayloadTable db"
  "Ratings (UpdateTransactionOutputs txInfo height db) = Ratings db"
  "Balances (UpdateTransactionOutputs txInfo height db) = Balances db"
  unfolding UpdateTransactionOutputs_def by (rule fold_unchanged; simp)+

lemmas index_defs =
  IndexAccount_def IndexContent_def IndexComment_def IndexBlocking_def IndexSubscribe_def IndexBoostContent_def

lemma index_tx_other [simp]:
  "PayloadTable (index_tx blockHash height txInfo db) = PayloadTable db"
  "Ratings (index_tx blockHash height txInfo db) = Ratings db"
  "Balances (index_tx blockHash height txInfo db) = Balances db"
  by (simp_all add: index_tx_def Let_def index_defs UpdateTransactionHeight_def)

lemma index_tx_outputs:
  "TxOutputs (index_tx blockHash height txInfo db) =
     TxOutputs (UpdateTransactionOutputs txInfo height
       (UpdateTransactionHeight blockHash (ti_BlockNumber txInfo) height (ti_Hash txInfo) db))"
  by (simp add: index_tx_def Let_def index_defs)

lemma index_tx_transactions:
  "Transactions (index_tx blockHash height txInfo db) =
     (let x = ti_Hash txInfo;
          txs = update_where (\<lambda>r. t_Hash r = x) (set_height blockHash height txInfo) (Transactions db)
      in case id_query txInfo of
           Some sel \<Rightarrow> ClearOldLast x (set_id sel x txs)
         | None \<Rightarrow>
             if IsBoostContent txInfo
             then update_where (\<lambda>r. t_Hash r = x \<and> type_in r [208])
                    (\<lambda>r. r\<lparr>t_Int1 := boost_fee (TxOutputs (index_tx blockHash height txInfo db)) (t_Hash r)\<rparr>) txs
             else txs)"
  unfolding index_tx_outputs
  by (cases "ti_Type txInfo")
     (simp_all add: index_tx_def Let_def index_defs id_query_def txinfo_class_defs UpdateTransactionHeight_def
       set_height_def[abs_def])

lemma set_id_take_over:
  assumes "distinct_on t_Hash txs" "rx \<in> set txs" "t_Hash rx = x" "\<And>r. t_Hash (g r) = t_Hash r"
    and "\<And>r. t_Id (g r) = t_Id r" "\<And>r. t_Last (g r) = t_Last r"
    and txs1: "txs1 = update_where (\<lambda>r. t_Hash r = x) g txs"
    and k: "k = Some (ifnull (sel txs1 (g rx)) (next_id txs1))"
  shows "ClearOldLast x (set_id sel x txs1) = take_over x (\<lambda>r. (g r)\<lparr>t_Id := k, t_Last := True\<rparr>) k txs"
proof -
  have only: "r \<in> set txs \<Longrightarrow> t_Hash r = x \<Longrightarrow> r = rx" for r
    using assms(1-3) distinct_on_inj by metis
  have set: "set_id sel x txs1 = map (\<lambda>r. if t_Hash r = x then (g r)\<lparr>t_Id := k, t_Last := True\<rparr> else r) txs"
    unfolding set_id_def txs1 update_where_def
    by (auto simp: assms(4) k txs1 update_where_def dest: only)
  have mem: "(g rx)\<lparr>t_Id := k, t_Last := True\<rparr> \<in> set (set_id sel x txs1)"
    using assms(2,3) unfolding set by (auto simp: image_iff intro!: bexI[of _ rx])
  have idk: "t_Id t = k" if "t \<in> set (set_id sel x txs1)" "t_Hash t = x" for t
    using that unfolding set by (auto split: if_splits)
  have iff: "(\<exists>t \<in> set (set_id sel x txs1). t_Hash t = x \<and> sql_eq (t_Id r) (t_Id t) \<and> t_Last r \<and> t_Hash r \<noteq> t_Hash t)
      \<longleftrightarrow> sql_eq (t_Id r) k \<and> t_Last r \<and> t_Hash r \<noteq> x" for r
  proof
    assume "\<exists>t \<in> set (set_id sel x txs1). t_Hash t = x \<and> sql_eq (t_Id r) (t_Id t) \<and> t_Last r \<and> t_Hash r \<noteq> t_Hash t"
    then obtain t where "t \<in> set (set_id sel x txs1)" "t_Hash t = x" "sql_eq (t_Id r) (t_Id t)" "t_Last r" "t_Hash r \<noteq> t_Hash t"
      by (elim bexE conjE)
    with idk[of t] show "sql_eq (t_Id r) k \<and> t_Last r \<and> t_Hash r \<noteq> x" by simp
  next
    assume "sql_eq (t_Id r) k \<and> t_Last r \<and> t_Hash r \<noteq> x"
    then show "\<exists>t \<in> set (set_id sel x txs1). t_Hash t = x \<and> sql_eq (t_Id r) (t_Id t) \<and> t_Last r \<and> t_Hash r \<noteq> t_Hash t"
      by (intro bexI[OF _ mem]) (simp add: assms(3,4))
  qed
  have "ClearOldLast x (set_id sel x txs1) =
      map (\<lambda>r. if sql_eq (t_Id r) k \<and> t_Last r \<and> t_Hash r \<noteq> x then r\<lparr>t_Last := False\<rparr> else r) (set_id sel x txs1)"
    by (simp only: ClearOldLast_def update_where_def iff)
  also have "\<dots> = take_over x (\<lambda>r. (g r)\<lparr>t_Id := k, t_Last := True\<rparr>) k txs"
    unfolding set take_over_def map_map by (intro map_cong refl) (simp add: assms(4) conj_commute)
  finally show ?thesis .
qed

lemma indexing_hashes: "indexing h seen txs0 txs \<Longrightarrow> map t_Hash txs = map t_Hash txs0"
  unfolding indexing_def by (auto simp: list_all2_conv_all_nth indexed_row_def intro!: nth_equalityI)

lemma take_over_absent: "x \<notin> t_Hash ` set txs \<Longrightarrow> k = None \<Longrightarrow> take_over x f k txs = txs"
  by (auto simp: take_over_def intro!: map_idI)

lemma take_over_indexing:
  assumes ix: "indexing h seen txs0 txs" and x: "x \<notin> seen" "x \<in> t_Hash ` set txs"
    and fresh: "\<forall>r0 \<in> set txs0. t_Hash r0 = x \<longrightarrow> unindexed r0"
    and f: "\<And>r. t_Hash (f r) = t_Hash r" "\<And>r. t_Height (f r) = Some h"
      "\<And>r. unindexed r \<Longrightarrow> same_but_fee r (reset_row (f r))"
      "\<And>r. unindexed r \<Longrightarrow> t_Id (f r) = k \<and> (t_Last (f r) \<longleftrightarrow> k \<noteq> None)"
  shows "indexing h (insert x seen) txs0 (take_over x f k txs)"
  unfolding indexing_def
  using take_over_advanced[OF assms] take_over_rows[of h seen txs0 txs x f k] ix x fresh f
  by (auto simp: indexing_def)

lemma indexing_absent:
  assumes "indexing h seen txs0 txs" "x \<notin> t_Hash ` set txs"
  shows "indexing h (insert x seen) txs0 txs"
proof -
  have "x \<notin> t_Hash ` set txs0"
    using assms indexing_hashes[OF assms(1)] by (metis list.set_map)
  then have "list_all2 (indexed_row h (insert x seen)) txs0 txs"
    using assms(1) unfolding indexing_def
    by (elim conjE list.rel_mono_strong) (auto simp: indexed_row_def)
  with assms(1) show ?thesis by (simp add: indexing_def)
qed

lemma reset_row_indexed:
  "unindexed r \<Longrightarrow> reset_row ((set_height blockHash h txInfo r)\<lparr>t_Id := k, t_Last := l\<rparr>) = r"
  "unindexed r \<Longrightarrow> reset_row (set_height blockHash h txInfo r) = r"
  "unindexed r \<Longrightarrow> reset_row ((set_height blockHash h txInfo r)\<lparr>t_Int1 := i\<rparr>) = r\<lparr>t_Int1 := i\<rparr>"
proof -
  assume "unindexed r"
  then have "reset_row r = r" by (simp only: unindexed_def)
  moreover have "reset_row ((set_height blockHash h txInfo r)\<lparr>t_Id := k, t_Last := l\<rparr>) = reset_row r"
    "reset_row (set_height blockHash h txInfo r) = reset_row r"
    "reset_row ((set_height blockHash h txInfo r)\<lparr>t_Int1 := i\<rparr>) = (reset_row r)\<lparr>t_Int1 := i\<rparr>"
    by (simp_all add: reset_row_def set_height_def)
  ultimately show "reset_row ((set_height blockHash h txInfo r)\<lparr>t_Id := k, t_Last := l\<rparr>) = r"
    "reset_row (set_height blockHash h txInfo r) = r"
    "reset_row ((set_height blockHash h txInfo r)\<lparr>t_Int1 := i\<rparr>) = r\<lparr>t_Int1 := i\<rparr>"
    by simp_all
qed

lemma set_height_simps [simp]:
  "t_Hash (set_height blockHash h txInfo r) = t_Hash r" "t_Height (set_height blockHash h txInfo r) = Some h"
  "t_Id (set_height blockHash h txInfo r) = t_Id r" "t_Last (set_height blockHash h txInfo r) = t_Last r"
  "t_Type (set_height blockHash h txInfo r) = t_Type r"
  "t_String1 (set_height blockHash h txInfo r) = t_String1 r" "t_String2 (set_height blockHash h txInfo r) = t_String2 r"
  by (simp_all add: set_height_def)

lemma same_but_fee_refl: "same_but_fee r r"
  by (simp add: same_but_fee_def)

lemma same_but_fee_boost: "t_Type r = BOOST_CONTENT \<Longrightarrow> same_but_fee r (r\<lparr>t_Int1 := i\<rparr>)"
  by (simp add: same_but_fee_def)

lemma update_where_none: "(\<And>r. r \<in> set xs \<Longrightarrow> \<not> P r) \<Longrightarrow> update_where P f xs = xs"
  by (rule update_where_id) blast

lemma index_tx_absent:
  assumes "ti_Hash txInfo \<notin> t_Hash ` set (Transactions db)"
  shows "Transactions (index_tx blockHash height txInfo db) = Transactions db"
proof -
  have no: "r \<in> set (Transactions db) \<Longrightarrow> t_Hash r \<noteq> ti_Hash txInfo" for r
    using assms by (metis imageI)
  have none: "update_where (\<lambda>r. t_Hash r = ti_Hash txInfo) f (Transactions db) = Transactions db"
    "update_where (\<lambda>r. t_Hash r = ti_Hash txInfo \<and> Q r) f (Transactions db) = Transactions db" for f Q
    by (auto intro!: update_where_none dest: no)
  moreover have "ClearOldLast (ti_Hash txInfo) (Transactions db) = Transactions db"
    unfolding ClearOldLast_def by (auto intro!: update_where_none dest: no)
  ultimately show ?thesis
    by (simp add: index_tx_transactions Let_def set_id_def none split: option.split)
qed

lemma index_tx_indexing:
  assumes ix: "indexing h seen txs0 (Transactions db)" and dist: "distinct_on t_Hash txs0"
    and x: "ti_Hash txInfo \<notin> seen"
    and fresh: "\<forall>r0 \<in> set txs0. t_Hash r0 = ti_Hash txInfo \<longrightarrow> unindexed r0"
  shows "indexing h (insert (ti_Hash txInfo) seen) txs0 (Transactions (index_tx blockHash h txInfo db))"
proof (cases "ti_Hash txInfo \<in> t_Hash ` set (Transactions db)")
  case False
  then have "Transactions (index_tx blockHash h txInfo db) = Transactions db"
    by (rule index_tx_absent)
  with ix False show ?thesis by (simp add: indexing_absent)
next
  case True
  let ?x = "ti_Hash txInfo" and ?txs = "Transactions db" and ?g = "set_height blockHash h txInfo"
  have dist': "distinct_on t_Hash ?txs"
    using dist indexing_hashes[OF ix] by (simp add: distinct_on_def)
  obtain rx where rx: "rx \<in> set ?txs" "t_Hash rx = ?x" using True by auto
  show ?thesis
  proof (cases "id_query txInfo")
    case (Some sel)
    define txs1 where "txs1 = update_where (\<lambda>r. t_Hash r = ?x) ?g ?txs"
    define k where "k = Some (ifnull (sel txs1 (?g rx)) (next_id txs1))"
    have "Transactions (index_tx blockHash h txInfo db)
        = take_over ?x (\<lambda>r. (?g r)\<lparr>t_Id := k, t_Last := True\<rparr>) k ?txs"
      unfolding index_tx_transactions Let_def Some option.case txs1_def[symmetric]
      by (rule set_id_take_over[where g = ?g and sel = sel, OF dist' rx _ _ _ txs1_def k_def]) simp_all
    moreover have "indexing h (insert ?x seen) txs0 (take_over ?x (\<lambda>r. (?g r)\<lparr>t_Id := k, t_Last := True\<rparr>) k ?txs)"
      by (rule take_over_indexing[OF ix x True fresh]) (simp_all add: reset_row_indexed same_but_fee_refl k_def)
    ultimately show ?thesis by simp
  next
    case None
    define f where "f r = (if IsBoostContent txInfo \<and> type_in r [208]
      then (?g r)\<lparr>t_Int1 := boost_fee (TxOutputs (index_tx blockHash h txInfo db)) (t_Hash r)\<rparr> else ?g r)" for r
    have "Transactions (index_tx blockHash h txInfo db) = take_over ?x f None ?txs"
      unfolding index_tx_transactions Let_def None option.case take_over_def update_where_def
      by (simp add: f_def type_in_def if_distrib cong: if_cong)
    moreover have "type_in r [208] \<Longrightarrow> t_Type r = BOOST_CONTENT" for r
      using txtype_code_inj[of "t_Type r" BOOST_CONTENT] by (simp add: type_in_def)
    then have "indexing h (insert ?x seen) txs0 (take_over ?x f None ?txs)"
      by (intro take_over_indexing[OF ix x True fresh])
         (simp_all add: f_def reset_row_indexed same_but_fee_refl same_but_fee_boost unindexed_simps)
    ultimately show ?thesis by simp
  qed
qed

section \<open>A block and its rollback\<close>

definition heights_below :: "int \<Rightarrow> TxRow list \<Rightarrow> bool" where
  "heights_below h txs \<longleftrightarrow> (\<forall>r \<in> set txs. \<forall>a. t_Height r = Some a \<longrightarrow> a < h)"

text \<open>The transactions of a block to be connected are in the table once and in no block.\<close>

definition block_pending :: "TransactionIndexingInfo list \<Rightarrow> TxRow list \<Rightarrow> bool" where
  "block_pending txInfos txs \<longleftrightarrow> distinct (map ti_Hash txInfos) \<and>
     (\<forall>r \<in> set txs. t_Hash r \<in> ti_Hash ` set txInfos \<longrightarrow> unindexed r)"

lemma indexing_start:
  assumes "distinct_on t_Hash txs" "heights_below h txs"
  shows "indexing h {} txs txs"
proof -
  have "tx_advanced h (set txs) (set txs)"
    unfolding advanced_def
  proof (intro conjI ballI impI)
    fix r0 assume "r0 \<in> set txs" "t_Last r0" "r0\<lparr>t_Last := False\<rparr> \<in> set txs"
    then have "r0 = r0\<lparr>t_Last := False\<rparr>"
      using distinct_on_inj[OF assms(1)] by fastforce
    then have "t_Last r0 = False"
      by (metis TxRow.select_convs(7) TxRow.surjective TxRow.update_convs(7))
    with \<open>t_Last r0\<close> show "\<exists>n \<in> set txs. t_Height n = Some h \<and> t_Last n \<and> sql_eq (t_Id n) (t_Id r0)" by simp
  qed (use assms(2) in \<open>auto simp: heights_below_def cleared_from_def\<close>)
  then show ?thesis
    using assms(2) by (auto simp: indexing_def heights_below_def indexed_row_def cleared_from_def list_all2_refl)
qed

lemma fold_index_tx_indexing:
  assumes "indexing h seen txs0 (Transactions db)" "distinct_on t_Hash txs0" "block_pending txInfos txs0"
    and "seen \<inter> ti_Hash ` set txInfos = {}"
  shows "indexing h (seen \<union> ti_Hash ` set txInfos) txs0
    (Transactions (fold (index_tx blockHash h) txInfos db))"
  using assms
proof (induction txInfos arbitrary: seen db)
  case (Cons txInfo txInfos)
  have "indexing h (insert (ti_Hash txInfo) seen) txs0 (Transactions (index_tx blockHash h txInfo db))"
    using Cons.prems by (intro index_tx_indexing) (auto simp: block_pending_def)
  moreover have "block_pending txInfos txs0"
    using Cons.prems(3) by (auto simp: block_pending_def)
  moreover have "insert (ti_Hash txInfo) seen \<inter> ti_Hash ` set txInfos = {}"
    using Cons.prems(3,4) by (auto simp: block_pending_def)
  ultimately show ?case
    using Cons.IH[of "insert (ti_Hash txInfo) seen" "index_tx blockHash h txInfo db"] Cons.prems(2) by simp
qed simp

lemma rollback_row:
  assumes ix: "indexing h seen txs0 txs" and ok: "tx_versions txs0"
    and r: "r0 \<in> set txs0" "r \<in> set txs" "indexed_row h seen r0 r"
    and \<rho>: "\<And>r. \<rho> r = (if \<exists>t1 \<in> set txs. sql_ge (t_Height t1) h \<and> t_Last t1 \<and> sql_eq (t_Id r) (t_Id t1) \<and>
            sql_eq (t_Height r) (sql_max (List.map_filter t_Height
              (filter (\<lambda>t2. sql_eq (t_Id t2) (t_Id t1) \<and> sql_lt (t_Height t2) h \<and> \<not> t_Last t2) txs)))
          then r\<lparr>t_Last := True\<rparr> else r)"
  shows "same_but_fee r0 (if sql_ge (t_Height (\<rho> r)) h then reset_row (\<rho> r) else \<rho> r)"
proof (cases "t_Hash r0 \<in> seen")
  case True
  then have "t_Height r = Some h" "same_but_fee r0 (reset_row r)"
    using r(3) by (simp_all add: indexed_row_def)
  moreover have "\<rho> r = r \<or> \<rho> r = r\<lparr>t_Last := True\<rparr>" by (simp add: \<rho>)
  moreover have "reset_row (r\<lparr>t_Last := True\<rparr>) = reset_row r" by (simp add: reset_row_def)
  ultimately show ?thesis by auto
next
  case False
  then have "tx_cleared r0 r" using r(3) by (simp add: indexed_row_def)
  with ix ok r have "\<rho> r = r0"
    unfolding \<rho> by (intro tx_rows.restore_row[of h "set txs0" txs r0 r]) (auto simp: indexing_def)
  moreover have "\<not> sql_ge (t_Height r0) h"
    using ix r(1) by (cases "t_Height r0") (auto simp: indexing_def)
  ultimately show ?thesis by (simp add: same_but_fee_refl)
qed

lemma rollback_transactions:
  assumes ix: "indexing h seen txs0 txs" and ok: "tx_versions txs0"
  shows "list_all2 same_but_fee txs0
    (update_where (\<lambda>r. sql_ge (t_Height r) h) reset_row (restore_transactions h txs))"
  unfolding restore_transactions_def tx_rows.restore_last_map update_where_def map_map list_all2_map2 comp_def
proof (rule list.rel_mono_strong[of "indexed_row h seen"])
  show "list_all2 (indexed_row h seen) txs0 txs" using ix by (simp add: indexing_def)
qed (rule rollback_row[OF ix ok], assumption+, rule refl)

section \<open>Outputs\<close>

text \<open>An output and what it becomes in a block at height \<open>h\<close>.\<close>

definition out_row :: "int \<Rightarrow> OutRow \<Rightarrow> OutRow \<Rightarrow> bool" where
  "out_row h o0 o' \<longleftrightarrow>
     (\<exists>th sh sx. o' = o0\<lparr>o_TxHeight := th, o_SpentHeight := sh, o_SpentTxHash := sx\<rparr> \<and>
        (th = o_TxHeight o0 \<or> (o_TxHeight o0 = None \<and> th = Some h)) \<and>
        ((sh = o_SpentHeight o0 \<and> sx = o_SpentTxHash o0) \<or>
         (o_SpentHeight o0 = None \<and> o_SpentTxHash o0 = None \<and> sh = Some h)))"

text \<open>Outputs a block may touch: its own have no height yet, the ones it spends are unspent.\<close>

definition outputs_pending :: "int \<Rightarrow> TransactionIndexingInfo list \<Rightarrow> OutRow list \<Rightarrow> bool" where
  "outputs_pending h txInfos outs \<longleftrightarrow>
     (\<forall>o' \<in> set outs.
        (\<forall>a. o_TxHeight o' = Some a \<longrightarrow> a < h) \<and> (\<forall>a. o_SpentHeight o' = Some a \<longrightarrow> a < h) \<and>
        (o_TxHash o' \<in> ti_Hash ` set txInfos \<longrightarrow> o_TxHeight o' = None) \<and>
        (\<forall>txInfo \<in> set txInfos. (o_TxHash o', o_Number o') \<in> set (ti_Inputs txInfo) \<longrightarrow>
           o_SpentHeight o' = None \<and> o_SpentTxHash o' = None))"

lemma out_row_key: "out_row h o0 o' \<Longrightarrow> o_TxHash o' = o_TxHash o0 \<and> o_Number o' = o_Number o0"
  by (auto simp: out_row_def)

lemma out_row_refl: "out_row h o0 o0"
  unfolding out_row_def
  by (rule exI[of _ "o_TxHeight o0"], rule exI[of _ "o_SpentHeight o0"], rule exI[of _ "o_SpentTxHash o0"]) simp

lemma out_row_created:
  assumes "out_row h o0 o'" "o_TxHeight o0 = None"
  shows "out_row h o0 (o'\<lparr>o_TxHeight := Some h\<rparr>)"
proof -
  obtain th sh sx where "o' = o0\<lparr>o_TxHeight := th, o_SpentHeight := sh, o_SpentTxHash := sx\<rparr>"
    and sh: "(sh = o_SpentHeight o0 \<and> sx = o_SpentTxHash o0) \<or>
      (o_SpentHeight o0 = None \<and> o_SpentTxHash o0 = None \<and> sh = Some h)"
    using assms(1) unfolding out_row_def by (elim exE conjE)
  then have "o'\<lparr>o_TxHeight := Some h\<rparr> = o0\<lparr>o_TxHeight := Some h, o_SpentHeight := sh, o_SpentTxHash := sx\<rparr>"
    by simp
  with sh assms(2) show ?thesis unfolding out_row_def by blast
qed

lemma out_row_spent:
  assumes "out_row h o0 o'" "o_SpentHeight o0 = None" "o_SpentTxHash o0 = None"
  shows "out_row h o0 (o'\<lparr>o_SpentHeight := Some h, o_SpentTxHash := s\<rparr>)"
proof -
  obtain th sh sx where "o' = o0\<lparr>o_TxHeight := th, o_SpentHeight := sh, o_SpentTxHash := sx\<rparr>"
    and th: "th = o_TxHeight o0 \<or> (o_TxHeight o0 = None \<and> th = Some h)"
    using assms(1) unfolding out_row_def by (elim exE conjE)
  then have "o'\<lparr>o_SpentHeight := Some h, o_SpentTxHash := s\<rparr> =
      o0\<lparr>o_TxHeight := th, o_SpentHeight := Some h, o_SpentTxHash := s\<rparr>"
    by simp
  with th assms(2,3) show ?thesis unfolding out_row_def by blast
qed

lemma list_all2_update_where:
  assumes "list_all2 R xs ys" "\<And>x y. x \<in> set xs \<Longrightarrow> R x y \<Longrightarrow> P y \<Longrightarrow> R x (f y)"
  shows "list_all2 R xs (update_where P f ys)"
  unfolding update_where_def list_all2_map2
  by (rule list.rel_mono_strong[OF assms(1)]) (use assms(2) in auto)

lemma spend_inputs:
  assumes "list_all2 (out_row h) outs0 outs" "inputs \<subseteq> set (ti_Inputs txInfo)"
    and "outputs_pending h txInfos outs0" "txInfo \<in> set txInfos" "input \<in> inputs"
  shows "list_all2 (out_row h) outs0
    (update_where (\<lambda>o'. o_TxHash o' = fst input \<and> o_Number o' = snd input)
      (\<lambda>o'. o'\<lparr>o_SpentHeight := Some h, o_SpentTxHash := Some x\<rparr>) outs)"
proof (rule list_all2_update_where[OF assms(1)])
  fix o0 o' assume o0: "o0 \<in> set outs0" "out_row h o0 o'" "o_TxHash o' = fst input \<and> o_Number o' = snd input"
  then have "(o_TxHash o0, o_Number o0) \<in> set (ti_Inputs txInfo)"
    using out_row_key[OF o0(2)] assms(2,5) by auto
  then show "out_row h o0 (o'\<lparr>o_SpentHeight := Some h, o_SpentTxHash := Some x\<rparr>)"
    using assms(3,4) o0(1,2) by (intro out_row_spent) (auto simp: outputs_pending_def)
qed

lemma UpdateTransactionOutputs_rows:
  assumes "list_all2 (out_row h) outs0 (TxOutputs db)" "outputs_pending h txInfos outs0" "txInfo \<in> set txInfos"
  shows "list_all2 (out_row h) outs0 (TxOutputs (UpdateTransactionOutputs txInfo h db))"
proof -
  have "list_all2 (out_row h) outs0 (TxOutputs (fold (\<lambda>input db. db\<lparr>TxOutputs :=
            update_where (\<lambda>o'. o_TxHash o' = fst input \<and> o_Number o' = snd input)
              (\<lambda>o'. o'\<lparr>o_SpentHeight := Some h, o_SpentTxHash := Some (ti_Hash txInfo)\<rparr>)
              (TxOutputs db)\<rparr>) inputs db))"
    if "set inputs \<subseteq> set (ti_Inputs txInfo)" for inputs
    using that assms(1)
  proof (induction inputs arbitrary: db)
    case (Cons input inputs)
    show ?case
      unfolding fold_Cons comp_def
      by (rule Cons.IH) (use Cons.prems spend_inputs[OF _ _ assms(2,3), of "TxOutputs db" "set (ti_Inputs txInfo)" input]
          in auto)
  qed simp
  then show ?thesis by (simp add: UpdateTransactionOutputs_def)
qed

lemma UpdateTransactionHeight_rows:
  assumes "list_all2 (out_row h) outs0 (TxOutputs db)" "outputs_pending h txInfos outs0" "txInfo \<in> set txInfos"
  shows "list_all2 (out_row h) outs0
    (TxOutputs (UpdateTransactionHeight blockHash blockNumber h (ti_Hash txInfo) db))"
proof -
  have "list_all2 (out_row h) outs0
      (update_where (\<lambda>o'. o_TxHash o' = ti_Hash txInfo) (\<lambda>o'. o'\<lparr>o_TxHeight := Some h\<rparr>) (TxOutputs db))"
  proof (rule list_all2_update_where[OF assms(1)])
    fix o0 o' assume o0: "o0 \<in> set outs0" "out_row h o0 o'" "o_TxHash o' = ti_Hash txInfo"
    then have "o_TxHeight o0 = None"
      using assms(2,3) out_row_key[OF o0(2)] by (auto simp: outputs_pending_def)
    with o0(2) show "out_row h o0 (o'\<lparr>o_TxHeight := Some h\<rparr>)" by (rule out_row_created)
  qed
  then show ?thesis by (simp add: UpdateTransactionHeight_def)
qed

lemma index_tx_rows:
  assumes "list_all2 (out_row h) outs0 (TxOutputs db)" "outputs_pending h txInfos outs0" "txInfo \<in> set txInfos"
  shows "list_all2 (out_row h) outs0 (TxOutputs (index_tx blockHash h txInfo db))"
  unfolding index_tx_outputs
  by (intro UpdateTransactionOutputs_rows[OF _ assms(2,3)] UpdateTransactionHeight_rows[OF assms])

lemma fold_index_tx_rows:
  assumes "list_all2 (out_row h) outs0 (TxOutputs db)" "outputs_pending h txInfos outs0" "set infos \<subseteq> set txInfos"
  shows "list_all2 (out_row h) outs0 (TxOutputs (fold (index_tx blockHash h) infos db))"
  using assms(1,3)
proof (induction infos arbitrary: db)
  case (Cons txInfo infos)
  then show ?case
    using index_tx_rows[OF Cons.prems(1) assms(2), of txInfo blockHash] by simp
qed simp

definition reset_outputs :: "int \<Rightarrow> OutRow list \<Rightarrow> OutRow list" where
  "reset_outputs h outs =
     update_where (\<lambda>o'. sql_ge (o_TxHeight o') h) (\<lambda>o'. o'\<lparr>o_TxHeight := None\<rparr>)
       (update_where (\<lambda>o'. sql_ge (o_SpentHeight o') h)
         (\<lambda>o'. o'\<lparr>o_SpentHeight := None, o_SpentTxHash := None\<rparr>) outs)"

lemma reset_out_row:
  assumes "out_row h o0 o'" "\<not> sql_ge (o_TxHeight o0) h" "\<not> sql_ge (o_SpentHeight o0) h"
    and s: "s = (if sql_ge (o_SpentHeight o') h then o'\<lparr>o_SpentHeight := None, o_SpentTxHash := None\<rparr> else o')"
  shows "(if sql_ge (o_TxHeight s) h then s\<lparr>o_TxHeight := None\<rparr> else s) = o0"
proof -
  obtain th sh sx where o': "o' = o0\<lparr>o_TxHeight := th, o_SpentHeight := sh, o_SpentTxHash := sx\<rparr>"
    and th: "th = o_TxHeight o0 \<or> (o_TxHeight o0 = None \<and> th = Some h)"
    and sh: "(sh = o_SpentHeight o0 \<and> sx = o_SpentTxHash o0) \<or>
      (o_SpentHeight o0 = None \<and> o_SpentTxHash o0 = None \<and> sh = Some h)"
    using assms(1) unfolding out_row_def by (elim exE conjE)
  have "s = o0\<lparr>o_TxHeight := th\<rparr>"
    using sh assms(3) unfolding s o' by (elim disjE conjE) simp_all
  with th assms(2) show ?thesis by (elim disjE conjE) simp_all
qed

lemma not_sql_ge: "(\<And>a. x = Some a \<Longrightarrow> a < h) \<Longrightarrow> \<not> sql_ge x h"
  by (cases x) auto

lemma rollback_outputs:
  assumes "list_all2 (out_row h) outs0 outs" "outputs_pending h txInfos outs0"
  shows "reset_outputs h outs = outs0"
proof -
  have "list_all2 (\<lambda>o0 o'. o' = o0) outs0 (reset_outputs h outs)"
    unfolding reset_outputs_def update_where_def map_map list_all2_map2 comp_def
  proof (rule list.rel_mono_strong[OF assms(1)], rule reset_out_row[OF _ _ _ refl])
    fix o0 assume "o0 \<in> set outs0"
    then show "\<not> sql_ge (o_TxHeight o0) h" "\<not> sql_ge (o_SpentHeight o0) h"
      using assms(2) by (auto simp: outputs_pending_def intro!: not_sql_ge)
  qed
  then show ?thesis
    by (auto simp: list_all2_conv_all_nth intro!: nth_equalityI)
qed

section \<open>Balances\<close>

abbreviation balance_key :: "BalanceRow \<Rightarrow> string \<times> int" where
  "balance_key \<equiv> (\<lambda>b. (b_AddressHash b, b_Height b))"

abbreviation balance_versions :: "BalanceRow list \<Rightarrow> bool" where
  "balance_versions bs \<equiv> versions_ok (\<lambda>b. Some (b_AddressHash b)) (\<lambda>b. Some (b_Height b)) b_Last (set bs)"

text \<open>The second statement of \<open>IndexBalances\<close> on the table with the new rows.\<close>

definition clear_old_balances :: "int \<Rightarrow> BalanceRow list \<Rightarrow> BalanceRow list" where
  "clear_old_balances h rows =
     update_where
       (\<lambda>b. b_Last b \<and> b_Height b < h \<and>
          (\<exists>b' \<in> set rows. b_Height b' = h \<and> b_AddressHash b' = b_AddressHash b))
       (\<lambda>b. b\<lparr>b_Last := False\<rparr>) rows"

lemma IndexBalances_SomeE:
  assumes "IndexBalances h db = Some db'"
  obtains new where "Balances db' = clear_old_balances h (Balances db @ new)"
    and "\<forall>b \<in> set new. b_Height b = h \<and> b_Last b"
    and "distinct_on balance_key (Balances db @ new)"
    and "Transactions db' = Transactions db" "PayloadTable db' = PayloadTable db"
    and "TxOutputs db' = TxOutputs db" "Ratings db' = Ratings db"
proof
  let ?saldos = "saldo h (TxOutputs db)"
  let ?new = "map (new_balance h ?saldos (Balances db)) (remdups (map fst ?saldos))"
  have some: "distinct_on balance_key (Balances db @ ?new) \<and>
      db' = db\<lparr>Balances := clear_old_balances h (Balances db @ ?new)\<rparr>"
    using assms unfolding IndexBalances_def Let_def clear_old_balances_def
    by (simp only: split: if_splits) simp_all
  then show "Balances db' = clear_old_balances h (Balances db @ ?new)" "distinct_on balance_key (Balances db @ ?new)"
    "Transactions db' = Transactions db" "PayloadTable db' = PayloadTable db"
    "TxOutputs db' = TxOutputs db" "Ratings db' = Ratings db"
    by simp_all
  show "\<forall>b \<in> set ?new. b_Height b = h \<and> b_Last b"
    by (auto simp: new_balance_def Let_def)
qed

text \<open>Rows of the cleared table: the new ones, and the old ones, stripped when their address has a
  new one.\<close>

definition strip_old :: "BalanceRow list \<Rightarrow> BalanceRow \<Rightarrow> BalanceRow" where
  "strip_old new b =
     (if b_Last b \<and> b_AddressHash b \<in> b_AddressHash ` set new then b\<lparr>b_Last := False\<rparr> else b)"

lemma strip_old_simps [simp]:
  "b_AddressHash (strip_old new b) = b_AddressHash b" "b_Height (strip_old new b) = b_Height b"
  "b_Last (strip_old new b) \<longleftrightarrow> b_Last b \<and> b_AddressHash b \<notin> b_AddressHash ` set new"
  by (auto simp: strip_old_def)

lemma clear_old_balances_eq:
  assumes below: "\<forall>b \<in> set bs. b_Height b < h" and new: "\<forall>b \<in> set new. b_Height b = h \<and> b_Last b"
  shows "clear_old_balances h (bs @ new) = map (strip_old new) bs @ new"
proof -
  have new_rows: "(\<exists>b' \<in> set (bs @ new). b_Height b' = h \<and> b_AddressHash b' = a) \<longleftrightarrow> a \<in> b_AddressHash ` set new" for a
    using below new by fastforce
  show ?thesis
    unfolding clear_old_balances_def update_where_def new_rows map_append
    using below new by (auto simp: strip_old_def intro!: map_cong map_idI)
qed

lemma strip_old_eq:
  "strip_old new b = (if b_Last b \<and> (\<exists>n \<in> set new. sql_eq (Some (b_AddressHash n)) (Some (b_AddressHash b)))
     then b\<lparr>b_Last := False\<rparr> else b)"
  by (auto simp: strip_old_def image_iff)

lemma balances_advanced:
  assumes ok: "balance_versions bs"
    and below: "\<forall>b \<in> set bs. b_Height b < h" and new: "\<forall>b \<in> set new. b_Height b = h \<and> b_Last b"
  shows "advanced (\<lambda>b. Some (b_AddressHash b)) (\<lambda>b. Some (b_Height b)) b_Last (\<lambda>l b. b\<lparr>b_Last := l\<rparr>) h
    (set bs) (set (map (strip_old new) bs @ new))"
  by (rule balance_rows.advanced_append[OF ok _ _ strip_old_eq]) (use below new in auto)

lemma rollback_balances:
  assumes ok: "balance_versions bs"
    and below: "\<forall>b \<in> set bs. b_Height b < h" and new: "\<forall>b \<in> set new. b_Height b = h \<and> b_Last b"
  shows "delete_where (\<lambda>b. b_Height b \<ge> h) (restore_balances h (clear_old_balances h (bs @ new))) = bs"
proof -
  let ?rows = "map (strip_old new) bs @ new"
  define \<rho> where "\<rho> = (\<lambda>r :: BalanceRow. if \<exists>t1 \<in> set ?rows. sql_ge (Some (b_Height t1)) h \<and> b_Last t1 \<and>
        sql_eq (Some (b_AddressHash r)) (Some (b_AddressHash t1)) \<and>
        sql_eq (Some (b_Height r)) (sql_max (List.map_filter (\<lambda>b. Some (b_Height b))
          (filter (\<lambda>t2. sql_eq (Some (b_AddressHash t2)) (Some (b_AddressHash t1)) \<and>
             sql_lt (Some (b_Height t2)) h \<and> \<not> b_Last t2) ?rows)))
      then r\<lparr>b_Last := True\<rparr> else r)"
  have "\<rho> (strip_old new b) = b" if "b \<in> set bs" for b
    unfolding \<rho>_def
    by (rule balance_rows.restore_row[OF balances_advanced[OF ok below new] ok])
       (use that below in \<open>auto simp: strip_old_def cleared_from_def\<close>)
  then have old: "map \<rho> (map (strip_old new) bs) = bs"
    unfolding map_map by (simp add: map_idI)
  have "restore_balances h ?rows = map \<rho> ?rows"
    unfolding restore_balances_def \<rho>_def by (rule balance_rows.restore_last_map)
  with old have "restore_balances h ?rows = bs @ map \<rho> new"
    by simp
  moreover have "b_Height (\<rho> b) = b_Height b" for b
    by (simp add: \<rho>_def)
  then have "filter (\<lambda>b. \<not> h \<le> b_Height b) (map \<rho> new) = []"
    using new by (simp add: filter_empty_conv)
  moreover have "filter (\<lambda>b. \<not> h \<le> b_Height b) bs = bs"
    using below by (simp add: filter_id_conv not_le)
  ultimately show ?thesis
    unfolding clear_old_balances_eq[OF below new] delete_where_def by simp
qed

section \<open>The database\<close>

text \<open>The state in which a block at height \<open>h\<close> can be connected: everything indexed is below
  \<open>h\<close>, the tables are consistent and the block's own rows are pending.\<close>

definition index_ready :: "int \<Rightarrow> TransactionIndexingInfo list \<Rightarrow> Database \<Rightarrow> bool" where
  "index_ready h txInfos db \<longleftrightarrow> db_keys db \<and>
     heights_below h (Transactions db) \<and> (\<forall>r \<in> set (Ratings db). r_Height r < h) \<and>
     (\<forall>b \<in> set (Balances db). b_Height b < h) \<and>
     tx_versions (Transactions db) \<and> balance_versions (Balances db) \<and>
     block_pending txInfos (Transactions db) \<and> outputs_pending h txInfos (TxOutputs db)"

text \<open>Equality of databases up to the fee of boosts.\<close>

definition same_database :: "Database \<Rightarrow> Database \<Rightarrow> bool" where
  "same_database db0 db \<longleftrightarrow> list_all2 same_but_fee (Transactions db0) (Transactions db) \<and>
     PayloadTable db = PayloadTable db0 \<and> TxOutputs db = TxOutputs db0 \<and> Ratings db = Ratings db0 \<and>
     Balances db = Balances db0"

lemma fold_index_tx_other [simp]:
  "PayloadTable (fold (index_tx blockHash height) txInfos db) = PayloadTable db"
  "Ratings (fold (index_tx blockHash height) txInfos db) = Ratings db"
  "Balances (fold (index_tx blockHash height) txInfos db) = Balances db"
  by (rule fold_unchanged[where f = PayloadTable] fold_unchanged[where f = Ratings]
      fold_unchanged[where f = Balances]; simp)+

lemma IndexBalances_defined:
  assumes "distinct_on balance_key (Balances db)" "\<forall>b \<in> set (Balances db). b_Height b < h"
  shows "\<exists>db'. IndexBalances h db = Some db'"
proof -
  let ?saldos = "saldo h (TxOutputs db)"
  let ?new = "map (new_balance h ?saldos (Balances db)) (remdups (map fst ?saldos))"
  have keys: "map balance_key ?new = map (\<lambda>a. (a, h)) (remdups (map fst ?saldos))"
    by (simp add: new_balance_def Let_def)
  have "distinct (map (\<lambda>a. (a, h)) (remdups (map fst ?saldos)))"
    unfolding distinct_map by (simp add: inj_on_def)
  moreover have "set (map balance_key (Balances db)) \<inter> set (map (\<lambda>a. (a, h)) (remdups (map fst ?saldos))) = {}"
    using assms(2) by force
  ultimately have "distinct_on balance_key (Balances db @ ?new)"
    using assms(1) unfolding distinct_on_def map_append keys distinct_append by blast
  then show ?thesis by (simp add: IndexBalances_def Let_def)
qed

lemma restore_ratings_below: "\<forall>r \<in> set rows. r_Height r < h \<Longrightarrow> restore_ratings h rows = rows"
  unfolding restore_ratings_def by (rule update_where_none) force

lemma RollbackHeight_tables:
  "Transactions (RollbackHeight h db) = update_where (\<lambda>r. sql_ge (t_Height r) h) reset_row (Transactions db)"
  "TxOutputs (RollbackHeight h db) = reset_outputs h (TxOutputs db)"
  by (simp_all add: RollbackHeight_def reset_outputs_def reset_row_def[abs_def])

text \<open>Connecting a block and disconnecting it again leaves the index as it was: when the
  tables are consistent and below the block's height and the block's transactions are pending,
  \<open>IndexBlock\<close> succeeds, and \<open>Rollback\<close> to its height restores every height, identifier and
  flag of the transactions, the spent marks of the outputs, the ratings and the balances; only
  the fee stored with a boost stays.\<close>

theorem Rollback_IndexBlock:
  assumes "index_ready h txInfos db"
  shows "\<exists>db'. IndexBlock blockHash h txInfos db = Some db' \<and> same_database db (Rollback h db')"
proof -
  let ?db1 = "fold (index_tx blockHash h) txInfos db"
  have below: "\<forall>b \<in> set (Balances db). b_Height b < h" "\<forall>r \<in> set (Ratings db). r_Height r < h"
    and keys: "distinct_on balance_key (Balances db)" "distinct_on t_Hash (Transactions db)"
    and ok: "tx_versions (Transactions db)" "balance_versions (Balances db)"
    and pending: "outputs_pending h txInfos (TxOutputs db)"
    using assms by (auto simp: index_ready_def db_keys_def)
  obtain db' where db': "IndexBalances h ?db1 = Some db'"
    using IndexBalances_defined[of ?db1 h] below keys by auto
  then obtain new where bal: "Balances db' = clear_old_balances h (Balances db @ new)"
    and new: "\<forall>b \<in> set new. b_Height b = h \<and> b_Last b"
    and tables: "Transactions db' = Transactions ?db1" "PayloadTable db' = PayloadTable db"
      "TxOutputs db' = TxOutputs ?db1" "Ratings db' = Ratings db"
    by (rule IndexBalances_SomeE) simp
  have "indexing h (ti_Hash ` set txInfos) (Transactions db) (Transactions ?db1)"
    using fold_index_tx_indexing[OF indexing_start] assms keys(2) by (fastforce simp: index_ready_def)
  from rollback_transactions[OF this ok(1)]
  have txs: "list_all2 same_but_fee (Transactions db) (Transactions (Rollback h db'))"
    by (simp add: Rollback_def RollbackHeight_tables RestoreOldLast_def tables)
  have "list_all2 (out_row h) (TxOutputs db) (TxOutputs ?db1)"
    by (rule fold_index_tx_rows[OF _ pending]) (simp_all add: list_all2_refl out_row_refl)
  from rollback_outputs[OF this pending] have outs: "TxOutputs (Rollback h db') = TxOutputs db"
    by (simp add: Rollback_def RollbackHeight_tables RestoreOldLast_def tables)
  have "Balances (Rollback h db') = Balances db"
    using rollback_balances[OF ok(2) below(1) new]
    by (simp add: Rollback_def RollbackHeight_def RestoreOldLast_def bal)
  moreover have "Ratings (Rollback h db') = Ratings db"
    using below(2) by (simp add: Rollback_def RollbackHeight_def RestoreOldLast_def tables
        restore_ratings_below delete_where_def filter_id_conv not_le)
  moreover have "PayloadTable (Rollback h db') = PayloadTable db"
    by (simp add: Rollback_def RollbackHeight_def RestoreOldLast_def tables)
  ultimately show ?thesis
    using db' txs outs by (auto simp: IndexBlock_def same_database_def)
qed

definition witness_account :: "string \<Rightarrow> int option \<Rightarrow> bool \<Rightarrow> int option \<Rightarrow> TxRow" where
  "witness_account hash height last_flag i =
     \<lparr>t_Type = ACCOUNT_USER, t_Hash = hash, t_Time = 5,
      t_BlockHash = map_option (\<lambda>_. ''b1'') height, t_BlockNum = map_option (\<lambda>_. 1) height,
      t_Height = height, t_Last = last_flag, t_Id = i, t_String1 = Some ''alice'', t_String2 = None,
      t_String3 = None, t_String4 = None, t_String5 = None, t_Int1 = None\<rparr>"

definition witness_db :: Database where
  "witness_db =
     \<lparr>Transactions = [witness_account ''t1'' (Some 1) True (Some 0), witness_account ''t2'' None False None],
      PayloadTable = [],
      TxOutputs = [\<lparr>o_TxHash = ''t1'', o_TxHeight = Some 1, o_Number = 0, o_AddressHash = ''alice'', o_Value = 9,
                    o_ScriptPubKey = [], o_SpentHeight = None, o_SpentTxHash = None\<rparr>,
                   \<lparr>o_TxHash = ''t2'', o_TxHeight = None, o_Number = 0, o_AddressHash = ''alice'', o_Value = 8,
                    o_ScriptPubKey = [], o_SpentHeight = None, o_SpentTxHash = None\<rparr>],
      Ratings = [],
      Balances = [\<lparr>b_AddressHash = ''alice'', b_Last = True, b_Height = 1, b_Value = 9\<rparr>]\<rparr>"

definition witness_block :: "TransactionIndexingInfo list" where
  "witness_block =
     [\<lparr>ti_Hash = ''t2'', ti_BlockNumber = 1, ti_Time = 6, ti_Type = ACCOUNT_USER, ti_Inputs = [(''t1'', 0)]\<rparr>]"

lemma Rollback_IndexBlock_witness:
  "index_ready 2 witness_block witness_db \<and>
   (\<exists>db'. IndexBlock ''b2'' 2 witness_block witness_db = Some db' \<and> same_database witness_db (Rollback 2 db'))"
proof -
  have "index_ready 2 witness_block witness_db"
    by (simp add: index_ready_def witness_db_def witness_block_def witness_account_def db_keys_def distinct_on_def
        heights_below_def versions_ok_def block_pending_def unindexed_def reset_row_def outputs_pending_def)
  from this Rollback_IndexBlock[OF this, of "''b2''"] show ?thesis by blast
qed

end
