(* ===== verification/ChainBalances.thy ===== *)
theory ChainBalances
  imports ChainIndex ConsensusRepository
begin

text \<open>
  Balances are the unspent outputs. \<open>IndexBalances\<close> never reads the whole table of outputs: it adds
  what a block created and spent to the last balance of each address. The theorem of this
  theory is that the result is nevertheless the sum of all outputs of the address that are in
  the chain and not spent.
\<close>

section \<open>The outputs after a block\<close>

text \<open>What a block does to an output: it gets a height when its transaction is in the block and a
  spending height when an input of the block names it.\<close>

definition block_out :: "int \<Rightarrow> TransactionIndexingInfo list \<Rightarrow> OutRow \<Rightarrow> OutRow \<Rightarrow> bool" where
  "block_out h txInfos o0 o' \<longleftrightarrow>
     o_TxHash o' = o_TxHash o0 \<and> o_Number o' = o_Number o0 \<and> o_AddressHash o' = o_AddressHash o0 \<and>
     o_Value o' = o_Value o0 \<and>
     o_TxHeight o' = (if o_TxHash o0 \<in> ti_Hash ` set txInfos then Some h else o_TxHeight o0) \<and>
     o_SpentHeight o' = (if \<exists>txInfo \<in> set txInfos. (o_TxHash o0, o_Number o0) \<in> set (ti_Inputs txInfo)
        then Some h else o_SpentHeight o0)"

lemma block_out_Nil: "block_out h [] o0 o0"
  by (simp add: block_out_def)

lemma block_out_Cons: "block_out h [txInfo] o0 o1 \<Longrightarrow> block_out h txInfos o1 o2 \<Longrightarrow> block_out h (txInfo # txInfos) o0 o2"
  by (auto simp: block_out_def)

definition spent_by :: "int \<Rightarrow> (string \<times> int) list \<Rightarrow> OutRow \<Rightarrow> OutRow \<Rightarrow> bool" where
  "spent_by h inputs o0 o' \<longleftrightarrow>
     o_TxHash o' = o_TxHash o0 \<and> o_Number o' = o_Number o0 \<and> o_AddressHash o' = o_AddressHash o0 \<and>
     o_Value o' = o_Value o0 \<and> o_TxHeight o' = o_TxHeight o0 \<and>
     o_SpentHeight o' = (if (o_TxHash o0, o_Number o0) \<in> set inputs then Some h else o_SpentHeight o0)"

lemma spent_by_Cons: "spent_by h [input] o0 o1 \<Longrightarrow> spent_by h inputs o1 o2 \<Longrightarrow> spent_by h (input # inputs) o0 o2"
  by (auto simp: spent_by_def)

lemma spend_one:
  "list_all2 (spent_by h [input]) outs
     (update_where (\<lambda>o'. o_TxHash o' = fst input \<and> o_Number o' = snd input)
        (\<lambda>o'. o'\<lparr>o_SpentHeight := Some h, o_SpentTxHash := x\<rparr>) outs)"
  unfolding update_where_def list_all2_map2
  by (rule list_all2_refl) (cases input, auto simp: spent_by_def)

lemma spend_loop:
  "list_all2 (spent_by h inputs) (TxOutputs db)
     (TxOutputs (fold (\<lambda>input db. db\<lparr>TxOutputs :=
            update_where (\<lambda>o'. o_TxHash o' = fst input \<and> o_Number o' = snd input)
              (\<lambda>o'. o'\<lparr>o_SpentHeight := Some h, o_SpentTxHash := x\<rparr>) (TxOutputs db)\<rparr>) inputs db))"
proof (induction inputs arbitrary: db)
  case Nil
  show ?case by (simp add: list_all2_refl spent_by_def)
next
  case (Cons input inputs)
  show ?case
    unfolding fold_Cons comp_def
    by (rule list_all2_trans[OF spent_by_Cons spend_one[where x = x]])
       (use Cons.IH[of "db\<lparr>TxOutputs := _\<rparr>"] in simp_all)
qed

lemma index_tx_block_out:
  "list_all2 (block_out h [txInfo]) (TxOutputs db) (TxOutputs (index_tx blockHash h txInfo db))"
proof -
  let ?db1 = "UpdateTransactionHeight blockHash (ti_BlockNumber txInfo) h (ti_Hash txInfo) db"
  have "TxOutputs ?db1 = map (\<lambda>o'. if o_TxHash o' = ti_Hash txInfo then o'\<lparr>o_TxHeight := Some h\<rparr> else o') (TxOutputs db)"
    by (simp add: UpdateTransactionHeight_def update_where_def)
  with spend_loop[of h "ti_Inputs txInfo" ?db1 "Some (ti_Hash txInfo)"] show ?thesis
    unfolding index_tx_outputs UpdateTransactionOutputs_def
    by (simp only: list_all2_map1) (erule list.rel_mono_strong, auto simp: block_out_def spent_by_def)
qed

lemma fold_index_tx_block_out:
  "list_all2 (block_out h txInfos) (TxOutputs db) (TxOutputs (fold (index_tx blockHash h) txInfos db))"
proof (induction txInfos arbitrary: db)
  case Nil
  show ?case by (simp add: list_all2_refl block_out_Nil)
next
  case (Cons txInfo txInfos)
  show ?case
    unfolding fold_Cons comp_def
    by (rule list_all2_trans[OF block_out_Cons index_tx_block_out Cons.IH])
qed

section \<open>Sums of outputs\<close>

definition out_sum :: "(OutRow \<Rightarrow> bool) \<Rightarrow> OutRow list \<Rightarrow> int" where
  "out_sum P outs = sum_list (map o_Value (filter P outs))"

text \<open>The balance of an address: what it received in the chain and did not spend.\<close>

definition unspent_sum :: "OutRow list \<Rightarrow> string \<Rightarrow> int" where
  "unspent_sum outs a = out_sum (\<lambda>o'. o_AddressHash o' = a \<and> o_TxHeight o' \<noteq> None \<and> o_SpentHeight o' = None) outs"

definition created_sum :: "int \<Rightarrow> OutRow list \<Rightarrow> string \<Rightarrow> int" where
  "created_sum h outs a = out_sum (\<lambda>o'. o_TxHeight o' = Some h \<and> o_AddressHash o' = a) outs"

definition spent_sum :: "int \<Rightarrow> OutRow list \<Rightarrow> string \<Rightarrow> int" where
  "spent_sum h outs a = out_sum (\<lambda>o'. o_SpentHeight o' = Some h \<and> o_AddressHash o' = a) outs"

lemma out_sum_simps [simp]:
  "out_sum P [] = 0" "out_sum P (o' # outs) = (if P o' then o_Value o' else 0) + out_sum P outs"
  by (simp_all add: out_sum_def)

lemma out_sum_filter: "out_sum P (filter Q outs) = out_sum (\<lambda>o'. Q o' \<and> P o') outs"
  by (simp add: out_sum_def conj_commute)

text \<open>Only outputs of the chain are spent.\<close>

definition spent_created :: "OutRow list \<Rightarrow> bool" where
  "spent_created outs \<longleftrightarrow> (\<forall>o' \<in> set outs. o_SpentHeight o' \<noteq> None \<longrightarrow> o_TxHeight o' \<noteq> None)"

definition inputs_known :: "TransactionIndexingInfo list \<Rightarrow> OutRow list \<Rightarrow> bool" where
  "inputs_known txInfos outs \<longleftrightarrow>
     (\<forall>o' \<in> set outs. \<forall>txInfo \<in> set txInfos. (o_TxHash o', o_Number o') \<in> set (ti_Inputs txInfo) \<longrightarrow>
        o_TxHeight o' \<noteq> None \<or> o_TxHash o' \<in> ti_Hash ` set txInfos)"

lemma spent_created_block:
  assumes "list_all2 (block_out h txInfos) outs0 outs" "spent_created outs0" "inputs_known txInfos outs0"
  shows "spent_created outs"
  unfolding spent_created_def
proof (intro ballI impI)
  fix o' assume o': "o' \<in> set outs" "o_SpentHeight o' \<noteq> None"
  obtain o0 where o0: "o0 \<in> set outs0" "block_out h txInfos o0 o'"
    using list_all2_set2[OF assms(1) o'(1)] by blast
  show "o_TxHeight o' \<noteq> None"
  proof (cases "\<exists>txInfo \<in> set txInfos. (o_TxHash o0, o_Number o0) \<in> set (ti_Inputs txInfo)")
    case True
    with assms(3) o0(1) have "o_TxHeight o0 \<noteq> None \<or> o_TxHash o0 \<in> ti_Hash ` set txInfos"
      unfolding inputs_known_def by blast
    with o0(2) show ?thesis by (auto simp: block_out_def)
  next
    case False
    with o0(2) o'(2) have "o_SpentHeight o0 \<noteq> None" by (simp add: block_out_def)
    with assms(2) o0(1) have "o_TxHeight o0 \<noteq> None" by (simp add: spent_created_def)
    with o0(2) show ?thesis by (simp add: block_out_def)
  qed
qed

lemma unspent_block_row:
  assumes "block_out h txInfos o0 o'" "\<forall>a. o_TxHeight o0 = Some a \<longrightarrow> a < h" "\<forall>a. o_SpentHeight o0 = Some a \<longrightarrow> a < h"
    and "o_TxHash o0 \<in> ti_Hash ` set txInfos \<longrightarrow> o_TxHeight o0 = None"
    and "\<forall>txInfo \<in> set txInfos. (o_TxHash o0, o_Number o0) \<in> set (ti_Inputs txInfo) \<longrightarrow> o_SpentHeight o0 = None"
    and "o_SpentHeight o0 \<noteq> None \<longrightarrow> o_TxHeight o0 \<noteq> None" "o_SpentHeight o' \<noteq> None \<longrightarrow> o_TxHeight o' \<noteq> None"
  shows "unspent_sum [o'] a = unspent_sum [o0] a + created_sum h [o'] a - spent_sum h [o'] a"
  using assms
  by (auto simp: block_out_def unspent_sum_def created_sum_def spent_sum_def split: if_splits)

lemma unspent_block:
  assumes "list_all2 (block_out h txInfos) outs0 outs" "outputs_pending h txInfos outs0"
    and "spent_created outs0" "spent_created outs"
  shows "unspent_sum outs a = unspent_sum outs0 a + created_sum h outs a - spent_sum h outs a"
  using assms
proof (induction outs0 outs rule: list_all2_induct)
  case Nil
  show ?case by (simp add: unspent_sum_def created_sum_def spent_sum_def)
next
  case (Cons o0 outs0 o' outs)
  have "unspent_sum [o'] a = unspent_sum [o0] a + created_sum h [o'] a - spent_sum h [o'] a"
    using Cons.prems Cons.hyps(1)
    by (intro unspent_block_row[of h txInfos]) (auto simp: outputs_pending_def spent_created_def)
  moreover have "unspent_sum outs a = unspent_sum outs0 a + created_sum h outs a - spent_sum h outs a"
    using Cons.prems by (intro Cons.IH) (auto simp: outputs_pending_def spent_created_def)
  ultimately show ?case
    by (simp add: unspent_sum_def created_sum_def spent_sum_def)
qed

section \<open>The new balances\<close>

lemma group_sums_value:
  "sum_list (map snd (filter (\<lambda>s. fst s = a) (group_sums rows))) = out_sum (\<lambda>o'. o_AddressHash o' = a) rows"
proof -
  have "sum_list (map snd (filter (\<lambda>s. fst s = a) (map (\<lambda>a. (a, f a)) as))) = (if a \<in> set as then f a else 0)"
    if "distinct as" for as and f :: "string \<Rightarrow> int"
    using that by (induction as) auto
  then have "sum_list (map snd (filter (\<lambda>s. fst s = a) (group_sums rows))) =
      (if a \<in> set (map o_AddressHash rows) then out_sum (\<lambda>o'. o_AddressHash o' = a) rows else 0)"
    by (simp add: group_sums_def out_sum_def)
  moreover have "out_sum (\<lambda>o'. o_AddressHash o' = a) rows = 0" if "a \<notin> set (map o_AddressHash rows)"
    using that by (induction rows) auto
  ultimately show ?thesis by simp
qed

lemma saldo_value:
  "sum_list (map snd (filter (\<lambda>s. fst s = a) (saldo h outs))) = created_sum h outs a - spent_sum h outs a"
proof -
  have "sum_list (map snd (filter (\<lambda>s. fst s = a) (map (\<lambda>(a, s). (a, - s)) xs))) =
      - sum_list (map snd (filter (\<lambda>s. fst s = a) xs))" for xs :: "(string \<times> int) list"
    by (induction xs) auto
  then show ?thesis
    by (simp add: saldo_def group_sums_value created_sum_def spent_sum_def out_sum_filter)
qed

lemma length_le_1:
  assumes "distinct xs" "\<And>x y. x \<in> set xs \<Longrightarrow> y \<in> set xs \<Longrightarrow> x = y"
  shows "length xs \<le> 1"
proof (cases xs)
  case (Cons x ys)
  have "ys = []"
  proof (cases ys)
    case (Cons y zs)
    have "x = y" by (rule assms(2)) (simp_all add: \<open>xs = x # ys\<close> Cons)
    with assms(1) show ?thesis unfolding \<open>xs = x # ys\<close> Cons by simp
  qed
  with Cons show ?thesis by simp
qed simp

lemma last_balance_single:
  assumes ok: "balance_versions bs" and dist: "distinct_on balance_key bs"
  shows "length (filter (\<lambda>b. b_AddressHash b = a \<and> b_Last b) bs) \<le> 1"
proof -
  let ?bs = "filter (\<lambda>b. b_AddressHash b = a \<and> b_Last b) bs"
  have "b = c" if "b \<in> set ?bs" "c \<in> set ?bs" for b c
  proof (rule ccontr)
    assume "b \<noteq> c"
    have "b_Height c < b_Height b"
      by (rule balance_rows.strictly_newer[OF ok, of b c]) (use that \<open>b \<noteq> c\<close> in simp_all)
    moreover have "b_Height b < b_Height c"
      by (rule balance_rows.strictly_newer[OF ok, of c b]) (use that \<open>b \<noteq> c\<close> in simp_all)
    ultimately show False by simp
  qed
  moreover have "distinct ?bs" using dist unfolding distinct_on_def distinct_map by simp
  ultimately show ?thesis by (intro length_le_1) blast+
qed

lemma new_balance_value:
  assumes "balance_versions (Balances db)" "distinct_on balance_key (Balances db)"
  shows "b_Value (new_balance h (saldo h (TxOutputs db)) (Balances db) a) =
    GetUserBalance a db + created_sum h (TxOutputs db) a - spent_sum h (TxOutputs db) a"
proof -
  let ?bs = "filter (\<lambda>b. b_AddressHash b = a \<and> b_Last b) (Balances db)"
  have "?bs = [] \<or> (\<exists>b. ?bs = [b])"
    using last_balance_single[OF assms, of a] by (cases ?bs) auto
  then show ?thesis
    by (auto simp: new_balance_def Let_def saldo_value GetUserBalance_def select_first_def)
qed

lemma IndexBalances_eq:
  assumes "distinct_on balance_key (Balances db)" "\<forall>b \<in> set (Balances db). b_Height b < h"
    and new: "new = map (new_balance h (saldo h (TxOutputs db)) (Balances db)) (remdups (map fst (saldo h (TxOutputs db))))"
  shows "IndexBalances h db = Some (db\<lparr>Balances := map (strip_old new) (Balances db) @ new\<rparr>)"
proof -
  obtain db' where "IndexBalances h db = Some db'" using IndexBalances_defined[OF assms(1,2)] by blast
  then have "IndexBalances h db = Some (db\<lparr>Balances := clear_old_balances h (Balances db @ new)\<rparr>)"
    unfolding IndexBalances_def Let_def clear_old_balances_def new by (simp only: split: if_splits) simp_all
  moreover have "\<forall>b \<in> set new. b_Height b = h \<and> b_Last b"
    by (auto simp: new new_balance_def Let_def)
  ultimately show ?thesis by (simp add: clear_old_balances_eq[OF assms(2)])
qed

lemma GetUserBalance_IndexBalances:
  assumes keys: "distinct_on balance_key (Balances db)" and below: "\<forall>b \<in> set (Balances db). b_Height b < h"
    and ok: "balance_versions (Balances db)" and db': "IndexBalances h db = Some db'"
  shows "GetUserBalance a db' = GetUserBalance a db + created_sum h (TxOutputs db) a - spent_sum h (TxOutputs db) a"
proof -
  define saldos where "saldos = saldo h (TxOutputs db)"
  define new where "new = map (new_balance h saldos (Balances db)) (remdups (map fst saldos))"
  let ?P = "\<lambda>b. b_AddressHash b = a \<and> b_Last b"
  have bs: "Balances db' = map (strip_old new) (Balances db) @ new"
    using IndexBalances_eq[OF keys below] db' by (simp add: new_def saldos_def)
  have addresses: "b_AddressHash ` set new = fst ` set saldos"
    by (force simp: new_def new_balance_def Let_def image_iff)
  have filter_new: "filter ?P new = (if a \<in> fst ` set saldos then [new_balance h saldos (Balances db) a] else [])"
  proof -
    have "filter ?P (map (new_balance h saldos (Balances db)) as) =
        (if a \<in> set as then [new_balance h saldos (Balances db) a] else [])" if "distinct as" for as
      using that by (induction as) (auto simp: new_balance_def Let_def)
    then show ?thesis unfolding new_def by simp
  qed
  show ?thesis
  proof (cases "a \<in> fst ` set saldos")
    case True
    then have "filter ?P (map (strip_old new) (Balances db)) = []"
      using addresses by (auto simp: filter_empty_conv)
    then have "GetUserBalance a db' = b_Value (new_balance h saldos (Balances db) a)"
      using True filter_new by (simp add: GetUserBalance_def select_first_def bs)
    then show ?thesis using new_balance_value[OF ok keys] by (simp add: saldos_def)
  next
    case False
    have "filter ?P (map (strip_old new) bs) = filter ?P bs" for bs
      using False addresses by (induction bs) (auto simp: strip_old_def)
    then have "GetUserBalance a db' = GetUserBalance a db"
      using False filter_new by (simp add: GetUserBalance_def select_first_def bs)
    moreover have "filter (\<lambda>s. fst s = a) saldos = []" using False by (auto simp: filter_empty_conv)
    then have "created_sum h (TxOutputs db) a - spent_sum h (TxOutputs db) a = 0"
      using saldo_value[of a h "TxOutputs db"] by (simp add: saldos_def)
    ultimately show ?thesis by simp
  qed
qed

lemma block_unspent:
  assumes ready: "index_ready h txInfos db"
    and spent: "spent_created (TxOutputs db)" and known: "inputs_known txInfos (TxOutputs db)"
    and before: "\<forall>a. GetUserBalance a db = unspent_sum (TxOutputs db) a"
    and db': "IndexBalances h (fold (index_tx blockHash h) txInfos db) = Some db'"
  shows "GetUserBalance a db' = unspent_sum (TxOutputs db') a"
proof -
  let ?db1 = "fold (index_tx blockHash h) txInfos db"
  have below: "\<forall>b \<in> set (Balances db). b_Height b < h" and keys: "distinct_on balance_key (Balances db)"
    and ok: "balance_versions (Balances db)" and pending: "outputs_pending h txInfos (TxOutputs db)"
    using ready by (auto simp: index_ready_def db_keys_def)
  have outs: "TxOutputs db' = TxOutputs ?db1" using db' by (rule IndexBalances_SomeE)
  note block = fold_index_tx_block_out[of h txInfos db blockHash]
  have "unspent_sum (TxOutputs ?db1) a = unspent_sum (TxOutputs db) a + created_sum h (TxOutputs ?db1) a - spent_sum h (TxOutputs ?db1) a" for a
    by (rule unspent_block[OF block pending spent spent_created_block[OF block spent known]])
  moreover have "GetUserBalance a db' = GetUserBalance a ?db1 + created_sum h (TxOutputs ?db1) a - spent_sum h (TxOutputs ?db1) a" for a
    by (rule GetUserBalance_IndexBalances[OF _ _ _ db']) (use below keys ok in simp_all)
  moreover have "GetUserBalance a ?db1 = GetUserBalance a db" for a
    by (simp add: GetUserBalance_def)
  ultimately show ?thesis
    using before outs by simp
qed

text \<open>C19. After a block the balance of every address is again the sum of its unspent outputs in the
  chain, when it was so before: the increments \<open>IndexBalances\<close> computes from the outputs
  created and spent at the height of the block are the change of that sum, also for outputs
  created and spent in the same block. The block spends only outputs of the chain or its own.\<close>

theorem IndexBlock_balances:
  assumes ready: "index_ready h txInfos db"
    and spent: "spent_created (TxOutputs db)" and known: "inputs_known txInfos (TxOutputs db)"
    and before: "\<forall>a. GetUserBalance a db = unspent_sum (TxOutputs db) a"
  shows "\<exists>db'. IndexBlock blockHash h txInfos db = Some db' \<and>
    (\<forall>a. GetUserBalance a db' = unspent_sum (TxOutputs db') a)"
proof -
  have "\<forall>b \<in> set (Balances db). b_Height b < h" "distinct_on balance_key (Balances db)"
    using ready by (auto simp: index_ready_def db_keys_def)
  then obtain db' where "IndexBalances h (fold (index_tx blockHash h) txInfos db) = Some db'"
    using IndexBalances_defined[of "fold (index_tx blockHash h) txInfos db" h] by auto
  with block_unspent[OF assms this] show ?thesis by (simp add: IndexBlock_def)
qed

lemma IndexBlock_balances_witness:
  "index_ready 2 witness_block witness_db \<and> spent_created (TxOutputs witness_db) \<and>
   inputs_known witness_block (TxOutputs witness_db) \<and>
   (\<exists>db'. IndexBlock ''b2'' 2 witness_block witness_db = Some db' \<and>
      (\<forall>a. GetUserBalance a db' = unspent_sum (TxOutputs db') a))"
proof -
  have r: "index_ready 2 witness_block witness_db"
    by (simp add: index_ready_def witness_db_def witness_block_def witness_account_def db_keys_def distinct_on_def
        heights_below_def versions_ok_def block_pending_def unindexed_def reset_row_def outputs_pending_def)
  have s: "spent_created (TxOutputs witness_db)" by (simp add: spent_created_def witness_db_def)
  have k: "inputs_known witness_block (TxOutputs witness_db)"
    by (simp add: inputs_known_def witness_db_def witness_block_def)
  have b: "\<forall>a. GetUserBalance a witness_db = unspent_sum (TxOutputs witness_db) a"
    by (simp add: GetUserBalance_def unspent_sum_def witness_db_def select_first_def)
  from r s k IndexBlock_balances[OF r s k b, of "''b2''"] show ?thesis by blast
qed

end
