(* ===== verification/EntityIds.thy ===== *)
theory EntityIds
  imports ChainIndex
begin

text \<open>
  Identifiers of entities. An account, content, comment, blocking or subscription is an entity;
  its versions are transactions with the same address, root or pair of addresses. The index
  gives all versions of an entity one identifier and different entities different ones
  (\<open>ids_ok\<close>), with the flag \<open>Last\<close> on the newest version, and connecting a block keeps that
  when the block has at most one transaction per entity, which the consensus rules enforce.
\<close>

section \<open>Entities\<close>

datatype Entity =
    EAccount TxType string
  | EContent string
  | EComment string
  | EBlocking string string
  | ESubscribe string string

definition pair_of :: "('a \<Rightarrow> 'b \<Rightarrow> 'c) \<Rightarrow> 'a option \<Rightarrow> 'b option \<Rightarrow> 'c option" where
  "pair_of f a b = (case a of None \<Rightarrow> None | Some x \<Rightarrow> map_option (f x) b)"

datatype EntityClass = CAccount | CContent | CComment | CBlocking | CSubscribe

definition entity_class :: "TxType \<Rightarrow> EntityClass option" where
  "entity_class type =
     (case type of
        ACCOUNT_USER \<Rightarrow> Some CAccount
      | ACCOUNT_VIDEO_SERVER \<Rightarrow> Some CAccount
      | ACCOUNT_MESSAGE_SERVER \<Rightarrow> Some CAccount
      | ACCOUNT_SETTING \<Rightarrow> Some CAccount
      | CONTENT_POST \<Rightarrow> Some CContent
      | CONTENT_VIDEO \<Rightarrow> Some CContent
      | CONTENT_ARTICLE \<Rightarrow> Some CContent
      | CONTENT_DELETE \<Rightarrow> Some CContent
      | CONTENT_COMMENT \<Rightarrow> Some CComment
      | CONTENT_COMMENT_EDIT \<Rightarrow> Some CComment
      | CONTENT_COMMENT_DELETE \<Rightarrow> Some CComment
      | ACTION_BLOCKING \<Rightarrow> Some CBlocking
      | ACTION_BLOCKING_CANCEL \<Rightarrow> Some CBlocking
      | ACTION_SUBSCRIBE \<Rightarrow> Some CSubscribe
      | ACTION_SUBSCRIBE_PRIVATE \<Rightarrow> Some CSubscribe
      | ACTION_SUBSCRIBE_CANCEL \<Rightarrow> Some CSubscribe
      | _ \<Rightarrow> None)"

definition entity :: "TxRow \<Rightarrow> Entity option" where
  "entity r =
     (case entity_class (t_Type r) of
        Some CAccount \<Rightarrow> map_option (EAccount (t_Type r)) (t_String1 r)
      | Some CContent \<Rightarrow> map_option EContent (t_String2 r)
      | Some CComment \<Rightarrow> map_option EComment (t_String2 r)
      | Some CBlocking \<Rightarrow> pair_of EBlocking (t_String1 r) (t_String2 r)
      | Some CSubscribe \<Rightarrow> pair_of ESubscribe (t_String1 r) (t_String2 r)
      | None \<Rightarrow> None)"

text \<open>Rows with an identifier are versions of an entity, and the identifiers stand for the
  entities.\<close>

definition ids_ok :: "TxRow set \<Rightarrow> bool" where
  "ids_ok R \<longleftrightarrow> versions_ok t_Id t_Height t_Last R \<and>
     (\<forall>r \<in> R. t_Id r \<noteq> None \<longrightarrow> entity r \<noteq> None) \<and>
     (\<forall>r \<in> R. \<forall>s \<in> R. t_Id r \<noteq> None \<longrightarrow> t_Id s \<noteq> None \<longrightarrow> (t_Id r = t_Id s \<longleftrightarrow> entity r = entity s))"

text \<open>The identifier the last version of an entity has.\<close>

definition last_id :: "TxRow list \<Rightarrow> Entity \<Rightarrow> int option" where
  "last_id txs e = select_first (\<lambda>a. t_Last a \<and> entity a = Some e \<and> t_Height a \<noteq> None) t_Id txs"

lemma pair_of_eq: "pair_of f a b = Some c \<longleftrightarrow> (\<exists>x y. a = Some x \<and> b = Some y \<and> c = f x y)"
  by (auto simp: pair_of_def split: option.splits)

section \<open>The selections find the last version\<close>

lemma entity_same:
  "t_Type r = t_Type s \<Longrightarrow> t_String1 r = t_String1 s \<Longrightarrow> t_String2 r = t_String2 s \<Longrightarrow> entity r = entity s"
  by (simp add: entity_def split: option.split EntityClass.split)

lemma entity_set_last [simp]: "entity (r\<lparr>t_Last := l\<rparr>) = entity r"
  by (rule entity_same) simp_all

text \<open>The type lists of the SQL statements and the predicates of \<open>TransactionIndexingInfo\<close> name
  the same classes.\<close>

lemma type_in_class:
  "type_in r [200, 201, 202, 207] \<longleftrightarrow> entity_class (t_Type r) = Some CContent"
  "type_in r [204, 205, 206] \<longleftrightarrow> entity_class (t_Type r) = Some CComment"
  "type_in r [305, 306] \<longleftrightarrow> entity_class (t_Type r) = Some CBlocking"
  "type_in r [302, 303, 304] \<longleftrightarrow> entity_class (t_Type r) = Some CSubscribe"
  by (cases "t_Type r"; simp add: type_in_def entity_class_def)+

lemma info_class:
  "IsAccount txInfo \<longleftrightarrow> entity_class (ti_Type txInfo) = Some CAccount"
  "IsContent txInfo \<longleftrightarrow> entity_class (ti_Type txInfo) = Some CContent"
  "IsComment txInfo \<longleftrightarrow> entity_class (ti_Type txInfo) = Some CComment"
  "IsBlocking txInfo \<longleftrightarrow> entity_class (ti_Type txInfo) = Some CBlocking"
  "IsSubscribe txInfo \<longleftrightarrow> entity_class (ti_Type txInfo) = Some CSubscribe"
  by (cases "ti_Type txInfo"; simp add: txinfo_class_defs entity_class_def)+

text \<open>Each selection asks for the entity of the row.\<close>

lemma entity_query:
  assumes "entity r = Some e"
  shows "entity_class (t_Type r) = Some CAccount \<Longrightarrow>
      t_Type a = t_Type r \<and> sql_eq (t_String1 a) (t_String1 r) \<longleftrightarrow> entity a = Some e"
    and "entity_class (t_Type r) = Some CContent \<Longrightarrow>
      entity_class (t_Type a) = Some CContent \<and> sql_eq (t_String2 a) (t_String2 r) \<longleftrightarrow> entity a = Some e"
    and "entity_class (t_Type r) = Some CComment \<Longrightarrow>
      entity_class (t_Type a) = Some CComment \<and> sql_eq (t_String2 a) (t_String2 r) \<longleftrightarrow> entity a = Some e"
    and "entity_class (t_Type r) = Some CBlocking \<Longrightarrow>
      entity_class (t_Type a) = Some CBlocking \<and> sql_eq (t_String1 a) (t_String1 r) \<and>
        sql_eq (t_String2 a) (t_String2 r) \<longleftrightarrow> entity a = Some e"
    and "entity_class (t_Type r) = Some CSubscribe \<Longrightarrow>
      entity_class (t_Type a) = Some CSubscribe \<and> sql_eq (t_String1 a) (t_String1 r) \<and>
        sql_eq (t_String2 a) (t_String2 r) \<longleftrightarrow> entity a = Some e"
  using assms
  by (auto simp: entity_def sql_eq_def pair_of_eq split: option.splits EntityClass.splits)

lemma id_query_class:
  "id_query txInfo =
     (case entity_class (ti_Type txInfo) of
        Some CAccount \<Rightarrow> Some account_id | Some CContent \<Rightarrow> Some content_id | Some CComment \<Rightarrow> Some comment_id
      | Some CBlocking \<Rightarrow> Some blocking_id | Some CSubscribe \<Rightarrow> Some subscribe_id | None \<Rightarrow> None)"
  by (simp add: id_query_def info_class split: option.split EntityClass.split)

section \<open>The identifier of a new version\<close>

lemma ids_okD:
  assumes "ids_ok R" "r \<in> R"
  shows "t_Id r \<noteq> None \<Longrightarrow> t_Height r \<noteq> None"
    and "t_Id r \<noteq> None \<Longrightarrow> \<exists>s \<in> R. t_Id s = t_Id r \<and> t_Last s"
    and "t_Last r \<Longrightarrow> t_Id r \<noteq> None"
    and "t_Id r \<noteq> None \<Longrightarrow> entity r \<noteq> None"
    and "s \<in> R \<Longrightarrow> t_Id r \<noteq> None \<Longrightarrow> t_Id s \<noteq> None \<Longrightarrow> t_Id r = t_Id s \<longleftrightarrow> entity r = entity s"
  using assms unfolding ids_ok_def versions_ok_def by blast+

lemma entity_id_unique:
  assumes "ids_ok R" "r \<in> R" "s \<in> R" "entity r = entity s" "t_Id r = Some i" "t_Id s = Some j"
  shows "i = j"
  using ids_okD(5)[OF assms(1-3)] assms(4-6) by simp

text \<open>Under the invariant the rows a selection may take all have the same identifier, so the
  choice SQLite makes does not matter.\<close>

lemma last_version:
  assumes ok: "ids_ok (set txs)" and s: "s \<in> set txs" "t_Id s = Some i" "entity s = Some e"
  shows "\<exists>a \<in> set txs. t_Last a \<and> entity a = Some e \<and> t_Height a \<noteq> None \<and> t_Id a = Some i"
proof -
  obtain a where a: "a \<in> set txs" "t_Id a = t_Id s" "t_Last a"
    using ids_okD(2)[OF ok s(1)] s(2) by auto
  moreover have "entity a = entity s" "t_Height a \<noteq> None"
    using ids_okD(5)[OF ok a(1) s(1)] ids_okD(1)[OF ok a(1)] a(2) s(2) by simp_all
  ultimately show ?thesis using s(2,3) by (intro bexI[of _ a]) simp_all
qed

lemma last_id_iff:
  assumes ok: "ids_ok (set txs)"
  shows "last_id txs e = Some i \<longleftrightarrow> (\<exists>s \<in> set txs. t_Id s = Some i \<and> entity s = Some e)"
proof
  assume "last_id txs e = Some i"
  from select_first_SomeD[OF this[unfolded last_id_def]]
  show "\<exists>s \<in> set txs. t_Id s = Some i \<and> entity s = Some e" by blast
next
  assume "\<exists>s \<in> set txs. t_Id s = Some i \<and> entity s = Some e"
  then obtain s where s: "s \<in> set txs" "t_Id s = Some i" "entity s = Some e" by blast
  obtain a where a: "a \<in> set txs" "t_Last a" "entity a = Some e" "t_Height a \<noteq> None" "t_Id a = Some i"
    using last_version[OF ok s] by blast
  let ?P = "\<lambda>a. t_Last a \<and> entity a = Some e \<and> t_Height a \<noteq> None"
  have "a \<in> set (filter ?P txs)" using a by simp
  then have "filter ?P txs \<noteq> []" by (metis list.set(1) empty_iff)
  then obtain r rs where f: "filter ?P txs = r # rs" unfolding neq_Nil_conv by blast
  then have "r \<in> set (filter ?P txs)" by simp
  then have r: "r \<in> set txs" "t_Last r" "entity r = Some e" by auto
  then obtain j where "t_Id r = Some j"
    using ids_okD(3)[OF ok r(1,2)] by blast
  with entity_id_unique[OF ok r(1) a(1)] r(3) a(3,5) have "t_Id r = Some i" by simp
  with f show "last_id txs e = Some i" by (simp add: last_id_def select_first_def)
qed

lemma comment_max:
  assumes ok: "ids_ok (set txs)"
  shows "sql_max (List.map_filter t_Id (filter (\<lambda>a. t_Last a \<and> entity a = Some e \<and> t_Height a \<noteq> None) txs)) = last_id txs e"
proof (cases "last_id txs e")
  case None
  have "\<not> (t_Last a \<and> entity a = Some e \<and> t_Height a \<noteq> None \<and> t_Id a = Some i)" if "a \<in> set txs" for a i
    using None last_id_iff[OF ok, of e i] that by auto
  then have "set (List.map_filter t_Id (filter (\<lambda>a. t_Last a \<and> entity a = Some e \<and> t_Height a \<noteq> None) txs)) = {}"
    by (auto simp: List.map_filter_def)
  with None show ?thesis by (simp add: sql_max_def)
next
  case (Some i)
  then obtain s where "s \<in> set txs" "t_Id s = Some i" "entity s = Some e"
    using last_id_iff[OF ok] by blast
  then obtain a where a: "a \<in> set txs" "t_Last a \<and> entity a = Some e \<and> t_Height a \<noteq> None" "t_Id a = Some i"
    using last_version[OF ok] by blast
  have "sql_max (List.map_filter t_Id (filter (\<lambda>a. t_Last a \<and> entity a = Some e \<and> t_Height a \<noteq> None) txs)) = Some i"
  proof (rule sql_max_SomeI)
    show "i \<in> set (List.map_filter t_Id (filter (\<lambda>a. t_Last a \<and> entity a = Some e \<and> t_Height a \<noteq> None) txs))"
      using a by (force simp: List.map_filter_def)
  next
    fix j assume "j \<in> set (List.map_filter t_Id (filter (\<lambda>a. t_Last a \<and> entity a = Some e \<and> t_Height a \<noteq> None) txs))"
    then obtain r where "r \<in> set txs" "entity r = Some e" "t_Id r = Some j"
      by (auto simp: List.map_filter_def)
    then show "j \<le> i" using entity_id_unique[OF ok _ a(1)] a by auto
  qed
  with Some show ?thesis by simp
qed

lemma select_first_cong: "(\<And>a. P a \<longleftrightarrow> Q a) \<Longrightarrow> select_first P col txs = select_first Q col txs"
  by presburger

lemma id_query_last_id:
  assumes ok: "ids_ok (set txs)" and sel: "id_query txInfo = Some sel"
    and r: "t_Type r = ti_Type txInfo" "entity r = Some e"
  shows "sel txs r = last_id txs e"
proof -
  note q = entity_query[OF r(2)]
  have "entity_class (t_Type r) = Some CAccount \<Longrightarrow> account_id txs r = last_id txs e"
    unfolding account_id_def last_id_def by (rule select_first_cong) (use q(1) in blast)
  moreover have "entity_class (t_Type r) = Some CContent \<Longrightarrow> content_id txs r = last_id txs e"
    unfolding content_id_def last_id_def type_in_class by (rule select_first_cong) (use q(2) in blast)
  moreover have "entity_class (t_Type r) = Some CBlocking \<Longrightarrow> blocking_id txs r = last_id txs e"
    unfolding blocking_id_def last_id_def type_in_class by (rule select_first_cong) (use q(4) in blast)
  moreover have "entity_class (t_Type r) = Some CSubscribe \<Longrightarrow> subscribe_id txs r = last_id txs e"
    unfolding subscribe_id_def last_id_def type_in_class by (rule select_first_cong) (use q(5) in blast)
  moreover have "comment_id txs r = last_id txs e" if c: "entity_class (t_Type r) = Some CComment"
  proof -
    have "(\<lambda>c. entity_class (t_Type c) = Some CComment \<and> t_Last c \<and> sql_eq (t_String2 c) (t_String2 r) \<and> t_Height c \<noteq> None)
        = (\<lambda>a. t_Last a \<and> entity a = Some e \<and> t_Height a \<noteq> None)"
      using q(3)[OF c] by blast
    then show ?thesis
      unfolding comment_id_def type_in_class by (simp only: comment_max[OF ok])
  qed
  ultimately show ?thesis
    using sel unfolding id_query_class r(1)[symmetric]
    by (auto split: option.splits EntityClass.splits)
qed

text \<open>The identifier given to a new version of an entity is that of its earlier versions and of
  no other entity.\<close>

lemma next_id_fresh: "r \<in> set txs \<Longrightarrow> t_Id r = Some i \<Longrightarrow> i < next_id txs"
proof -
  assume r: "r \<in> set txs" "t_Id r = Some i"
  then have i: "i \<in> set (List.map_filter t_Id txs)" by (force simp: List.map_filter_def)
  then obtain m where "sql_max (List.map_filter t_Id txs) = Some m"
    by (cases "sql_max (List.map_filter t_Id txs)") auto
  with sql_max_SomeD[OF this] i show ?thesis by (auto simp: next_id_def)
qed

lemma new_id_iff:
  assumes ok: "ids_ok (set txs)" and i: "i = ifnull (last_id txs e) (next_id txs)"
    and s: "s \<in> set txs" "t_Id s \<noteq> None"
  shows "t_Id s = Some i \<longleftrightarrow> entity s = Some e"
proof (cases "last_id txs e")
  case None
  then have "entity s \<noteq> Some e" using last_id_iff[OF ok, of e "the (t_Id s)"] s by auto
  moreover have "t_Id s \<noteq> Some i" using next_id_fresh[OF s(1)] i None by fastforce
  ultimately show ?thesis by simp
next
  case (Some j)
  then obtain a where a: "a \<in> set txs" "t_Id a = Some j" "entity a = Some e"
    using last_id_iff[OF ok] by blast
  have "t_Id s = t_Id a \<longleftrightarrow> entity s = entity a"
    by (rule ids_okD(5)[OF ok s(1) a(1) s(2)]) (simp add: a(2))
  with a Some i show ?thesis by simp
qed

section \<open>The invariant is kept\<close>

lemma sql_eq_SomeE: "sql_eq x y \<Longrightarrow> (\<And>j. x = Some j \<Longrightarrow> y = Some j \<Longrightarrow> P) \<Longrightarrow> P"
  by (cases x) (auto simp: sql_eq_def)

text \<open>A row after taking over: the new one, or an old one that lost its flag when it had the
  identifier.\<close>

lemma take_over_row:
  assumes "r \<in> set (take_over x f (Some i) txs)" "\<forall>r \<in> set txs. t_Hash r = x \<longrightarrow> r = rx"
  obtains "r = f rx"
  | r0 where "r0 \<in> set txs" "t_Id r = t_Id r0" "t_Height r = t_Height r0" "entity r = entity r0"
      "t_Id r0 \<noteq> Some i \<Longrightarrow> r = r0" "t_Last r \<Longrightarrow> t_Id r0 \<noteq> Some i"
  using assms(1)
proof (cases rule: take_over_cases)
  case (1 r')
  with assms(2) that(1) show ?thesis by blast
next
  case (2 r')
  then show ?thesis by (intro that(2)[of r']) (simp_all add: sql_eq_def)
next
  case 3
  then show ?thesis by (intro that(2)[of r]) (auto simp: sql_eq_def)
qed

lemma take_over_versions:
  assumes ok: "versions_ok t_Id t_Height t_Last (set txs)"
    and rx: "rx \<in> set txs" "t_Hash rx = x" "unindexed rx" "\<forall>r \<in> set txs. t_Hash r = x \<longrightarrow> r = rx"
    and n: "t_Id (f rx) = Some i" "t_Last (f rx)" "t_Height (f rx) = Some h"
    and older: "\<And>s. s \<in> set txs \<Longrightarrow> t_Id s = Some i \<Longrightarrow> \<exists>b < h. t_Height s = Some b"
  shows "versions_ok t_Id t_Height t_Last (set (take_over x f (Some i) txs))"
proof -
  let ?R = "set (take_over x f (Some i) txs)"
  have new: "f rx \<in> ?R" using rx(1,2) by (force simp: take_over_def)
  have kept: "r0 \<in> ?R" if "r0 \<in> set txs" "t_Id r0 \<noteq> None" "t_Id r0 \<noteq> Some i" for r0
    using that unindexed_simps[OF rx(3)] rx(4) by (intro take_over_keeps) (auto simp: sql_eq_def)
  note ok = ok[unfolded versions_ok_def]
  have newer: "\<exists>a b. t_Height r = Some a \<and> t_Height s = Some b \<and> b < a"
    if rs: "r \<in> ?R" "s \<in> ?R" "r \<noteq> s" "t_Id r = Some j" "t_Id s = Some j" "t_Last r" for r s j
  proof (cases rule: take_over_row[OF rs(1) rx(4)])
    case 1
    show ?thesis
      by (cases rule: take_over_row[OF rs(2) rx(4)]) (use 1 rs(3-5) n older in auto)
  next
    case r: (2 r0)
    then have r0: "r \<in> set txs" "j \<noteq> i" using rs(4,6) by auto
    have "s \<in> set txs"
      by (cases rule: take_over_row[OF rs(2) rx(4)]) (use r0(2) rs(5) n(1) in \<open>metis option.inject\<close>)+
    with ok r0(1) rs(3-6) show ?thesis by (simp add: sql_eq_def)
  qed
  have height: "t_Height r \<noteq> None \<and> (\<exists>s \<in> ?R. t_Id s = t_Id r \<and> t_Last s)" if r: "r \<in> ?R" "t_Id r \<noteq> None" for r
  proof (cases "t_Id r = Some i")
    case True
    have "t_Height r \<noteq> None"
      by (cases rule: take_over_row[OF r(1) rx(4)]) (use True n(3) older in force)+
    with True new n show ?thesis by auto
  next
    case False
    have "r \<in> set txs"
      by (cases rule: take_over_row[OF r(1) rx(4)]) (use False n(1) in auto)
    with ok r(2) obtain s where "t_Height r \<noteq> None" "s \<in> set txs" "t_Id s = t_Id r" "t_Last s" by blast
    with kept[of s] False r(2) show ?thesis by auto
  qed
  have flagged: "t_Id r \<noteq> None" if r: "r \<in> ?R" "t_Last r" for r
    by (cases rule: take_over_row[OF r(1) rx(4)]) (use r(2) n(1) ok in auto)
  show ?thesis
    unfolding versions_ok_def
  proof (intro conjI ballI impI)
    fix r s assume rs: "r \<in> ?R" "s \<in> ?R" "r \<noteq> s" "sql_eq (t_Id r) (t_Id s)" "t_Last r"
    then obtain j where "t_Id r = Some j" "t_Id s = Some j" by (elim sql_eq_SomeE)
    with rs show "\<exists>a b. t_Height r = Some a \<and> t_Height s = Some b \<and> b < a" using newer by blast
  qed (use height flagged in blast)+
qed

lemma take_over_ids_ok:
  assumes ok: "ids_ok (set txs)"
    and rx: "rx \<in> set txs" "t_Hash rx = x" "unindexed rx" "\<forall>r \<in> set txs. t_Hash r = x \<longrightarrow> r = rx"
    and n: "t_Id (f rx) = Some i" "t_Last (f rx)" "t_Height (f rx) = Some h" "entity (f rx) = Some e"
    and i: "\<And>s. s \<in> set txs \<Longrightarrow> t_Id s \<noteq> None \<Longrightarrow> t_Id s = Some i \<longleftrightarrow> entity s = Some e"
    and older: "\<And>s a. s \<in> set txs \<Longrightarrow> entity s = Some e \<Longrightarrow> t_Height s = Some a \<Longrightarrow> a < h"
  shows "ids_ok (set (take_over x f (Some i) txs))"
proof -
  have older': "\<exists>b < h. t_Height s = Some b" if "s \<in> set txs" "t_Id s = Some i" for s
  proof -
    have "t_Height s \<noteq> None" using ids_okD(1)[OF ok that(1)] that(2) by simp
    then show ?thesis using that i[of s] older[of s] by auto
  qed
  have "entity r \<noteq> None" if r: "r \<in> set (take_over x f (Some i) txs)" "t_Id r \<noteq> None" for r
    by (cases rule: take_over_row[OF r(1) rx(4)]) (use r(2) n(4) ok in \<open>auto simp: ids_ok_def\<close>)
  moreover have "t_Id r = t_Id s \<longleftrightarrow> entity r = entity s"
    if r: "r \<in> set (take_over x f (Some i) txs)" "t_Id r \<noteq> None"
      and s: "s \<in> set (take_over x f (Some i) txs)" "t_Id s \<noteq> None" for r s
  proof -
    have row: "r = f rx \<or> (\<exists>r0 \<in> set txs. t_Id r = t_Id r0 \<and> entity r = entity r0)"
      if "r \<in> set (take_over x f (Some i) txs)" for r
      by (cases rule: take_over_row[OF that rx(4)]) blast+
    have old: "t_Id r0 = t_Id s0 \<longleftrightarrow> entity r0 = entity s0"
      if "r0 \<in> set txs" "s0 \<in> set txs" "t_Id r0 \<noteq> None" "t_Id s0 \<noteq> None" for r0 s0
      using ok that unfolding ids_ok_def by blast
    show ?thesis
      using row[OF r(1)] row[OF s(1)] r(2) s(2) old i n(1,4) by (elim disjE bexE conjE) metis+
  qed
  ultimately show ?thesis
    using take_over_versions[where f = f, OF _ rx n(1-3) older'] ok by (simp add: ids_ok_def)
qed

text \<open>A transaction of no entity leaves the others alone.\<close>

lemma take_over_None_ids_ok:
  assumes ok: "ids_ok (set txs)"
    and rx: "\<And>r. r \<in> set txs \<Longrightarrow> t_Hash r = x \<Longrightarrow> unindexed r"
    and f: "\<And>r. unindexed r \<Longrightarrow> t_Id (f r) = None \<and> \<not> t_Last (f r)"
  shows "ids_ok (set (take_over x f None txs))"
proof -
  let ?R = "set (take_over x f None txs)"
  have row: "r \<in> set txs \<or> t_Id r = None \<and> \<not> t_Last r" if "r \<in> ?R" for r
    using that by (cases rule: take_over_cases) (auto simp: f rx sql_eq_def)
  have kept: "r \<in> ?R" if "r \<in> set txs" "t_Id r \<noteq> None" for r
    using that rx[OF that(1)] unindexed_simps[of r] by (intro take_over_keeps) (auto simp: sql_eq_def)
  have with_id: "r \<in> set txs" if "r \<in> ?R" "t_Id r \<noteq> None" for r
    using row[OF that(1)] that(2) by blast
  have ok': "\<And>r s. r \<in> set txs \<Longrightarrow> s \<in> set txs \<Longrightarrow> r \<noteq> s \<Longrightarrow> sql_eq (t_Id r) (t_Id s) \<Longrightarrow> t_Last r \<Longrightarrow>
        \<exists>a b. t_Height r = Some a \<and> t_Height s = Some b \<and> b < a"
    "\<And>r. r \<in> set txs \<Longrightarrow> t_Id r \<noteq> None \<Longrightarrow> t_Height r \<noteq> None"
    "\<And>r. r \<in> set txs \<Longrightarrow> t_Id r \<noteq> None \<Longrightarrow> \<exists>s \<in> set txs. t_Id s = t_Id r \<and> t_Last s"
    "\<And>r. r \<in> set txs \<Longrightarrow> t_Last r \<Longrightarrow> t_Id r \<noteq> None"
    using ok unfolding ids_ok_def versions_ok_def by blast+
  have "versions_ok t_Id t_Height t_Last ?R"
    unfolding versions_ok_def
  proof (intro conjI ballI impI)
    fix r s assume rs: "r \<in> ?R" "s \<in> ?R" "r \<noteq> s" "sql_eq (t_Id r) (t_Id s)" "t_Last r"
    have "t_Id r \<noteq> None" "t_Id s \<noteq> None" using rs(4) by (auto elim: sql_eq_SomeE)
    with rs show "\<exists>a b. t_Height r = Some a \<and> t_Height s = Some b \<and> b < a"
      by (intro ok'(1)) (auto intro: with_id)
  next
    fix r assume r: "r \<in> ?R" "t_Id r \<noteq> None"
    show "t_Height r \<noteq> None" by (rule ok'(2)[OF with_id[OF r] r(2)])
    obtain s where "s \<in> set txs" "t_Id s = t_Id r" "t_Last s" using ok'(3)[OF with_id[OF r] r(2)] by blast
    with kept[of s] r(2) show "\<exists>s \<in> ?R. t_Id s = t_Id r \<and> t_Last s" by auto
  next
    fix r assume "r \<in> ?R" "t_Last r"
    then show "t_Id r \<noteq> None" using row[of r] ok'(4) by blast
  qed
  with ok with_id show ?thesis unfolding ids_ok_def by blast
qed

section \<open>The transactions of a block\<close>

text \<open>The rows of a block have the types the block gives them, and no two of them are versions of
  one entity.\<close>

definition block_entities :: "TransactionIndexingInfo list \<Rightarrow> TxRow list \<Rightarrow> bool" where
  "block_entities txInfos txs \<longleftrightarrow>
     (\<forall>txInfo \<in> set txInfos. \<forall>r \<in> set txs. t_Hash r = ti_Hash txInfo \<longrightarrow>
        t_Type r = ti_Type txInfo \<and> (entity_class (t_Type r) \<noteq> None \<longrightarrow> entity r \<noteq> None)) \<and>
     (\<forall>r \<in> set txs. \<forall>s \<in> set txs. t_Hash r \<in> ti_Hash ` set txInfos \<longrightarrow> t_Hash s \<in> ti_Hash ` set txInfos \<longrightarrow>
        entity r \<noteq> None \<longrightarrow> entity r = entity s \<longrightarrow> t_Hash r = t_Hash s)"

lemma block_entitiesD:
  assumes "block_entities txInfos txs"
  shows "txInfo \<in> set txInfos \<Longrightarrow> r \<in> set txs \<Longrightarrow> t_Hash r = ti_Hash txInfo \<Longrightarrow> t_Type r = ti_Type txInfo"
    and "txInfo \<in> set txInfos \<Longrightarrow> r \<in> set txs \<Longrightarrow> t_Hash r = ti_Hash txInfo \<Longrightarrow>
      entity_class (t_Type r) \<noteq> None \<Longrightarrow> entity r \<noteq> None"
    and "r \<in> set txs \<Longrightarrow> s \<in> set txs \<Longrightarrow> t_Hash r \<in> ti_Hash ` set txInfos \<Longrightarrow> t_Hash s \<in> ti_Hash ` set txInfos \<Longrightarrow>
      entity r \<noteq> None \<Longrightarrow> entity r = entity s \<Longrightarrow> t_Hash r = t_Hash s"
  using assms unfolding block_entities_def by blast+

lemma reset_row_entity: "entity (reset_row r) = entity r" "t_Type (reset_row r) = t_Type r"
  by (rule entity_same) (simp_all add: reset_row_def)

lemma same_but_fee_entity: "same_but_fee r0 r \<Longrightarrow> entity r = entity r0 \<and> t_Type r = t_Type r0"
proof -
  assume "same_but_fee r0 r"
  then have r: "r\<lparr>t_Int1 := t_Int1 r0\<rparr> = r0" by (simp add: same_but_fee_def)
  have "entity (r\<lparr>t_Int1 := t_Int1 r0\<rparr>) = entity r" "t_Type (r\<lparr>t_Int1 := t_Int1 r0\<rparr>) = t_Type r"
    by (rule entity_same) simp_all
  with r show ?thesis by simp
qed

lemma indexed_row_entity: "indexed_row h seen r0 r \<Longrightarrow> entity r = entity r0 \<and> t_Type r = t_Type r0"
  unfolding indexed_row_def
  by (auto split: if_splits dest!: same_but_fee_entity simp: reset_row_entity elim: tx_cleared_cases)

text \<open>Rows at the height of the block are the ones already indexed.\<close>

lemma indexing_older:
  assumes ix: "indexing h seen txs0 txs" and r: "r \<in> set txs" "t_Hash r \<notin> seen" "t_Height r = Some a"
  shows "a < h"
proof -
  obtain r0 where r0: "r0 \<in> set txs0" "indexed_row h seen r0 r"
    using indexing_row[OF ix r(1)] by blast
  then have "t_Height r0 = Some a"
    using r(2,3) by (auto simp: indexed_row_def elim: tx_cleared_cases)
  with ix r0(1) show ?thesis unfolding indexing_def by blast
qed

lemma indexing_block_entities:
  assumes ix: "indexing h seen txs0 txs" and b: "block_entities txInfos txs0"
  shows "block_entities txInfos txs"
proof -
  have row: "\<exists>r0 \<in> set txs0. t_Hash r = t_Hash r0 \<and> entity r = entity r0 \<and> t_Type r = t_Type r0"
    if r: "r \<in> set txs" for r
  proof -
    obtain r0 where r0: "r0 \<in> set txs0" "indexed_row h seen r0 r"
      using indexing_row[OF ix r] by blast
    from r0(2) have "t_Hash r = t_Hash r0" unfolding indexed_row_def by (rule conjunct1)
    with indexed_row_entity[OF r0(2)] show ?thesis by (intro bexI[OF _ r0(1)]) simp
  qed
  show ?thesis
    unfolding block_entities_def
  proof (intro conjI ballI impI)
    fix txInfo r assume a: "txInfo \<in> set txInfos" "r \<in> set txs" "t_Hash r = ti_Hash txInfo"
    obtain r0 where r0: "r0 \<in> set txs0" "t_Hash r = t_Hash r0" "entity r = entity r0" "t_Type r = t_Type r0"
      using row[OF a(2)] by blast
    show "t_Type r = ti_Type txInfo"
      unfolding r0(4) by (rule block_entitiesD(1)[OF b a(1) r0(1)]) (use a(3) r0(2) in simp)
    assume "entity_class (t_Type r) \<noteq> None"
    then show "entity r \<noteq> None"
      unfolding r0(3,4) by (intro block_entitiesD(2)[OF b a(1) r0(1)]) (use a(3) r0(2) in simp)
  next
    fix r s assume a: "r \<in> set txs" "s \<in> set txs" "t_Hash r \<in> ti_Hash ` set txInfos" "t_Hash s \<in> ti_Hash ` set txInfos"
      "entity r \<noteq> None" "entity r = entity s"
    obtain r0 where r0: "r0 \<in> set txs0" "t_Hash r = t_Hash r0" "entity r = entity r0" using row[OF a(1)] by blast
    obtain s0 where s0: "s0 \<in> set txs0" "t_Hash s = t_Hash s0" "entity s = entity s0" using row[OF a(2)] by blast
    show "t_Hash r = t_Hash s"
      unfolding r0(2) s0(2)
      by (rule block_entitiesD(3)[OF b r0(1) s0(1)]) (use a(3-6) r0(2,3) s0(2,3) in simp_all)
  qed
qed

lemma entity_indexed: "entity ((set_height blockHash h txInfo r)\<lparr>t_Id := k\<rparr>) = entity r"
  "entity (set_height blockHash h txInfo r) = entity r"
  by (rule entity_same; simp)+

lemma index_tx_ids_ok:
  assumes ix: "indexing h seen txs0 (Transactions db)" and dist: "distinct_on t_Hash txs0"
    and ok: "ids_ok (set (Transactions db))"
    and info: "txInfo \<in> set txInfos" "ti_Hash txInfo \<notin> seen" "seen \<subseteq> ti_Hash ` set txInfos"
    and fresh: "\<forall>r0 \<in> set txs0. t_Hash r0 = ti_Hash txInfo \<longrightarrow> unindexed r0"
    and block: "block_entities txInfos txs0"
  shows "ids_ok (set (Transactions (index_tx blockHash h txInfo db)))"
proof (cases "ti_Hash txInfo \<in> t_Hash ` set (Transactions db)")
  case False
  then show ?thesis using ok by (simp add: index_tx_absent)
next
  case True
  let ?x = "ti_Hash txInfo" and ?txs = "Transactions db" and ?g = "set_height blockHash h txInfo"
  have block': "block_entities txInfos ?txs" by (rule indexing_block_entities[OF ix block])
  have dist': "distinct_on t_Hash ?txs"
    using dist indexing_hashes[OF ix] by (simp add: distinct_on_def)
  obtain rx where rx: "rx \<in> set ?txs" "t_Hash rx = ?x" using True by auto
  have only: "\<forall>r \<in> set ?txs. t_Hash r = ?x \<longrightarrow> r = rx"
    using dist' rx distinct_on_inj by metis
  have pending: "unindexed r" if "r \<in> set ?txs" "t_Hash r = ?x" for r
    using indexing_pending[OF ix that info(2)] fresh by blast
  show ?thesis
  proof (cases "id_query txInfo")
    case None
    have "ids_ok (set (take_over ?x f None ?txs))" if "\<And>r. unindexed r \<Longrightarrow> t_Id (f r) = None \<and> \<not> t_Last (f r)" for f
      using ok pending that by (rule take_over_None_ids_ok)
    moreover have "\<exists>f. Transactions (index_tx blockHash h txInfo db) = take_over ?x f None ?txs \<and>
        (\<forall>r. unindexed r \<longrightarrow> t_Id (f r) = None \<and> \<not> t_Last (f r))"
      unfolding index_tx_transactions Let_def None option.case take_over_def update_where_def
      by (rule exI[of _ "\<lambda>r. if IsBoostContent txInfo \<and> type_in r [208]
            then (?g r)\<lparr>t_Int1 := boost_fee (TxOutputs (index_tx blockHash h txInfo db)) (t_Hash r)\<rparr> else ?g r"])
         (simp add: type_in_def if_distrib unindexed_simps cong: if_cong)
    ultimately show ?thesis by metis
  next
    case (Some sel)
    define txs1 where "txs1 = update_where (\<lambda>r. t_Hash r = ?x) ?g ?txs"
    define i where "i = ifnull (sel txs1 (?g rx)) (next_id txs1)"
    have type: "t_Type rx = ti_Type txInfo" by (rule block_entitiesD(1)[OF block' info(1) rx])
    then have "entity_class (t_Type rx) \<noteq> None"
      using Some by (auto simp: id_query_class split: option.splits)
    then obtain e where e: "t_Type rx = ti_Type txInfo" "entity rx = Some e"
      using type block_entitiesD(2)[OF block' info(1) rx] by blast
    have "txs1 = take_over ?x ?g None ?txs"
      by (simp add: txs1_def take_over_def update_where_def)
    then have ok1: "ids_ok (set txs1)"
      using take_over_None_ids_ok[OF ok pending, of ?x ?g] by (simp add: unindexed_simps)
    have "sel txs1 (?g rx) = last_id txs1 e"
      by (rule id_query_last_id[OF ok1 Some]) (simp_all add: e entity_indexed)
    then have i1: "t_Id s = Some i \<longleftrightarrow> entity s = Some e" if "s \<in> set txs1" "t_Id s \<noteq> None" for s
      using new_id_iff[OF ok1 _ that] by (simp add: i_def)
    have i2: "t_Id s = Some i \<longleftrightarrow> entity s = Some e" if "s \<in> set ?txs" "t_Id s \<noteq> None" for s
    proof (rule i1)
      have "t_Hash s \<noteq> ?x" using pending[OF that(1)] unindexed_simps[of s] that(2) by blast
      with that(1) show "s \<in> set txs1" by (force simp: txs1_def update_where_def)
    qed (rule that(2))
    have older: "a < h" if s: "s \<in> set ?txs" "entity s = Some e" "t_Height s = Some a" for s a
    proof (rule indexing_older[OF ix s(1) _ s(3)])
      show "t_Hash s \<notin> seen"
      proof
        assume "t_Hash s \<in> seen"
        then have "t_Hash s = t_Hash rx"
          by (intro block_entitiesD(3)[OF block' s(1) rx(1)]) (use s(2) e(2) rx(2) info(1,3) in auto)
        with \<open>t_Hash s \<in> seen\<close> rx(2) info(2) show False by simp
      qed
    qed
    have "Transactions (index_tx blockHash h txInfo db)
        = take_over ?x (\<lambda>r. (?g r)\<lparr>t_Id := Some i, t_Last := True\<rparr>) (Some i) ?txs"
      unfolding index_tx_transactions Let_def Some option.case txs1_def[symmetric]
      by (rule set_id_take_over[where g = ?g and sel = sel, OF dist' rx _ _ _ txs1_def]) (simp_all add: i_def)
    moreover have "ids_ok (set (take_over ?x (\<lambda>r. (?g r)\<lparr>t_Id := Some i, t_Last := True\<rparr>) (Some i) ?txs))"
      by (rule take_over_ids_ok[OF ok rx pending[OF rx] only, where h = h and e = e])
         (use i2 older e(2) in \<open>simp_all add: entity_indexed\<close>)
    ultimately show ?thesis by simp
  qed
qed

text \<open>A property of the table that every transaction of the block keeps is kept by the block.\<close>

lemma fold_index_tx_invariant:
  assumes "indexing h seen txs0 (Transactions db)" "distinct_on t_Hash txs0"
    and pending: "block_pending txInfos txs0"
    and "distinct (map ti_Hash infos)" "seen \<inter> ti_Hash ` set infos = {}"
    and "set infos \<subseteq> set txInfos" "seen \<subseteq> ti_Hash ` set txInfos"
    and "P (Transactions db)"
    and step: "\<And>db seen txInfo. indexing h seen txs0 (Transactions db) \<Longrightarrow> txInfo \<in> set txInfos \<Longrightarrow>
      ti_Hash txInfo \<notin> seen \<Longrightarrow> seen \<subseteq> ti_Hash ` set txInfos \<Longrightarrow>
      \<forall>r0 \<in> set txs0. t_Hash r0 = ti_Hash txInfo \<longrightarrow> unindexed r0 \<Longrightarrow>
      P (Transactions db) \<Longrightarrow> P (Transactions (index_tx blockHash h txInfo db))"
  shows "P (Transactions (fold (index_tx blockHash h) infos db))"
  using assms(1,4-8)
proof (induction infos arbitrary: seen db)
  case (Cons txInfo infos)
  have info: "txInfo \<in> set txInfos" "ti_Hash txInfo \<notin> seen" using Cons.prems by auto
  have fresh: "\<forall>r0 \<in> set txs0. t_Hash r0 = ti_Hash txInfo \<longrightarrow> unindexed r0"
    using pending info(1) unfolding block_pending_def by simp
  have "indexing h (insert (ti_Hash txInfo) seen) txs0 (Transactions (index_tx blockHash h txInfo db))"
    by (rule index_tx_indexing[OF Cons.prems(1) assms(2) info(2) fresh])
  moreover have "P (Transactions (index_tx blockHash h txInfo db))"
    by (rule step[OF Cons.prems(1) info Cons.prems(5) fresh Cons.prems(6)])
  ultimately show ?case
    unfolding fold_Cons comp_def
    by (intro Cons.IH[of "insert (ti_Hash txInfo) seen"]) (use Cons.prems info in auto)
qed simp

lemma block_invariant:
  assumes ready: "index_ready h txInfos db" and P: "P (Transactions db)"
    and step: "\<And>db1 seen txInfo. indexing h seen (Transactions db) (Transactions db1) \<Longrightarrow> txInfo \<in> set txInfos \<Longrightarrow>
      ti_Hash txInfo \<notin> seen \<Longrightarrow> seen \<subseteq> ti_Hash ` set txInfos \<Longrightarrow>
      \<forall>r0 \<in> set (Transactions db). t_Hash r0 = ti_Hash txInfo \<longrightarrow> unindexed r0 \<Longrightarrow>
      P (Transactions db1) \<Longrightarrow> P (Transactions (index_tx blockHash h txInfo db1))"
  shows "P (Transactions (fold (index_tx blockHash h) txInfos db))"
proof -
  have dist: "distinct_on t_Hash (Transactions db)" and below: "heights_below h (Transactions db)"
    and pending: "block_pending txInfos (Transactions db)"
    using ready by (auto simp: index_ready_def db_keys_def)
  show ?thesis
    by (rule fold_index_tx_invariant[where P = P, OF indexing_start[OF dist below] dist pending _ _ _ _ P step])
       (use pending in \<open>auto simp: block_pending_def\<close>)
qed

lemma block_ids_ok:
  assumes ready: "index_ready h txInfos db" and ok: "ids_ok (set (Transactions db))"
    and block: "block_entities txInfos (Transactions db)"
  shows "ids_ok (set (Transactions (fold (index_tx blockHash h) txInfos db)))"
proof -
  have dist: "distinct_on t_Hash (Transactions db)" using ready by (simp add: index_ready_def db_keys_def)
  show ?thesis
    by (rule block_invariant[where P = "\<lambda>txs. ids_ok (set txs)", OF ready ok])
       (rule index_tx_ids_ok[OF _ dist _ _ _ _ _ block])
qed

text \<open>C18. Connecting a block keeps the index of entities: \<open>IndexBlock\<close> succeeds and afterwards
  again all versions of an entity, and only they, share an identifier, every entity has exactly
  one row with the flag \<open>Last\<close>, and that row is strictly the highest of its versions. The
  block's transactions are in the table, pending, with the types the block gives, and no two of
  them are versions of the same entity.\<close>

theorem IndexBlock_ids_ok:
  assumes ready: "index_ready h txInfos db"
    and "ids_ok (set (Transactions db))" "block_entities txInfos (Transactions db)"
  shows "\<exists>db'. IndexBlock blockHash h txInfos db = Some db' \<and> ids_ok (set (Transactions db'))"
proof -
  let ?db1 = "fold (index_tx blockHash h) txInfos db"
  obtain db' where db': "IndexBalances h ?db1 = Some db'"
    using IndexBalances_defined[of ?db1 h] ready by (auto simp: index_ready_def db_keys_def)
  then have "Transactions db' = Transactions ?db1" by (rule IndexBalances_SomeE)
  then show ?thesis using db' block_ids_ok[OF assms] by (simp add: IndexBlock_def)
qed

lemma IndexBlock_ids_ok_witness:
  "index_ready 2 witness_block witness_db \<and> ids_ok (set (Transactions witness_db)) \<and>
   block_entities witness_block (Transactions witness_db) \<and>
   (\<exists>db'. IndexBlock ''b2'' 2 witness_block witness_db = Some db' \<and> ids_ok (set (Transactions db')))"
proof -
  have r: "index_ready 2 witness_block witness_db"
    by (simp add: index_ready_def witness_db_def witness_block_def witness_account_def db_keys_def distinct_on_def
        heights_below_def versions_ok_def block_pending_def unindexed_def reset_row_def outputs_pending_def)
  have i: "ids_ok (set (Transactions witness_db))"
    by (simp add: ids_ok_def versions_ok_def witness_db_def witness_account_def entity_def entity_class_def)
  have e: "block_entities witness_block (Transactions witness_db)"
    by (simp add: block_entities_def witness_db_def witness_block_def witness_account_def entity_def entity_class_def)
  from r i e IndexBlock_ids_ok[OF r i e, of "''b2''"] show ?thesis by blast
qed

end
