(* ===== verification/ChainState.thy ===== *)
theory ChainState
  imports ChainRatings ChainBalances EntityIds
begin

text \<open>
  The whole of a block's effect on the database, \<open>ChainPostProcessing::Index\<close>: it is undone by
  \<open>Rollback\<close>, ratings included, and it keeps the consistency of the tables.
\<close>

section \<open>Ratings are restored\<close>

interpretation rating_rows: versioned "\<lambda>r. Some (r_Type r, r_Id r)" "\<lambda>r. Some (r_Height r)" r_Last
  "\<lambda>l r. r\<lparr>r_Last := l\<rparr>"
  by unfold_locales auto

abbreviation rated :: "RatingRow list \<Rightarrow> RatingRow list" where
  "rated \<equiv> filter (\<lambda>r. r_Type r \<noteq> RATING_ACCOUNT_LIKERS)"

abbreviation rating_versions :: "RatingRow list \<Rightarrow> bool" where
  "rating_versions rows \<equiv>
     versions_ok (\<lambda>r. Some (r_Type r, r_Id r)) (\<lambda>r. Some (r_Height r)) r_Last (set (rated rows))"

text \<open>An identifier is rated as one kind of thing only.\<close>

definition types_apart :: "RatingRow list \<Rightarrow> bool" where
  "types_apart rows \<longleftrightarrow> (\<forall>r \<in> set (rated rows). \<forall>s \<in> set (rated rows). r_Id r = r_Id s \<longrightarrow> r_Type r = r_Type s)"

definition ratings_ok :: "RatingRow list \<Rightarrow> bool" where
  "ratings_ok rows \<longleftrightarrow> rating_versions rows \<and> types_apart rows \<and>
     (\<forall>r \<in> set rows. r_Type r = RATING_ACCOUNT_LIKERS \<longrightarrow> r_Last r)"

text \<open>The condition of the restoring statement, on a rating of a table whose identifiers are rated
  as one kind only.\<close>

definition restores :: "int \<Rightarrow> RatingRow list \<Rightarrow> RatingRow \<Rightarrow> bool" where
  "restores h rows r \<longleftrightarrow>
     (\<exists>r1 \<in> set rows. h \<le> r_Height r1 \<and> r_Last r1 \<and> r_Type r = r_Type r1 \<and> r_Id r = r_Id r1 \<and>
        sql_eq (Some (r_Height r)) (sql_max (map r_Height
          (filter (\<lambda>r2. \<not> r_Last r2 \<and> r_Id r2 = r_Id r1 \<and> r_Height r2 < h) rows))))"

lemma restores_iff:
  assumes apart: "types_apart rows" and likers: "\<forall>r \<in> set rows. r_Type r = RATING_ACCOUNT_LIKERS \<longrightarrow> r_Last r"
    and r: "r_Type r \<noteq> RATING_ACCOUNT_LIKERS"
  shows "restores h rows r \<longleftrightarrow>
    (\<exists>t1 \<in> set (rated rows). sql_ge (Some (r_Height t1)) h \<and> r_Last t1 \<and>
        sql_eq (Some (r_Type r, r_Id r)) (Some (r_Type t1, r_Id t1)) \<and>
        sql_eq (Some (r_Height r)) (sql_max (List.map_filter (\<lambda>r. Some (r_Height r))
          (filter (\<lambda>t2. sql_eq (Some (r_Type t2, r_Id t2)) (Some (r_Type t1, r_Id t1)) \<and>
             sql_lt (Some (r_Height t2)) h \<and> \<not> r_Last t2) (rated rows)))))"
proof -
  have same: "map r_Height (filter (\<lambda>r2. \<not> r_Last r2 \<and> r_Id r2 = r_Id t1 \<and> r_Height r2 < h) rows) =
      List.map_filter (\<lambda>r. Some (r_Height r)) (filter (\<lambda>t2. sql_eq (Some (r_Type t2, r_Id t2)) (Some (r_Type t1, r_Id t1)) \<and>
             sql_lt (Some (r_Height t2)) h \<and> \<not> r_Last t2) (rated rows))"
    if "t1 \<in> set rows" "r_Type t1 \<noteq> RATING_ACCOUNT_LIKERS" for t1
  proof -
    have "filter (\<lambda>r2. \<not> r_Last r2 \<and> r_Id r2 = r_Id t1 \<and> r_Height r2 < h) rows =
        filter (\<lambda>t2. r_Type t2 \<noteq> RATING_ACCOUNT_LIKERS \<and> (sql_eq (Some (r_Type t2, r_Id t2)) (Some (r_Type t1, r_Id t1)) \<and>
             sql_lt (Some (r_Height t2)) h \<and> \<not> r_Last t2)) rows"
      using apart likers that by (intro filter_cong refl) (auto simp: types_apart_def)
    then show ?thesis by (simp add: List.map_filter_def comp_def)
  qed
  have "restores h rows r \<longleftrightarrow>
      (\<exists>r1 \<in> set (rated rows). h \<le> r_Height r1 \<and> r_Last r1 \<and> r_Type r = r_Type r1 \<and> r_Id r = r_Id r1 \<and>
        sql_eq (Some (r_Height r)) (sql_max (map r_Height
          (filter (\<lambda>r2. \<not> r_Last r2 \<and> r_Id r2 = r_Id r1 \<and> r_Height r2 < h) rows))))"
    unfolding restores_def using r by auto
  also have "\<dots> \<longleftrightarrow> (\<exists>t1 \<in> set (rated rows). sql_ge (Some (r_Height t1)) h \<and> r_Last t1 \<and>
        sql_eq (Some (r_Type r, r_Id r)) (Some (r_Type t1, r_Id t1)) \<and>
        sql_eq (Some (r_Height r)) (sql_max (List.map_filter (\<lambda>r. Some (r_Height r))
          (filter (\<lambda>t2. sql_eq (Some (r_Type t2, r_Id t2)) (Some (r_Type t1, r_Id t1)) \<and>
             sql_lt (Some (r_Height t2)) h \<and> \<not> r_Last t2) (rated rows)))))"
    by (intro bex_cong refl) (simp add: same)
  finally show ?thesis .
qed

lemma strip_rating_eq:
  assumes "\<forall>k. k \<in> K \<longleftrightarrow> (\<exists>n \<in> set new. (r_Type n, r_Id n) = k)"
  shows "strip_rating K r = (if r_Last r \<and> (\<exists>n \<in> set new. sql_eq (Some (r_Type n, r_Id n)) (Some (r_Type r, r_Id r)))
     then r\<lparr>r_Last := False\<rparr> else r)"
  using assms by (auto simp: strip_rating_def)

text \<open>The shape of the ratings after a block, without the likers.\<close>

lemma rated_block_rated:
  assumes block: "rated_block h K rows rows'" and K: "\<forall>i. (RATING_ACCOUNT_LIKERS, i) \<notin> K"
  obtains new where "rows' = map (strip_rating K) rows @ new" "rated rows' = map (strip_rating K) (rated rows) @ rated new"
    "\<forall>n \<in> set new. r_Height n = h \<and> r_Last n"
    "\<forall>r. strip_rating K r = (if r_Last r \<and> (\<exists>n \<in> set (rated new). sql_eq (Some (r_Type n, r_Id n)) (Some (r_Type r, r_Id r)))
       then r\<lparr>r_Last := False\<rparr> else r)"
    "distinct_on (\<lambda>n. (r_Type n, r_Id n)) (rated new)" "\<forall>n \<in> set (rated new). (r_Type n, r_Id n) \<in> K"
proof -
  obtain new where new: "rows' = map (strip_rating K) rows @ new"
    "\<forall>n \<in> set new. r_Height n = h \<and> r_Last n \<and> (r_Type n \<noteq> RATING_ACCOUNT_LIKERS \<longrightarrow> (r_Type n, r_Id n) \<in> K)"
    "\<forall>k \<in> K. \<exists>n \<in> set new. (r_Type n, r_Id n) = k"
    "distinct_on (\<lambda>n. (r_Type n, r_Id n)) (rated new)"
    using block unfolding rated_block_def by blast
  have "k \<in> K \<longleftrightarrow> (\<exists>n \<in> set (rated new). (r_Type n, r_Id n) = k)" for k
  proof
    assume "k \<in> K"
    then obtain n where n: "n \<in> set new" "(r_Type n, r_Id n) = k" using new(3) by blast
    with \<open>k \<in> K\<close> K have "r_Type n \<noteq> RATING_ACCOUNT_LIKERS" by metis
    with n show "\<exists>n \<in> set (rated new). (r_Type n, r_Id n) = k" by auto
  qed (use new(2) in auto)
  then have keys: "\<forall>k. k \<in> K \<longleftrightarrow> (\<exists>n \<in> set (rated new). (r_Type n, r_Id n) = k)" by blast
  have "rated (map (strip_rating K) rows) = map (strip_rating K) (rated rows)"
    by (induction rows) auto
  with new strip_rating_eq[OF keys] show ?thesis by (intro that[of new]) simp_all
qed

lemma rollback_ratings:
  assumes ok: "ratings_ok rows" and below: "\<forall>r \<in> set rows. r_Height r < h"
    and block: "rated_block h K rows rows'" and K: "\<forall>i. (RATING_ACCOUNT_LIKERS, i) \<notin> K"
    and apart: "types_apart rows'"
  shows "delete_where (\<lambda>r. r_Height r \<ge> h) (restore_ratings h rows') = rows"
proof -
  obtain new where new: "rows' = map (strip_rating K) rows @ new" "rated rows' = map (strip_rating K) (rated rows) @ rated new"
    "\<forall>n \<in> set new. r_Height n = h \<and> r_Last n"
    and strip: "\<forall>r. strip_rating K r = (if r_Last r \<and> (\<exists>n \<in> set (rated new). sql_eq (Some (r_Type n, r_Id n)) (Some (r_Type r, r_Id r)))
       then r\<lparr>r_Last := False\<rparr> else r)"
    by (rule rated_block_rated[OF block K])
  define \<rho> where "\<rho> r = (if restores h rows' r then r\<lparr>r_Last := True\<rparr> else r)" for r
  have likers: "\<forall>r \<in> set rows'. r_Type r = RATING_ACCOUNT_LIKERS \<longrightarrow> r_Last r"
    using ok new(1,3) K by (auto simp: ratings_ok_def)
  have "advanced (\<lambda>r. Some (r_Type r, r_Id r)) (\<lambda>r. Some (r_Height r)) r_Last (\<lambda>l r. r\<lparr>r_Last := l\<rparr>) h
      (set (rated rows)) (set (rated rows'))"
    unfolding new(2)
    by (rule rating_rows.advanced_append[OF _ _ _ strip[rule_format]]) (use ok below new(3) in \<open>auto simp: ratings_ok_def\<close>)
  note restore = rating_rows.restore_row[OF this]
  have old: "\<rho> (strip_rating K r) = r" if r: "r \<in> set rows" for r
  proof (cases "r_Type r = RATING_ACCOUNT_LIKERS")
    case True
    then have "r_Last r" "strip_rating K r = r" using ok r K by (auto simp: ratings_ok_def intro: strip_rating_id)
    then show ?thesis by (simp add: \<rho>_def)
  next
    case False
    show ?thesis
      unfolding \<rho>_def
    proof (subst restores_iff[OF apart likers])
      show "r_Type (strip_rating K r) \<noteq> RATING_ACCOUNT_LIKERS" using False by simp
    next
      have "cleared_from r_Last (\<lambda>l r. r\<lparr>r_Last := l\<rparr>) r (strip_rating K r)"
        by (simp add: cleared_from_def strip_rating_def)
      moreover have "strip_rating K r \<in> set (rated rows')" "r \<in> set (rated rows)"
        using r False unfolding new(2) by auto
      moreover have "rating_versions rows" using ok by (simp add: ratings_ok_def)
      ultimately show "(if \<exists>t1 \<in> set (rated rows'). sql_ge (Some (r_Height t1)) h \<and> r_Last t1 \<and>
          sql_eq (Some (r_Type (strip_rating K r), r_Id (strip_rating K r))) (Some (r_Type t1, r_Id t1)) \<and>
          sql_eq (Some (r_Height (strip_rating K r))) (sql_max (List.map_filter (\<lambda>r. Some (r_Height r))
            (filter (\<lambda>t2. sql_eq (Some (r_Type t2, r_Id t2)) (Some (r_Type t1, r_Id t1)) \<and>
               sql_lt (Some (r_Height t2)) h \<and> \<not> r_Last t2) (rated rows'))))
          then (strip_rating K r)\<lparr>r_Last := True\<rparr> else strip_rating K r) = r"
        using below by (intro restore) auto
    qed
  qed
  have "restore_ratings h rows' = map \<rho> rows'"
    by (simp add: restore_ratings_def update_where_def \<rho>_def restores_def)
  also have "\<dots> = rows @ map \<rho> new"
    using old by (simp add: new(1) map_idI)
  finally have "restore_ratings h rows' = rows @ map \<rho> new" .
  moreover have "r_Height (\<rho> r) = r_Height r" for r by (simp add: \<rho>_def)
  ultimately show ?thesis
    using below new(3) by (simp add: delete_where_def filter_id_conv filter_empty_conv not_le)
qed

section \<open>Every entity of the chain has an identifier\<close>

definition ids_total :: "TxRow list \<Rightarrow> bool" where
  "ids_total txs \<longleftrightarrow> (\<forall>r \<in> set txs. t_Height r \<noteq> None \<longrightarrow> entity_class (t_Type r) \<noteq> None \<longrightarrow> t_Id r \<noteq> None)"

text \<open>The identifier a row gets is that of an earlier row or the next one.\<close>

definition known_or_next :: "int \<Rightarrow> TxRow list \<Rightarrow> bool" where
  "known_or_next i txs \<longleftrightarrow> i = next_id txs \<or> Some i \<in> set (map t_Id txs)"

lemma next_id_cong:
  assumes "map t_Id txs = map t_Id txs'"
  shows "next_id txs = next_id txs'"
proof -
  have ids: "List.map_filter t_Id txs = List.map_filter id (map t_Id txs)" for txs :: "TxRow list"
    by (simp add: List.map_filter_def filter_map comp_def)
  show ?thesis by (simp only: next_id_def ids[of txs] ids[of txs'] assms)
qed

lemma known_or_next_cong:
  assumes "map t_Id txs = map t_Id txs'"
  shows "known_or_next i txs = known_or_next i txs'"
  by (simp only: known_or_next_def next_id_cong[OF assms] assms)

lemma select_first_mem: "select_first P col rows = Some c \<Longrightarrow> Some c \<in> set (map col rows)"
  by (auto simp: select_first_def split: list.splits dest!: filter_eq_ConsD intro!: image_eqI)

lemma known_or_next_query:
  assumes "id_query txInfo = Some sel"
  shows "known_or_next (ifnull (sel txs r) (next_id txs)) txs"
proof (cases "sel txs r")
  case (Some i)
  have "Some i \<in> set (map t_Id txs)"
  proof (cases "sel = comment_id")
    case True
    then have "i \<in> set (List.map_filter t_Id txs)"
      using Some sql_max_SomeD by (fastforce simp: comment_id_def List.map_filter_def)
    then show ?thesis by (force simp: List.map_filter_def)
  next
    case False
    then have "sel = account_id \<or> sel = content_id \<or> sel = blocking_id \<or> sel = subscribe_id"
      using assms by (auto simp: id_query_def split: if_splits)
    with Some show ?thesis
      by (elim disjE) (simp_all only: account_id_def content_id_def blocking_id_def subscribe_id_def select_first_mem)
  qed
  with Some show ?thesis by (simp add: known_or_next_def)
qed (simp add: known_or_next_def)

lemma index_tx_take_over:
  assumes dist: "distinct_on t_Hash (Transactions db)"
  shows "\<exists>f k. Transactions (index_tx blockHash h txInfo db) = take_over (ti_Hash txInfo) f k (Transactions db) \<and>
    (\<forall>r. t_Type (f r) = t_Type r \<and> (id_query txInfo \<noteq> None \<longrightarrow> t_Id (f r) \<noteq> None)) \<and>
    (\<forall>r. t_Id (f r) = t_Id r \<or> (\<exists>i. t_Id (f r) = Some i \<and> known_or_next i (Transactions db)))"
proof (cases "ti_Hash txInfo \<in> t_Hash ` set (Transactions db)")
  case False
  let ?f = "\<lambda>r. r\<lparr>t_Id := Some (next_id (Transactions db))\<rparr>"
  have "Transactions (index_tx blockHash h txInfo db) = take_over (ti_Hash txInfo) ?f None (Transactions db)"
    using index_tx_absent[OF False] take_over_absent[OF False] by simp
  then show ?thesis by (intro exI[of _ ?f] exI[of _ None]) (simp add: known_or_next_def)
next
  case True
  let ?x = "ti_Hash txInfo" and ?g = "set_height blockHash h txInfo"
  obtain rx where rx: "rx \<in> set (Transactions db)" "t_Hash rx = ?x" using True by auto
  show ?thesis
  proof (cases "id_query txInfo")
    case (Some sel)
    define txs1 where "txs1 = update_where (\<lambda>r. t_Hash r = ?x) ?g (Transactions db)"
    define k where "k = Some (ifnull (sel txs1 (?g rx)) (next_id txs1))"
    let ?f = "\<lambda>r. (?g r)\<lparr>t_Id := k, t_Last := True\<rparr>"
    have "Transactions (index_tx blockHash h txInfo db) = take_over ?x ?f k (Transactions db)"
      unfolding index_tx_transactions Let_def Some option.case txs1_def[symmetric]
      by (rule set_id_take_over[where g = ?g and sel = sel, OF dist rx _ _ _ txs1_def k_def]) simp_all
    moreover have "map t_Id txs1 = map t_Id (Transactions db)"
      unfolding txs1_def by (rule map_update_where) simp
    then have "known_or_next (the k) (Transactions db)"
      using known_or_next_query[OF Some, of txs1 "?g rx"] known_or_next_cong[of txs1 "Transactions db"] by (simp add: k_def)
    ultimately show ?thesis by (intro exI[of _ ?f] exI[of _ k]) (simp add: k_def)
  next
    case None
    let ?f = "\<lambda>r. if IsBoostContent txInfo \<and> type_in r [208]
      then (?g r)\<lparr>t_Int1 := boost_fee (TxOutputs (index_tx blockHash h txInfo db)) (t_Hash r)\<rparr> else ?g r"
    have "Transactions (index_tx blockHash h txInfo db) = take_over ?x ?f None (Transactions db)"
      unfolding index_tx_transactions Let_def None option.case take_over_def update_where_def
      by (simp add: type_in_def if_distrib cong: if_cong)
    then show ?thesis using None by (intro exI[of _ ?f] exI[of _ None]) simp
  qed
qed

lemma index_tx_ids_total:
  assumes dist: "distinct_on t_Hash (Transactions db)" and total: "ids_total (Transactions db)"
    and info: "txInfo \<in> set txInfos" and block: "block_entities txInfos (Transactions db)"
  shows "ids_total (Transactions (index_tx blockHash h txInfo db))"
proof -
  obtain f k where f: "Transactions (index_tx blockHash h txInfo db) = take_over (ti_Hash txInfo) f k (Transactions db)"
    "\<forall>r. t_Type (f r) = t_Type r \<and> (id_query txInfo \<noteq> None \<longrightarrow> t_Id (f r) \<noteq> None)"
    using index_tx_take_over[OF dist, of blockHash h txInfo] by (elim exE conjE)
  show ?thesis
    unfolding ids_total_def f(1)
  proof (intro ballI impI)
    fix r assume r: "r \<in> set (take_over (ti_Hash txInfo) f k (Transactions db))" "t_Height r \<noteq> None" "entity_class (t_Type r) \<noteq> None"
    from r(1) show "t_Id r \<noteq> None"
    proof (cases rule: take_over_cases)
      case (1 r0)
      then have "t_Type r = ti_Type txInfo" using block_entitiesD(1)[OF block info 1(1,2)] f(2) by simp
      then have "id_query txInfo \<noteq> None" using r(3) by (auto simp: id_query_class split: EntityClass.split)
      with 1(3) f(2) show ?thesis by simp
    next
      case (2 r0)
      with total r(2,3) show ?thesis by (simp add: ids_total_def)
    next
      case 3
      with total r(2,3) show ?thesis by (simp add: ids_total_def)
    qed
  qed
qed

lemma block_ids_total:
  assumes ready: "index_ready h txInfos db" and total: "ids_total (Transactions db)"
    and block: "block_entities txInfos (Transactions db)"
  shows "ids_total (Transactions (fold (index_tx blockHash h) txInfos db))"
proof (rule block_invariant[where P = ids_total, OF ready total])
  fix db1 :: Database and seen txInfo
  assume a: "indexing h seen (Transactions db) (Transactions db1)" "txInfo \<in> set txInfos" "ids_total (Transactions db1)"
  have "distinct_on t_Hash (Transactions db1)"
    using ready indexing_hashes[OF a(1)] by (simp add: index_ready_def db_keys_def distinct_on_def)
  then show "ids_total (Transactions (index_tx blockHash h txInfo db1))"
    by (rule index_tx_ids_total[OF _ a(3,2) indexing_block_entities[OF a(1) block]])
qed

section \<open>Identifiers are dense\<close>

text \<open>There are no more identifiers than rows that have one, so they fit in an \<open>int\<close> as long as the
  table has at most \<open>2 ^ 31\<close> rows.\<close>

definition id_count :: "TxRow list \<Rightarrow> int" where
  "id_count txs = count_where (\<lambda>i. i \<noteq> None) (map t_Id txs)"

definition ids_dense :: "TxRow list \<Rightarrow> bool" where
  "ids_dense txs \<longleftrightarrow> (\<forall>i. Some i \<in> set (map t_Id txs) \<longrightarrow> 0 \<le> i \<and> i < id_count txs)"

lemma known_or_next_dense:
  assumes dense: "ids_dense txs" and i: "known_or_next i txs"
  shows "0 \<le> i \<and> i \<le> id_count txs"
proof (cases "Some i \<in> set (map t_Id txs)")
  case False
  then have i: "i = next_id txs" using i by (simp add: known_or_next_def)
  show ?thesis
  proof (cases "sql_max (List.map_filter t_Id txs)")
    case None
    then show ?thesis by (simp add: i next_id_def id_count_def sql_max_def)
  next
    case (Some m)
    then have "m \<in> set (List.map_filter t_Id txs)" using sql_max_SomeD by blast
    then have "Some m \<in> set (map t_Id txs)" by (force simp: List.map_filter_def)
    then have "0 \<le> m \<and> m < id_count txs" using dense unfolding ids_dense_def by blast
    with Some show ?thesis by (simp add: i next_id_def)
  qed
qed (use dense in \<open>auto simp: ids_dense_def\<close>)

lemma map_Id_take_over:
  "map t_Id (take_over x f k txs) = map (\<lambda>r. if t_Hash r = x then t_Id (f r) else t_Id r) txs"
  by (auto simp: take_over_def)

lemma take_over_dense:
  assumes dense: "ids_dense txs" and dist: "distinct_on t_Hash txs"
    and pending: "\<forall>r \<in> set txs. t_Hash r = x \<longrightarrow> t_Id r = None"
    and f: "\<And>r. t_Id (f r) = t_Id r \<or> (\<exists>i. t_Id (f r) = Some i \<and> known_or_next i txs)"
  shows "ids_dense (take_over x f k txs)"
proof (cases "x \<in> t_Hash ` set txs")
  case False
  then have "map t_Id (take_over x f k txs) = map t_Id txs" unfolding map_Id_take_over by (auto intro: map_cong)
  with dense show ?thesis by (simp add: ids_dense_def id_count_def del: set_map)
next
  case True
  then obtain rx where rx: "rx \<in> set txs" "t_Hash rx = x" by auto
  then obtain as bs where txs: "txs = as @ rx # bs" using split_list by metis
  have "t_Hash rx \<notin> t_Hash ` (set as \<union> set bs)"
    using dist unfolding txs distinct_on_def by (simp add: image_Un)
  then have others: "t_Hash r \<noteq> x" if "r \<in> set as \<union> set bs" for r
    using that rx(2) by (metis imageI)
  then have "map (\<lambda>r. if t_Hash r = x then t_Id (f r) else t_Id r) as = map t_Id as"
    "map (\<lambda>r. if t_Hash r = x then t_Id (f r) else t_Id r) bs = map t_Id bs" by auto
  then have ids: "map t_Id (take_over x f k txs) = map t_Id as @ t_Id (f rx) # map t_Id bs"
    unfolding map_Id_take_over txs using rx(2) by simp
  have old: "map t_Id txs = map t_Id as @ None # map t_Id bs" using pending rx by (simp add: txs)
  show ?thesis
  proof (cases "t_Id (f rx)")
    case None
    with ids old have "map t_Id (take_over x f k txs) = map t_Id txs" by simp
    with dense show ?thesis by (simp add: ids_dense_def id_count_def del: set_map)
  next
    case (Some i)
    with f[of rx] pending rx have "known_or_next i txs" by auto
    then have i: "0 \<le> i \<and> i \<le> id_count txs" by (rule known_or_next_dense[OF dense])
    have count: "id_count (take_over x f k txs) = id_count txs + 1"
      unfolding id_count_def ids old by (simp add: Some count_where_append)
    show ?thesis
      unfolding ids_dense_def count
    proof (intro allI impI)
      fix j assume "Some j \<in> set (map t_Id (take_over x f k txs))"
      then have "j = i \<or> Some j \<in> set (map t_Id txs)" unfolding ids old by (auto simp: Some)
      with i dense show "0 \<le> j \<and> j < id_count txs + 1" unfolding ids_dense_def by fastforce
    qed
  qed
qed

lemma block_ids_dense:
  assumes ready: "index_ready h txInfos db" and dense: "ids_dense (Transactions db)"
  shows "ids_dense (Transactions (fold (index_tx blockHash h) txInfos db))"
proof (rule block_invariant[where P = ids_dense, OF ready dense])
  fix db1 :: Database and seen and txInfo :: TransactionIndexingInfo
  assume a: "indexing h seen (Transactions db) (Transactions db1)" "ti_Hash txInfo \<notin> seen"
    "\<forall>r0 \<in> set (Transactions db). t_Hash r0 = ti_Hash txInfo \<longrightarrow> unindexed r0" "ids_dense (Transactions db1)"
  have dist: "distinct_on t_Hash (Transactions db1)"
    using ready indexing_hashes[OF a(1)] by (simp add: index_ready_def db_keys_def distinct_on_def)
  obtain f k where f: "Transactions (index_tx blockHash h txInfo db1) = take_over (ti_Hash txInfo) f k (Transactions db1)"
    "\<forall>r. t_Id (f r) = t_Id r \<or> (\<exists>i. t_Id (f r) = Some i \<and> known_or_next i (Transactions db1))"
    using index_tx_take_over[OF dist, of blockHash h txInfo] by (elim exE conjE)
  have "\<forall>r \<in> set (Transactions db1). t_Hash r = ti_Hash txInfo \<longrightarrow> t_Id r = None"
    using indexing_pending[OF a(1) _ _ a(2,3)] unindexed_simps by blast
  then show "ids_dense (Transactions (index_tx blockHash h txInfo db1))"
    unfolding f(1) by (rule take_over_dense[OF a(4) dist]) (use f(2) in blast)
qed

lemma id_count_length: "id_count txs \<le> int (length txs)"
  using length_filter_le[of "\<lambda>i. i \<noteq> None" "map t_Id txs"] by (simp add: id_count_def count_where_def del: length_filter_le)

text \<open>Such identifiers survive being read as an \<open>int\<close>.\<close>

lemma dense_int32:
  assumes "ids_dense txs" "int (length txs) \<le> 2 ^ 31" "r \<in> set txs" "t_Id r = Some i"
  shows "int32 i = i"
proof -
  have "Some i \<in> set (map t_Id txs)" using assms(3,4) by force
  then have "0 \<le> i" "i < id_count txs" using assms(1) unfolding ids_dense_def by blast+
  with id_count_length[of txs] assms(2) show ?thesis by (intro int32_id) linarith+
qed

section \<open>Ratings belong to entities\<close>

definition kind_class :: "RatingType \<Rightarrow> EntityClass option" where
  "kind_class t = (case t of RATING_ACCOUNT \<Rightarrow> Some CAccount | RATING_CONTENT \<Rightarrow> Some CContent
     | RATING_COMMENT \<Rightarrow> Some CComment | RATING_ACCOUNT_LIKERS \<Rightarrow> None)"

definition rated_entities :: "TxRow list \<Rightarrow> RatingRow list \<Rightarrow> bool" where
  "rated_entities txs rows \<longleftrightarrow>
     (\<forall>r \<in> set (rated rows). \<exists>x \<in> set txs. t_Id x = Some (r_Id r) \<and> entity_class (t_Type x) = kind_class (r_Type r))"

lemma entity_same_class: "entity x = entity y \<Longrightarrow> entity x \<noteq> None \<Longrightarrow> entity_class (t_Type x) = entity_class (t_Type y)"
  by (auto simp: entity_def pair_of_def split: option.splits EntityClass.splits)

lemma kind_class_inj: "kind_class t = kind_class t' \<Longrightarrow> t = t'"
  by (cases t; cases t') (simp_all add: kind_class_def)

lemma rated_entities_apart:
  assumes ok: "ids_ok (set txs)" and rated: "rated_entities txs rows"
  shows "types_apart rows"
  unfolding types_apart_def
proof (intro ballI impI)
  fix r s assume rs: "r \<in> set (rated rows)" "s \<in> set (rated rows)" "r_Id r = r_Id s"
  obtain x where x: "x \<in> set txs" "t_Id x = Some (r_Id r)" "entity_class (t_Type x) = kind_class (r_Type r)"
    using rated rs(1) unfolding rated_entities_def by blast
  obtain y where y: "y \<in> set txs" "t_Id y = Some (r_Id s)" "entity_class (t_Type y) = kind_class (r_Type s)"
    using rated rs(2) unfolding rated_entities_def by blast
  have "entity x = entity y" using ids_okD(5)[OF ok x(1) y(1)] x(2) y(2) rs(3) by simp
  moreover have "entity x \<noteq> None" using ids_okD(4)[OF ok x(1)] x(2) by simp
  ultimately show "r_Type r = r_Type s"
    using entity_same_class[of x y] x(3) y(3) kind_class_inj by simp
qed

text \<open>What a validated score is about: a content score a post, video, article or their deletion, a
  comment score a comment.\<close>

definition scores_fit :: "ScoreDataDto list \<Rightarrow> bool" where
  "scores_fit ss \<longleftrightarrow> (\<forall>s \<in> set ss.
     (ScoreType s = ACTION_SCORE_CONTENT \<longrightarrow> entity_class (ContentType s) = Some CContent) \<and>
     (ScoreType s = ACTION_SCORE_COMMENT \<longrightarrow> entity_class (ContentType s) = Some CComment))"

lemma counted_scores_mem:
  "counted_scores net h v db txs = Some ss \<Longrightarrow> s \<in> set ss \<Longrightarrow> \<exists>x. GetScoreData x db = Some s"
  by (induction txs arbitrary: ss) (auto split: if_splits Option.bind_splits)

lemma account_type_class: "type_in x [100, 101, 102] \<Longrightarrow> entity_class (t_Type x) = Some CAccount"
  by (cases "t_Type x") (simp_all add: type_in_def entity_class_def)

lemma content_type_class: "type_in x [200, 201, 202, 203, 204, 205, 206, 207] \<Longrightarrow> entity_class (t_Type x) \<noteq> None"
  by (cases "t_Type x") (simp_all add: type_in_def entity_class_def)

lemma GetScoreData_rows:
  assumes "GetScoreData x db = Some s"
  obtains c ca where "c \<in> set (Transactions db)" "type_in c [200, 201, 202, 203, 204, 205, 206, 207]" "t_Height c \<noteq> None"
    "ContentType s = t_Type c" "ContentId s = ifnull (TryGetColumnInt (t_Id c)) 0"
    "ca \<in> set (Transactions db)" "type_in ca [100, 101, 102]" "t_Last ca" "ContentAddressId s = ifnull (TryGetColumnInt (t_Id ca)) 0"
proof -
  obtain row rest where row: "score_rows x (Transactions db) = row # rest" "s = score_data row"
    using assms by (auto simp: GetScoreData_def split: list.splits)
  obtain sc sa c ca where q: "row = (sc, sa, c, ca)" by (cases row)
  have "(sc, sa, c, ca) \<in> set (score_rows x (Transactions db))" unfolding row(1) q by simp
  then have "c \<in> set (Transactions db)" "type_in c [200, 201, 202, 203, 204, 205, 206, 207]" "height_positive c"
    "ca \<in> set (Transactions db)" "type_in ca [100, 101, 102]" "t_Last ca"
    unfolding score_rows_def by auto
  then show ?thesis
    using row(2) q by (intro that[of c ca]) (auto simp: score_data_def height_positive_def split: option.splits)
qed

lemma score_entities:
  assumes ok: "ids_ok (set (Transactions db))" and total: "ids_total (Transactions db)"
    and dense: "ids_dense (Transactions db)" "int (length (Transactions db)) \<le> 2 ^ 31"
    and s: "GetScoreData x db = Some s" and fit: "scores_fit [s]" and effect: "score_effect t i s \<noteq> 0"
  shows "\<exists>x \<in> set (Transactions db). t_Id x = Some i \<and> entity_class (t_Type x) = kind_class t"
proof -
  obtain c ca where c: "c \<in> set (Transactions db)" "type_in c [200, 201, 202, 203, 204, 205, 206, 207]" "t_Height c \<noteq> None"
      "ContentType s = t_Type c" "ContentId s = ifnull (TryGetColumnInt (t_Id c)) 0"
    and ca: "ca \<in> set (Transactions db)" "type_in ca [100, 101, 102]" "t_Last ca" "ContentAddressId s = ifnull (TryGetColumnInt (t_Id ca)) 0"
    by (rule GetScoreData_rows[OF s])
  have "t_Id ca \<noteq> None" by (rule ids_okD(3)[OF ok ca(1,3)])
  then have account: "t_Id ca = Some (ContentAddressId s)" "entity_class (t_Type ca) = Some CAccount"
    using ca(4) account_type_class[OF ca(2)] dense_int32[OF dense ca(1)] by auto
  have "t_Id c \<noteq> None" using total c(1,3) content_type_class[OF c(2)] by (simp add: ids_total_def)
  then have content: "t_Id c = Some (ContentId s)" using c(5) dense_int32[OF dense c(1)] by auto
  have "(t = RATING_ACCOUNT \<and> i = ContentAddressId s) \<or>
      (i = ContentId s \<and> entity_class (ContentType s) = kind_class t)"
    using effect fit by (auto simp: score_effect_def scores_fit_def kind_class_def split: if_splits)
  then show ?thesis
    using account content ca(1) c(1,4) by (auto simp: kind_class_def)
qed

section \<open>Consistent databases\<close>

definition outputs_below :: "int \<Rightarrow> OutRow list \<Rightarrow> bool" where
  "outputs_below h outs \<longleftrightarrow> (\<forall>o' \<in> set outs.
     (\<forall>a. o_TxHeight o' = Some a \<longrightarrow> a < h) \<and> (\<forall>a. o_SpentHeight o' = Some a \<longrightarrow> a < h))"

text \<open>The database of a node whose next block has height \<open>h\<close>.\<close>

definition chain_ok :: "int \<Rightarrow> Database \<Rightarrow> bool" where
  "chain_ok h db \<longleftrightarrow> db_keys db \<and>
     heights_below h (Transactions db) \<and> outputs_below h (TxOutputs db) \<and>
     (\<forall>r \<in> set (Ratings db). r_Height r < h) \<and> (\<forall>b \<in> set (Balances db). b_Height b < h) \<and>
     ids_ok (set (Transactions db)) \<and> ids_total (Transactions db) \<and>
     ids_dense (Transactions db) \<and> int (length (Transactions db)) \<le> 2 ^ 31 \<and>
     balance_versions (Balances db) \<and> spent_created (TxOutputs db) \<and>
     (\<forall>a. GetUserBalance a db = unspent_sum (TxOutputs db) a) \<and>
     ratings_ok (Ratings db) \<and> rated_entities (Transactions db) (Ratings db) \<and> likers_distinct (Ratings db)"

text \<open>What the validation of a block ensures of its transactions: they are pending, each for a
  different entity, and spend unspent outputs of the chain or the block.\<close>

definition block_ok :: "TransactionIndexingInfo list \<Rightarrow> Database \<Rightarrow> bool" where
  "block_ok txInfos db \<longleftrightarrow> block_pending txInfos (Transactions db) \<and> block_entities txInfos (Transactions db) \<and>
     inputs_known txInfos (TxOutputs db) \<and>
     (\<forall>o' \<in> set (TxOutputs db).
        (o_TxHash o' \<in> ti_Hash ` set txInfos \<longrightarrow> o_TxHeight o' = None) \<and>
        (\<forall>txInfo \<in> set txInfos. (o_TxHash o', o_Number o') \<in> set (ti_Inputs txInfo) \<longrightarrow>
           o_SpentHeight o' = None \<and> o_SpentTxHash o' = None))"

lemma chain_ok_ready: "chain_ok h db \<Longrightarrow> block_ok txInfos db \<Longrightarrow> index_ready h txInfos db"
  by (auto simp: chain_ok_def block_ok_def index_ready_def outputs_pending_def outputs_below_def ids_ok_def)

lemma indexing_below: "indexing h seen txs0 txs \<Longrightarrow> heights_below (h + 1) txs"
  unfolding heights_below_def
proof (intro ballI allI impI)
  fix r a assume ix: "indexing h seen txs0 txs" and r: "r \<in> set txs" "t_Height r = Some a"
  have rows: "list_all2 (indexed_row h seen) txs0 txs" and below: "\<forall>r0 \<in> set txs0. \<forall>a. t_Height r0 = Some a \<longrightarrow> a < h"
    using ix by (simp_all add: indexing_def)
  from old_or_new[OF rows r(1)] show "a < h + 1"
  proof
    assume "\<exists>r0 \<in> set txs0. tx_cleared r0 r"
    then obtain r0 where r0: "r0 \<in> set txs0" "tx_cleared r0 r" by blast
    then have "t_Height r0 = Some a" using r(2) tx_rows.cleared_same[OF r0(2)] by simp
    with below r0(1) have "a < h" by blast
    then show ?thesis by simp
  qed (use r(2) in simp)
qed

lemma indexing_entities:
  assumes ix: "indexing h seen txs0 txs" and rated: "rated_entities txs0 rows"
  shows "rated_entities txs rows"
  unfolding rated_entities_def
proof
  fix r assume "r \<in> set (rated rows)"
  then obtain x where x: "x \<in> set txs0" "t_Id x = Some (r_Id r)" "entity_class (t_Type x) = kind_class (r_Type r)"
    using rated unfolding rated_entities_def by blast
  have "tx_advanced h (set txs0) (set txs)" using ix by (simp add: indexing_def)
  then obtain y where y: "y \<in> set txs" "tx_cleared x y"
    using x(1,2) unfolding advanced_def by blast
  then have "t_Type y = t_Type x" by (auto elim: tx_cleared_cases)
  with y x tx_rows.cleared_same[OF y(2)]
  show "\<exists>x \<in> set txs. t_Id x = Some (r_Id r) \<and> entity_class (t_Type x) = kind_class (r_Type r)"
    by (intro bexI[of _ y]) simp_all
qed

lemma block_outputs:
  assumes block: "list_all2 (block_out h txInfos) outs0 outs" and below: "outputs_below h outs0"
  shows "outputs_below (h + 1) outs"
    and "distinct_on (\<lambda>o'. (o_TxHash o', o_Number o', o_AddressHash o')) outs0 \<Longrightarrow>
      distinct_on (\<lambda>o'. (o_TxHash o', o_Number o', o_AddressHash o')) outs"
proof -
  have "map (\<lambda>o'. (o_TxHash o', o_Number o', o_AddressHash o')) outs =
      map (\<lambda>o'. (o_TxHash o', o_Number o', o_AddressHash o')) outs0"
    using block by (induction rule: list_all2_induct) (auto simp: block_out_def)
  then show "distinct_on (\<lambda>o'. (o_TxHash o', o_Number o', o_AddressHash o')) outs0 \<Longrightarrow>
      distinct_on (\<lambda>o'. (o_TxHash o', o_Number o', o_AddressHash o')) outs"
    by (simp add: distinct_on_def)
  show "outputs_below (h + 1) outs"
    unfolding outputs_below_def
  proof
    fix o' assume "o' \<in> set outs"
    then obtain o0 where o0: "o0 \<in> set outs0" "block_out h txInfos o0 o'"
      using list_all2_set2[OF block] by blast
    have "(\<forall>a. o_TxHeight o0 = Some a \<longrightarrow> a < h) \<and> (\<forall>a. o_SpentHeight o0 = Some a \<longrightarrow> a < h)"
      using below o0(1) unfolding outputs_below_def by blast
    then show "(\<forall>a. o_TxHeight o' = Some a \<longrightarrow> a < h + 1) \<and> (\<forall>a. o_SpentHeight o' = Some a \<longrightarrow> a < h + 1)"
      using o0(2) by (force simp: block_out_def)
  qed
qed

lemma block_balances:
  assumes keys: "distinct_on balance_key (Balances db)" and below: "\<forall>b \<in> set (Balances db). b_Height b < h"
    and ok: "balance_versions (Balances db)" and db': "IndexBalances h db = Some db'"
  shows "distinct_on balance_key (Balances db')" "\<forall>b \<in> set (Balances db'). b_Height b < h + 1"
    "balance_versions (Balances db')"
proof -
  define new where "new = map (new_balance h (saldo h (TxOutputs db)) (Balances db)) (remdups (map fst (saldo h (TxOutputs db))))"
  have bs: "Balances db' = map (strip_old new) (Balances db) @ new"
    using IndexBalances_eq[OF keys below new_def] db' by simp
  have new: "\<forall>b \<in> set new. b_Height b = h \<and> b_Last b"
    by (auto simp: new_def new_balance_def Let_def)
  show "\<forall>b \<in> set (Balances db'). b_Height b < h + 1"
    using below new by (auto simp: bs)
  have addresses: "map b_AddressHash new = remdups (map fst (saldo h (TxOutputs db)))"
    by (simp add: new_def new_balance_def Let_def comp_def)
  then have "distinct_on b_AddressHash new" by (simp add: distinct_on_def)
  then have single: "\<forall>n \<in> set new. \<forall>m \<in> set new. Some (b_AddressHash n) = Some (b_AddressHash m) \<longrightarrow> n = m"
    by (auto dest: distinct_on_inj)
  show "balance_versions (Balances db')"
    unfolding bs by (rule balance_rows.versions_append[OF ok _ _ single strip_old_eq]) (use below new in auto)
  obtain new' where "distinct_on balance_key (Balances db @ new')" "Balances db' = clear_old_balances h (Balances db @ new')"
    using db' by (rule IndexBalances_SomeE)
  then show "distinct_on balance_key (Balances db')"
    by (simp add: clear_old_balances_def distinct_on_update_where)
qed

lemma block_ratings_ok:
  assumes ok: "ratings_ok rows" and below: "\<forall>r \<in> set rows. r_Height r < h"
    and block: "rated_block h K rows rows'" and K: "\<forall>i. (RATING_ACCOUNT_LIKERS, i) \<notin> K"
    and apart: "types_apart rows'"
  shows "ratings_ok rows'" "\<forall>r \<in> set rows'. r_Height r < h + 1"
proof -
  obtain new where new: "rows' = map (strip_rating K) rows @ new" "rated rows' = map (strip_rating K) (rated rows) @ rated new"
    "\<forall>n \<in> set new. r_Height n = h \<and> r_Last n"
    and strip: "\<forall>r. strip_rating K r = (if r_Last r \<and> (\<exists>n \<in> set (rated new). sql_eq (Some (r_Type n, r_Id n)) (Some (r_Type r, r_Id r)))
       then r\<lparr>r_Last := False\<rparr> else r)"
    and dist: "distinct_on (\<lambda>n. (r_Type n, r_Id n)) (rated new)"
    by (rule rated_block_rated[OF block K])
  show "\<forall>r \<in> set rows'. r_Height r < h + 1" using below new(1,3) by auto
  have single: "\<forall>n \<in> set (rated new). \<forall>m \<in> set (rated new). Some (r_Type n, r_Id n) = Some (r_Type m, r_Id m) \<longrightarrow> n = m"
    using distinct_on_inj[OF dist] by blast
  have "rating_versions rows'"
    unfolding new(2)
    by (rule rating_rows.versions_append[OF _ _ _ single strip[rule_format]]) (use ok below new(3) in \<open>auto simp: ratings_ok_def\<close>)
  moreover have "\<forall>r \<in> set rows'. r_Type r = RATING_ACCOUNT_LIKERS \<longrightarrow> r_Last r"
    using ok new(1,3) K by (auto simp: ratings_ok_def)
  ultimately show "ratings_ok rows'" using apart by (simp add: ratings_ok_def)
qed

lemma block_rated_entities:
  assumes old: "rated_entities txs rows" and block: "rated_block h K rows rows'"
    and K: "\<forall>i. (RATING_ACCOUNT_LIKERS, i) \<notin> K"
    and new: "\<forall>(t, i) \<in> K. \<exists>x \<in> set txs. t_Id x = Some i \<and> entity_class (t_Type x) = kind_class t"
  shows "rated_entities txs rows'"
proof -
  obtain new where rows': "rated rows' = map (strip_rating K) (rated rows) @ rated new"
    and keys: "\<forall>n \<in> set (rated new). (r_Type n, r_Id n) \<in> K"
    by (rule rated_block_rated[OF block K])
  show ?thesis
    unfolding rated_entities_def rows'
  proof
    fix r assume "r \<in> set (map (strip_rating K) (rated rows) @ rated new)"
    then consider r0 where "r0 \<in> set (rated rows)" "r = strip_rating K r0" | "r \<in> set (rated new)" by auto
    then show "\<exists>x \<in> set txs. t_Id x = Some (r_Id r) \<and> entity_class (t_Type x) = kind_class (r_Type r)"
    proof cases
      case 1
      with old show ?thesis unfolding rated_entities_def by simp
    next
      case 2
      with keys have "(r_Type r, r_Id r) \<in> K" by blast
      with new show ?thesis by blast
    qed
  qed
qed

section \<open>Connecting a block\<close>

text \<open>The database between the two parts of \<open>Index\<close>.\<close>

lemma IndexBlock_chain:
  assumes ok: "chain_ok h db" and block: "block_ok txInfos db"
  shows "\<exists>db1. IndexBlock blockHash h txInfos db = Some db1 \<and> indexing h (ti_Hash ` set txInfos) (Transactions db) (Transactions db1) \<and>
    ids_ok (set (Transactions db1)) \<and> ids_total (Transactions db1) \<and> ids_dense (Transactions db1) \<and> list_all2 (block_out h txInfos) (TxOutputs db) (TxOutputs db1) \<and>
    (\<forall>a. GetUserBalance a db1 = unspent_sum (TxOutputs db1) a) \<and> distinct_on balance_key (Balances db1) \<and>
    (\<forall>b \<in> set (Balances db1). b_Height b < h + 1) \<and> balance_versions (Balances db1) \<and>
    Ratings db1 = Ratings db \<and> PayloadTable db1 = PayloadTable db"
proof -
  let ?db1 = "fold (index_tx blockHash h) txInfos db"
  have ready: "index_ready h txInfos db" by (rule chain_ok_ready[OF ok block])
  have entities: "block_entities txInfos (Transactions db)" using block by (simp add: block_ok_def)
  have bal: "distinct_on balance_key (Balances ?db1)" "\<forall>b \<in> set (Balances ?db1). b_Height b < h" "balance_versions (Balances ?db1)"
    using ok by (simp_all add: chain_ok_def db_keys_def)
  obtain db1 where db1: "IndexBalances h ?db1 = Some db1" using IndexBalances_defined[OF bal(1,2)] by blast
  then have tables: "Transactions db1 = Transactions ?db1" "PayloadTable db1 = PayloadTable db" "TxOutputs db1 = TxOutputs ?db1" "Ratings db1 = Ratings db"
    by (rule IndexBalances_SomeE, simp)+
  have some: "IndexBlock blockHash h txInfos db = Some db1" using db1 by (simp add: IndexBlock_def)
  have start: "distinct_on t_Hash (Transactions db)" "heights_below h (Transactions db)" "block_pending txInfos (Transactions db)"
    using ready by (auto simp: index_ready_def db_keys_def)
  have "indexing h (ti_Hash ` set txInfos) (Transactions db) (Transactions db1)"
    using fold_index_tx_indexing[OF indexing_start[OF start(1,2)] start(1,3)] by (simp add: tables)
  moreover have "ids_ok (set (Transactions db1))"
    using block_ids_ok[OF ready _ entities] ok by (simp add: chain_ok_def tables)
  moreover have "\<forall>a. GetUserBalance a db1 = unspent_sum (TxOutputs db1) a"
    using block_unspent[OF ready _ _ _ db1] ok block by (simp add: chain_ok_def block_ok_def)
  moreover have "ids_total (Transactions db1)"
    using block_ids_total[OF ready _ entities] ok by (simp add: chain_ok_def tables)
  moreover have "ids_dense (Transactions db1)"
    using block_ids_dense[OF ready] ok by (simp add: chain_ok_def tables)
  ultimately show ?thesis
    using some tables block_balances[OF bal db1] fold_index_tx_block_out[of h txInfos db blockHash] by simp
qed

text \<open>The ratings part, on the database the first part leaves.\<close>

lemma IndexRatings_chain:
  assumes ratings: "ratings_ok (Ratings db)" "\<forall>r \<in> set (Ratings db). r_Height r < h" "likers_distinct (Ratings db)"
      "distinct_on rating_key (Ratings db)"
    and ids: "ids_ok (set (Transactions db))" "ids_total (Transactions db)" "rated_entities (Transactions db) (Ratings db)"
      "ids_dense (Transactions db)" "int (length (Transactions db)) \<le> 2 ^ 31"
    and v: "Instance ReputationConsensusFactory_m_rules net h = Some v"
    and ss: "counted_scores net h v db txs = Some ss" "scores_fit ss"
  shows "\<exists>rows'. IndexRatings net h txs db = Some (db\<lparr>Ratings := rows'\<rparr>) \<and>
    ratings_ok rows' \<and> (\<forall>r \<in> set rows'. r_Height r < h + 1) \<and> likers_distinct rows' \<and> distinct_on rating_key rows' \<and>
    rated_entities (Transactions db) rows' \<and>
    delete_where (\<lambda>r. r_Height r \<ge> h) (restore_ratings h rows') = Ratings db"
proof -
  obtain ratings rows' where rows': "IndexRatings net h txs db = Some (db\<lparr>Ratings := rows'\<rparr>)"
    "ratings_added h ratings (Ratings db) rows'"
    "\<forall>(t, i) \<in> rated_keys ratings. \<exists>s \<in> set ss. score_effect t i s \<noteq> 0"
    using IndexRatings_spec[OF v ss(1) ratings(2)] by blast
  let ?K = "rated_keys ratings"
  have K: "\<forall>i. (RATING_ACCOUNT_LIKERS, i) \<notin> ?K" by (auto simp: rated_keys_def record_key_def)
  have block: "rated_block h ?K (Ratings db) rows'" using rows'(2) by (simp add: ratings_added_def)
  have "\<exists>x \<in> set (Transactions db). t_Id x = Some i \<and> entity_class (t_Type x) = kind_class t" if k: "(t, i) \<in> ?K" for t i
  proof -
    obtain s where s: "s \<in> set ss" "score_effect t i s \<noteq> 0" using rows'(3) k by auto
    obtain x where "GetScoreData x db = Some s" using counted_scores_mem[OF ss(1) s(1)] by blast
    then show ?thesis
      by (rule score_entities[OF ids(1,2,4,5) _ _ s(2)]) (use ss(2) s(1) in \<open>simp add: scores_fit_def\<close>)
  qed
  then have entities: "rated_entities (Transactions db) rows'"
    by (intro block_rated_entities[OF ids(3) block K]) blast
  have apart: "types_apart rows'" by (rule rated_entities_apart[OF ids(1) entities])
  have "likers_distinct rows'" "distinct_on rating_key rows'"
    using rows'(2) ratings(3,4) by (simp_all add: ratings_added_def)
  note parts = this rows'(1) entities block_ratings_ok[OF ratings(1,2) block K apart]
    rollback_ratings[OF ratings(1,2) block K apart]
  show ?thesis by (intro exI[of _ rows'] conjI parts)
qed

text \<open>What the scores of a block need: rules for the height, data and limits for every score, and scores
  of the kind of what they score.\<close>

definition index_scores :: "NetworkId \<Rightarrow> int \<Rightarrow> TransactionIndexingInfo list \<Rightarrow> Database \<Rightarrow> bool" where
  "index_scores net h txInfos db \<longleftrightarrow>
     (\<exists>v ss. Instance ReputationConsensusFactory_m_rules net h = Some v \<and>
        counted_scores net h v db txInfos = Some ss \<and> scores_fit ss)"

text \<open>Everything a block does: the database it leaves and the one its rollback restores.\<close>

lemma Index_chain:
  assumes ok: "chain_ok h db" and infos: "PrepareTransactions split block = Some txInfos" and block: "block_ok txInfos db"
    and scores: "\<And>db1. IndexBlock (GetHex (block_hash block)) h txInfos db = Some db1 \<Longrightarrow> index_scores net h txInfos db1"
  shows "\<exists>db'. Index split net block h db = Some db' \<and> chain_ok (h + 1) db' \<and> same_database db (ChainPostProcessing_Rollback h db')"
proof -
  let ?x = "GetHex (block_hash block)"
  obtain db1 where db1: "IndexBlock ?x h txInfos db = Some db1"
    and ix: "indexing h (ti_Hash ` set txInfos) (Transactions db) (Transactions db1)"
    and ids: "ids_ok (set (Transactions db1))" "ids_total (Transactions db1)" "ids_dense (Transactions db1)"
    and outs: "list_all2 (block_out h txInfos) (TxOutputs db) (TxOutputs db1)"
    and bal: "\<forall>a. GetUserBalance a db1 = unspent_sum (TxOutputs db1) a" "distinct_on balance_key (Balances db1)"
      "\<forall>b \<in> set (Balances db1). b_Height b < h + 1" "balance_versions (Balances db1)"
    and same: "Ratings db1 = Ratings db" "PayloadTable db1 = PayloadTable db"
    using IndexBlock_chain[OF ok block, of ?x] by (elim exE conjE)
  have R: "ratings_ok (Ratings db1)" "\<forall>r \<in> set (Ratings db1). r_Height r < h" "likers_distinct (Ratings db1)"
    "distinct_on rating_key (Ratings db1)" "rated_entities (Transactions db1) (Ratings db1)"
    using ok indexing_entities[OF ix] by (simp_all add: chain_ok_def same db_keys_def rating_key_def[abs_def])
  have size: "int (length (Transactions db1)) \<le> 2 ^ 31"
    using ok arg_cong[OF indexing_hashes[OF ix], of length] by (simp add: chain_ok_def)
  obtain v ss where v: "Instance ReputationConsensusFactory_m_rules net h = Some v"
    "counted_scores net h v db1 txInfos = Some ss" "scores_fit ss"
    using scores[OF db1] unfolding index_scores_def by blast
  obtain rows' where rows': "IndexRatings net h txInfos db1 = Some (db1\<lparr>Ratings := rows'\<rparr>)"
    and rat: "ratings_ok rows'" "\<forall>r \<in> set rows'. r_Height r < h + 1" "likers_distinct rows'" "distinct_on rating_key rows'"
      "rated_entities (Transactions db1) rows'"
    and undone: "delete_where (\<lambda>r. r_Height r \<ge> h) (restore_ratings h rows') = Ratings db1"
    using IndexRatings_chain[OF R(1-4) ids(1,2) R(5) ids(3) size v] by (elim exE conjE)
  let ?db' = "db1\<lparr>Ratings := rows'\<rparr>"
  have "Index split net block h db = Some ?db'"
    by (simp add: Index_def infos IndexChain_def db1 rows')
  moreover have "chain_ok (h + 1) ?db'"
  proof -
    have "distinct_on t_Hash (Transactions db1)"
      using ok indexing_hashes[OF ix] by (simp add: chain_ok_def db_keys_def distinct_on_def)
    moreover have "spent_created (TxOutputs db1)"
      using spent_created_block[OF outs] ok block by (simp add: chain_ok_def block_ok_def)
    moreover have "GetUserBalance a ?db' = GetUserBalance a db1" for a by (simp add: GetUserBalance_def)
    ultimately show ?thesis
      using ok indexing_below[OF ix] block_outputs[OF outs] ids size bal rat same
      by (simp add: chain_ok_def db_keys_def rating_key_def[abs_def])
  qed
  moreover have "same_database db (ChainPostProcessing_Rollback h ?db')"
  proof -
    obtain d where "IndexBlock ?x h txInfos db = Some d" "same_database db (Rollback h d)"
      using Rollback_IndexBlock[OF chain_ok_ready[OF ok block]] by blast
    then show ?thesis
      using undone same db1
      by (simp add: same_database_def ChainPostProcessing_Rollback_def Rollback_def RollbackHeight_def RestoreOldLast_def)
  qed
  ultimately show ?thesis by blast
qed

text \<open>A payment of one address to another in the second block.\<close>

definition pay_row :: "string \<Rightarrow> int option \<Rightarrow> TxRow" where
  "pay_row hash height =
     \<lparr>t_Type = TX_DEFAULT, t_Hash = hash, t_Time = 5, t_BlockHash = map_option (\<lambda>_. ''b1'') height,
      t_BlockNum = map_option (\<lambda>_. 1) height, t_Height = height, t_Last = False, t_Id = None, t_String1 = None,
      t_String2 = None, t_String3 = None, t_String4 = None, t_String5 = None, t_Int1 = None\<rparr>"

definition pay_out :: "string \<Rightarrow> int option \<Rightarrow> string \<Rightarrow> int \<Rightarrow> OutRow" where
  "pay_out hash height address val =
     \<lparr>o_TxHash = hash, o_TxHeight = height, o_Number = 0, o_AddressHash = address, o_Value = val,
      o_ScriptPubKey = [], o_SpentHeight = None, o_SpentTxHash = None\<rparr>"

definition pay_db :: Database where
  "pay_db =
     \<lparr>Transactions = [pay_row ''01'' (Some 1), pay_row ''02'' None], PayloadTable = [],
      TxOutputs = [pay_out ''01'' (Some 1) ''alice'' 9, pay_out ''02'' None ''bob'' 8],
      Ratings = [], Balances = [\<lparr>b_AddressHash = ''alice'', b_Last = True, b_Height = 1, b_Value = 9\<rparr>]\<rparr>"

definition pay_block :: CBlock where
  "pay_block =
     \<lparr>block_hash = [7], vtx = [\<lparr>tx_hash = [2], nTime = 7, vin = [\<lparr>op_hash = [1], op_n = 0\<rparr>],
        vout = [\<lparr>nValue = 8, scriptPubKey = [118]\<rparr>]\<rparr>]\<rparr>"

definition pay_infos :: "TransactionIndexingInfo list" where
  "pay_infos = [\<lparr>ti_Hash = ''02'', ti_BlockNumber = 0, ti_Time = 7, ti_Type = TX_DEFAULT, ti_Inputs = [(''01'', 0)]\<rparr>]"

lemma pay_prepared: "PrepareTransactions (\<lambda>s. []) pay_block = Some pay_infos"
proof -
  have hex: "GetHex [1] = ''01''" "GetHex [2] = ''02''" "ConvertOpReturnToType [] = TX_DEFAULT"
    by code_simp+
  show ?thesis
    by (simp add: PrepareTransactions_def pay_block_def pay_infos_def ParseType_def ParseType_asm_def ParseAsmType_def
        IsCoinBase_def IsCoinStake_def IsNull_def NULL_INDEX_def OP_RETURN_def indexing_info_def to_int32_def hex)
qed

lemma pay_chain_ok: "chain_ok 2 pay_db"
  by (simp add: chain_ok_def pay_db_def pay_row_def pay_out_def db_keys_def distinct_on_def heights_below_def outputs_below_def
      ids_ok_def versions_ok_def ids_total_def entity_class_def spent_created_def GetUserBalance_def unspent_sum_def select_first_def
      ratings_ok_def types_apart_def rated_entities_def likers_distinct_def ids_dense_def)

lemma pay_block_ok: "block_ok pay_infos pay_db"
  by (simp add: block_ok_def pay_db_def pay_infos_def pay_row_def pay_out_def block_pending_def unindexed_def reset_row_def
      block_entities_def entity_class_def entity_def inputs_known_def)

lemma pay_rules: "Instance ReputationConsensusFactory_m_rules NetworkMain 2 = Some Reputation_0"
  by code_simp

lemma pay_scores: "index_scores NetworkMain 2 pay_infos db"
  unfolding index_scores_def
  by (intro exI[of _ Reputation_0] exI[of _ "[]"])
     (simp add: pay_rules pay_infos_def IsActionScore_def scores_fit_def)

text \<open>C1. Connecting a block and disconnecting it again leaves the database as it was: on a consistent
  database of at most \<open>2 ^ 31\<close> transactions, for a block whose transactions are pending, distinct
  entities and spend unspent outputs, and whose scores have their data in the database, are of the
  kind of what they score and have the limits they need (\<open>index_scores\<close>), \<open>Index\<close> succeeds, and
  \<open>Rollback\<close> to its height restores every height, identifier and flag of the transactions, the spent
  marks of the outputs, the ratings, the likers and the balances; only the fee stored with a boost
  stays.\<close>

theorem Rollback_Index:
  assumes "chain_ok h db" "PrepareTransactions split block = Some txInfos" "block_ok txInfos db"
    and "\<And>db1. IndexBlock (GetHex (block_hash block)) h txInfos db = Some db1 \<Longrightarrow> index_scores net h txInfos db1"
  shows "\<exists>db'. Index split net block h db = Some db' \<and> same_database db (ChainPostProcessing_Rollback h db')"
  using Index_chain[OF assms] by blast

lemma Rollback_Index_witness:
  "chain_ok 2 pay_db \<and> block_ok pay_infos pay_db \<and>
   (\<exists>db'. Index (\<lambda>s. []) NetworkMain pay_block 2 pay_db = Some db' \<and> same_database pay_db (ChainPostProcessing_Rollback 2 db'))"
  using Rollback_Index[OF pay_chain_ok pay_prepared pay_block_ok pay_scores] pay_chain_ok pay_block_ok by blast

text \<open>C2. Connecting a block whose scores have their data, fit what they score and have the limits they
  need (\<open>index_scores\<close>) keeps the database consistent: the keys are unique, nothing is above the
  height of the block, identifiers and \<open>Last\<close> flags stay right for all entities, balances and
  ratings, there are no more identifiers than rows with one, the balance of every address is the sum
  of its unspent outputs, every rating belongs to an entity of its kind and no liker is recorded
  twice.\<close>

theorem Index_chain_ok:
  assumes "chain_ok h db" "PrepareTransactions split block = Some txInfos" "block_ok txInfos db"
    and "\<And>db1. IndexBlock (GetHex (block_hash block)) h txInfos db = Some db1 \<Longrightarrow> index_scores net h txInfos db1"
  shows "\<exists>db'. Index split net block h db = Some db' \<and> chain_ok (h + 1) db'"
  using Index_chain[OF assms] by blast

lemma Index_chain_ok_witness:
  "chain_ok 2 pay_db \<and> block_ok pay_infos pay_db \<and>
   (\<exists>db'. Index (\<lambda>s. []) NetworkMain pay_block 2 pay_db = Some db' \<and> chain_ok 3 db')"
  using Index_chain_ok[OF pay_chain_ok pay_prepared pay_block_ok pay_scores] pay_chain_ok pay_block_ok by simp

end
