(* ===== verification/SocialChain.thy ===== *)
theory SocialChain
  imports SocialSafety ChainState
begin

text \<open>
  The social rules read the database the chain index writes. Here the two meet: after a block is
  connected, the versions it brought are the ones the rules see.
\<close>

section \<open>The versions a block brings\<close>

definition brings :: "TransactionIndexingInfo list \<Rightarrow> TxRow list \<Rightarrow> TxRow \<Rightarrow> bool" where
  "brings txInfos txs r \<longleftrightarrow> r \<in> set txs \<and> t_Hash r \<in> ti_Hash ` set txInfos"

lemma entity_class_of: "entity r \<noteq> None \<Longrightarrow> entity_class (t_Type r) \<noteq> None"
  by (auto simp: entity_def split: option.splits)

text \<open>The only last version of its entity.\<close>

definition sole_last :: "TxRow list \<Rightarrow> TxRow \<Rightarrow> bool" where
  "sole_last txs r \<longleftrightarrow> r \<in> set txs \<and> t_Last r \<and> t_Height r \<noteq> None \<and>
     (\<forall>s \<in> set txs. t_Last s \<longrightarrow> entity s = entity r \<longrightarrow> s = r)"

lemma top_is_last:
  assumes ids: "ids_ok (set txs)" "ids_total txs" and below: "heights_below (h + 1) txs"
    and r: "r \<in> set txs" "t_Height r = Some h" "entity r \<noteq> None"
  shows "sole_last txs r"
proof -
  have id: "t_Id r \<noteq> None"
    using ids(2) r entity_class_of[OF r(3)] by (simp add: ids_total_def)
  have versions: "\<exists>a b. t_Height s = Some a \<and> t_Height s' = Some b \<and> b < a"
    if "s \<in> set txs" "s' \<in> set txs" "s \<noteq> s'" "t_Id s = t_Id s'" "t_Last s" for s s'
    using ids(1) that ids_okD(3)[OF ids(1) that(1,5)] unfolding ids_ok_def versions_ok_def
    by (auto simp: sql_eq_def)
  have top: "s = r" if s: "s \<in> set txs" "t_Last s" "t_Id s = t_Id r" for s
  proof (rule ccontr)
    assume "s \<noteq> r"
    then obtain a where "t_Height s = Some a" "h < a"
      using versions[OF s(1) r(1) _ s(3,2)] r(2) by auto
    with below s(1) show False by (auto simp: heights_below_def)
  qed
  obtain s where s: "s \<in> set txs" "t_Id s = t_Id r" "t_Last s"
    using ids_okD(2)[OF ids(1) r(1) id] by auto
  with top have "t_Last r" by blast
  moreover have "s = r" if "s \<in> set txs" "t_Last s" "entity s = entity r" for s
    using top[OF that(1,2)] ids_okD(5)[OF ids(1) that(1) r(1)] ids_okD(3)[OF ids(1) that(1,2)] id that(3) by simp
  ultimately show ?thesis using r by (simp add: sole_last_def)
qed

lemma InsertRatings_transactions: "InsertRatings ratings db = Some db' \<Longrightarrow> Transactions db' = Transactions db"
proof (induction ratings arbitrary: db)
  case (Cons rating ratings)
  then obtain db1 where db1: "(if rt_Type rating = RATING_ACCOUNT_LIKERS then InsertLiker rating db else InsertRating rating db) = Some db1"
    "InsertRatings ratings db1 = Some db'"
    by (auto simp: Option.bind_eq_Some_conv)
  have "Transactions db1 = Transactions db"
    using db1(1) by (auto simp: InsertLiker_def InsertRating_def Option.bind_eq_Some_conv split: if_splits)
  with Cons.IH[OF db1(2)] show ?case by simp
qed simp

lemma IndexRatings_transactions: "IndexRatings net h txInfos db = Some db' \<Longrightarrow> Transactions db' = Transactions db"
  by (auto simp: IndexRatings_def Option.bind_eq_Some_conv Let_def InsertRatings_transactions split: if_splits prod.splits)

text \<open>Connecting a block succeeds and makes every version it brings the sole last one.\<close>

lemma connected_last:
  assumes ok: "chain_ok h db" and infos: "PrepareTransactions split block = Some txInfos" and block: "block_ok txInfos db"
    and scores: "\<And>db1. IndexBlock (GetHex (block_hash block)) h txInfos db = Some db1 \<Longrightarrow> index_scores net h txInfos db1"
  shows "\<exists>db'. Index split net block h db = Some db' \<and>
    (\<forall>r0. brings txInfos (Transactions db) r0 \<longrightarrow> entity r0 \<noteq> None \<longrightarrow>
       (\<exists>r. sole_last (Transactions db') r \<and> entity r = entity r0 \<and> t_Type r = t_Type r0 \<and>
          t_String1 r = t_String1 r0 \<and> t_String2 r = t_String2 r0))"
proof -
  obtain db' where db': "Index split net block h db = Some db'" "chain_ok (h + 1) db'"
    using Index_chain[OF ok infos block scores] by blast
  obtain db1 where db1: "IndexBlock (GetHex (block_hash block)) h txInfos db = Some db1"
    and ix: "indexing h (ti_Hash ` set txInfos) (Transactions db) (Transactions db1)"
    using IndexBlock_chain[OF ok block] by blast
  have txs: "Transactions db' = Transactions db1"
    using db'(1) db1 by (auto simp: Index_def infos IndexChain_def dest: IndexRatings_transactions)
  have "\<exists>r. sole_last (Transactions db') r \<and> entity r = entity r0 \<and> t_Type r = t_Type r0 \<and>
      t_String1 r = t_String1 r0 \<and> t_String2 r = t_String2 r0"
    if r0: "brings txInfos (Transactions db) r0" "entity r0 \<noteq> None" for r0
  proof -
    obtain r where r: "r \<in> set (Transactions db1)" "indexed_row h (ti_Hash ` set txInfos) r0 r"
      using ix r0(1) unfolding indexing_def brings_def by (meson list_all2_set1)
    have "t_Height r = Some h" and fee: "same_but_fee r0 (reset_row r)"
      using r(2) r0(1) by (simp_all add: indexed_row_def brings_def)
    have same: "entity r = entity r0" "t_Type r = t_Type r0"
      using indexed_row_entity[OF r(2)] by simp_all
    have strings: "t_String1 r = t_String1 r0" "t_String2 r = t_String2 r0"
      using fee unfolding same_but_fee_def reset_row_def by (cases r0; cases r; simp; fail)+
    have "sole_last (Transactions db') r"
      using top_is_last[of "Transactions db'" h r] db'(2) r(1) \<open>t_Height r = Some h\<close> same r0(2)
      by (simp add: chain_ok_def txs)
    with same strings show ?thesis by blast
  qed
  with db'(1) show ?thesis by blast
qed

section \<open>The queries see them\<close>

text \<open>A query for the last version of an entity finds the sole last one.\<close>

lemma filter_sole_last:
  assumes r: "sole_last txs r" "P r" and P: "\<forall>s \<in> set txs. P s \<longrightarrow> t_Last s \<and> entity s = entity r"
  shows "\<exists>rs. filter P txs = r # rs"
proof -
  have mem: "r \<in> set (filter P txs)" using r by (simp add: sole_last_def)
  show ?thesis
  proof (cases "filter P txs")
    case (Cons s ss)
    then have "s \<in> set (filter P txs)" by simp
    then have "s = r" using r(1) P by (simp add: sole_last_def)
    with Cons show ?thesis by simp
  qed (use mem in simp)
qed

lemma select_first_sole_last:
  assumes "sole_last txs r" "P r" "col r = Some c" and "\<forall>s \<in> set txs. P s \<longrightarrow> t_Last s \<and> entity s = entity r"
  shows "select_first P col txs = Some c"
  using filter_sole_last[of txs r P, OF assms(1,2,4)] assms(3) by (auto simp: select_first_def)

lemma entity_of_class:
  "entity_class (t_Type r) = Some CSubscribe \<Longrightarrow> entity r = pair_of ESubscribe (t_String1 r) (t_String2 r)"
  "entity_class (t_Type r) = Some CBlocking \<Longrightarrow> entity r = pair_of EBlocking (t_String1 r) (t_String2 r)"
  "entity_class (t_Type r) = Some CContent \<Longrightarrow> entity r = map_option EContent (t_String2 r)"
  by (simp_all add: entity_def)

lemma subscription_seen:
  assumes r: "sole_last (Transactions db) r" and c: "entity_class (t_Type r) = Some CSubscribe"
    and s: "t_String1 r = Some a" "t_String2 r = Some b"
  shows "GetLastSubscribeType a b db = Some (t_Type r)"
  unfolding GetLastSubscribeType_def type_in_class
proof (rule select_first_sole_last[OF r])
  show "entity_class (t_Type r) = Some CSubscribe \<and> t_String1 r = Some a \<and> t_String2 r = Some b \<and> t_Height r \<noteq> None \<and> t_Last r"
    using assms by (simp add: sole_last_def)
qed (use c s in \<open>simp_all add: entity_of_class\<close>)

lemma blocking_seen:
  assumes r: "sole_last (Transactions db) r" and c: "entity_class (t_Type r) = Some CBlocking"
    and s: "t_String1 r = Some a" "t_String2 r = Some b"
  shows "GetLastBlockingType a b db = Some (t_Type r)"
  unfolding GetLastBlockingType_def type_in_class
proof (rule select_first_sole_last[OF r])
  show "entity_class (t_Type r) = Some CBlocking \<and> t_String1 r = Some a \<and> t_String2 r = Some b \<and> t_Height r \<noteq> None \<and> t_Last r"
    using assms by (simp add: sole_last_def)
qed (use c s in \<open>simp_all add: entity_of_class\<close>)

text \<open>A query for the last version of a content finds it when its type is among the types asked for,
  and finds nothing otherwise.\<close>

lemma content_seen:
  assumes r: "sole_last (Transactions db) r" and c: "entity_class (t_Type r) = Some CContent" and s: "t_String2 r = Some root"
    and types: "\<forall>type \<in> set types. entity_class type = Some CContent"
  shows "t_Type r \<in> set types \<Longrightarrow> \<exists>ptx. GetLastContent root types db = Some (Some ptx) \<and> m_type ptx = t_Type r"
    and "t_Type r \<notin> set types \<Longrightarrow> GetLastContent root types db = Some None"
proof -
  let ?P = "\<lambda>t. t_Type t \<in> set types \<and> t_String2 t = Some root \<and> t_Last t \<and> t_Height t \<noteq> None"
  have P: "\<forall>t \<in> set (Transactions db). ?P t \<longrightarrow> t_Last t \<and> entity t = entity r"
    using c s types by (simp add: entity_of_class)
  {
    assume "t_Type r \<in> set types"
    then have "?P r" using r s by (simp add: sole_last_def)
    then obtain rs where rs: "filter ?P (Transactions db) = r # rs" using filter_sole_last[OF r _ P] by blast
    have "row_class (t_Type r)" using c by (cases "t_Type r") (simp_all add: row_class_def entity_class_def)
    then have "\<exists>ptx. CreateTransactionFromListRow r p = Some ptx" for p
      by (simp add: CreateTransactionFromListRow_def CreateInstance_of_type_def)
    with rs show "\<exists>ptx. GetLastContent root types db = Some (Some ptx) \<and> m_type ptx = t_Type r"
      using CreateTransactionFromListRow_fields by (fastforce simp: GetLastContent_def select_tx_def)
  next
    assume "t_Type r \<notin> set types"
    with r P have "filter ?P (Transactions db) = []" by (auto simp: filter_empty_conv sole_last_def)
    then show "GetLastContent root types db = Some None" by (simp add: GetLastContent_def select_tx_def)
  }
qed

section \<open>Relations\<close>

definition relation_types :: "TxType set" where
  "relation_types = {ACTION_SUBSCRIBE, ACTION_SUBSCRIBE_PRIVATE, ACTION_SUBSCRIBE_CANCEL, ACTION_BLOCKING, ACTION_BLOCKING_CANCEL}"

lemma relation_rejected:
  assumes r: "sole_last (Transactions (env_db env)) r" and type: "t_Type r \<in> relation_types"
    and s: "t_String1 r = Some a" "t_String2 r = Some b"
    and ptx: "m_type ptx = t_Type r" "m_string1 ptx = Some a" "m_string2 ptx = Some b"
    and no: "\<forall>code. \<not> is_checkpoint env ptx code"
  shows "\<not> accepted (Helper_validate env height blk tx ptx)"
proof -
  have "t_Type r \<in> {ACTION_SUBSCRIBE, ACTION_SUBSCRIBE_PRIVATE, ACTION_SUBSCRIBE_CANCEL} \<Longrightarrow>
      GetLastSubscribeType a b (env_db env) = Some (t_Type r)"
    using subscription_seen[OF r _ s] by (auto simp: entity_class_def)
  moreover have "t_Type r \<in> {ACTION_BLOCKING, ACTION_BLOCKING_CANCEL} \<Longrightarrow> GetLastBlockingType a b (env_db env) = Some (t_Type r)"
    using blocking_seen[OF r _ s] by (auto simp: entity_class_def)
  ultimately show ?thesis
    using type ptx no
    by (auto simp: relation_types_def Helper_validate_def isConsensusable_def accepted_bind Subscribe_Validate_def
        SubscribePrivate_Validate_def SubscribeCancel_Validate_def subscription_rule_def Blocking_Validate_def
        BlockingCancel_Validate_def blocking_rule_def)
qed

text \<open>C3. Once a block with a subscription, a blocking or the end of one is connected, the same action
  of the same two accounts is rejected, in the mempool and in every block, unless it is a listed
  exception. The scores of the connected block have their data, fit what they score and have the
  limits they need (\<open>index_scores\<close>).\<close>

theorem no_repeated_relation:
  assumes "chain_ok h db" "PrepareTransactions split block = Some txInfos" "block_ok txInfos db"
    and "\<And>db1. IndexBlock (GetHex (block_hash block)) h txInfos db = Some db1 \<Longrightarrow> index_scores net h txInfos db1"
    and "brings txInfos (Transactions db) r0" "t_Type r0 \<in> relation_types" "t_String1 r0 = Some a" "t_String2 r0 = Some b"
  shows "\<exists>db'. Index split net block h db = Some db' \<and>
    (\<forall>env height blk tx ptx. env_db env = db' \<longrightarrow> m_type ptx = t_Type r0 \<longrightarrow> m_string1 ptx = Some a \<longrightarrow>
       m_string2 ptx = Some b \<longrightarrow> (\<forall>code. \<not> is_checkpoint env ptx code) \<longrightarrow>
       \<not> accepted (Helper_validate env height blk tx ptx))"
proof -
  have "entity r0 \<noteq> None"
    using assms(6-8) by (auto simp: relation_types_def entity_def entity_class_def pair_of_def)
  with connected_last[OF assms(1-4)] assms(5) obtain db' r where
    "Index split net block h db = Some db'" "sole_last (Transactions db') r"
    "t_Type r = t_Type r0" "t_String1 r = t_String1 r0" "t_String2 r = t_String2 r0" by blast
  moreover from this have "\<not> accepted (Helper_validate env height blk tx ptx)"
    if "env_db env = db'" "m_type ptx = t_Type r0" "m_string1 ptx = Some a" "m_string2 ptx = Some b"
      "\<forall>code. \<not> is_checkpoint env ptx code" for env height blk tx ptx
    using relation_rejected[of env r a b ptx height blk tx] assms(6-8) that by simp
  ultimately show ?thesis by blast
qed

section \<open>Deleted contents\<close>

text \<open>The content a transaction is about: the root it names. A comment names the content it is on, a
  repost the content it repeats, an edit of a post, a video or an article its own root.\<close>

definition uses_content :: "Transaction \<Rightarrow> string \<Rightarrow> bool" where
  "uses_content ptx root \<longleftrightarrow>
     (m_type ptx \<in> {CONTENT_COMMENT, CONTENT_COMMENT_EDIT} \<and> m_string3 ptx = Some root) \<or>
     (m_type ptx \<in> {ACTION_SCORE_CONTENT, ACTION_COMPLAIN, BOOST_CONTENT, CONTENT_DELETE} \<and> m_string2 ptx = Some root) \<or>
     (m_type ptx = CONTENT_POST \<and> m_string3 ptx = Some root \<and> root \<noteq> []) \<or>
     (m_type ptx \<in> {CONTENT_POST, CONTENT_VIDEO, CONTENT_ARTICLE} \<and> m_string2 ptx = Some root \<and> IsEdit ptx = Some True)"

text \<open>What the queries of the rules answer about a deleted content.\<close>

definition seen_deleted :: "string \<Rightarrow> Database \<Rightarrow> bool" where
  "seen_deleted root db \<longleftrightarrow>
     (\<forall>types. (\<forall>type \<in> set types. entity_class type = Some CContent) \<longrightarrow>
        (if CONTENT_DELETE \<in> set types
         then \<exists>ptx. GetLastContent root types db = Some (Some ptx) \<and> m_type ptx = CONTENT_DELETE
         else GetLastContent root types db = Some None))"

lemma seen_deletedD:
  assumes "seen_deleted root db"
  shows "\<exists>ptx. GetLastContent root contents db = Some (Some ptx) \<and> m_type ptx = CONTENT_DELETE"
    and "\<exists>ptx. GetLastContent root [CONTENT_POST, CONTENT_VIDEO, CONTENT_DELETE] db = Some (Some ptx) \<and> m_type ptx = CONTENT_DELETE"
    and "GetLastContent root [CONTENT_ARTICLE] db = Some None"
  using assms[unfolded seen_deleted_def, THEN spec, of contents]
    assms[unfolded seen_deleted_def, THEN spec, of "[CONTENT_POST, CONTENT_VIDEO, CONTENT_DELETE]"]
    assms[unfolded seen_deleted_def, THEN spec, of "[CONTENT_ARTICLE]"]
  by (simp_all add: entity_class_def)

text \<open>The edits, one rule each.\<close>

lemma deleted_edit_rejected:
  assumes "seen_deleted root (env_db env)" "m_string2 ptx = Some root"
  shows "\<not> accepted (Post_ValidateEdit env height v ptx)" "\<not> accepted (Video_ValidateEdit env height ptx)"
    "\<not> accepted (Article_ValidateEdit env height ptx)"
  using seen_deletedD[OF assms(1)] assms(2)
  by (auto simp: Post_ValidateEdit_def Video_ValidateEdit_def Article_ValidateEdit_def accepted_bind)

lemma deleted_rejected:
  assumes deleted: "seen_deleted root (env_db env)" and uses: "uses_content ptx root"
  shows "\<not> accepted (Helper_validate env height blk tx ptx)"
proof -
  obtain lastTx where lastTx: "GetLastContent root contents (env_db env) = Some (Some lastTx)" "m_type lastTx = CONTENT_DELETE"
    using seen_deletedD(1)[OF deleted] by blast
  then have commented: "m_string3 ptx = Some root \<Longrightarrow> \<not> accepted (ValidateCommented env ptx)"
    by (auto simp: ValidateCommented_def accepted_bind)
  have found: "last_content env contents root blk = Some (Some lastTx)"
    using lastTx by (simp add: last_content_def)
  have edits: "m_string2 ptx = Some root \<Longrightarrow> \<not> accepted (Post_ValidateEdit env height v ptx)"
    "m_string2 ptx = Some root \<Longrightarrow> \<not> accepted (Video_ValidateEdit env height ptx)"
    "m_string2 ptx = Some root \<Longrightarrow> \<not> accepted (Article_ValidateEdit env height ptx)" for v
    using deleted_edit_rejected[OF deleted] by blast+
  show ?thesis
    using uses commented found lastTx edits unfolding uses_content_def Helper_validate_def isConsensusable_def
    by (elim disjE conjE insertE emptyE)
      (auto simp: accepted_bind Comment_Validate_def CommentEdit_Validate_def Let_def ScoreContent_Validate_def
        Complain_Validate_def BoostContent_Validate_def ContentDelete_Validate_def Post_Validate_def
        Post_ValidateRelay_def IsEmpty_def Video_Validate_def Article_Validate_def)
qed

text \<open>C4. Once the deletion of a content is connected, no comment on it, score, complaint, boost,
  repost, second deletion or edit of it, be it a post, a video or an article, is accepted, in the
  mempool and in every block, whatever the rules in force. The scores of the connected
  block have their data, fit what they score and have the limits they need (\<open>index_scores\<close>).\<close>

theorem deleted_content_closed:
  assumes "chain_ok h db" "PrepareTransactions split block = Some txInfos" "block_ok txInfos db"
    and "\<And>db1. IndexBlock (GetHex (block_hash block)) h txInfos db = Some db1 \<Longrightarrow> index_scores net h txInfos db1"
    and "brings txInfos (Transactions db) r0" "t_Type r0 = CONTENT_DELETE" "t_String2 r0 = Some root"
  shows "\<exists>db'. Index split net block h db = Some db' \<and>
    (\<forall>env height blk tx ptx. env_db env = db' \<longrightarrow> uses_content ptx root \<longrightarrow>
       \<not> accepted (Helper_validate env height blk tx ptx))"
proof -
  have c: "entity_class (t_Type r0) = Some CContent" and "entity r0 \<noteq> None"
    using assms(6,7) by (auto simp: entity_def entity_class_def)
  with connected_last[OF assms(1-4)] assms(5) obtain db' r where
    db': "Index split net block h db = Some db'" and r: "sole_last (Transactions db') r"
    "t_Type r = t_Type r0" "t_String2 r = t_String2 r0" by blast
  have "seen_deleted root db'"
    unfolding seen_deleted_def using content_seen[OF r(1), of root] r c assms(6,7) by simp
  then have "\<not> accepted (Helper_validate env height blk tx ptx)"
    if "env_db env = db'" "uses_content ptx root" for env height blk tx ptx
    using deleted_rejected[of root env ptx height blk tx] that by simp
  with db' show ?thesis by blast
qed

section \<open>Example\<close>

text \<open>A block with a subscription and the deletion of a post.\<close>

definition pending_row :: "TxType \<Rightarrow> string \<Rightarrow> string \<Rightarrow> string \<Rightarrow> TxRow" where
  "pending_row type hash s1 s2 =
     \<lparr>t_Type = type, t_Hash = hash, t_Time = 5, t_BlockHash = None, t_BlockNum = None, t_Height = None,
      t_Last = False, t_Id = None, t_String1 = Some s1, t_String2 = Some s2, t_String3 = None, t_String4 = None,
      t_String5 = None, t_Int1 = None\<rparr>"

definition social_db :: Database where
  "social_db =
     \<lparr>Transactions = [example_row CONTENT_POST ''p1'' 1 0 ''bob'' ''p1'', pending_row ACTION_SUBSCRIBE ''02'' ''alice'' ''bob'',
        pending_row CONTENT_DELETE ''03'' ''bob'' ''p1''],
      PayloadTable = [], TxOutputs = [], Ratings = [], Balances = []\<rparr>"

definition social_tx :: "byte \<Rightarrow> byte list \<Rightarrow> CTransaction" where
  "social_tx hash op = \<lparr>tx_hash = [hash], nTime = 7, vin = [],
     vout = [\<lparr>nValue = 0, scriptPubKey = op_return_script [op, [1, 2, 3, 4, 5]]\<rparr>]\<rparr>"

definition social_block :: CBlock where
  "social_block = \<lparr>block_hash = [7], vtx = [
     social_tx 2 [0x73, 0x75, 0x62, 0x73, 0x63, 0x72, 0x69, 0x62, 0x65],
     social_tx 3 [0x63, 0x6f, 0x6e, 0x74, 0x65, 0x6e, 0x74, 0x44, 0x65, 0x6c, 0x65, 0x74, 0x65]]\<rparr>"

definition social_infos :: "TransactionIndexingInfo list" where
  "social_infos =
     [\<lparr>ti_Hash = ''02'', ti_BlockNumber = 0, ti_Time = 7, ti_Type = ACTION_SUBSCRIBE, ti_Inputs = []\<rparr>,
      \<lparr>ti_Hash = ''03'', ti_BlockNumber = 1, ti_Time = 7, ti_Type = CONTENT_DELETE, ti_Inputs = []\<rparr>]"

lemma social_type:
  assumes "4 < length op" "length op < 2 ^ 32"
  shows "ParseType TransactionHelper.fields (social_tx hash op) = Some (ConvertOpReturnToType (HexStr op))"
proof -
  have "splits_fields TransactionHelper.fields" by (simp add: splits_fields_def)
  then have "ParseAsmType TransactionHelper.fields (social_tx hash op) =
      Some (HexStr op, ''OP_RETURN'' # map HexStr [op, [1, 2, 3, 4, 5]])"
    using ParseAsmType_op_return[of TransactionHelper.fields "social_tx hash op" _ "[]" "[op, [1, 2, 3, 4, 5]]"] assms
    by (simp add: social_tx_def)
  then show ?thesis by (simp add: social_tx_def ParseType_def ParseType_asm_def IsCoinBase_def IsCoinStake_def)
qed

lemma social_types:
  "ParseType TransactionHelper.fields (social_tx 2 [0x73, 0x75, 0x62, 0x73, 0x63, 0x72, 0x69, 0x62, 0x65]) = Some ACTION_SUBSCRIBE"
  "ParseType TransactionHelper.fields
     (social_tx 3 [0x63, 0x6f, 0x6e, 0x74, 0x65, 0x6e, 0x74, 0x44, 0x65, 0x6c, 0x65, 0x74, 0x65]) = Some CONTENT_DELETE"
proof -
  have "ConvertOpReturnToType (HexStr [0x73, 0x75, 0x62, 0x73, 0x63, 0x72, 0x69, 0x62, 0x65]) = ACTION_SUBSCRIBE"
    "ConvertOpReturnToType (HexStr [0x63, 0x6f, 0x6e, 0x74, 0x65, 0x6e, 0x74, 0x44, 0x65, 0x6c, 0x65, 0x74, 0x65]) = CONTENT_DELETE"
    by code_simp+
  then show
    "ParseType TransactionHelper.fields (social_tx 2 [0x73, 0x75, 0x62, 0x73, 0x63, 0x72, 0x69, 0x62, 0x65]) = Some ACTION_SUBSCRIBE"
    "ParseType TransactionHelper.fields
       (social_tx 3 [0x63, 0x6f, 0x6e, 0x74, 0x65, 0x6e, 0x74, 0x44, 0x65, 0x6c, 0x65, 0x74, 0x65]) = Some CONTENT_DELETE"
    by (subst social_type; simp)+
qed

lemma social_prepared: "PrepareTransactions TransactionHelper.fields social_block = Some social_infos"
proof -
  have "GetHex [2] = ''02''" "GetHex [3] = ''03''"
    by code_simp+
  then have "indexing_info 0 (social_tx 2 op) type = \<lparr>ti_Hash = ''02'', ti_BlockNumber = 0, ti_Time = 7, ti_Type = type, ti_Inputs = []\<rparr>"
    "indexing_info 1 (social_tx 3 op) type = \<lparr>ti_Hash = ''03'', ti_BlockNumber = 1, ti_Time = 7, ti_Type = type, ti_Inputs = []\<rparr>" for op type
    by (simp_all add: indexing_info_def social_tx_def)
  then show ?thesis
    by (simp add: PrepareTransactions_def social_block_def social_infos_def social_types)
qed

lemma social_chain_ok: "chain_ok 2 social_db"
  by (simp add: chain_ok_def social_db_def pending_row_def example_row_def db_keys_def distinct_on_def heights_below_def
      outputs_below_def ids_ok_def versions_ok_def ids_total_def entity_class_def entity_def spent_created_def
      GetUserBalance_def unspent_sum_def select_first_def sql_eq_def
      ratings_ok_def types_apart_def rated_entities_def likers_distinct_def ids_dense_def id_count_def)

lemma social_block_ok: "block_ok social_infos social_db"
  by (simp add: block_ok_def social_db_def social_infos_def pending_row_def example_row_def block_pending_def unindexed_def
      reset_row_def block_entities_def entity_class_def entity_def pair_of_def inputs_known_def)

lemma social_scores: "index_scores NetworkMain 2 social_infos db"
  unfolding index_scores_def
  by (intro exI[of _ Reputation_0] exI[of _ "[]"])
     (simp add: pay_rules social_infos_def IsActionScore_def scores_fit_def)

lemma social_brings:
  "brings social_infos (Transactions social_db) (pending_row ACTION_SUBSCRIBE ''02'' ''alice'' ''bob'')"
  "brings social_infos (Transactions social_db) (pending_row CONTENT_DELETE ''03'' ''bob'' ''p1'')"
  by (simp_all add: brings_def social_infos_def social_db_def pending_row_def)

lemma no_repeated_relation_witness:
  "chain_ok 2 social_db \<and> block_ok social_infos social_db \<and>
   (\<exists>db'. Index TransactionHelper.fields NetworkMain social_block 2 social_db = Some db' \<and>
    (\<forall>env height blk tx ptx. env_db env = db' \<longrightarrow> m_type ptx = ACTION_SUBSCRIBE \<longrightarrow> m_string1 ptx = Some ''alice'' \<longrightarrow>
       m_string2 ptx = Some ''bob'' \<longrightarrow> (\<forall>code. \<not> is_checkpoint env ptx code) \<longrightarrow>
       \<not> accepted (Helper_validate env height blk tx ptx)))"
  using no_repeated_relation[OF social_chain_ok social_prepared social_block_ok social_scores social_brings(1), of "''alice''" "''bob''"]
    social_chain_ok social_block_ok
  by (simp add: pending_row_def relation_types_def)

lemma deleted_content_closed_witness:
  "chain_ok 2 social_db \<and> block_ok social_infos social_db \<and>
   (\<exists>db'. Index TransactionHelper.fields NetworkMain social_block 2 social_db = Some db' \<and>
    (\<forall>env height blk tx ptx. env_db env = db' \<longrightarrow> uses_content ptx ''p1'' \<longrightarrow>
       \<not> accepted (Helper_validate env height blk tx ptx)))"
  using deleted_content_closed[OF social_chain_ok social_prepared social_block_ok social_scores social_brings(2), of "''p1''"]
    social_chain_ok social_block_ok
  by (simp add: pending_row_def)

end
