(* ===== verification/ArithUint256.thy ===== *)
theory ArithUint256
  imports Primitives
begin

text \<open>
  \<open>arith_uint256.h\<close> and \<open>arith_uint256.cpp\<close>: unsigned integers of 256 bits in eight limbs of
  32 bits, least significant first, with the compact form of a difficulty target. The loops over
  the limbs are recursions on the lists; sums and products of limbs are taken in 64-bit words
  as in the code. \<open>uint_val\<close> is the number the limbs stand for: every operation is shown to compute
  the operation of the same name on numbers, modulo \<open>2 ^ 256\<close>.
\<close>

unbundle bit_operations_syntax

section \<open>Definitions\<close>

type_synonym base_uint = "32 word list"

definition WIDTH :: nat where
  "WIDTH = 8"

abbreviation low32 :: "64 word \<Rightarrow> 32 word" where
  "low32 n \<equiv> ucast (n AND 0xffffffff)"

definition base_uint_of :: "64 word \<Rightarrow> base_uint" where
  "base_uint_of b = ucast b # ucast (drop_bit 32 b) # replicate (WIDTH - 2) 0"

text \<open>The shifts: \<open>pn\<close> starts at zero and takes two contributions of every limb of \<open>a\<close>.\<close>

definition shift_left_limb :: "base_uint \<Rightarrow> nat \<Rightarrow> nat \<Rightarrow> base_uint \<Rightarrow> nat \<Rightarrow> base_uint" where
  "shift_left_limb a k shift pn i =
     (let pn1 = (if i + k + 1 < WIDTH \<and> shift \<noteq> 0
                 then pn[i + k + 1 := pn ! (i + k + 1) OR drop_bit (32 - shift) (a ! i)] else pn)
      in if i + k < WIDTH then pn1[i + k := pn1 ! (i + k) OR push_bit shift (a ! i)] else pn1)"

definition shift_left :: "base_uint \<Rightarrow> nat \<Rightarrow> base_uint" where
  "shift_left a shift =
     foldl (shift_left_limb a (shift div 32) (shift mod 32)) (replicate WIDTH 0) [0..<WIDTH]"

definition shift_right_limb :: "base_uint \<Rightarrow> nat \<Rightarrow> nat \<Rightarrow> base_uint \<Rightarrow> nat \<Rightarrow> base_uint" where
  "shift_right_limb a k shift pn i =
     (let pn1 = (if k + 1 \<le> i \<and> shift \<noteq> 0
                 then pn[i - k - 1 := pn ! (i - k - 1) OR push_bit (32 - shift) (a ! i)] else pn)
      in if k \<le> i then pn1[i - k := pn1 ! (i - k) OR drop_bit shift (a ! i)] else pn1)"

definition shift_right :: "base_uint \<Rightarrow> nat \<Rightarrow> base_uint" where
  "shift_right a shift =
     foldl (shift_right_limb a (shift div 32) (shift mod 32)) (replicate WIDTH 0) [0..<WIDTH]"

fun add_loop :: "64 word \<Rightarrow> base_uint \<Rightarrow> base_uint \<Rightarrow> base_uint" where
  "add_loop carry (p # pn) (q # b) =
     (let n = carry + ucast p + ucast q in low32 n # add_loop (drop_bit 32 n) pn b)"
| "add_loop carry pn b = []"

definition uint_add :: "base_uint \<Rightarrow> base_uint \<Rightarrow> base_uint" where
  "uint_add pn b = add_loop 0 pn b"

fun uint_increment :: "base_uint \<Rightarrow> base_uint" where
  "uint_increment [] = []"
| "uint_increment (p # pn) = (p + 1) # (if p + 1 = 0 then uint_increment pn else pn)"

fun uint_decrement :: "base_uint \<Rightarrow> base_uint" where
  "uint_decrement [] = []"
| "uint_decrement (p # pn) = (p - 1) # (if p - 1 = 0xffffffff then uint_decrement pn else pn)"

definition uint_minus :: "base_uint \<Rightarrow> base_uint" where
  "uint_minus pn = uint_increment (map (\<lambda>p. NOT p) pn)"

definition uint_sub :: "base_uint \<Rightarrow> base_uint \<Rightarrow> base_uint" where
  "uint_sub pn b = uint_add pn (uint_minus b)"

fun mul32_loop :: "64 word \<Rightarrow> 32 word \<Rightarrow> base_uint \<Rightarrow> base_uint" where
  "mul32_loop carry b32 [] = []"
| "mul32_loop carry b32 (p # pn) =
     (let n = carry + ucast b32 * ucast p in low32 n # mul32_loop (drop_bit 32 n) b32 pn)"

definition uint_mul32 :: "base_uint \<Rightarrow> 32 word \<Rightarrow> base_uint" where
  "uint_mul32 pn b32 = mul32_loop 0 b32 pn"

text \<open>The inner loop adds \<open>pn[j] * b\<close> to the limbs of \<open>a\<close> from \<open>j\<close> on.\<close>

fun mul_inner :: "64 word \<Rightarrow> 32 word \<Rightarrow> base_uint \<Rightarrow> base_uint \<Rightarrow> base_uint" where
  "mul_inner carry pj (x # a) (q # b) =
     (let n = carry + ucast x + ucast pj * ucast q in low32 n # mul_inner (drop_bit 32 n) pj a b)"
| "mul_inner carry pj a b = []"

fun mul_outer :: "nat \<Rightarrow> base_uint \<Rightarrow> base_uint \<Rightarrow> base_uint \<Rightarrow> base_uint" where
  "mul_outer j [] b a = a"
| "mul_outer j (pj # pn) b a = mul_outer (Suc j) pn b (take j a @ mul_inner 0 pj (drop j a) b)"

definition uint_mul :: "base_uint \<Rightarrow> base_uint \<Rightarrow> base_uint" where
  "uint_mul pn b = mul_outer 0 pn b (replicate WIDTH 0)"

fun compare_loop :: "base_uint \<Rightarrow> base_uint \<Rightarrow> nat \<Rightarrow> int" where
  "compare_loop pn b 0 = 0"
| "compare_loop pn b (Suc i) =
     (if pn ! i < b ! i then - 1 else if pn ! i > b ! i then 1 else compare_loop pn b i)"

definition CompareTo :: "base_uint \<Rightarrow> base_uint \<Rightarrow> int" where
  "CompareTo pn b = compare_loop pn b WIDTH"

fun bits_limb :: "nat \<Rightarrow> 32 word \<Rightarrow> nat" where
  "bits_limb 0 p = 1"
| "bits_limb (Suc n) p = (if p AND push_bit (Suc n) 1 \<noteq> 0 then Suc n + 1 else bits_limb n p)"

fun bits_loop :: "base_uint \<Rightarrow> nat \<Rightarrow> nat" where
  "bits_loop pn 0 = 0"
| "bits_loop pn (Suc pos) = (if pn ! pos \<noteq> 0 then 32 * pos + bits_limb 31 (pn ! pos) else bits_loop pn pos)"

definition bits :: "base_uint \<Rightarrow> nat" where
  "bits pn = bits_loop pn WIDTH"

text \<open>The loop of the division runs \<open>shift\<close> down to zero; the first argument is \<open>shift + 1\<close>.\<close>

fun div_loop :: "nat \<Rightarrow> base_uint \<Rightarrow> base_uint \<Rightarrow> base_uint \<Rightarrow> base_uint \<times> base_uint" where
  "div_loop 0 num divisor pn = (pn, num)"
| "div_loop (Suc shift) num divisor pn =
     (let (num', pn') =
        (if CompareTo num divisor \<ge> 0
         then (uint_sub num divisor, pn[shift div 32 := pn ! (shift div 32) OR push_bit (shift mod 32) 1])
         else (num, pn))
      in div_loop shift num' (shift_right divisor 1) pn')"

definition uint_div :: "base_uint \<Rightarrow> base_uint \<Rightarrow> base_uint option" where
  "uint_div num b =
     (let num_bits = bits num; div_bits = bits b in
      if div_bits = 0 then None
      else if div_bits > num_bits then Some (base_uint_of 0)
      else Some (fst (div_loop (Suc (num_bits - div_bits)) num (shift_left b (num_bits - div_bits)) (base_uint_of 0))))"

definition GetLow64 :: "base_uint \<Rightarrow> 64 word" where
  "GetLow64 pn = ucast (pn ! 0) OR push_bit 32 (ucast (pn ! 1))"

definition SetCompact :: "32 word \<Rightarrow> base_uint \<times> bool \<times> bool" where
  "SetCompact nCompact =
     (let nSize = unat (drop_bit 24 nCompact);
          nWord0 = nCompact AND 0x007fffff;
          nWord = (if nSize \<le> 3 then drop_bit (8 * (3 - nSize)) nWord0 else nWord0);
          result = (if nSize \<le> 3 then base_uint_of (ucast nWord)
                    else shift_left (base_uint_of (ucast nWord)) (8 * (nSize - 3)));
          fNegative = (nWord \<noteq> 0 \<and> nCompact AND 0x00800000 \<noteq> 0);
          fOverflow = (nWord \<noteq> 0 \<and> (nSize > 34 \<or> (nWord > 0xff \<and> nSize > 33) \<or> (nWord > 0xffff \<and> nSize > 32)))
      in (result, fNegative, fOverflow))"

text \<open>\<open>None\<close>: one of the two assertions fails.\<close>

definition GetCompact :: "bool \<Rightarrow> base_uint \<Rightarrow> 32 word option" where
  "GetCompact fNegative pn =
     (let nSize = (bits pn + 7) div 8;
          nCompact = (if nSize \<le> 3 then ucast (push_bit (8 * (3 - nSize)) (GetLow64 pn))
                      else ucast (GetLow64 (shift_right pn (8 * (nSize - 3)))) :: 32 word);
          (nCompact, nSize) = (if nCompact AND 0x00800000 \<noteq> 0 then (drop_bit 8 nCompact, nSize + 1) else (nCompact, nSize))
      in if nCompact AND NOT 0x007fffff \<noteq> 0 \<or> nSize \<ge> 256 then None
         else (let nCompact = nCompact OR push_bit 24 (of_nat nSize)
               in Some (nCompact OR (if fNegative \<and> nCompact AND 0x007fffff \<noteq> 0 then 0x00800000 else 0))))"

fun UintToArith256 :: "uint256 \<Rightarrow> base_uint" where
  "UintToArith256 (b0 # b1 # b2 # b3 # bs) = of_nat (ReadLE32 b0 b1 b2 b3) # UintToArith256 bs"
| "UintToArith256 bs = []"

definition ArithToUint256 :: "base_uint \<Rightarrow> uint256" where
  "ArithToUint256 a = concat (map (\<lambda>p. WriteLE32 (unat p)) a)"

section \<open>The number of the limbs\<close>

fun uint_val :: "base_uint \<Rightarrow> nat" where
  "uint_val [] = 0"
| "uint_val (p # pn) = unat p + 2 ^ 32 * uint_val pn"

definition uint_ok :: "base_uint \<Rightarrow> bool" where
  "uint_ok pn \<longleftrightarrow> length pn = WIDTH"

lemma uint_val_append: "uint_val (xs @ ys) = uint_val xs + 2 ^ (32 * length xs) * uint_val ys"
  by (induction xs) (simp_all add: algebra_simps power_add)

lemma uint_val_zeros [simp]: "uint_val (replicate n 0) = 0"
  by (induction n) simp_all

lemma limb_less: "unat (p :: 32 word) < 2 ^ 32"
  using unsigned_less[of p] by simp

lemma uint_val_less: "uint_val pn < 2 ^ (32 * length pn)"
proof (induction pn)
  case (Cons p pn)
  then have "unat p + 2 ^ 32 * uint_val pn < 2 ^ 32 + 2 ^ 32 * uint_val pn" "uint_val pn + 1 \<le> 2 ^ (32 * length pn)"
    using limb_less[of p] by simp_all
  moreover have "2 ^ 32 * (uint_val pn + 1) \<le> 2 ^ 32 * 2 ^ (32 * length pn)"
    using calculation(2) by (rule mult_le_mono2)
  ultimately show ?case by (simp add: power_add algebra_simps)
qed simp

lemma uint_ok_less: "uint_ok pn \<Longrightarrow> uint_val pn < 2 ^ 256"
  using uint_val_less[of pn] by (simp add: uint_ok_def WIDTH_def)

lemma uint_val_inj: "length xs = length ys \<Longrightarrow> uint_val xs = uint_val ys \<Longrightarrow> xs = ys"
proof (induction xs ys rule: list_induct2)
  case (Cons x xs y ys)
  have "unat x = (unat x + 2 ^ 32 * uint_val xs) mod 2 ^ 32" "unat y = (unat y + 2 ^ 32 * uint_val ys) mod 2 ^ 32"
    using limb_less by simp_all
  with Cons.prems have "unat x = unat y" by (metis uint_val.simps(2))
  with Cons show ?case by (simp add: word_unat_eq_iff)
qed simp

lemma uint_val_base_uint_of: "uint_val (base_uint_of b) = unat b"
proof -
  have "unat b < 2 ^ 64" using unsigned_less[of b] by simp
  then have "unat b div 2 ^ 32 < 2 ^ 32" by simp
  then have "unat b mod 2 ^ 32 + 2 ^ 32 * (unat b div 2 ^ 32 mod 2 ^ 32) = unat b" by simp
  then show ?thesis
    by (simp add: base_uint_of_def unsigned_ucast_eq unat_div drop_bit_eq_div take_bit_eq_mod)
qed

lemma base_uint_of_ok [simp]: "uint_ok (base_uint_of b)"
  by (simp add: uint_ok_def base_uint_of_def WIDTH_def)

subsection \<open>Bits\<close>

lemma bit_uint_val: "bit (uint_val pn) n \<longleftrightarrow> n div 32 < length pn \<and> bit (pn ! (n div 32)) (n mod 32)"
proof (induction pn arbitrary: n)
  case (Cons p pn)
  have parts: "take_bit 32 (uint_val (p # pn)) = unat p" "drop_bit 32 (uint_val (p # pn)) = uint_val pn"
    using limb_less[of p] by (simp_all add: take_bit_eq_mod drop_bit_eq_div)
  show ?case
  proof (cases "n < 32")
    case True
    then have "bit (uint_val (p # pn)) n \<longleftrightarrow> bit (take_bit 32 (uint_val (p # pn))) n"
      by (simp add: bit_take_bit_iff del: uint_val.simps)
    with True parts show ?thesis by (simp add: bit_unsigned_iff del: uint_val.simps)
  next
    case False
    then have "bit (uint_val (p # pn)) n \<longleftrightarrow> bit (drop_bit 32 (uint_val (p # pn))) (n - 32)"
      by (simp only: bit_drop_bit_eq comp_def) simp
    moreover have "n div 32 = Suc ((n - 32) div 32)" "n mod 32 = (n - 32) mod 32"
      using False by (simp_all add: div_if mod_if)
    ultimately show ?thesis using parts Cons.IH by (simp del: uint_val.simps)
  qed
qed simp

lemma bit_limb_high: "bit (p :: 32 word) n \<Longrightarrow> n < 32"
  using bit_imp_le_length[of p n] by simp

text \<open>A list of limbs from the bits of its limbs.\<close>

lemma uint_val_bits_eqI:
  assumes "length pn = WIDTH" "\<And>j m. j < WIDTH \<Longrightarrow> m < 32 \<Longrightarrow> bit (pn ! j) m \<longleftrightarrow> bit x (32 * j + m)"
  shows "uint_val pn = take_bit (32 * WIDTH) x"
proof (rule bit_eqI)
  fix n :: nat
  have n: "32 * (n div 32) + n mod 32 = n" by simp
  show "bit (uint_val pn) n \<longleftrightarrow> bit (take_bit (32 * WIDTH) x) n"
    using assms(2)[of "n div 32" "n mod 32"] unfolding n
    by (auto simp: bit_uint_val assms(1) bit_take_bit_iff WIDTH_def)
qed

section \<open>Sums and products\<close>

lemma low32_unat: "unat (low32 n) = unat n mod 2 ^ 32"
proof -
  have "(0xffffffff :: 64 word) = mask 32" by (simp add: mask_eq_exp_minus_1)
  then have "n AND 0xffffffff = take_bit 32 n" by (simp add: take_bit_eq_mask)
  then show ?thesis by (simp add: unsigned_ucast_eq take_bit_eq_mod unat_mod)
qed

lemma high32_unat: "unat (drop_bit 32 n) = unat n div 2 ^ 32" for n :: "64 word"
  by (simp add: drop_bit_eq_div unat_div)

text \<open>One step of a loop with carry: the low half is written, the high half carried.\<close>

lemma carry_step:
  assumes "uint_val rest = (unat (drop_bit 32 n) + m) mod B"
  shows "uint_val (low32 n # rest) = (unat n + 2 ^ 32 * m) mod (2 ^ 32 * B)"
proof -
  have "(unat n + 2 ^ 32 * m) mod (2 ^ 32 * B) =
      2 ^ 32 * ((unat n + 2 ^ 32 * m) div 2 ^ 32 mod B) + (unat n + 2 ^ 32 * m) mod 2 ^ 32"
    by (rule mod_mult2_eq)
  then show ?thesis using assms by (simp add: low32_unat high32_unat add.commute)
qed

lemma word_no_wrap:
  assumes "unat a + unat b < 2 ^ 64"
  shows "unat (a + b :: 64 word) = unat a + unat b"
  using assms by (simp add: unat_plus_if')

lemma add_loop_val:
  assumes "length pn = length b" "unat carry < 2 ^ 32"
  shows "uint_val (add_loop carry pn b) = (unat carry + uint_val pn + uint_val b) mod 2 ^ (32 * length pn)"
  using assms
proof (induction carry pn b rule: add_loop.induct)
  case (1 carry p pn q b)
  define n :: "64 word" where "n = carry + ucast p + ucast q"
  have pq: "unat (ucast p + ucast q :: 64 word) = unat p + unat q"
    using limb_less[of p] limb_less[of q] by (subst word_no_wrap) (simp_all add: unsigned_ucast_eq take_bit_eq_mod)
  have n: "unat n = unat carry + unat p + unat q"
    unfolding n_def add.assoc using 1(3) limb_less[of p] limb_less[of q] by (subst word_no_wrap) (simp_all add: pq)
  have "unat (drop_bit 32 n) < 2 ^ 32"
    unfolding high32_unat n using 1(3) limb_less[of p] limb_less[of q] by (simp add: div_less_iff_less_mult)
  with 1 have "uint_val (add_loop (drop_bit 32 n) pn b) =
      (unat (drop_bit 32 n) + (uint_val pn + uint_val b)) mod 2 ^ (32 * length pn)"
    by (simp add: n_def add.assoc)
  from carry_step[OF this] show ?case
    unfolding add_loop.simps Let_def n_def[symmetric] by (simp add: n algebra_simps power_add del: uint_val.simps)
       (simp add: algebra_simps)
qed simp_all

lemma power_limbs: "2 ^ (32 * length (p # pn)) = 2 ^ 32 * (2 ^ (32 * length pn) :: nat)"
proof -
  have "32 * length (p # pn) = 32 + 32 * length pn" by simp
  then show ?thesis by (simp only: power_add)
qed

lemma uint_increment_val: "uint_val (uint_increment pn) = (uint_val pn + 1) mod 2 ^ (32 * length pn)"
proof (induction pn)
  case (Cons p pn)
  show ?case
  proof (cases "p + 1 = 0")
    case True
    then have "unat p + 1 = 2 ^ 32"
      using unat_plus_if'[of p 1] limb_less[of p] by (auto split: if_splits)
    then have val: "uint_val (p # pn) + 1 = 2 ^ 32 * (uint_val pn + 1)" by simp
    have "uint_val (uint_increment (p # pn)) = 2 ^ 32 * ((uint_val pn + 1) mod 2 ^ (32 * length pn))"
      using Cons True by simp
    then show ?thesis unfolding power_limbs val by (simp only: mult_mod_right)
  next
    case False
    then have "unat (p + 1) = unat p + 1"
      using unat_plus_if'[of p 1] limb_less[of p] by (auto simp: word_unat_eq_iff split: if_splits)
    then have "uint_val ((p + 1) # pn) = uint_val (p # pn) + 1" by simp
    with uint_val_less[of "(p + 1) # pn"] False show ?thesis by (simp only: uint_increment.simps if_False length_Cons) simp
  qed
qed simp

lemma uint_not_val: "uint_val (map (\<lambda>p. NOT p) pn) + uint_val pn + 1 = 2 ^ (32 * length pn)"
proof (induction pn)
  case (Cons p pn)
  have "NOT p = - 1 - p" by (simp add: not_eq_complement)
  moreover have "unat (- 1 :: 32 word) = 2 ^ 32 - 1" by (simp add: unsigned_minus_1_eq_mask mask_eq_exp_minus_1)
  ultimately have "unat (NOT p) + unat p + 1 = 2 ^ 32"
    using limb_less[of p] by (simp add: unat_sub_if')
  then have "uint_val (map (\<lambda>p. NOT p) (p # pn)) + uint_val (p # pn) + 1 =
      2 ^ 32 * (uint_val (map (\<lambda>p. NOT p) pn) + uint_val pn + 1)"
    by (simp add: algebra_simps)
  then show ?case unfolding Cons.IH power_limbs .
qed simp

lemma add_loop_length [simp]: "length (add_loop carry pn b) = min (length pn) (length b)"
  by (induction carry pn b rule: add_loop.induct) (simp_all add: Let_def)

lemma uint_increment_length [simp]: "length (uint_increment pn) = length pn"
  by (induction pn) simp_all

lemma uint_minus_length [simp]: "length (uint_minus pn) = length pn"
  by (simp add: uint_minus_def)

lemma uint_minus_val: "uint_val (uint_minus pn) = (2 ^ (32 * length pn) - uint_val pn) mod 2 ^ (32 * length pn)"
proof -
  have "uint_val (map (\<lambda>p. NOT p) pn) + 1 = 2 ^ (32 * length pn) - uint_val pn"
    using uint_not_val[of pn] by simp
  then show ?thesis by (simp add: uint_minus_def uint_increment_val)
qed

lemma uint_sub_length [simp]: "length (uint_sub pn b) = min (length pn) (length b)"
  by (simp add: uint_sub_def uint_add_def)

lemma uint_sub_val:
  assumes "length pn = length b" "uint_val b \<le> uint_val pn"
  shows "uint_val (uint_sub pn b) = uint_val pn - uint_val b"
proof -
  let ?M = "2 ^ (32 * length pn) :: nat"
  have "uint_val (uint_sub pn b) = (uint_val pn + (?M - uint_val b) mod ?M) mod ?M"
    using assms by (simp add: uint_sub_def uint_add_def add_loop_val uint_minus_val)
  also have "\<dots> = (uint_val pn + (?M - uint_val b)) mod ?M" by (simp add: mod_simps)
  also have "uint_val pn + (?M - uint_val b) = (uint_val pn - uint_val b) + ?M"
    using assms uint_val_less[of b] by simp
  also have "\<dots> mod ?M = uint_val pn - uint_val b"
    using uint_val_less[of pn] by simp
  finally show ?thesis .
qed

lemma limb_product:
  "unat (ucast p * ucast q :: 64 word) = unat p * unat q" "unat p * unat q \<le> 18446744065119617025" for p q :: "32 word"
proof -
  have "unat p \<le> 4294967295" "unat q \<le> 4294967295" using limb_less[of p] limb_less[of q] by simp_all
  from mult_le_mono[OF this] show "unat p * unat q \<le> 18446744065119617025" by simp
  then show "unat (ucast p * ucast q :: 64 word) = unat p * unat q"
    using limb_less[of p] limb_less[of q] by (simp add: unat_word_ariths unsigned_ucast_eq take_bit_eq_mod)
qed

lemma mul32_loop_val:
  assumes "unat carry < 2 ^ 32"
  shows "uint_val (mul32_loop carry b32 pn) = (unat carry + unat b32 * uint_val pn) mod 2 ^ (32 * length pn)"
  using assms
proof (induction carry b32 pn rule: mul32_loop.induct)
  case (2 carry b32 p pn)
  define n :: "64 word" where "n = carry + ucast b32 * ucast p"
  have n: "unat n = unat carry + unat b32 * unat p"
    unfolding n_def using 2(2) limb_product[of b32 p] by (subst word_no_wrap) simp_all
  have "unat (drop_bit 32 n) < 2 ^ 32"
    unfolding high32_unat n using 2(2) limb_product(2)[of b32 p] by (simp add: div_less_iff_less_mult)
  from carry_step[OF 2(1)[OF n_def, OF this]] show ?case
    unfolding mul32_loop.simps Let_def n_def[symmetric] power_limbs
    by (simp add: n algebra_simps del: uint_val.simps(2)) (simp add: algebra_simps)
qed simp

lemma mul_inner_val:
  assumes "unat carry < 2 ^ 32" "length a \<le> length b"
  shows "uint_val (mul_inner carry pj a b) = (unat carry + uint_val a + unat pj * uint_val b) mod 2 ^ (32 * length a)"
  using assms
proof (induction carry pj a b rule: mul_inner.induct)
  case (1 carry pj x a q b)
  define n :: "64 word" where "n = carry + ucast x + ucast pj * ucast q"
  have x: "unat (ucast x :: 64 word) = unat x" using limb_less[of x] by (simp add: unsigned_ucast_eq take_bit_eq_mod)
  then have cx: "unat (carry + ucast x) = unat carry + unat x"
    using 1(2) limb_less[of x] by (subst word_no_wrap) simp_all
  have n: "unat n = unat carry + unat x + unat pj * unat q"
    unfolding n_def using 1(2) limb_less[of x] limb_product[of pj q] by (subst word_no_wrap) (simp_all add: cx)
  have "unat (drop_bit 32 n) < 2 ^ 32"
    unfolding high32_unat n using 1(2) limb_less[of x] limb_product(2)[of pj q] by (simp add: div_less_iff_less_mult)
  then have "uint_val (mul_inner (drop_bit 32 n) pj a b) =
      (unat (drop_bit 32 n) + (uint_val a + unat pj * uint_val b)) mod 2 ^ (32 * length a)"
    using 1(1)[OF n_def] 1(3) by (simp add: add.assoc)
  from carry_step[OF this] show ?case
    unfolding mul_inner.simps Let_def n_def[symmetric] power_limbs
    by (simp add: n algebra_simps del: uint_val.simps(2)) (simp add: algebra_simps)
qed simp_all

lemma mul_inner_length: "length a \<le> length b \<Longrightarrow> length (mul_inner carry pj a b) = length a"
  by (induction carry pj a b rule: mul_inner.induct) (simp_all add: Let_def)

lemma mul_outer_step:
  assumes "length a = WIDTH" "length b = WIDTH" "j \<le> WIDTH"
  shows "uint_val (take j a @ mul_inner 0 pj (drop j a) b) =
    (uint_val a + 2 ^ (32 * j) * unat pj * uint_val b) mod 2 ^ (32 * WIDTH)"
proof -
  let ?x = "uint_val (drop j a) + unat pj * uint_val b" and ?B = "2 ^ (32 * j) :: nat"
  have split: "uint_val (take j a) + ?B * uint_val (drop j a) = uint_val a" "uint_val (take j a) < ?B"
    using assms uint_val_append[of "take j a" "drop j a"] uint_val_less[of "take j a"] by simp_all
  have W: "2 ^ (32 * WIDTH) = ?B * 2 ^ (32 * (WIDTH - j))"
    using assms(3) by (simp flip: power_add add: algebra_simps)
  have "uint_val (take j a @ mul_inner 0 pj (drop j a) b) = uint_val (take j a) + ?B * (?x mod 2 ^ (32 * (WIDTH - j)))"
    using assms by (simp add: uint_val_append mul_inner_val)
  also have "\<dots> = (uint_val (take j a) + ?B * ?x) mod (?B * 2 ^ (32 * (WIDTH - j)))"
    using split(2) by (simp add: mod_mult2_eq)
  finally show ?thesis unfolding W split(1)[symmetric] by (simp add: algebra_simps)
qed

lemma mul_outer_val:
  assumes "length a = WIDTH" "length b = WIDTH" "length pn + j \<le> WIDTH"
  shows "uint_val (mul_outer j pn b a) = (uint_val a + 2 ^ (32 * j) * uint_val pn * uint_val b) mod 2 ^ (32 * WIDTH) \<and>
    length (mul_outer j pn b a) = WIDTH"
  using assms
proof (induction j pn b a rule: mul_outer.induct)
  case (1 j b a)
  then show ?case using uint_val_less[of a] by simp
next
  case (2 j pj pn b a)
  let ?a = "take j a @ mul_inner 0 pj (drop j a) b"
  have len: "length ?a = WIDTH" using 2(2-4) by (simp add: mul_inner_length)
  have "uint_val (mul_outer (Suc j) pn b ?a) =
      (uint_val ?a + 2 ^ (32 * Suc j) * uint_val pn * uint_val b) mod 2 ^ (32 * WIDTH)"
    using 2(1)[OF len 2(3)] 2(4) by simp
  also have "\<dots> = (uint_val a + (2 ^ (32 * j) * unat pj * uint_val b + 2 ^ (32 * Suc j) * uint_val pn * uint_val b))
      mod 2 ^ (32 * WIDTH)"
    using 2(2-4) by (simp add: mul_outer_step mod_simps add.assoc)
  also have "2 ^ (32 * j) * unat pj * uint_val b + 2 ^ (32 * Suc j) * uint_val pn * uint_val b =
      2 ^ (32 * j) * uint_val (pj # pn) * uint_val b"
    by (simp add: power_add algebra_simps)
  finally show ?case using 2(1)[OF len 2(3)] 2(4) by simp
qed

section \<open>Shifts\<close>

lemma shift_left_limb_nth:
  assumes "length pn = WIDTH"
  shows "length (shift_left_limb a k s pn i) = WIDTH"
    "j < WIDTH \<Longrightarrow> shift_left_limb a k s pn i ! j =
       (if j = i + k + 1 \<and> s \<noteq> 0 then pn ! j OR drop_bit (32 - s) (a ! i)
        else if j = i + k then pn ! j OR push_bit s (a ! i) else pn ! j)"
  using assms by (simp_all add: shift_left_limb_def Let_def nth_list_update)

lemma shift_right_limb_nth:
  assumes "length pn = WIDTH" "i < WIDTH"
  shows "length (shift_right_limb a k s pn i) = WIDTH"
    "j < WIDTH \<Longrightarrow> shift_right_limb a k s pn i ! j =
       (if j + k + 1 = i \<and> s \<noteq> 0 then pn ! j OR push_bit (32 - s) (a ! i)
        else if j + k = i then pn ! j OR drop_bit s (a ! i) else pn ! j)"
  using assms by (auto simp: shift_right_limb_def Let_def nth_list_update)

lemma shift_left_limbs:
  fixes a :: base_uint and k s :: nat
  assumes "n \<le> WIDTH"
  defines "r \<equiv> foldl (shift_left_limb a k s) (replicate WIDTH 0) [0..<n]"
  shows "length r = WIDTH \<and> (\<forall>j < WIDTH. r ! j =
    (if k \<le> j \<and> j < n + k then push_bit s (a ! (j - k)) else 0) OR
    (if s \<noteq> 0 \<and> k + 1 \<le> j \<and> j < n + k + 1 then drop_bit (32 - s) (a ! (j - k - 1)) else 0))"
  using assms(1) unfolding r_def
proof (induction n)
  case (Suc n)
  define r0 where "r0 = foldl (shift_left_limb a k s) (replicate WIDTH 0) [0..<n]"
  have IH: "length r0 = WIDTH" "\<And>j. j < WIDTH \<Longrightarrow> r0 ! j =
    (if k \<le> j \<and> j < n + k then push_bit s (a ! (j - k)) else 0) OR
    (if s \<noteq> 0 \<and> k + 1 \<le> j \<and> j < n + k + 1 then drop_bit (32 - s) (a ! (j - k - 1)) else 0)"
    using Suc unfolding r0_def by simp_all
  have step: "foldl (shift_left_limb a k s) (replicate WIDTH 0) [0..<Suc n] = shift_left_limb a k s r0 n"
    by (simp add: r0_def)
  have "shift_left_limb a k s r0 n ! j =
    (if k \<le> j \<and> j < Suc n + k then push_bit s (a ! (j - k)) else 0) OR
    (if s \<noteq> 0 \<and> k + 1 \<le> j \<and> j < Suc n + k + 1 then drop_bit (32 - s) (a ! (j - k - 1)) else 0)" if j: "j < WIDTH" for j
  proof -
    consider "j = n + k + 1" | "j = n + k" | "j < n + k" | "n + k + 1 < j" by linarith
    then show ?thesis
      unfolding shift_left_limb_nth(2)[OF IH(1) j] IH(2)[OF j] by cases (simp_all add: or.commute)
  qed
  then show ?case unfolding step using shift_left_limb_nth(1)[OF IH(1)] by simp
qed auto

lemma shift_right_limbs:
  fixes a :: base_uint and k s :: nat
  assumes "n \<le> WIDTH"
  defines "r \<equiv> foldl (shift_right_limb a k s) (replicate WIDTH 0) [0..<n]"
  shows "length r = WIDTH \<and> (\<forall>j < WIDTH. r ! j =
    (if j + k < n then drop_bit s (a ! (j + k)) else 0) OR
    (if s \<noteq> 0 \<and> j + k + 1 < n then push_bit (32 - s) (a ! (j + k + 1)) else 0))"
  using assms(1) unfolding r_def
proof (induction n)
  case (Suc n)
  define r0 where "r0 = foldl (shift_right_limb a k s) (replicate WIDTH 0) [0..<n]"
  have IH: "length r0 = WIDTH" "\<And>j. j < WIDTH \<Longrightarrow> r0 ! j =
    (if j + k < n then drop_bit s (a ! (j + k)) else 0) OR
    (if s \<noteq> 0 \<and> j + k + 1 < n then push_bit (32 - s) (a ! (j + k + 1)) else 0)"
    using Suc unfolding r0_def by simp_all
  have step: "foldl (shift_right_limb a k s) (replicate WIDTH 0) [0..<Suc n] = shift_right_limb a k s r0 n"
    by (simp add: r0_def)
  have n: "n < WIDTH" using Suc.prems by simp
  have "shift_right_limb a k s r0 n ! j =
    (if j + k < Suc n then drop_bit s (a ! (j + k)) else 0) OR
    (if s \<noteq> 0 \<and> j + k + 1 < Suc n then push_bit (32 - s) (a ! (j + k + 1)) else 0)" if j: "j < WIDTH" for j
  proof -
    consider "j + k + 1 = n" | "j + k = n" | "j + k + 1 < n" | "n < j + k" by linarith
    then show ?thesis
      unfolding shift_right_limb_nth(2)[OF IH(1) n j] IH(2)[OF j] by cases auto
  qed
  then show ?case unfolding step using shift_right_limb_nth(1)[OF IH(1) n] by simp
qed simp

lemma limb_index:
  assumes "x < 32"
  shows "(32 * q + x) div 32 = q" "(32 * q + x) mod 32 = (x :: nat)"
  using assms by simp_all

lemma shift_left_bits:
  fixes k :: nat
  assumes a: "length a = WIDTH" and s: "s < 32" and j: "j < WIDTH" and m: "m < 32"
  defines "r \<equiv> foldl (shift_left_limb a k s) (replicate WIDTH 0) [0..<WIDTH]"
  shows "bit (r ! j) m \<longleftrightarrow> bit (push_bit (32 * k + s) (uint_val a)) (32 * j + m)"
proof -
  have r: "r ! j = (if k \<le> j then push_bit s (a ! (j - k)) else 0) OR
    (if s \<noteq> 0 \<and> k + 1 \<le> j then drop_bit (32 - s) (a ! (j - k - 1)) else 0)"
    using shift_left_limbs[of WIDTH a k s] j unfolding r_def by simp
  consider (low) "32 * j + m < 32 * k + s" | (here) d where "j = k + d" "s \<le> m" | (carry) d where "j = k + 1 + d" "m < s"
  proof (cases "32 * j + m < 32 * k + s")
    case False
    with m have "k \<le> j" by presburger
    then obtain d where d: "j = k + d" using le_Suc_ex by blast
    show ?thesis
    proof (cases "s \<le> m")
      case s_m: False
      with False d have "d \<noteq> 0" by simp
      then obtain d' where "j = k + 1 + d'" using d by (cases d) simp_all
      with s_m that(3) show ?thesis by simp
    qed (use d that(2) in blast)
  qed (use that(1) in blast)
  then show ?thesis
  proof cases
    case low
    then have "j < k \<or> (j = k \<and> m < s)" using m s by presburger
    with low show ?thesis by (auto simp: r bit_push_bit_iff)
  next
    case (here d)
    then have i: "32 * j + m - (32 * k + s) = 32 * d + (m - s)" "32 * k + s \<le> 32 * j + m" by simp_all
    have i2: "(32 * d + (m - s)) div 32 = d" "(32 * d + (m - s)) mod 32 = m - s"
      using limb_index[of "m - s" d] m by simp_all
    have "\<not> bit (a ! n) (32 - s + m)" for n using here(2) s by (auto dest!: bit_limb_high)
    then have "bit (r ! j) m \<longleftrightarrow> bit (a ! d) (m - s)"
      unfolding r using here m by (auto simp: bit_or_iff bit_push_bit_iff bit_drop_bit_eq)
    also have "\<dots> \<longleftrightarrow> bit (uint_val a) (32 * d + (m - s))"
      unfolding bit_uint_val i2 using a j here(1) by simp
    finally show ?thesis unfolding bit_push_bit_iff i(1) using i(2) by simp
  next
    case (carry d)
    then have i: "32 * j + m - (32 * k + s) = 32 * d + (32 - s + m)" "32 * k + s \<le> 32 * j + m" using s by simp_all
    have i2: "(32 * d + (32 - s + m)) div 32 = d" "(32 * d + (32 - s + m)) mod 32 = 32 - s + m"
      by (rule limb_index; use carry(2) s in simp)+
    have "bit (r ! j) m \<longleftrightarrow> bit (a ! d) (32 - s + m)"
      unfolding r using carry by (auto simp: bit_or_iff bit_push_bit_iff bit_drop_bit_eq)
    also have "\<dots> \<longleftrightarrow> bit (uint_val a) (32 * d + (32 - s + m))"
      unfolding bit_uint_val i2 using a j carry(1) by simp
    finally show ?thesis unfolding bit_push_bit_iff i(1) using i(2) by simp
  qed
qed

lemma shift_left_length [simp]: "length (shift_left a n) = WIDTH"
  using shift_left_limbs[of WIDTH a "n div 32" "n mod 32"] by (simp add: shift_left_def)

lemma shift_left_val:
  assumes "length a = WIDTH"
  shows "uint_val (shift_left a n) = (uint_val a * 2 ^ n) mod 2 ^ (32 * WIDTH)"
proof -
  have "uint_val (shift_left a n) = take_bit (32 * WIDTH) (push_bit (32 * (n div 32) + n mod 32) (uint_val a))"
    by (rule uint_val_bits_eqI[OF shift_left_length], unfold shift_left_def, rule shift_left_bits[OF assms]) simp_all
  then show ?thesis by (simp add: take_bit_eq_mod push_bit_eq_mult)
qed

lemma shift_right_bits:
  fixes k :: nat
  assumes a: "length a = WIDTH" and s: "s < 32" and j: "j < WIDTH" and m: "m < 32"
  defines "r \<equiv> foldl (shift_right_limb a k s) (replicate WIDTH 0) [0..<WIDTH]"
  shows "bit (r ! j) m \<longleftrightarrow> bit (drop_bit (32 * k + s) (uint_val a)) (32 * j + m)"
proof -
  have r: "r ! j = (if j + k < WIDTH then drop_bit s (a ! (j + k)) else 0) OR
    (if s \<noteq> 0 \<and> j + k + 1 < WIDTH then push_bit (32 - s) (a ! (j + k + 1)) else 0)"
    using shift_right_limbs[of WIDTH a k s] j unfolding r_def by simp
  show ?thesis
  proof (cases "m + s < 32")
    case True
    then have i: "(32 * (j + k) + (s + m)) div 32 = j + k" "(32 * (j + k) + (s + m)) mod 32 = s + m"
      by (intro limb_index; simp)+
    have n: "32 * k + s + (32 * j + m) = 32 * (j + k) + (s + m)" by simp
    have "\<not> 32 - s \<le> m" using True by simp
    show ?thesis unfolding bit_drop_bit_eq comp_def n bit_uint_val i a r
      using True m \<open>\<not> 32 - s \<le> m\<close> by (simp add: bit_or_iff bit_push_bit_iff bit_drop_bit_eq)
  next
    case False
    with s m have i: "(32 * (j + k + 1) + (s + m - 32)) div 32 = j + k + 1" "(32 * (j + k + 1) + (s + m - 32)) mod 32 = s + m - 32"
      by (intro limb_index; simp)+
    have n: "32 * k + s + (32 * j + m) = 32 * (j + k + 1) + (s + m - 32)" using False by simp
    have "\<not> bit (a ! n) (s + m)" for n using False by (auto dest!: bit_limb_high)
    then show ?thesis unfolding bit_drop_bit_eq comp_def n bit_uint_val i a r
      using False s m by (auto simp: bit_or_iff bit_push_bit_iff bit_drop_bit_eq add.commute)
  qed
qed

lemma shift_right_length [simp]: "length (shift_right a n) = WIDTH"
  using shift_right_limbs[of WIDTH a "n div 32" "n mod 32"] by (simp add: shift_right_def)

lemma shift_right_val:
  assumes "length a = WIDTH"
  shows "uint_val (shift_right a n) = uint_val a div 2 ^ n"
proof -
  have "uint_val (shift_right a n) = take_bit (32 * WIDTH) (drop_bit (32 * (n div 32) + n mod 32) (uint_val a))"
    by (rule uint_val_bits_eqI[OF shift_right_length], unfold shift_right_def, rule shift_right_bits[OF assms]) simp_all
  moreover have "uint_val a div 2 ^ n < 2 ^ (32 * WIDTH)"
    using uint_val_less[of a] assms by (metis div_le_dividend le_less_trans)
  ultimately show ?thesis by (simp add: take_bit_eq_mod drop_bit_eq_div)
qed

section \<open>Comparison and the number of bits\<close>

lemma uint_val_take_Suc:
  "i < length pn \<Longrightarrow> uint_val (take (Suc i) pn) = uint_val (take i pn) + 2 ^ (32 * i) * unat (pn ! i)"
  by (simp add: take_Suc_conv_app_nth uint_val_append)

lemma uint_val_take_less: "i \<le> length pn \<Longrightarrow> uint_val (take i pn) < 2 ^ (32 * i)"
  using uint_val_less[of "take i pn"] by (simp add: min_absorb2)

lemma compare_loop_val:
  assumes "n \<le> length a" "n \<le> length b"
  shows "compare_loop a b n = sgn (int (uint_val (take n a)) - int (uint_val (take n b)))"
  using assms
proof (induction n)
  case (Suc n)
  let ?A = "uint_val (take n a)" and ?B = "uint_val (take n b)" and ?P = "2 ^ (32 * n) :: nat"
  have less: "?A < ?P" "?B < ?P" using Suc.prems uint_val_take_less[of n] by simp_all
  have top: "x + ?P * unat p < y + ?P * unat q" if "unat p < unat q" "x < ?P" for x y and p q :: "32 word"
  proof -
    have "x + ?P * unat p < ?P * (unat p + 1)" using that(2) by (simp add: algebra_simps)
    also have "\<dots> \<le> ?P * unat q" using that(1) by (intro mult_le_mono2) simp
    finally show ?thesis by simp
  qed
  consider "a ! n < b ! n" | "b ! n < a ! n" | "a ! n = b ! n" by (rule linorder_cases)
  then show ?case
  proof cases
    case 1
    with top[of "a ! n" "b ! n" ?A ?B] less Suc.prems have "uint_val (take (Suc n) a) < uint_val (take (Suc n) b)"
      by (simp add: uint_val_take_Suc word_less_nat_alt)
    with 1 show ?thesis by simp
  next
    case 2
    with top[of "b ! n" "a ! n" ?B ?A] less Suc.prems have "uint_val (take (Suc n) b) < uint_val (take (Suc n) a)"
      by (simp add: uint_val_take_Suc word_less_nat_alt)
    with 2 show ?thesis by simp
  next
    case 3
    with Suc show ?thesis by (simp add: uint_val_take_Suc)
  qed
qed simp

lemma CompareTo_val:
  "length a = WIDTH \<Longrightarrow> length b = WIDTH \<Longrightarrow> CompareTo a b = sgn (int (uint_val a) - int (uint_val b))"
  by (simp add: CompareTo_def compare_loop_val)

lemma limb_bit:
  "p AND push_bit n 1 \<noteq> 0 \<longleftrightarrow> odd (unat p div 2 ^ n)" for p :: "32 word"
proof -
  have "p AND push_bit n 1 \<noteq> 0 \<longleftrightarrow> bit p n" by (simp add: bit_iff_and_push_bit_not_eq_0)
  also have "\<dots> \<longleftrightarrow> bit (unat p) n" by (simp add: bit_unsigned_iff)
  finally show ?thesis by (simp add: bit_iff_odd)
qed

text \<open>The number of binary digits of a number.\<close>

definition digits :: "nat \<Rightarrow> nat \<Rightarrow> bool" where
  "digits x n \<longleftrightarrow> x < 2 ^ n \<and> (0 < n \<longrightarrow> 2 ^ (n - 1) \<le> x)"

lemma digits_zero [simp]: "digits x 0 \<longleftrightarrow> x = 0"
  by (simp add: digits_def)

lemma bits_limb_digits:
  assumes "p \<noteq> 0" "unat p < 2 ^ (n + 1)"
  shows "digits (unat p) (bits_limb n p) \<and> 0 < bits_limb n p"
  using assms(2)
proof (induction n)
  case 0
  then have "unat p = 1" using assms(1) unat_eq_0[of p] by simp
  then show ?case by (simp add: digits_def)
next
  case (Suc n)
  let ?x = "unat p"
  show ?case
  proof (cases "odd (?x div 2 ^ Suc n)")
    case True
    then have "?x div 2 ^ Suc n \<noteq> 0" by (metis even_zero)
    then have "2 ^ Suc n \<le> ?x" by (metis div_less linorder_not_le)
    moreover have "bits_limb (Suc n) p = Suc n + 1" unfolding bits_limb.simps limb_bit using True by simp
    ultimately show ?thesis using Suc.prems by (simp add: digits_def del: bits_limb.simps)
  next
    case False
    have "?x div 2 ^ Suc n < 2" using Suc.prems by (simp add: div_less_iff_less_mult)
    with False have "?x div 2 ^ Suc n = 0" by (cases "?x div 2 ^ Suc n" rule: nat.exhaust) (auto simp: less_Suc_eq numeral_2_eq_2)
    then have "?x < 2 ^ (n + 1)" by (simp add: div_eq_0_iff)
    moreover have "bits_limb (Suc n) p = bits_limb n p" unfolding bits_limb.simps limb_bit using False by simp
    ultimately show ?thesis using Suc.IH by (simp del: bits_limb.simps)
  qed
qed

lemma bits_loop_digits: "n \<le> length pn \<Longrightarrow> digits (uint_val (take n pn)) (bits_loop pn n)"
proof (induction n)
  case (Suc n)
  let ?x = "uint_val (take n pn)" and ?k = "bits_limb 31 (pn ! n)"
  have x: "?x < 2 ^ (32 * n)" using Suc.prems by (simp add: uint_val_take_less)
  have val: "uint_val (take (Suc n) pn) = ?x + 2 ^ (32 * n) * unat (pn ! n)"
    using Suc.prems by (simp add: uint_val_take_Suc)
  show ?case
  proof (cases "pn ! n = 0")
    case False
    then have k: "unat (pn ! n) < 2 ^ ?k" "2 ^ (?k - 1) \<le> unat (pn ! n)" "0 < ?k"
      using bits_limb_digits[of "pn ! n" 31] limb_less[of "pn ! n"] by (simp_all add: digits_def)
    have "?x + 2 ^ (32 * n) * unat (pn ! n) < 2 ^ (32 * n) * (unat (pn ! n) + 1)" using x by (simp add: algebra_simps)
    also have "\<dots> \<le> 2 ^ (32 * n) * 2 ^ ?k" using k(1) by (intro mult_le_mono2) simp
    finally have "?x + 2 ^ (32 * n) * unat (pn ! n) < 2 ^ (32 * n + ?k)" by (simp add: power_add)
    moreover have "2 ^ (32 * n + ?k - 1) \<le> ?x + 2 ^ (32 * n) * unat (pn ! n)"
    proof -
      have "2 ^ (32 * n + ?k - 1) = 2 ^ (32 * n) * (2 ^ (?k - 1) :: nat)" using k(3) by (simp flip: power_add)
      also have "\<dots> \<le> 2 ^ (32 * n) * unat (pn ! n)" using k(2) by (intro mult_le_mono2)
      finally show ?thesis by simp
    qed
    ultimately show ?thesis using False by (simp add: digits_def val)
  qed (use Suc val in simp)
qed simp

lemma bits_digits: "length pn = WIDTH \<Longrightarrow> digits (uint_val pn) (bits pn)"
  using bits_loop_digits[of WIDTH pn] by (simp add: bits_def)

lemma digits_unique: "digits x m \<Longrightarrow> digits x n \<Longrightarrow> m = n"
proof (rule ccontr)
  assume "digits x m" "digits x n" "m \<noteq> n"
  moreover have False if "x < 2 ^ a" "2 ^ (b - 1) \<le> x" "a < b" for a b :: nat
  proof -
    have "(2 :: nat) ^ a \<le> 2 ^ (b - 1)" using that(3) by (intro power_increasing) simp_all
    with that show False by simp
  qed
  ultimately show False by (cases m n rule: linorder_cases) (auto simp: digits_def)
qed

section \<open>Division\<close>

lemma set_limb_bit:
  assumes "length pn = WIDTH" "n < 32 * WIDTH"
  shows "uint_val (pn[n div 32 := pn ! (n div 32) OR push_bit (n mod 32) 1]) = set_bit n (uint_val pn)"
proof (rule bit_eqI)
  fix m :: nat
  have "n div 32 < WIDTH" using assms(2) by (simp add: div_less_iff_less_mult mult.commute)
  moreover have "m = n \<longleftrightarrow> m div 32 = n div 32 \<and> m mod 32 = n mod 32" by (metis div_mult_mod_eq)
  moreover have "n mod 32 < 32" "m mod 32 < 32" by simp_all
  ultimately show "bit (uint_val (pn[n div 32 := pn ! (n div 32) OR push_bit (n mod 32) 1])) m \<longleftrightarrow> bit (set_bit n (uint_val pn)) m"
    using assms(1)
    by (auto simp: bit_uint_val bit_set_bit_iff bit_or_iff bit_push_bit_iff bit_exp_iff nth_list_update)
qed

lemma div_loop_correct:
  assumes len: "length num = WIDTH" "length divisor = WIDTH" "length pn = WIDTH"
    and "n \<le> 32 * WIDTH" "uint_val pn = 2 ^ n * q" "0 < D"
    and "uint_val num < D * 2 ^ n" "0 < n \<Longrightarrow> uint_val divisor = D * 2 ^ (n - 1)"
    and "div_loop n num divisor pn = (pn', num')"
  shows "length pn' = WIDTH \<and> uint_val pn' * D + uint_val num' = uint_val pn * D + uint_val num \<and> uint_val num' < D"
  using assms
proof (induction n arbitrary: num divisor pn q)
  case (Suc n)
  have div: "uint_val divisor = D * 2 ^ n" and n: "n < 32 * WIDTH" using Suc.prems by simp_all
  have next_div: "0 < n \<Longrightarrow> uint_val (shift_right divisor 1) = D * 2 ^ (n - 1)"
    using Suc.prems(2) by (cases n) (simp_all add: shift_right_val div)
  show ?case
  proof (cases "uint_val divisor \<le> uint_val num")
    case True
    define pn2 where "pn2 = pn[n div 32 := pn ! (n div 32) OR push_bit (n mod 32) 1]"
    define num2 where "num2 = uint_sub num divisor"
    have ge: "0 \<le> CompareTo num divisor" using True Suc.prems(1,2) by (simp add: CompareTo_val sgn_if)
    have "\<not> bit (uint_val pn) n" using Suc.prems(5) by (simp add: bit_iff_odd)
    then have val: "uint_val pn2 = uint_val pn + 2 ^ n"
      using set_limb_bit[OF Suc.prems(3) n] by (simp add: set_bit_eq pn2_def)
    have sub: "uint_val num2 = uint_val num - D * 2 ^ n"
      using True Suc.prems(1,2) by (simp add: uint_sub_val div num2_def)
    have lens: "length num2 = WIDTH" "length pn2 = WIDTH" using Suc.prems(1-3) by (simp_all add: num2_def pn2_def)
    have q: "uint_val pn2 = 2 ^ n * (2 * q + 1)" using Suc.prems(5) val by (simp add: algebra_simps)
    have small: "uint_val num2 < D * 2 ^ n" using Suc.prems(7) True div sub by (simp add: algebra_simps)
    have loop: "div_loop n num2 (shift_right divisor 1) pn2 = (pn', num')"
      using Suc.prems(9) ge unfolding div_loop.simps num2_def pn2_def by simp
    have "n \<le> 32 * WIDTH" using n by simp
    from Suc.IH[OF lens(1) shift_right_length lens(2) this q Suc.prems(6) small next_div loop]
    have "length pn' = WIDTH \<and> uint_val pn' * D + uint_val num' = (uint_val pn + 2 ^ n) * D + (uint_val num - D * 2 ^ n) \<and>
        uint_val num' < D"
      by (simp only: val sub)
    with True div show ?thesis by (simp add: algebra_simps)
  next
    case False
    then have lt: "\<not> 0 \<le> CompareTo num divisor" using Suc.prems(1,2) by (simp add: CompareTo_val sgn_if)
    have "div_loop n num (shift_right divisor 1) pn = (pn', num')" using Suc.prems(9) lt by simp
    moreover have "uint_val pn = 2 ^ n * (2 * q)" using Suc.prems(5) by simp
    moreover have "uint_val num < D * 2 ^ n" using False div by simp
    ultimately show ?thesis
      using Suc.IH[of num "shift_right divisor 1" pn "2 * q"] Suc.prems(1-4,6) next_div by simp
  qed
qed simp

lemma uint_div_correct:
  assumes "uint_ok a" "uint_ok b"
  shows "if uint_val b = 0 then uint_div a b = None
    else \<exists>c. uint_div a b = Some c \<and> uint_ok c \<and> uint_val c = uint_val a div uint_val b"
proof -
  let ?A = "uint_val a" and ?B = "uint_val b" and ?n = "bits a" and ?m = "bits b"
  have len: "length a = WIDTH" "length b = WIDTH" using assms by (simp_all add: uint_ok_def)
  have d: "digits ?A ?n" "digits ?B ?m" using len by (simp_all add: bits_digits)
  have A: "?A < 2 ^ (32 * WIDTH)" using uint_val_less[of a] len by simp
  have zero: "?m = 0 \<longleftrightarrow> ?B = 0" using d(2) by (auto simp: digits_def)
  show ?thesis
  proof (cases "?B = 0 \<or> ?n < ?m")
    case True
    have "?A div ?B = 0" if "?B \<noteq> 0" "?n < ?m"
    proof -
      have "?A < 2 ^ ?n" "2 ^ (?m - 1) \<le> ?B" using d that by (simp_all add: digits_def)
      moreover have "(2 :: nat) ^ ?n \<le> 2 ^ (?m - 1)" using that by (intro power_increasing) simp_all
      ultimately have "?A < ?B" by linarith
      then show ?thesis by simp
    qed
    with True show ?thesis using zero by (auto simp: uint_div_def uint_val_base_uint_of)
  next
    case False
    define s where "s = ?n - ?m"
    have n: "?n = ?m + s" and B: "0 < ?B" "0 < ?m" using False zero by (simp_all add: s_def)
    have low: "2 ^ (?n - 1) \<le> ?A" using d(1) n B by (simp add: digits_def)
    have "?n \<le> 32 * WIDTH"
    proof (rule ccontr)
      assume "\<not> ?n \<le> 32 * WIDTH"
      then have "(2 :: nat) ^ (32 * WIDTH) \<le> 2 ^ (?n - 1)" by (intro power_increasing) simp_all
      with low A show False by linarith
    qed
    have "?B * 2 ^ s < 2 ^ ?m * 2 ^ s" using d(2) B by (simp add: digits_def)
    also have "\<dots> = 2 ^ ?n" by (simp add: n power_add)
    also have "\<dots> \<le> 2 ^ (32 * WIDTH)" using \<open>?n \<le> 32 * WIDTH\<close> by (intro power_increasing) simp_all
    finally have shifted: "uint_val (shift_left b s) = ?B * 2 ^ s" using len by (simp add: shift_left_val)
    have "?A < 2 ^ ?n" using d(1) by (simp add: digits_def)
    also have "2 ^ ?n = 2 ^ (?m - 1) * (2 :: nat) ^ (s + 1)"
      unfolding power_add[symmetric] using n B by (intro arg_cong[where f = "\<lambda>k. 2 ^ k"]) simp
    also have "\<dots> \<le> ?B * 2 ^ (s + 1)" using d(2) B by (intro mult_le_mono1) (simp add: digits_def)
    finally have less: "?A < ?B * 2 ^ Suc s" by simp
    obtain c r where cr: "div_loop (Suc s) a (shift_left b s) (base_uint_of 0) = (c, r)" by (cases rule: prod.exhaust)
    have ok: "length (base_uint_of 0) = WIDTH" using base_uint_of_ok[of 0] by (simp only: uint_ok_def)
    have "Suc s \<le> 32 * WIDTH" using \<open>?n \<le> 32 * WIDTH\<close> n B by simp
    with div_loop_correct[OF len(1) shift_left_length ok _ _ B(1) less _ cr, of 0] shifted
    have res: "length c = WIDTH" "uint_val c * ?B + uint_val r = ?A" "uint_val r < ?B"
      by (simp_all add: uint_val_base_uint_of)
    then have "uint_val c = ?A div ?B" by (metis B(1) add.commute div_mult_self1 div_less add_0 less_not_refl mult.commute)
    moreover have "uint_div a b = Some c" using False zero cr by (simp add: uint_div_def s_def del: div_loop.simps)
    ultimately show ?thesis using B res(1) by (simp add: uint_ok_def)
  qed
qed

section \<open>The compact form\<close>

lemma nat_or_high: "x < 2 ^ k \<Longrightarrow> x OR push_bit k y = x + 2 ^ k * y" for x y :: nat
proof -
  assume "x < 2 ^ k"
  then have "x = take_bit k x" by (simp add: take_bit_eq_mod)
  then have "\<not> bit x n \<or> \<not> bit (push_bit k y) n" for n
    by (metis bit_push_bit_iff bit_take_bit_iff linorder_not_less)
  then show ?thesis by (simp add: disjunctive_add[symmetric] push_bit_eq_mult)
qed

lemma GetLow64_val:
  assumes "length pn = WIDTH"
  shows "unat (GetLow64 pn) = uint_val pn mod 2 ^ 64"
proof -
  obtain p q pn' where pn: "pn = p # q # pn'"
    using assms by (cases pn; cases "tl pn") (auto simp: WIDTH_def)
  have word: "unat (ucast w :: 64 word) = unat w" for w :: "32 word"
    using limb_less[of w] by (simp add: unsigned_ucast_eq take_bit_eq_mod)
  have "unat (push_bit 32 (ucast q) :: 64 word) = take_bit 64 (push_bit 32 (unat (ucast q :: 64 word)))"
    by (subst unsigned_push_bit_eq) simp
  then have "unat (push_bit 32 (ucast q) :: 64 word) = push_bit 32 (unat q)"
    using limb_less[of q] unfolding word by (simp add: take_bit_eq_mod push_bit_eq_mult)
  with word[of p] have "unat (GetLow64 pn) = unat p + 2 ^ 32 * unat q"
    using nat_or_high[OF limb_less[of p], of "unat q"] by (simp add: GetLow64_def pn unsigned_or_eq)
  moreover have "uint_val pn = unat p + 2 ^ 32 * unat q + 2 ^ 64 * uint_val pn'" by (simp add: pn)
  moreover have "unat p + 2 ^ 32 * unat q < 2 ^ 64" using limb_less[of p] limb_less[of q] by simp
  ultimately show ?thesis by simp
qed

lemma compact_masks:
  fixes w :: "32 word"
  shows "unat (w AND 0x007fffff) = unat w mod 2 ^ 23"
    and "w AND 0x00800000 \<noteq> 0 \<longleftrightarrow> odd (unat w div 2 ^ 23)"
    and "unat w < 2 ^ 23 \<Longrightarrow> w AND NOT 0x007fffff = 0"
proof -
  have mask: "(0x007fffff :: 32 word) = mask 23" "(0x00800000 :: 32 word) = push_bit 23 1"
    by (simp_all add: mask_eq_exp_minus_1)
  have "unat (take_bit 23 w) = unat w mod 2 ^ 23" by (simp add: take_bit_eq_mod unat_mod)
  then show "unat (w AND 0x007fffff) = unat w mod 2 ^ 23" unfolding mask by (simp only: take_bit_eq_mask)
  show "w AND 0x00800000 \<noteq> 0 \<longleftrightarrow> odd (unat w div 2 ^ 23)" unfolding mask by (rule limb_bit)
  assume "unat w < 2 ^ 23"
  then have "unat (take_bit 23 w) = unat w" by (simp add: take_bit_eq_mod unat_mod)
  then have "w = take_bit 23 w" by (simp add: word_unat_eq_iff)
  then have "w AND NOT (mask 23) = take_bit 23 w AND NOT (mask 23)" by simp
  then show "w AND NOT 0x007fffff = 0" unfolding mask by (simp add: take_bit_eq_mask and.assoc)
qed

text \<open>Mantissa and size of the compact form of a number of \<open>n\<close> bytes.\<close>

definition compact_parts :: "nat \<Rightarrow> nat \<Rightarrow> nat \<times> nat" where
  "compact_parts x n =
     (let m = (if n \<le> 3 then x * 256 ^ (3 - n) else x div 256 ^ (n - 3))
      in if m < 2 ^ 23 then (m, n) else (m div 256, n + 1))"

lemma power_256: "2 ^ (8 * n) = (256 :: nat) ^ n"
  by (simp add: power_mult)

lemma bits_bytes:
  assumes "length pn = WIDTH"
  defines "n \<equiv> (bits pn + 7) div 8"
  shows "uint_val pn < 256 ^ n" "0 < n \<Longrightarrow> 256 ^ (n - 1) \<le> uint_val pn" "n \<le> 32"
proof -
  have d: "digits (uint_val pn) (bits pn)" using assms(1) by (rule bits_digits)
  have n: "bits pn \<le> 8 * n" "8 * n \<le> bits pn + 7" unfolding n_def by linarith+
  then have "(2 :: nat) ^ bits pn \<le> 2 ^ (8 * n)" by (intro power_increasing) simp_all
  with d show "uint_val pn < 256 ^ n" by (simp add: digits_def power_256)
  show low: "256 ^ (n - 1) \<le> uint_val pn" if "0 < n"
  proof -
    have "(2 :: nat) ^ (8 * (n - 1)) \<le> 2 ^ (bits pn - 1)" using n that by (intro power_increasing) simp_all
    moreover have "0 < bits pn" using n that by simp
    ultimately show ?thesis using d by (simp add: digits_def power_256)
  qed
  show "n \<le> 32"
  proof (rule ccontr)
    assume "\<not> n \<le> 32"
    then have "(256 :: nat) ^ 32 \<le> 256 ^ (n - 1)" by (intro power_increasing) simp_all
    with low \<open>\<not> n \<le> 32\<close> have "256 ^ 32 \<le> uint_val pn" by simp
    moreover have "uint_val pn < 256 ^ 32"
      using uint_val_less[of pn] assms(1) by (simp add: WIDTH_def)
    ultimately show False by simp
  qed
qed

lemma compact_raw:
  assumes "length pn = WIDTH"
  defines "n \<equiv> (bits pn + 7) div 8"
  shows "unat (if n \<le> 3 then ucast (push_bit (8 * (3 - n)) (GetLow64 pn))
      else ucast (GetLow64 (shift_right pn (8 * (n - 3)))) :: 32 word) =
    (if n \<le> 3 then uint_val pn * 256 ^ (3 - n) else uint_val pn div 256 ^ (n - 3))"
    and "(if n \<le> 3 then uint_val pn * 256 ^ (3 - n) else uint_val pn div 256 ^ (n - 3)) < 2 ^ 24"
proof -
  let ?x = "uint_val pn"
  have x: "?x < 256 ^ n" using bits_bytes[OF assms(1)] by (simp add: n_def)
  have small: "?x * 256 ^ (3 - n) < 2 ^ 24" if "n \<le> 3"
  proof -
    have "?x * 256 ^ (3 - n) < 256 ^ n * 256 ^ (3 - n)" using x by simp
    also have "\<dots> = 256 ^ 3" using that by (simp flip: power_add)
    finally show ?thesis by simp
  qed
  have large: "?x div 256 ^ (n - 3) < 2 ^ 24" if "\<not> n \<le> 3"
  proof -
    have "256 ^ n = 256 ^ 3 * (256 :: nat) ^ (n - 3)" unfolding power_add[symmetric] using that by simp
    with x show ?thesis by (simp add: div_less_iff_less_mult)
  qed
  show "(if n \<le> 3 then ?x * 256 ^ (3 - n) else ?x div 256 ^ (n - 3)) < 2 ^ 24"
    using small large by simp
  show "unat (if n \<le> 3 then ucast (push_bit (8 * (3 - n)) (GetLow64 pn))
      else ucast (GetLow64 (shift_right pn (8 * (n - 3)))) :: 32 word) =
    (if n \<le> 3 then ?x * 256 ^ (3 - n) else ?x div 256 ^ (n - 3))"
  proof (cases "n \<le> 3")
    case True
    have "?x \<le> ?x * 256 ^ (3 - n)" by simp
    then have x24: "?x < 2 ^ 24" using small[OF True] by linarith
    have "unat (push_bit (8 * (3 - n)) (GetLow64 pn)) = take_bit 64 (push_bit (8 * (3 - n)) (unat (GetLow64 pn)))"
      by (subst unsigned_push_bit_eq) simp
    also have "\<dots> = (?x * 256 ^ (3 - n)) mod 2 ^ 64"
      using x24 by (simp add: GetLow64_val[OF assms(1)] take_bit_eq_mod push_bit_eq_mult power_256)
    also have "\<dots> = ?x * 256 ^ (3 - n)" using small[OF True] by simp
    finally show ?thesis using True small[OF True] by (simp add: unsigned_ucast_eq take_bit_eq_mod)
  next
    case False
    then show ?thesis
      using large[OF False]
      by (simp add: unsigned_ucast_eq take_bit_eq_mod GetLow64_val shift_right_val assms(1) power_256)
  qed
qed

lemma compact_word:
  assumes "unat (w :: 32 word) < 2 ^ 23" "n < 256"
  shows "unat (w OR push_bit 24 (of_nat n)) = unat w + 2 ^ 24 * n"
proof -
  have "unat (push_bit 24 (of_nat n :: 32 word)) = take_bit 32 (push_bit 24 (unat (of_nat n :: 32 word)))"
    by (subst unsigned_push_bit_eq) simp
  also have "\<dots> = push_bit 24 n"
    using assms(2) by (simp add: unsigned_of_nat take_bit_eq_mod push_bit_eq_mult)
  finally show ?thesis
    using nat_or_high[of "unat w" 24 n] assms(1) by (simp add: unsigned_or_eq)
qed

lemma GetCompact_parts:
  assumes "uint_ok pn"
  defines "x \<equiv> uint_val pn" and "n \<equiv> (bits pn + 7) div 8"
  shows "\<exists>c. GetCompact False pn = Some c \<and> unat c = fst (compact_parts x n) + 2 ^ 24 * snd (compact_parts x n) \<and>
    fst (compact_parts x n) < 2 ^ 23 \<and> snd (compact_parts x n) < 256"
proof -
  have len: "length pn = WIDTH" using assms(1) by (simp add: uint_ok_def)
  define w :: "32 word" where "w = (if n \<le> 3 then ucast (push_bit (8 * (3 - n)) (GetLow64 pn))
      else ucast (GetLow64 (shift_right pn (8 * (n - 3)))))"
  define m where "m = (if n \<le> 3 then x * 256 ^ (3 - n) else x div 256 ^ (n - 3))"
  have w: "unat w = m" "m < 2 ^ 24" using compact_raw[OF len] unfolding w_def m_def x_def n_def by simp_all
  have n32: "n \<le> 32" using bits_bytes(3)[OF len] by (simp add: n_def)
  have parts: "compact_parts x n = (if m < 2 ^ 23 then (m, n) else (m div 256, n + 1))"
    by (simp add: compact_parts_def m_def)
  have "m div 2 ^ 23 < 2" using w(2) by (simp add: div_less_iff_less_mult)
  then have top: "odd (m div 2 ^ 23) \<longleftrightarrow> \<not> m < 2 ^ 23" using div_eq_0_iff[of m "2 ^ 23"] by (cases "m div 2 ^ 23") auto
  define w2 where "w2 = (if m < 2 ^ 23 then w else drop_bit 8 w)"
  define n2 where "n2 = (if m < 2 ^ 23 then n else n + 1)"
  have w2: "unat w2 = fst (compact_parts x n)" "unat w2 < 2 ^ 23" and n2: "n2 = snd (compact_parts x n)" "n2 < 256"
    using w n32 by (auto simp: w2_def n2_def parts drop_bit_eq_div unat_div)
  have "GetCompact False pn = Some (w2 OR push_bit 24 (of_nat n2))"
    using compact_masks(3)[OF w2(2)] n2(2)
    unfolding GetCompact_def n_def[symmetric] Let_def w_def[symmetric] compact_masks(2)[of w] w(1) top
    by (cases "m < 2 ^ 23") (simp_all add: w2_def n2_def)
  with compact_word[OF w2(2) n2(2)] w2 n2 show ?thesis by simp
qed

lemma SetCompact_parts:
  assumes "unat c = m + 2 ^ 24 * n" "m < 2 ^ 23" "n < 256"
  shows "\<exists>r. SetCompact c = (r, False, m div 256 ^ (3 - n) \<noteq> 0 \<and> (n > 34 \<or> (m > 0xff \<and> n > 33) \<or> (m > 0xffff \<and> n > 32))) \<and>
    uint_ok r \<and> uint_val r = (if n \<le> 3 then m div 256 ^ (3 - n) else (m * 256 ^ (n - 3)) mod 2 ^ 256)"
proof -
  have c: "unat c = m + 2 ^ 23 * (2 * n)" using assms(1) by simp
  have size: "unat (drop_bit 24 c) = n" using assms by (simp add: drop_bit_eq_div unat_div)
  have word: "unat (c AND 0x007fffff) = m" unfolding compact_masks(1) c mod_mult_self2 using assms(2) by simp
  have "unat c div 2 ^ 23 = 2 * n" unfolding c using assms(2) by simp
  then have sign: "\<not> c AND 0x00800000 \<noteq> 0" unfolding compact_masks(2) by simp
  have small: "m div 256 ^ (3 - n) \<le> m" by simp
  define w where "w = (if n \<le> 3 then drop_bit (8 * (3 - n)) (c AND 0x007fffff) else c AND 0x007fffff)"
  have w: "unat w = m div 256 ^ (3 - n)"
  proof -
    have "unat (drop_bit (8 * (3 - n)) (c AND 0x007fffff)) = drop_bit (8 * (3 - n)) m"
      by (subst unat_drop_bit_eq) (simp only: word)
    then show ?thesis unfolding w_def using word by (simp add: drop_bit_eq_div power_256)
  qed
  then have w64: "unat (ucast w :: 64 word) = m div 256 ^ (3 - n)"
    using limb_less[of w] by (simp add: unsigned_ucast_eq take_bit_eq_mod)
  define r where "r = (if n \<le> 3 then base_uint_of (ucast w) else shift_left (base_uint_of (ucast w)) (8 * (n - 3)))"
  have "uint_ok r" by (simp add: r_def uint_ok_def[of "shift_left _ _"])
  moreover have "uint_val r = (if n \<le> 3 then m div 256 ^ (3 - n) else (m * 256 ^ (n - 3)) mod 2 ^ 256)"
  proof (cases "n \<le> 3")
    case False
    have "uint_val r = (uint_val (base_uint_of (ucast w)) * 2 ^ (8 * (n - 3))) mod 2 ^ (32 * WIDTH)"
      using False base_uint_of_ok by (simp add: r_def shift_left_val uint_ok_def)
    also have "\<dots> = (m * 256 ^ (n - 3)) mod 2 ^ 256"
      unfolding uint_val_base_uint_of w64 power_256 using False by (simp add: WIDTH_def)
    finally show ?thesis using False by simp
  qed (simp add: r_def uint_val_base_uint_of w64)
  moreover have "SetCompact c = (r, False, w \<noteq> 0 \<and> (n > 34 \<or> (w > 0xff \<and> n > 33) \<or> (w > 0xffff \<and> n > 32)))"
    using sign unfolding SetCompact_def Let_def size w_def[symmetric] r_def[symmetric] by simp
  moreover have "w \<noteq> 0 \<and> (n > 34 \<or> (w > 0xff \<and> n > 33) \<or> (w > 0xffff \<and> n > 32)) \<longleftrightarrow>
      m div 256 ^ (3 - n) \<noteq> 0 \<and> (n > 34 \<or> (m > 0xff \<and> n > 33) \<or> (m > 0xffff \<and> n > 32))"
  proof (cases "n \<le> 3")
    case False
    with w have "unat w = m" by simp
    then show ?thesis by (auto simp: word_less_nat_alt unat_eq_0[symmetric])
  qed simp
  ultimately show ?thesis by auto
qed

text \<open>What remains of a number in its compact form: the leading 15 bits at least.\<close>

lemma compact_parts_val:
  fixes x n :: nat
  assumes "x < 256 ^ n" "0 < n \<Longrightarrow> 256 ^ (n - 1) \<le> x"
  defines "m \<equiv> fst (compact_parts x n)" and "k \<equiv> snd (compact_parts x n)"
  shows "k \<le> 3 \<Longrightarrow> m div 256 ^ (3 - k) = x"
    and "3 < k \<Longrightarrow> m = x div 256 ^ (k - 3) \<and> 2 ^ 15 \<le> m"
    and "n < k \<Longrightarrow> m < 2 ^ 16"
proof -
  define M where "M = (if n \<le> 3 then x * 256 ^ (3 - n) else x div 256 ^ (n - 3))"
  have mk: "m = (if M < 2 ^ 23 then M else M div 256)" "k = (if M < 2 ^ 23 then n else n + 1)"
    by (simp_all add: m_def k_def compact_parts_def M_def[symmetric])
  have less: "M < 256 ^ 3"
  proof (cases "n \<le> 3")
    case True
    then have "x * 256 ^ (3 - n) < 256 ^ n * 256 ^ (3 - n)" using assms(1) by simp
    also have "\<dots> = 256 ^ 3" using True by (simp flip: power_add)
    finally show ?thesis unfolding M_def using True by (simp only: if_True)
  next
    case False
    then have "256 ^ n = 256 ^ 3 * (256 :: nat) ^ (n - 3)" unfolding power_add[symmetric] by simp
    with assms(1) False show ?thesis by (simp add: M_def div_less_iff_less_mult)
  qed
  then show "n < k \<Longrightarrow> m < 2 ^ 16" by (auto simp: mk div_less_iff_less_mult)
  show "m div 256 ^ (3 - k) = x" if "k \<le> 3"
  proof (cases "M < 2 ^ 23")
    case False
    then have n: "n < 3" "k = n + 1" using that by (simp_all add: mk)
    then have "3 - n = Suc (3 - k)" by simp
    then have "256 ^ (3 - n) = 256 * (256 :: nat) ^ (3 - k)" by (simp only: power_Suc)
    with n(1) have M: "M = 256 * (x * 256 ^ (3 - k))" by (simp add: M_def)
    have "m = M div 256" using False mk(1) by simp
    then show ?thesis unfolding M by simp
  qed (use that in \<open>simp add: mk M_def\<close>)
  show "m = x div 256 ^ (k - 3) \<and> 2 ^ 15 \<le> m" if k: "3 < k"
  proof (cases "M < 2 ^ 23")
    case True
    then have n: "3 < n" "k = n" using k by (simp_all add: mk)
    have "256 ^ 2 * 256 ^ (n - 3) = (256 :: nat) ^ (n - 1)" 
      unfolding power_add[symmetric] using n by (intro arg_cong[where f = "\<lambda>k. 256 ^ k"]) simp
    moreover have "256 ^ (n - 1) \<le> x" using assms(2) n by simp
    ultimately have "256 ^ 2 \<le> M" unfolding M_def using n by (simp add: less_eq_div_iff_mult_less_eq)
    with True n show ?thesis by (simp add: mk M_def)
  next
    case False
    then have "k = n + 1" "m = M div 256" "2 ^ 15 \<le> m" by (simp_all add: mk)
    moreover have "M div 256 = x div 256 ^ (k - 3)"
    proof (cases "n = 3")
      case neq: False
      then have "k - 3 = Suc (n - 3)" "\<not> n \<le> 3" using k \<open>k = n + 1\<close> by simp_all
      then show ?thesis by (simp add: M_def div_mult2_eq[symmetric] mult.commute)
    qed (simp add: M_def \<open>k = n + 1\<close>)
    ultimately show ?thesis by simp
  qed
qed

lemma compact_error:
  assumes "uint_ok pn"
  shows "\<exists>c r. GetCompact False pn = Some c \<and> SetCompact c = (r, False, False) \<and> uint_ok r \<and>
    uint_val r \<le> uint_val pn \<and> 2 ^ 15 * (uint_val pn - uint_val r) \<le> uint_val pn"
proof -
  let ?x = "uint_val pn" and ?n = "(bits pn + 7) div 8"
  define m k where "m = fst (compact_parts ?x ?n)" and "k = snd (compact_parts ?x ?n)"
  have len: "length pn = WIDTH" using assms by (simp add: uint_ok_def)
  note bytes = bits_bytes[OF len]
  obtain c where c: "GetCompact False pn = Some c" "unat c = m + 2 ^ 24 * k" "m < 2 ^ 23" "k < 256"
    using GetCompact_parts[OF assms] unfolding m_def k_def by blast
  obtain r where r: "SetCompact c = (r, False, m div 256 ^ (3 - k) \<noteq> 0 \<and> (k > 34 \<or> (m > 0xff \<and> k > 33) \<or> (m > 0xffff \<and> k > 32)))"
    "uint_ok r" "uint_val r = (if k \<le> 3 then m div 256 ^ (3 - k) else (m * 256 ^ (k - 3)) mod 2 ^ 256)"
    using SetCompact_parts[OF c(2-4)] by blast
  note parts = compact_parts_val[OF bytes(1,2), folded m_def k_def]
  have k: "k \<le> ?n + 1" unfolding k_def compact_parts_def by (simp add: Let_def)
  have fits: "\<not> (k > 34 \<or> (m > 0xff \<and> k > 33) \<or> (m > 0xffff \<and> k > 32))"
    using k bytes(3) parts(3) by auto
  have "uint_val r \<le> ?x \<and> 2 ^ 15 * (?x - uint_val r) \<le> ?x"
  proof (cases "k \<le> 3")
    case True
    then show ?thesis using r(3) parts(1) by simp
  next
    case False
    let ?P = "256 ^ (k - 3) :: nat"
    have m: "m = ?x div ?P" "2 ^ 15 \<le> m" using parts(2) False by simp_all
    have mP: "m * ?P + ?x mod ?P = ?x" unfolding m(1) by (rule div_mult_mod_eq)
    then have "m * ?P < 2 ^ 256" using uint_ok_less[OF assms] by linarith
    then have rv: "uint_val r = m * ?P" using r(3) False by simp
    have "?x mod ?P < ?P" by simp
    then have "2 ^ 15 * (?x mod ?P) \<le> 2 ^ 15 * ?P" by simp
    also have "\<dots> \<le> m * ?P" using m(2) by (rule mult_le_mono1)
    finally have low: "2 ^ 15 * (?x mod ?P) \<le> m * ?P" .
    have rest: "?x - m * ?P = ?x mod ?P" and le: "m * ?P \<le> ?x" using mP by linarith+
    have "2 ^ 15 * (?x - m * ?P) \<le> ?x" unfolding rest using low le by (rule order_trans)
    with le show ?thesis unfolding rv by (rule conjI)
  qed
  with c(1) r(1,2) fits show ?thesis by auto
qed

section \<open>Hashes as numbers\<close>

lemma uint_ok_induct4:
  "length bs = 4 * n \<Longrightarrow> length (UintToArith256 bs) = n"
proof (induction n arbitrary: bs)
  case (Suc n)
  then have "length bs = Suc (Suc (Suc (Suc (4 * n))))" by simp
  then obtain b0 b1 b2 b3 bs' where "bs = b0 # b1 # b2 # b3 # bs'" "length bs' = 4 * n"
    by (auto simp only: length_Suc_conv)
  with Suc.IH[of bs'] show ?case by simp
qed simp

lemma UintToArith256_ok: "length bs = 32 \<Longrightarrow> uint_ok (UintToArith256 bs)"
  using uint_ok_induct4[of bs 8] by (simp add: uint_ok_def WIDTH_def)

lemma UintToArith256_ArithToUint256: "UintToArith256 (ArithToUint256 a) = a"
proof (induction a)
  case (Cons p a)
  have "ReadLE32 (of_nat (unat p)) (of_nat (unat p div 2 ^ 8)) (of_nat (unat p div 2 ^ 16)) (of_nat (unat p div 2 ^ 24)) = unat p"
    using limb_less[of p] by (intro ReadLE32_WriteLE32) (simp_all add: WriteLE32_def)
  with Cons show ?case by (simp add: ArithToUint256_def WriteLE32_def)
qed (simp add: ArithToUint256_def)

lemma uint_increment_decrement: "uint_increment (uint_decrement pn) = pn" "uint_decrement (uint_increment pn) = pn"
proof -
  have max: "(0xffffffff :: 32 word) = - 1" by simp
  have wrap: "p - 1 = - 1 \<longleftrightarrow> p = 0" "p + 1 = 0 \<longleftrightarrow> p = - 1" for p :: "32 word"
    by (simp_all add: eq_neg_iff_add_eq_0 diff_eq_eq)
  show "uint_increment (uint_decrement pn) = pn" "uint_decrement (uint_increment pn) = pn"
    by (induction pn) (simp_all only: uint_increment.simps uint_decrement.simps max wrap diff_add_cancel add_diff_cancel, simp_all add: wrap)
qed

section \<open>Properties\<close>

text \<open>C16. Arithmetic on 256-bit integers is arithmetic modulo \<open>2 ^ 256\<close>: addition, subtraction,
  both multiplications and the shifts compute the result on numbers and keep eight limbs, the
  comparison has the sign of the difference, and \<open>bits\<close> is the number of binary digits.\<close>

theorem uint_arithmetic:
  assumes "uint_ok a" "uint_ok b"
  shows "uint_ok (uint_add a b) \<and> uint_val (uint_add a b) = (uint_val a + uint_val b) mod 2 ^ 256 \<and>
    uint_ok (uint_sub a b) \<and> uint_val (uint_sub a b) = (uint_val a + (2 ^ 256 - uint_val b)) mod 2 ^ 256 \<and>
    uint_ok (uint_mul a b) \<and> uint_val (uint_mul a b) = (uint_val a * uint_val b) mod 2 ^ 256 \<and>
    uint_val (uint_mul32 a w) = (uint_val a * unat w) mod 2 ^ 256 \<and>
    uint_ok (shift_left a n) \<and> uint_val (shift_left a n) = (uint_val a * 2 ^ n) mod 2 ^ 256 \<and>
    uint_ok (shift_right a n) \<and> uint_val (shift_right a n) = uint_val a div 2 ^ n \<and>
    CompareTo a b = sgn (int (uint_val a) - int (uint_val b)) \<and>
    uint_val a < 2 ^ bits a \<and> (0 < bits a \<longrightarrow> 2 ^ (bits a - 1) \<le> uint_val a)"
proof -
  define M :: nat where "M = 2 ^ (32 * WIDTH)"
  have M: "2 ^ 256 = M" by (simp add: M_def WIDTH_def)
  have len: "length a = WIDTH" "length b = WIDTH" using assms by (simp_all add: uint_ok_def)
  have add: "uint_val (uint_add a b) = (uint_val a + uint_val b) mod M" "length (uint_add a b) = WIDTH"
    using add_loop_val[of a b 0] len by (simp_all add: uint_add_def M_def)
  have "uint_val (uint_sub a b) = (uint_val a + (M - uint_val b) mod M) mod M"
    using add_loop_val[of a "uint_minus b" 0] uint_minus_val[of b] len by (simp add: uint_sub_def uint_add_def M_def)
  then have sub: "uint_val (uint_sub a b) = (uint_val a + (M - uint_val b)) mod M" "length (uint_sub a b) = WIDTH"
    using len by (simp_all add: mod_add_right_eq)
  have mul: "uint_val (uint_mul a b) = (uint_val a * uint_val b) mod M" "length (uint_mul a b) = WIDTH"
    using mul_outer_val[of "replicate WIDTH 0" b a 0] len unfolding uint_mul_def M_def by simp_all
  have mul32: "uint_val (uint_mul32 a w) = (uint_val a * unat w) mod M"
    using mul32_loop_val[of 0 w a] len unfolding uint_mul32_def M_def by (simp add: mult.commute)
  have shifts: "uint_val (shift_left a n) = (uint_val a * 2 ^ n) mod M" "uint_val (shift_right a n) = uint_val a div 2 ^ n"
    using shift_left_val[OF len(1)] shift_right_val[OF len(1)] by (simp_all add: M_def)
  show ?thesis
    unfolding M uint_ok_def using bits_digits[OF len(1)] CompareTo_val[OF len]
    by (simp add: add sub mul mul32 shifts digits_def len)
qed

lemma uint_arithmetic_witness:
  "uint_ok (base_uint_of 7) \<and> uint_val (uint_mul (base_uint_of 7) (base_uint_of 6)) = 42 \<and>
   uint_val (uint_sub (base_uint_of 7) (base_uint_of 6)) = 1"
  using uint_arithmetic[of "base_uint_of 7" "base_uint_of 6" 0 0] by (simp add: uint_val_base_uint_of)

text \<open>C15. The shift-and-subtract division is exact: it fails on a zero divisor only, and otherwise
  its loop ends with the quotient of the two numbers.\<close>

theorem uint_div_exact:
  assumes "uint_ok a" "uint_ok b"
  shows "if uint_val b = 0 then uint_div a b = None
    else \<exists>c. uint_div a b = Some c \<and> uint_ok c \<and> uint_val c = uint_val a div uint_val b"
  by (rule uint_div_correct[OF assms])

lemma uint_div_exact_witness:
  "\<exists>c. uint_div (base_uint_of 100) (base_uint_of 7) = Some c \<and> uint_val c = 14"
  using uint_div_exact[of "base_uint_of 100" "base_uint_of 7"] by (auto simp: uint_val_base_uint_of)

text \<open>C17. A target survives its compact form up to one part in 32768: neither assertion of
  \<open>GetCompact\<close> fails, and \<open>SetCompact\<close> reads the result back as a number that is not negative, does
  not overflow, is not above the target and differs from it by at most a 32768th of it.\<close>

theorem compact_target:
  assumes "uint_ok a"
  shows "\<exists>c r. GetCompact False a = Some c \<and> SetCompact c = (r, False, False) \<and> uint_ok r \<and>
    uint_val r \<le> uint_val a \<and> 2 ^ 15 * (uint_val a - uint_val r) \<le> uint_val a"
  by (rule compact_error[OF assms])

lemma compact_target_witness:
  "\<exists>c r. GetCompact False (base_uint_of 0x123456789a) = Some c \<and> SetCompact c = (r, False, False) \<and>
     uint_val r \<le> 0x123456789a \<and> 2 ^ 15 * (0x123456789a - uint_val r) \<le> 0x123456789a"
  using compact_target[of "base_uint_of 0x123456789a"] unfolding uint_val_base_uint_of by auto

end
