(* ===== verification/Lottery.thy ===== *)
theory Lottery
  imports ChainRatings ArithUint256 CheckpointRepository Complex_Main
    "HOL-Library.List_Lexorder" "HOL-Library.Char_ord" "HOL-Library.Log_Nat" "HOL-Library.Multiset"
begin

text \<open>
  \<open>pocketdb/consensus/Lottery.h\<close> and \<open>Lottery.cpp\<close>, and the code that pays the winners:
  \<open>GetRatingRewards\<close> and \<open>GenerateOuts\<close> of \<open>pos.cpp\<close>, \<open>CheckBlockRatingRewards\<close> of
  \<open>validation.cpp\<close>.

  The authors of well scored posts and comments of a block take part in a lottery: each has a
  number, the hash of the stake and the address divided by the points of the author, and the
  lowest 25 win. \<open>std::sort\<close> leaves the order of equal numbers open, so the sort is a
  parameter with the law \<open>sorts_candidates\<close>; the hash is a parameter with the law
  \<open>hash_bytes\<close>, and \<open>DecodeDestination\<close> followed by \<open>GetScriptForDestination\<close> the parameter
  \<open>script_of\<close>. The rewards are computed with \<open>double\<close>s, which are modelled as rational
  numbers rounded to 53 binary digits, ties to even (the amounts are far from the ends of the
  exponent range).
\<close>

section \<open>Doubles\<close>

definition round_even :: "rat \<Rightarrow> int" where
  "round_even x =
     (let f = \<lfloor>x\<rfloor>; r = x - of_int f
      in if r < 1 / 2 \<or> (r = 1 / 2 \<and> even f) then f else f + 1)"

text \<open>The exponent of a positive number: it has 53 binary digits in units of \<open>2 ^ e\<close>.\<close>

definition double_exponent :: "rat \<Rightarrow> int" where
  "double_exponent x =
     (let (n, d) = quotient_of x; e = bitlen n - bitlen d - 53
      in if x / 2 powi e < 2 ^ 53 then e else e + 1)"

definition to_double :: "rat \<Rightarrow> rat" where
  "to_double x =
     (if x = 0 then 0
      else let e = double_exponent \<bar>x\<bar> in sgn x * of_int (round_even (\<bar>x\<bar> / 2 powi e)) * 2 powi e)"

definition double_mult :: "rat \<Rightarrow> rat \<Rightarrow> rat" where
  "double_mult a b = to_double (a * b)"

definition double_div :: "rat \<Rightarrow> rat \<Rightarrow> rat" where
  "double_div a b = to_double (a / b)"

text \<open>Conversion to an integer cuts the fraction off.\<close>

definition to_int64 :: "rat \<Rightarrow> int" where
  "to_int64 x = (if x < 0 then \<lceil>x\<rceil> else \<lfloor>x\<rfloor>)"

text \<open>Division of integers in C++ rounds towards zero.\<close>

definition cdiv :: "int \<Rightarrow> int \<Rightarrow> int" where
  "cdiv a b = sgn a * sgn b * (\<bar>a\<bar> div \<bar>b\<bar>)"

section \<open>Rules\<close>

datatype LotteryVersion =
    Lottery_0
  | Lottery_514185
  | Lottery_1035000
  | Lottery_1124000
  | Lottery_1180000
  | Lottery_next

text \<open>The last class has no height yet and is not in the list.\<close>

definition LotteryConsensusFactory_m_rules :: "LotteryVersion ConsensusCheckpoint list" where
  "LotteryConsensusFactory_m_rules =
     [\<lparr>m_main_height = 0, m_test_height = -1, m_func = Lottery_0\<rparr>,
      \<lparr>m_main_height = 514185, m_test_height = -1, m_func = Lottery_514185\<rparr>,
      \<lparr>m_main_height = 1035000, m_test_height = -1, m_func = Lottery_1035000\<rparr>,
      \<lparr>m_main_height = 1124000, m_test_height = -1, m_func = Lottery_1124000\<rparr>,
      \<lparr>m_main_height = 1180000, m_test_height = 0, m_func = Lottery_1180000\<rparr>]"

record LotteryWinners =
  PostWinners :: "string list"
  PostReferrerWinners :: "string list"
  CommentWinners :: "string list"
  CommentReferrerWinners :: "string list"

definition MaxWinnersCount :: nat where
  "MaxWinnersCount = 25"

subsection \<open>Choosing the winners\<close>

definition WriteCompactSize :: "nat \<Rightarrow> byte list" where
  "WriteCompactSize nSize =
     (if nSize < 253 then [of_nat nSize]
      else if nSize \<le> 65535 then 253 # WriteLE16 nSize
      else if nSize \<le> 4294967295 then 254 # WriteLE32 nSize
      else 255 # map (\<lambda>i. of_nat (nSize div 2 ^ (8 * i))) [0..<8])"

definition Serialize_string :: "string \<Rightarrow> byte list" where
  "Serialize_string str = WriteCompactSize (length str) @ map (\<lambda>c. of_nat (of_char c)) str"

type_synonym candidate = "string \<times> int \<times> base_uint"

text \<open>A division by zero throws.\<close>

definition candidate_rating :: "(byte list \<Rightarrow> uint256) \<Rightarrow> byte list \<Rightarrow> string \<times> int \<Rightarrow> candidate option" where
  "candidate_rating Hash source it = do {
     hashSortRating \<leftarrow> uint_div (UintToArith256 (Hash (source @ Serialize_string (fst it)))) (base_uint_of (of_int (snd it)));
     Some (fst it, snd it, hashSortRating)
   }"

fun candidate_ratings :: "(byte list \<Rightarrow> uint256) \<Rightarrow> byte list \<Rightarrow> (string \<times> int) list \<Rightarrow> candidate list option" where
  "candidate_ratings Hash source [] = Some []"
| "candidate_ratings Hash source (it # its) = do {
     c \<leftarrow> candidate_rating Hash source it;
     cs \<leftarrow> candidate_ratings Hash source its;
     Some (c # cs)
   }"

definition candidate_less :: "candidate \<Rightarrow> candidate \<Rightarrow> bool" where
  "candidate_less a b \<longleftrightarrow> CompareTo (snd (snd a)) (snd (snd b)) < 0"

definition SortWinners ::
    "(candidate list \<Rightarrow> candidate list) \<Rightarrow> (byte list \<Rightarrow> uint256) \<Rightarrow> byte list \<Rightarrow> (string \<times> int) list \<Rightarrow> string list option" where
  "SortWinners std_sort Hash source candidates = do {
     candidatesSorted \<leftarrow> candidate_ratings Hash source candidates;
     Some (if candidatesSorted \<noteq> [] then map fst (take MaxWinnersCount (std_sort candidatesSorted)) else [])
   }"

subsection \<open>Referrers\<close>

definition ExtendReferrer ::
    "NetworkId \<Rightarrow> int \<Rightarrow> LotteryVersion \<Rightarrow> Database \<Rightarrow> ScoreDataDto \<Rightarrow> (string \<times> string) list \<Rightarrow> (string \<times> string) list option" where
  "ExtendReferrer net height v db scoreData refs =
     (case v of
        Lottery_0 \<Rightarrow> Some refs
      | Lottery_next \<Rightarrow> Some refs
      | _ \<Rightarrow>
          if map_of refs (ContentAddressHash scoreData) \<noteq> None then Some refs
          else do {
            old \<leftarrow> (if v = Lottery_514185 then Some False
                   else do {
                     depth \<leftarrow> GetConsensusLimit net height ConsensusLimit_lottery_referral_depth;
                     Some (GetAccountRegistrationTime (ContentAddressId scoreData) db < ScoreTime scoreData - depth)
                   });
            if old then Some refs
            else (case GetReferrer (ContentAddressHash scoreData) db of
                    None \<Rightarrow> Some refs
                  | Some referrer \<Rightarrow>
                      Some (if referrer = ScoreAddressHash scoreData then refs
                            else map_update referrer (ContentAddressHash scoreData) (\<lambda>r. r) refs))
          })"

text \<open>\<open>std::find\<close> and \<open>push_back\<close>.\<close>

definition push_new :: "'a \<Rightarrow> 'a list \<Rightarrow> 'a list" where
  "push_new x xs = (if x \<in> set xs then xs else xs @ [x])"

definition ExtendReferrers ::
    "NetworkId \<Rightarrow> int \<Rightarrow> LotteryVersion \<Rightarrow> Database \<Rightarrow> LotteryWinners \<Rightarrow> LotteryWinners option" where
  "ExtendReferrers net height v db w =
     (if v \<noteq> Lottery_next then Some w
      else do {
        let winners = fold push_new (CommentWinners w) (fold push_new (PostWinners w) []);
        depth \<leftarrow> GetConsensusLimit net height ConsensusLimit_lottery_referral_depth;
        referrers \<leftarrow> GetReferrers winners (height - depth) db;
        Some (fold (\<lambda>it w.
          let w1 = (if fst it \<in> set (PostWinners w) then w\<lparr>PostReferrerWinners := push_new (snd it) (PostReferrerWinners w)\<rparr> else w)
          in if fst it \<in> set (CommentWinners w1)
             then w1\<lparr>CommentReferrerWinners := push_new (snd it) (CommentReferrerWinners w1)\<rparr> else w1) referrers w)
      })"

subsection \<open>The winners of a block\<close>

record LotteryCandidates =
  postCandidates :: "(string \<times> int) list"
  postReferrersCandidates :: "(string \<times> string) list"
  commentCandidates :: "(string \<times> int) list"
  commentReferrersCandidates :: "(string \<times> string) list"

text \<open>Whether the score a transaction announces takes part.\<close>

definition score_takes_part :: "bool \<times> ScoreDataDto \<Rightarrow> bool" where
  "score_takes_part = (\<lambda>(parseScoreOk, scoreTxData). parseScoreOk \<and>
     \<not> (ScoreType scoreTxData = ACTION_SCORE_COMMENT \<and> ScoreValue scoreTxData \<noteq> 1) \<and>
     \<not> (ScoreType scoreTxData = ACTION_SCORE_CONTENT \<and> ScoreValue scoreTxData \<noteq> 4 \<and> ScoreValue scoreTxData \<noteq> 5))"

text \<open>The points are added up in an \<open>int\<close>.\<close>

definition add_candidate ::
    "NetworkId \<Rightarrow> int \<Rightarrow> LotteryVersion \<Rightarrow> Database \<Rightarrow> ScoreDataDto \<Rightarrow> LotteryCandidates \<Rightarrow> LotteryCandidates option" where
  "add_candidate net height v db scoreData c =
     (if ScoreType scoreData = ACTION_SCORE_CONTENT then do {
        refs \<leftarrow> ExtendReferrer net height v db scoreData (postReferrersCandidates c);
        Some (c\<lparr>postCandidates := map_update 0 (ContentAddressHash scoreData) (\<lambda>n. int32 (n + int32 (ScoreValue scoreData - 3))) (postCandidates c),
                postReferrersCandidates := refs\<rparr>)
      } else if ScoreType scoreData = ACTION_SCORE_COMMENT then do {
        refs \<leftarrow> ExtendReferrer net height v db scoreData (commentReferrersCandidates c);
        Some (c\<lparr>commentCandidates := map_update 0 (ContentAddressHash scoreData) (\<lambda>n. int32 (n + ScoreValue scoreData)) (commentCandidates c),
                commentReferrersCandidates := refs\<rparr>)
      } else Some c)"

fun candidates_loop ::
    "(string \<Rightarrow> string list) \<Rightarrow> (byte list \<Rightarrow> string) \<Rightarrow> NetworkId \<Rightarrow> int \<Rightarrow> LotteryVersion \<Rightarrow> ReputationVersion \<Rightarrow> Database \<Rightarrow>
     CTransaction list \<Rightarrow> LotteryCandidates \<Rightarrow> LotteryCandidates option" where
  "candidates_loop split dest net height v rv db [] c = Some c"
| "candidates_loop split dest net height v rv db (tx # txs) c = do {
     parsed \<leftarrow> ParseScore split dest tx;
     if \<not> score_takes_part parsed then candidates_loop split dest net height v rv db txs c
     else case GetScoreData (GetHex (tx_hash tx)) db of
       None \<Rightarrow> candidates_loop split dest net height v rv db txs c
     | Some scoreData \<Rightarrow> do {
         allowed \<leftarrow> AllowModifyReputation net height rv scoreData True db;
         if \<not> allowed then candidates_loop split dest net height v rv db txs c
         else do {
           c' \<leftarrow> add_candidate net height v db scoreData c;
           candidates_loop split dest net height v rv db txs c'
         }
       }
   }"

definition referrers_of :: "string list \<Rightarrow> (string \<times> string) list \<Rightarrow> string list" where
  "referrers_of winners refs = List.map_filter (map_of refs) winners"

definition Winners ::
    "(candidate list \<Rightarrow> candidate list) \<Rightarrow> (byte list \<Rightarrow> uint256) \<Rightarrow> (string \<Rightarrow> string list) \<Rightarrow> (byte list \<Rightarrow> string) \<Rightarrow>
     NetworkId \<Rightarrow> int \<Rightarrow> LotteryVersion \<Rightarrow> Database \<Rightarrow> CBlock \<Rightarrow> byte list \<Rightarrow> LotteryWinners option" where
  "Winners std_sort Hash split dest net height v db block source = do {
     rv \<leftarrow> Instance ReputationConsensusFactory_m_rules net height;
     c \<leftarrow> candidates_loop split dest net height v rv db (vtx block)
       \<lparr>postCandidates = [], postReferrersCandidates = [], commentCandidates = [], commentReferrersCandidates = []\<rparr>;
     posts \<leftarrow> SortWinners std_sort Hash source (postCandidates c);
     comments \<leftarrow> SortWinners std_sort Hash source (commentCandidates c);
     ExtendReferrers net height v db
       \<lparr>PostWinners = posts, PostReferrerWinners = referrers_of posts (postReferrersCandidates c),
        CommentWinners = comments, CommentReferrerWinners = referrers_of comments (commentReferrersCandidates c)\<rparr>
   }"

section \<open>Rewards\<close>

definition reward_share :: "LotteryVersion \<Rightarrow> nat \<Rightarrow> rat" where
  "reward_share v code =
     (case v of
        Lottery_0 \<Rightarrow> 1 / 2
      | Lottery_514185 \<Rightarrow> if code = OP_WINNER_POST then 40 / 100 else if code = OP_WINNER_POST_REFERRAL then 8 / 100
          else if code = OP_WINNER_COMMENT then 10 / 100 else if code = OP_WINNER_COMMENT_REFERRAL then 2 / 100 else 0
      | Lottery_1035000 \<Rightarrow> if code = OP_WINNER_POST then 40 / 100 else if code = OP_WINNER_POST_REFERRAL then 8 / 100
          else if code = OP_WINNER_COMMENT then 10 / 100 else if code = OP_WINNER_COMMENT_REFERRAL then 2 / 100 else 0
      | Lottery_1124000 \<Rightarrow> if code = OP_WINNER_POST then 2 / 100 else if code = OP_WINNER_POST_REFERRAL then 2 / 100
          else if code = OP_WINNER_COMMENT then 5 / 1000 else if code = OP_WINNER_COMMENT_REFERRAL then 5 / 1000 else 0
      | _ \<Rightarrow> if code = OP_WINNER_POST then 2 / 1000 else if code = OP_WINNER_POST_REFERRAL then 2 / 1000
          else if code = OP_WINNER_COMMENT then 5 / 10000 else if code = OP_WINNER_COMMENT_REFERRAL then 5 / 10000 else 0)"

definition RatingReward :: "LotteryVersion \<Rightarrow> int \<Rightarrow> nat \<Rightarrow> int" where
  "RatingReward v nCredit code =
     (let amount = double_mult (to_double (of_int nCredit)) (to_double (reward_share v code))
      in to_int64 (if v = Lottery_0 \<and> code = OP_WINNER_COMMENT then double_div amount 10 else amount))"

definition ExtendWinnerTypes :: "LotteryVersion \<Rightarrow> nat \<Rightarrow> nat list \<Rightarrow> nat list" where
  "ExtendWinnerTypes v type winner_types = (if v = Lottery_0 then winner_types else winner_types @ [type])"

text \<open>The outputs for the winners of one kind, in reverse order; the last one takes what is left.\<close>

fun outs_loop :: "(string \<Rightarrow> byte list) \<Rightarrow> LotteryVersion \<Rightarrow> nat \<Rightarrow> int \<Rightarrow> int \<Rightarrow> string list \<Rightarrow> CTxOut list \<times> nat list \<Rightarrow> CTxOut list \<times> nat list" where
  "outs_loop script_of v type reward rewardsPool [] acc = acc"
| "outs_loop script_of v type reward rewardsPool (addr # addrs) (results, winner_types) =
     (let re = (if addrs = [] then rewardsPool else reward)
      in outs_loop script_of v type reward (rewardsPool - reward) addrs
           (results @ [\<lparr>nValue = re, scriptPubKey = script_of addr\<rparr>], ExtendWinnerTypes v type winner_types))"

record Rewards =
  rw_results :: "CTxOut list"
  rw_total :: int
  rw_types :: "nat list"

definition GenerateOuts :: "(string \<Rightarrow> byte list) \<Rightarrow> int \<Rightarrow> string list \<Rightarrow> LotteryVersion \<Rightarrow> nat \<Rightarrow> Rewards \<Rightarrow> Rewards" where
  "GenerateOuts script_of nCredit winners v type rw =
     (if winners = [] then rw
      else
        let ratingReward = RatingReward v nCredit type;
            reward = cdiv ratingReward (int (length winners));
            (results, winner_types) = outs_loop script_of v type reward ratingReward (rev winners) (rw_results rw, rw_types rw)
        in \<lparr>rw_results = results, rw_total = rw_total rw + ratingReward, rw_types = winner_types\<rparr>)"

definition GetRatingRewards ::
    "(string \<Rightarrow> byte list) \<Rightarrow> LotteryVersion \<Rightarrow> int \<Rightarrow> LotteryWinners \<Rightarrow> Rewards" where
  "GetRatingRewards script_of v nCredit winners =
     GenerateOuts script_of nCredit (CommentReferrerWinners winners) v OP_WINNER_COMMENT_REFERRAL
       (GenerateOuts script_of nCredit (PostReferrerWinners winners) v OP_WINNER_POST_REFERRAL
         (GenerateOuts script_of nCredit (CommentWinners winners) v OP_WINNER_COMMENT
           (GenerateOuts script_of nCredit (PostWinners winners) v OP_WINNER_POST
             \<lparr>rw_results = [], rw_total = 0, rw_types = []\<rparr>)))"

text \<open>The reward of a stake halves every \<open>nSubsidyHalvingInterval\<close> blocks.\<close>

definition GetProofOfStakeReward :: "int \<Rightarrow> int \<Rightarrow> int \<Rightarrow> int" where
  "GetProofOfStakeReward nSubsidyHalvingInterval nHeight nFees =
     (let halvings = cdiv nHeight nSubsidyHalvingInterval
      in if halvings \<ge> 64 then nFees else 5 * COIN div 2 ^ nat halvings + nFees)"

definition MatchPayToPubkeyHash :: "byte list \<Rightarrow> bool" where
  "MatchPayToPubkeyHash script \<longleftrightarrow>
     length script = 25 \<and> unat (script ! 0) = OP_DUP \<and> unat (script ! 1) = OP_HASH160 \<and> script ! 2 = 20 \<and>
     unat (script ! 23) = OP_EQUALVERIFY \<and> unat (script ! 24) = OP_CHECKSIG"

text \<open>The block is accepted when its coinstake pays the winners of the previous block exactly, or
  when it is a listed exception; \<open>None\<close> when the winners cannot be computed.\<close>

definition CheckBlockRatingRewards ::
    "(candidate list \<Rightarrow> candidate list) \<Rightarrow> (byte list \<Rightarrow> uint256) \<Rightarrow> (string \<Rightarrow> string list) \<Rightarrow> (byte list \<Rightarrow> string) \<Rightarrow>
     (string \<Rightarrow> byte list) \<Rightarrow> NetworkId \<Rightarrow> CheckpointDb \<Rightarrow> Database \<Rightarrow> CBlock \<Rightarrow> CBlock \<Rightarrow> int \<Rightarrow> int \<Rightarrow> byte list \<Rightarrow> bool option" where
  "CheckBlockRatingRewards std_sort Hash split dest script_of net cdb db block blockPrev heightPrev calculated source =
     (if \<not> IsProofOfStake block then Some False
      else if vout (vtx block ! 1) = [] then Some False
      else do {
        v \<leftarrow> Instance LotteryConsensusFactory_m_rules net heightPrev;
        winners \<leftarrow> Winners std_sort Hash split dest net heightPrev v db blockPrev source;
        let genOuts = rw_results (GetRatingRewards script_of v calculated winners);
        let blockOuts = filter (\<lambda>out. MatchPayToPubkeyHash (scriptPubKey out)) (vout (vtx block ! 1));
        Some (blockOuts = genOuts \<or> IsLotteryCheckpoint (heightPrev + 1) (GetHex (block_hash block)) cdb)
      })"

section \<open>The version in force\<close>

interpretation lottery_rules: rule_versions LotteryConsensusFactory_m_rules
  by (rule rule_versionsI) (simp_all add: LotteryConsensusFactory_m_rules_def)

lemma lottery_never_next: "Instance LotteryConsensusFactory_m_rules net height \<noteq> Some Lottery_next"
  unfolding lottery_rules.Instance_eq
  by (cases net) (auto simp: LotteryConsensusFactory_m_rules_def)

section \<open>Payments\<close>

definition total_value :: "CTxOut list \<Rightarrow> int" where
  "total_value outs = sum_list (map nValue outs)"

lemma outs_loop_acc:
  "outs_loop script_of v type reward pool addrs (results, types) =
     (results @ fst (outs_loop script_of v type reward pool addrs ([], [])),
      types @ snd (outs_loop script_of v type reward pool addrs ([], [])))"
proof (induction addrs arbitrary: pool results types)
  case (Cons addr addrs)
  show ?case
    unfolding outs_loop.simps Let_def ExtendWinnerTypes_def
    by (subst (1 2 3) Cons.IH) simp
qed simp

lemma outs_loop_Cons:
  "fst (outs_loop script_of v type reward pool (addr # addrs) ([], [])) =
     \<lparr>nValue = (if addrs = [] then pool else reward), scriptPubKey = script_of addr\<rparr> #
       fst (outs_loop script_of v type reward (pool - reward) addrs ([], []))"
  by (simp add: Let_def) (subst outs_loop_acc, simp)

text \<open>The outputs are one per winner, and add up to the pool.\<close>

lemma outs_loop_sum:
  assumes "addrs \<noteq> []"
  shows "total_value (fst (outs_loop script_of v type reward pool addrs ([], []))) = pool \<and>
    map scriptPubKey (fst (outs_loop script_of v type reward pool addrs ([], []))) = map script_of addrs"
  using assms
proof (induction addrs arbitrary: pool)
  case (Cons addr addrs)
  show ?case
    unfolding outs_loop_Cons using Cons.IH[of "pool - reward"] by (cases addrs) (auto simp: total_value_def)
qed simp

lemma outs_loop_nonneg:
  assumes "0 \<le> reward" "reward * int (length addrs) \<le> pool"
  shows "\<forall>out \<in> set (fst (outs_loop script_of v type reward pool addrs ([], []))). 0 \<le> nValue out"
  using assms
proof (induction addrs arbitrary: pool)
  case (Cons addr addrs)
  have "reward * int (length addrs) \<le> pool - reward" using Cons.prems(2) by (simp add: algebra_simps)
  moreover have "0 \<le> pool" using Cons.prems by (metis length_greater_0_conv mult_nonneg_nonneg of_nat_0_le_iff order_trans)
  ultimately show ?case unfolding outs_loop_Cons using Cons.IH[of "pool - reward"] Cons.prems(1) by auto
qed simp

section \<open>Rounding\<close>

lemma round_even_bounds: "0 \<le> x \<Longrightarrow> 0 \<le> round_even x" "of_int (round_even x) \<le> x + 1 / 2"
proof -
  have f: "of_int \<lfloor>x\<rfloor> \<le> x" "x < of_int \<lfloor>x\<rfloor> + 1" by linarith+
  show "of_int (round_even x) \<le> x + 1 / 2"
    using f unfolding round_even_def Let_def by (simp split: if_splits) (use f in linarith)
  assume "0 \<le> x"
  then have "0 \<le> \<lfloor>x\<rfloor>" by simp
  then show "0 \<le> round_even x" unfolding round_even_def Let_def by simp
qed

lemma double_exponent_low:
  assumes "0 < x"
  shows "2 ^ 52 \<le> x / 2 powi (double_exponent x)"
proof -
  obtain n d where nd: "quotient_of x = (n, d)" by fastforce
  have d: "0 < d" using quotient_of_denom_pos[OF nd] .
  have x: "x = of_int n / of_int d" using quotient_of_div[OF nd] .
  with assms d have n: "0 < n" by (simp add: zero_less_divide_iff)
  have nb: "2 ^ nat (bitlen n - 1) \<le> n" and db: "d < 2 ^ nat (bitlen d)" using bitlen_bounds[OF n] bitlen_bounds[OF d] by auto
  have pos: "0 < bitlen n" "0 < bitlen d" using n d by (simp_all add: bitlen_eq_zero_iff dual_order.strict_iff_order bitlen_nonneg)
  have "(2 :: rat) powi (bitlen n - 1) \<le> of_int n"
  proof -
    have "(of_int (2 ^ nat (bitlen n - 1)) :: rat) \<le> of_int n" using nb by (simp only: of_int_le_iff)
    then show ?thesis using pos(1) by (simp add: power_int_def)
  qed
  moreover have "of_int d \<le> (2 :: rat) powi bitlen d"
  proof -
    have "(of_int d :: rat) \<le> of_int (2 ^ nat (bitlen d))" using db by (simp only: of_int_le_iff)
    then show ?thesis using pos(2) by (simp add: power_int_def)
  qed
  ultimately have "(2 :: rat) powi (bitlen n - 1) / 2 powi bitlen d \<le> x"
    unfolding x using d n by (intro frac_le) simp_all
  then have low: "(2 :: rat) powi (bitlen n - 1 - bitlen d) \<le> x" by (simp add: power_int_diff)
  define e where "e = bitlen n - bitlen d - 53"
  have "(2 :: rat) ^ 52 * 2 powi e = 2 powi (bitlen n - 1 - bitlen d)"
  proof -
    have e: "bitlen n - 1 - bitlen d = 52 + e" by (simp add: e_def)
    show ?thesis unfolding e by (simp add: power_int_add)
  qed
  with low have "2 ^ 52 \<le> x / 2 powi e" by (simp add: pos_le_divide_eq)
  moreover have "2 ^ 52 \<le> x / 2 powi (e + 1)" if "2 ^ 53 \<le> x / 2 powi e"
    using that by (simp add: power_int_add pos_le_divide_eq field_simps)
  moreover have "double_exponent x = (if x / 2 powi e < 2 ^ 53 then e else e + 1)"
    by (simp add: double_exponent_def nd e_def Let_def)
  ultimately show ?thesis by (simp add: not_less)
qed

definition rounding :: rat where
  "rounding = 1 + 1 / 2 ^ 53"

lemma rounding_bounds: "1 \<le> rounding" "0 \<le> rounding" "rounding ^ 4 \<le> 11 / 10"
  by (simp_all add: rounding_def power4_eq_xxxx)

lemma to_double_bounds:
  assumes "0 \<le> x"
  shows "0 \<le> to_double x" "to_double x \<le> x * rounding"
proof -
  define e where "e = double_exponent x"
  define y where "y = x / 2 powi e"
  show "0 \<le> to_double x"
    using assms by (auto simp: to_double_def Let_def intro!: mult_nonneg_nonneg round_even_bounds(1))
  show "to_double x \<le> x * rounding"
  proof (cases "x = 0")
    case False
    then have "0 < x" using assms by simp
    then have "2 ^ 52 \<le> y" using double_exponent_low by (simp add: y_def e_def)
    then have "y + 1 / 2 \<le> y * rounding" by (simp add: rounding_def field_simps)
    then have "of_int (round_even y) \<le> y * rounding" using round_even_bounds(2)[of y] by linarith
    then have "of_int (round_even y) * 2 powi e \<le> y * rounding * 2 powi e" by (intro mult_right_mono) simp_all
    moreover have "y * rounding * 2 powi e = x * rounding" by (simp add: y_def)
    moreover have "to_double x = of_int (round_even y) * 2 powi e"
      using \<open>0 < x\<close> by (simp add: to_double_def y_def e_def Let_def)
    ultimately show ?thesis by (simp only:)
  qed (simp add: to_double_def)
qed

section \<open>Shares\<close>

text \<open>What a kind of winners gets of the credit at most, before rounding.\<close>

definition share_bound :: "LotteryVersion \<Rightarrow> nat \<Rightarrow> rat" where
  "share_bound v code = (if v = Lottery_0 \<and> code = OP_WINNER_COMMENT then 1 / 20 else reward_share v code)"

lemma reward_share_nonneg: "0 \<le> reward_share v code"
  by (cases v) (simp_all add: reward_share_def)

lemma to_int64_bounds: "0 \<le> x \<Longrightarrow> 0 \<le> to_int64 x" "0 \<le> x \<Longrightarrow> of_int (to_int64 x) \<le> x"
  by (simp_all add: to_int64_def)

lemma RatingReward_bounds:
  assumes "0 \<le> nCredit"
  shows "0 \<le> RatingReward v nCredit code" "of_int (RatingReward v nCredit code) \<le> of_int nCredit * share_bound v code * rounding ^ 4"
proof -
  let ?N = "of_int nCredit :: rat" and ?s = "reward_share v code"
  define amount where "amount = double_mult (to_double ?N) (to_double ?s)"
  have N: "0 \<le> to_double ?N" "to_double ?N \<le> ?N * rounding" using assms by (simp_all add: to_double_bounds)
  have s: "0 \<le> to_double ?s" "to_double ?s \<le> ?s * rounding" by (rule to_double_bounds[OF reward_share_nonneg])+
  have "to_double ?N * to_double ?s \<le> (?N * rounding) * (?s * rounding)"
    using N s assms by (intro mult_mono) simp_all
  from mult_right_mono[OF this rounding_bounds(2)]
  have "(to_double ?N * to_double ?s) * rounding \<le> ?N * ?s * rounding ^ 3"
    by (simp add: algebra_simps power3_eq_cube)
  moreover have "amount \<le> (to_double ?N * to_double ?s) * rounding" "0 \<le> amount"
    unfolding amount_def double_mult_def using N(1) s(1) by (intro to_double_bounds; simp)+
  ultimately have amount: "0 \<le> amount" "amount \<le> ?N * ?s * rounding ^ 3"
    by linarith+
  have r: "0 \<le> ?N * ?s * rounding ^ 3" using assms reward_share_nonneg[of v code] rounding_bounds(2) by simp
  show "0 \<le> RatingReward v nCredit code" "of_int (RatingReward v nCredit code) \<le> ?N * share_bound v code * rounding ^ 4"
  proof (atomize (full), cases "v = Lottery_0 \<and> code = OP_WINNER_COMMENT")
    case True
    have "0 \<le> double_div amount 10" "double_div amount 10 \<le> amount / 10 * rounding"
      unfolding double_div_def using amount(1) by (intro to_double_bounds; simp)+
    moreover have "amount / 10 * rounding \<le> (?N * ?s * rounding ^ 3) / 10 * rounding"
      using amount(2) rounding_bounds(2) by (intro mult_right_mono divide_right_mono) simp_all
    moreover have "(?N * ?s * rounding ^ 3) / 10 * rounding = ?N * share_bound v code * rounding ^ 4"
      using True by (simp add: share_bound_def reward_share_def power4_eq_xxxx power3_eq_cube)
    moreover have "RatingReward v nCredit code = to_int64 (double_div amount 10)"
      using True by (simp add: RatingReward_def amount_def)
    ultimately show "0 \<le> RatingReward v nCredit code \<and> of_int (RatingReward v nCredit code) \<le> ?N * share_bound v code * rounding ^ 4"
      using to_int64_bounds[of "double_div amount 10"] by (intro conjI) linarith+
  next
    case False
    have "?N * ?s * rounding ^ 3 * 1 \<le> ?N * ?s * rounding ^ 3 * rounding"
      using r rounding_bounds(1) by (intro mult_left_mono)
    moreover have "?N * ?s * rounding ^ 3 * rounding = ?N * share_bound v code * rounding ^ 4"
      using False by (auto simp: share_bound_def power4_eq_xxxx power3_eq_cube)
    moreover have "RatingReward v nCredit code = to_int64 amount"
      using False by (auto simp: RatingReward_def amount_def)
    ultimately show "0 \<le> RatingReward v nCredit code \<and> of_int (RatingReward v nCredit code) \<le> ?N * share_bound v code * rounding ^ 4"
      using amount to_int64_bounds[of amount] by (intro conjI) linarith+
  qed
qed

definition paid :: "LotteryVersion \<Rightarrow> int \<Rightarrow> nat \<Rightarrow> string list \<Rightarrow> int" where
  "paid v nCredit type winners = (if winners = [] then 0 else RatingReward v nCredit type)"

lemma paid_bounds:
  assumes "0 \<le> nCredit"
  shows "0 \<le> paid v nCredit type winners"
    "of_int (paid v nCredit type winners) \<le> of_int nCredit * (if winners = [] then 0 else share_bound v type) * rounding ^ 4"
  using RatingReward_bounds[OF assms] by (simp_all add: paid_def)

lemma GenerateOuts_spec:
  assumes "0 \<le> nCredit"
  shows "\<exists>outs. rw_results (GenerateOuts script_of nCredit winners v type rw) = rw_results rw @ outs \<and>
    rw_total (GenerateOuts script_of nCredit winners v type rw) = rw_total rw + paid v nCredit type winners \<and>
    total_value outs = paid v nCredit type winners \<and> map scriptPubKey outs = map script_of (rev winners) \<and>
    (\<forall>out \<in> set outs. 0 \<le> nValue out)"
proof (cases "winners = []")
  case True
  then show ?thesis by (intro exI[of _ "[]"]) (simp add: GenerateOuts_def paid_def total_value_def)
next
  case False
  define pool where "pool = RatingReward v nCredit type"
  define reward where "reward = cdiv pool (int (length winners))"
  have pool: "0 \<le> pool" using RatingReward_bounds(1)[OF assms] by (simp add: pool_def)
  then have reward: "reward = pool div int (length winners)"
    using False by (cases "pool = 0") (simp_all add: reward_def cdiv_def)
  then have bounds: "0 \<le> reward" "reward * int (length (rev winners)) \<le> pool"
    using pool False by (simp_all add: pos_imp_zdiv_nonneg_iff) (metis div_mult_mod_eq le_add_same_cancel1 length_greater_0_conv of_nat_0_less_iff pos_mod_sign)
  let ?outs = "fst (outs_loop script_of v type reward pool (rev winners) ([], []))"
  have "rw_results (GenerateOuts script_of nCredit winners v type rw) = rw_results rw @ ?outs \<and>
      rw_total (GenerateOuts script_of nCredit winners v type rw) = rw_total rw + paid v nCredit type winners"
    using False unfolding GenerateOuts_def paid_def pool_def[symmetric] Let_def reward_def[symmetric]
    by (simp add: outs_loop_acc[of script_of v type reward pool "rev winners" "rw_results rw" "rw_types rw"])
  moreover have "total_value ?outs = paid v nCredit type winners \<and> map scriptPubKey ?outs = map script_of (rev winners)"
    using outs_loop_sum[of "rev winners" script_of v type reward pool] False by (simp add: paid_def pool_def)
  ultimately show ?thesis using outs_loop_nonneg[OF bounds, of script_of v type] by blast
qed

lemma total_value_append [simp]: "total_value (xs @ ys) = total_value xs + total_value ys"
  by (simp add: total_value_def)

lemma shares_fit:
  assumes "v = Lottery_0 \<Longrightarrow> pr = [] \<and> cr = []"
  shows "(if p = [] then 0 else share_bound v OP_WINNER_POST) + (if c = [] then 0 else share_bound v OP_WINNER_COMMENT) +
    (if pr = [] then 0 else share_bound v OP_WINNER_POST_REFERRAL) +
    (if cr = [] then 0 else share_bound v OP_WINNER_COMMENT_REFERRAL) \<le> 6 / 10"
  using assms
  by (cases v) (auto simp: share_bound_def reward_share_def OP_WINNER_POST_def OP_WINNER_COMMENT_def
      OP_WINNER_POST_REFERRAL_def OP_WINNER_COMMENT_REFERRAL_def)

lemma rewards_fit:
  assumes "0 \<le> nCredit" "v = Lottery_0 \<Longrightarrow> PostReferrerWinners w = [] \<and> CommentReferrerWinners w = []"
  shows "paid v nCredit OP_WINNER_POST (PostWinners w) + paid v nCredit OP_WINNER_COMMENT (CommentWinners w) +
    paid v nCredit OP_WINNER_POST_REFERRAL (PostReferrerWinners w) +
    paid v nCredit OP_WINNER_COMMENT_REFERRAL (CommentReferrerWinners w) \<le> nCredit"
    (is "?total \<le> _")
proof -
  let ?N = "of_int nCredit :: rat"
  let ?shares = "(if PostWinners w = [] then 0 else share_bound v OP_WINNER_POST) +
    (if CommentWinners w = [] then 0 else share_bound v OP_WINNER_COMMENT) +
    (if PostReferrerWinners w = [] then 0 else share_bound v OP_WINNER_POST_REFERRAL) +
    (if CommentReferrerWinners w = [] then 0 else share_bound v OP_WINNER_COMMENT_REFERRAL)"
  have "of_int ?total \<le> ?N * ?shares * rounding ^ 4"
    using paid_bounds(2)[OF assms(1), of v OP_WINNER_POST "PostWinners w"]
      paid_bounds(2)[OF assms(1), of v OP_WINNER_COMMENT "CommentWinners w"]
      paid_bounds(2)[OF assms(1), of v OP_WINNER_POST_REFERRAL "PostReferrerWinners w"]
      paid_bounds(2)[OF assms(1), of v OP_WINNER_COMMENT_REFERRAL "CommentReferrerWinners w"]
    unfolding of_int_add distrib_left distrib_right by linarith
  also have "\<dots> \<le> ?N * (6 / 10) * rounding ^ 4"
    by (rule mult_right_mono[OF mult_left_mono[OF shares_fit[OF assms(2)]]]) (use assms(1) rounding_bounds(2) in simp_all)
  also have "\<dots> \<le> ?N * (6 / 10) * (11 / 10)"
    using assms(1) rounding_bounds(3) by (intro mult_left_mono) simp_all
  also have "\<dots> \<le> ?N" using assms(1) by simp
  finally show ?thesis by (simp only: of_int_le_iff)
qed

lemma GetRatingRewards_conserved:
  fixes script_of :: "string \<Rightarrow> byte list"
  assumes "0 \<le> nCredit" "v = Lottery_0 \<Longrightarrow> PostReferrerWinners w = [] \<and> CommentReferrerWinners w = []"
  defines "rw \<equiv> GetRatingRewards script_of v nCredit w"
  shows "total_value (rw_results rw) = rw_total rw \<and> rw_total rw \<le> nCredit \<and> (\<forall>out \<in> set (rw_results rw). 0 \<le> nValue out) \<and>
    map scriptPubKey (rw_results rw) =
      map script_of (rev (PostWinners w) @ rev (CommentWinners w) @ rev (PostReferrerWinners w) @ rev (CommentReferrerWinners w))"
proof -
  define rw1 where "rw1 = GenerateOuts script_of nCredit (PostWinners w) v OP_WINNER_POST \<lparr>rw_results = [], rw_total = 0, rw_types = []\<rparr>"
  define rw2 where "rw2 = GenerateOuts script_of nCredit (CommentWinners w) v OP_WINNER_COMMENT rw1"
  define rw3 where "rw3 = GenerateOuts script_of nCredit (PostReferrerWinners w) v OP_WINNER_POST_REFERRAL rw2"
  have rw: "rw = GenerateOuts script_of nCredit (CommentReferrerWinners w) v OP_WINNER_COMMENT_REFERRAL rw3"
    by (simp add: rw_def GetRatingRewards_def rw1_def rw2_def rw3_def)
  note spec = GenerateOuts_spec[OF assms(1), of script_of _ v]
  obtain o1 where o1: "rw_results rw1 = o1" "rw_total rw1 = paid v nCredit OP_WINNER_POST (PostWinners w)"
    "total_value o1 = paid v nCredit OP_WINNER_POST (PostWinners w)" "map scriptPubKey o1 = map script_of (rev (PostWinners w))"
    "\<forall>out \<in> set o1. 0 \<le> nValue out"
    using spec[of "PostWinners w" OP_WINNER_POST "\<lparr>rw_results = [], rw_total = 0, rw_types = []\<rparr>"] by (auto simp: rw1_def)
  obtain o2 where o2: "rw_results rw2 = o1 @ o2" "rw_total rw2 = rw_total rw1 + paid v nCredit OP_WINNER_COMMENT (CommentWinners w)"
    "total_value o2 = paid v nCredit OP_WINNER_COMMENT (CommentWinners w)" "map scriptPubKey o2 = map script_of (rev (CommentWinners w))"
    "\<forall>out \<in> set o2. 0 \<le> nValue out"
    using spec[of "CommentWinners w" OP_WINNER_COMMENT rw1] by (auto simp: rw2_def o1(1))
  obtain o3 where o3: "rw_results rw3 = o1 @ o2 @ o3"
    "rw_total rw3 = rw_total rw2 + paid v nCredit OP_WINNER_POST_REFERRAL (PostReferrerWinners w)"
    "total_value o3 = paid v nCredit OP_WINNER_POST_REFERRAL (PostReferrerWinners w)"
    "map scriptPubKey o3 = map script_of (rev (PostReferrerWinners w))" "\<forall>out \<in> set o3. 0 \<le> nValue out"
    using spec[of "PostReferrerWinners w" OP_WINNER_POST_REFERRAL rw2] by (auto simp: rw3_def o2(1))
  obtain o4 where o4: "rw_results rw = o1 @ o2 @ o3 @ o4"
    "rw_total rw = rw_total rw3 + paid v nCredit OP_WINNER_COMMENT_REFERRAL (CommentReferrerWinners w)"
    "total_value o4 = paid v nCredit OP_WINNER_COMMENT_REFERRAL (CommentReferrerWinners w)"
    "map scriptPubKey o4 = map script_of (rev (CommentReferrerWinners w))" "\<forall>out \<in> set o4. 0 \<le> nValue out"
    using spec[of "CommentReferrerWinners w" OP_WINNER_COMMENT_REFERRAL rw3] by (auto simp: rw o3(1))
  show ?thesis
    using rewards_fit[OF assms(1,2)] o1(2-5) o2(2-5) o3(2-5) o4 by auto
qed

section \<open>The order of the candidates\<close>

definition hash_bytes :: "(byte list \<Rightarrow> uint256) \<Rightarrow> bool" where
  "hash_bytes Hash \<longleftrightarrow> (\<forall>bs. length (Hash bs) = 32)"

text \<open>What \<open>std::sort\<close> with this comparison promises.\<close>

definition sorts_candidates :: "(candidate list \<Rightarrow> candidate list) \<Rightarrow> bool" where
  "sorts_candidates std_sort \<longleftrightarrow>
     (\<forall>cs. (\<forall>c \<in> set cs. uint_ok (snd (snd c))) \<longrightarrow>
        mset (std_sort cs) = mset cs \<and> sorted_wrt (\<lambda>a b. \<not> candidate_less b a) (std_sort cs))"

text \<open>The number of a candidate.\<close>

definition ticket :: "(byte list \<Rightarrow> uint256) \<Rightarrow> byte list \<Rightarrow> string \<Rightarrow> int \<Rightarrow> nat" where
  "ticket Hash source a n = uint_val (UintToArith256 (Hash (source @ Serialize_string a))) div nat n"

definition positive_points :: "(string \<times> int) list \<Rightarrow> bool" where
  "positive_points candidates \<longleftrightarrow> (\<forall>(a, n) \<in> set candidates. 0 < n \<and> n < 2 ^ 31)"

lemma candidate_ratings_tickets:
  assumes "hash_bytes Hash" "positive_points candidates"
  shows "\<exists>cs. candidate_ratings Hash source candidates = Some cs \<and> map (\<lambda>c. (fst c, fst (snd c))) cs = candidates \<and>
    (\<forall>c \<in> set cs. uint_ok (snd (snd c)) \<and> uint_val (snd (snd c)) = ticket Hash source (fst c) (fst (snd c)))"
  using assms(2)
proof (induction candidates)
  case (Cons it candidates)
  obtain a n where it: "it = (a, n)" by force
  have n: "0 < n" "n < 2 ^ 31" using Cons.prems by (simp_all add: positive_points_def it)
  then have un: "unat (of_int n :: 64 word) = nat n"
    by (simp add: unat_eq_nat_uint uint_word_of_int)
  have ok: "uint_ok (UintToArith256 (Hash (source @ Serialize_string a)))"
    using assms(1) by (intro UintToArith256_ok) (simp add: hash_bytes_def)
  obtain r where r: "uint_div (UintToArith256 (Hash (source @ Serialize_string a))) (base_uint_of (of_int n)) = Some r"
      "uint_ok r" "uint_val r = ticket Hash source a n"
    using uint_div_correct[OF ok base_uint_of_ok, of "of_int n"] n by (auto simp: uint_val_base_uint_of un ticket_def)
  obtain cs where cs: "candidate_ratings Hash source candidates = Some cs" "map (\<lambda>c. (fst c, fst (snd c))) cs = candidates"
    "\<forall>c \<in> set cs. uint_ok (snd (snd c)) \<and> uint_val (snd (snd c)) = ticket Hash source (fst c) (fst (snd c))"
    using Cons by (auto simp: positive_points_def)
  show ?case using r cs by (simp add: it candidate_rating_def)
qed simp

lemma SortWinners_order:
  assumes "sorts_candidates std_sort" "hash_bytes Hash" "positive_points candidates" "distinct (map fst candidates)"
  shows "\<exists>winners. SortWinners std_sort Hash source candidates = Some winners \<and> distinct winners \<and>
    length winners = min 25 (length candidates) \<and> set winners \<subseteq> fst ` set candidates \<and>
    (\<forall>(a, n) \<in> set candidates. \<forall>(b, m) \<in> set candidates. a \<in> set winners \<longrightarrow> b \<notin> set winners \<longrightarrow>
       ticket Hash source a n \<le> ticket Hash source b m)"
proof -
  obtain cs where cs: "candidate_ratings Hash source candidates = Some cs" "map (\<lambda>c. (fst c, fst (snd c))) cs = candidates"
    "\<forall>c \<in> set cs. uint_ok (snd (snd c)) \<and> uint_val (snd (snd c)) = ticket Hash source (fst c) (fst (snd c))"
    using candidate_ratings_tickets[OF assms(2,3)] by blast
  define ds where "ds = std_sort cs"
  have m: "mset ds = mset cs" and srt: "sorted_wrt (\<lambda>a b. \<not> candidate_less b a) ds"
    using assms(1) cs(3) by (simp_all add: sorts_candidates_def ds_def)
  have sets: "set ds = set cs" using m by (rule mset_eq_setD)
  have len: "length ds = length candidates" using mset_eq_length[OF m] cs(2) by auto
  have fsts: "map fst cs = map fst candidates" using cs(2) by (auto simp: comp_def)
  then have dist: "distinct (map fst ds)"
    using mset_eq_imp_distinct_iff[OF arg_cong[OF m, of "image_mset fst", folded mset_map]] assms(4) by simp
  have winners: "SortWinners std_sort Hash source candidates = Some (map fst (take 25 ds))"
    using len cs(1,2) by (auto simp: SortWinners_def ds_def MaxWinnersCount_def)
  have order: "ticket Hash source a n \<le> ticket Hash source b k"
    if ab: "(a, n) \<in> set candidates" "(b, k) \<in> set candidates" "a \<in> set (map fst (take 25 ds))" "b \<notin> set (map fst (take 25 ds))"
    for a n b k
  proof -
    obtain c d where c: "c \<in> set cs" "fst c = a" "fst (snd c) = n" and d: "d \<in> set cs" "fst d = b" "fst (snd d) = k"
      using ab(1,2) unfolding cs(2)[symmetric] by auto
    have "d \<in> set (take 25 ds) \<union> set (drop 25 ds)"
      unfolding set_append[symmetric] append_take_drop_id sets by (rule d(1))
    moreover have "d \<notin> set (take 25 ds)" using ab(4) d(2) by auto
    ultimately have "d \<in> set (drop 25 ds)" by simp
    moreover have "c \<in> set (take 25 ds)"
    proof -
      obtain c' where c': "c' \<in> set (take 25 ds)" "fst c' = a" using ab(3) by auto
      then have "c' \<in> set ds" by (meson in_set_takeD)
      moreover have "inj_on fst (set ds)" using dist by (simp add: distinct_map)
      ultimately have "c' = c" using c c'(2) sets by (auto dest: inj_onD)
      with c' show ?thesis by simp
    qed
    moreover have "sorted_wrt (\<lambda>a b. \<not> candidate_less b a) (take 25 ds @ drop 25 ds)" using srt by simp
    ultimately have "\<not> candidate_less d c" unfolding sorted_wrt_append by blast
    then have "uint_val (snd (snd c)) \<le> uint_val (snd (snd d))"
      using cs(3) c(1) d(1) by (auto simp: candidate_less_def CompareTo_val uint_ok_def sgn_if split: if_splits)
    with cs(3) c d show ?thesis by simp
  qed
  have "distinct (map fst (take 25 ds))" using dist by (simp add: take_map[symmetric])
  moreover have "fst ` set ds = fst ` set candidates" using arg_cong[OF fsts, of set] sets by simp
  then have "set (map fst (take 25 ds)) \<subseteq> fst ` set candidates" using image_mono[OF set_take_subset[of 25 ds], of fst] by simp
  moreover have "\<forall>(a, n) \<in> set candidates. \<forall>(b, m) \<in> set candidates.
      a \<in> set (map fst (take 25 ds)) \<longrightarrow> b \<notin> set (map fst (take 25 ds)) \<longrightarrow> ticket Hash source a n \<le> ticket Hash source b m"
    using order by blast
  moreover have "length (map fst (take 25 ds)) = min 25 (length candidates)" using len by simp
  ultimately show ?thesis using winners by blast
qed

lemma candidate_less_val:
  "uint_ok (snd (snd a)) \<Longrightarrow> uint_ok (snd (snd b)) \<Longrightarrow> candidate_less a b \<longleftrightarrow> uint_val (snd (snd a)) < uint_val (snd (snd b))"
  by (simp add: candidate_less_def CompareTo_val uint_ok_def sgn_if)

text \<open>Sorting by the number keeps the law.\<close>

lemma sort_key_candidates: "sorts_candidates (sort_key (\<lambda>c. uint_val (snd (snd c))))"
  unfolding sorts_candidates_def
proof (intro allI impI conjI)
  fix cs :: "candidate list"
  assume ok: "\<forall>c \<in> set cs. uint_ok (snd (snd c))"
  have "sorted_wrt (\<lambda>a b. uint_val (snd (snd a)) \<le> uint_val (snd (snd b))) (sort_key (\<lambda>c. uint_val (snd (snd c))) cs)"
    using sorted_sort_key[of "\<lambda>c. uint_val (snd (snd c))" cs] by (simp add: sorted_map)
  then show "sorted_wrt (\<lambda>a b. \<not> candidate_less b a) (sort_key (\<lambda>c. uint_val (snd (snd c))) cs)"
    by (rule sorted_wrt_mono_rel[rotated]) (use ok in \<open>auto simp: candidate_less_val\<close>)
qed simp

section \<open>Winners and scores\<close>

text \<open>The scores of a block that take part, in its order.\<close>

fun lottery_scores ::
    "(string \<Rightarrow> string list) \<Rightarrow> (byte list \<Rightarrow> string) \<Rightarrow> NetworkId \<Rightarrow> int \<Rightarrow> ReputationVersion \<Rightarrow> Database \<Rightarrow>
     CTransaction list \<Rightarrow> ScoreDataDto list option" where
  "lottery_scores split dest net height rv db [] = Some []"
| "lottery_scores split dest net height rv db (tx # txs) = do {
     parsed \<leftarrow> ParseScore split dest tx;
     rest \<leftarrow> lottery_scores split dest net height rv db txs;
     if \<not> score_takes_part parsed then Some rest
     else case GetScoreData (GetHex (tx_hash tx)) db of
       None \<Rightarrow> Some rest
     | Some scoreData \<Rightarrow> do {
         allowed \<leftarrow> AllowModifyReputation net height rv scoreData True db;
         Some (if allowed then scoreData # rest else rest)
       }
   }"

fun add_candidates ::
    "NetworkId \<Rightarrow> int \<Rightarrow> LotteryVersion \<Rightarrow> Database \<Rightarrow> ScoreDataDto list \<Rightarrow> LotteryCandidates \<Rightarrow> LotteryCandidates option" where
  "add_candidates net height v db [] c = Some c"
| "add_candidates net height v db (s # ss) c = do {
     c' \<leftarrow> add_candidate net height v db s c;
     add_candidates net height v db ss c'
   }"

lemma candidates_loop_scores:
  "candidates_loop split dest net height v rv db txs c =
     Option.bind (lottery_scores split dest net height rv db txs) (\<lambda>ss. add_candidates net height v db ss c)"
proof (induction txs arbitrary: c)
  case (Cons tx txs)
  show ?case
    by (cases "lottery_scores split dest net height rv db txs")
       (auto simp: Cons.IH split: Option.bind_splits option.splits)
qed simp

text \<open>Who takes part for a kind of score, with how many points, and who refers them: the referrer an
  account registered with counts when the account has a score of someone else and, from the third
  version on, registered within the depth of the score.\<close>

definition authors :: "TxType \<Rightarrow> ScoreDataDto list \<Rightarrow> string set" where
  "authors type ss = ContentAddressHash ` {s \<in> set ss. ScoreType s = type}"

definition points :: "TxType \<Rightarrow> ScoreDataDto list \<Rightarrow> string \<Rightarrow> int" where
  "points type ss a = int32 (sum_list (map (\<lambda>s. if type = ACTION_SCORE_CONTENT then ScoreValue s - 3 else ScoreValue s)
     (filter (\<lambda>s. ScoreType s = type \<and> ContentAddressHash s = a) ss)))"

definition referral :: "NetworkId \<Rightarrow> int \<Rightarrow> LotteryVersion \<Rightarrow> Database \<Rightarrow> ScoreDataDto \<Rightarrow> string \<Rightarrow> bool" where
  "referral net height v db s r \<longleftrightarrow> v \<noteq> Lottery_0 \<and> ScoreAddressHash s \<noteq> r \<and>
     (v \<noteq> Lottery_514185 \<longrightarrow>
        (case GetConsensusLimit net height ConsensusLimit_lottery_referral_depth of
           None \<Rightarrow> False
         | Some depth \<Rightarrow> ScoreTime s - depth \<le> GetAccountRegistrationTime (ContentAddressId s) db))"

definition referrer_of ::
    "NetworkId \<Rightarrow> int \<Rightarrow> LotteryVersion \<Rightarrow> Database \<Rightarrow> TxType \<Rightarrow> ScoreDataDto list \<Rightarrow> string \<Rightarrow> string option" where
  "referrer_of net height v db type ss a =
     (case GetReferrer a db of
        None \<Rightarrow> None
      | Some r \<Rightarrow>
          if \<exists>s \<in> set ss. ScoreType s = type \<and> ContentAddressHash s = a \<and> referral net height v db s r then Some r else None)"

text \<open>The four maps hold exactly that.\<close>

definition kind_ok ::
    "NetworkId \<Rightarrow> int \<Rightarrow> LotteryVersion \<Rightarrow> Database \<Rightarrow> TxType \<Rightarrow> ScoreDataDto list \<Rightarrow> (string \<times> int) list \<Rightarrow> (string \<times> string) list \<Rightarrow> bool" where
  "kind_ok net height v db type ss candidates refs \<longleftrightarrow>
     keys_ok candidates \<and> keys_ok refs \<and> fst ` set candidates = authors type ss \<and>
     (\<forall>a. map_get 0 candidates a = points type ss a) \<and>
     (\<forall>a. map_of refs a = referrer_of net height v db type ss a)"

lemma map_of_map_update:
  "keys_ok kvs \<Longrightarrow> map_of (map_update d k f kvs) k' =
     (if k' = k then Some (f (case map_of kvs k of None \<Rightarrow> d | Some x \<Rightarrow> x)) else map_of kvs k')"
proof (induction kvs)
  case (Cons kv kvs)
  obtain k1 v where kv: "kv = (k1, v)" by force
  have ok: "keys_ok kvs" using Cons.prems by (simp add: keys_ok_def)
  show ?case
  proof (cases "k < k1")
    case True
    then have "k \<notin> fst ` set (kv # kvs)" using Cons.prems by (auto simp: keys_ok_def kv)
    then have "map_of (kv # kvs) k = None" by (simp add: map_of_eq_None_iff)
    with True show ?thesis by (auto simp: kv)
  next
    case False
    with Cons.IH[OF ok] show ?thesis by (auto simp: kv)
  qed
qed simp

lemma ExtendReferrer_spec:
  assumes "ExtendReferrer net height v db s refs = Some refs'" "v \<noteq> Lottery_next" "keys_ok refs"
  shows "keys_ok refs' \<and> map_of refs' a =
    (case map_of refs a of
       Some r \<Rightarrow> Some r
     | None \<Rightarrow>
         if a = ContentAddressHash s then
           (case GetReferrer a db of None \<Rightarrow> None | Some r \<Rightarrow> if referral net height v db s r then Some r else None)
         else None)"
proof -
  let ?k = "ContentAddressHash s"
  have refs': "refs' = (case map_of refs ?k of
       Some _ \<Rightarrow> refs
     | None \<Rightarrow> (case GetReferrer ?k db of
         None \<Rightarrow> refs
       | Some r \<Rightarrow> if referral net height v db s r then map_update r ?k (\<lambda>r. r) refs else refs))"
    using assms(1,2)
    by (cases v) (auto simp: ExtendReferrer_def referral_def Option.bind_eq_Some_conv split: option.splits if_splits)
  show ?thesis
    unfolding refs' using assms(3) by (auto simp: keys_ok_map_update map_of_map_update split: option.split)
qed

lemma kind_ok_other:
  assumes "kind_ok net height v db type ss cs refs" "ScoreType s \<noteq> type"
  shows "kind_ok net height v db type (ss @ [s]) cs refs"
proof -
  have "authors type (ss @ [s]) = authors type ss" using assms(2) by (auto simp: authors_def)
  moreover have "points type (ss @ [s]) a = points type ss a" for a using assms(2) by (simp add: points_def)
  moreover have "referrer_of net height v db type (ss @ [s]) a = referrer_of net height v db type ss a" for a
    using assms(2) by (auto simp: referrer_of_def split: option.split)
  ultimately show ?thesis using assms(1) by (simp add: kind_ok_def)
qed

lemma kind_ok_score:
  assumes ok: "kind_ok net height v db type ss cs refs" and s: "ScoreType s = type" and v: "v \<noteq> Lottery_next"
    and refs': "ExtendReferrer net height v db s refs = Some refs'"
    and f: "\<And>n. f n = int32 (n + (if type = ACTION_SCORE_CONTENT then ScoreValue s - 3 else ScoreValue s))"
  shows "kind_ok net height v db type (ss @ [s]) (map_update 0 (ContentAddressHash s) f cs) refs'"
proof -
  have keys: "keys_ok cs" "keys_ok refs" using ok by (simp_all add: kind_ok_def)
  have "authors type (ss @ [s]) = insert (ContentAddressHash s) (authors type ss)"
    using s by (auto simp: authors_def)
  moreover have "points type (ss @ [s]) a = (if a = ContentAddressHash s then f (points type ss a) else points type ss a)" for a
    using s by (simp add: points_def f add.assoc)
  moreover have "map_of refs' a = referrer_of net height v db type (ss @ [s]) a" for a
    using ExtendReferrer_spec[OF refs' v keys(2), of a] ok s
    by (auto simp: kind_ok_def referrer_of_def split: option.splits if_splits)
  moreover have "keys_ok refs'" using ExtendReferrer_spec[OF refs' v keys(2)] by blast
  ultimately show ?thesis
    using ok keys_ok_map_update[OF keys(1)] by (simp add: kind_ok_def keys_map_update map_get_update)
qed

definition candidates_ok ::
    "NetworkId \<Rightarrow> int \<Rightarrow> LotteryVersion \<Rightarrow> Database \<Rightarrow> ScoreDataDto list \<Rightarrow> LotteryCandidates \<Rightarrow> bool" where
  "candidates_ok net height v db ss c \<longleftrightarrow>
     kind_ok net height v db ACTION_SCORE_CONTENT ss (postCandidates c) (postReferrersCandidates c) \<and>
     kind_ok net height v db ACTION_SCORE_COMMENT ss (commentCandidates c) (commentReferrersCandidates c)"

lemma add_candidate_ok:
  assumes ok: "candidates_ok net height v db ss c" and v: "v \<noteq> Lottery_next" and c': "add_candidate net height v db s c = Some c'"
  shows "candidates_ok net height v db (ss @ [s]) c'"
proof -
  have k: "kind_ok net height v db ACTION_SCORE_CONTENT ss (postCandidates c) (postReferrersCandidates c)"
    "kind_ok net height v db ACTION_SCORE_COMMENT ss (commentCandidates c) (commentReferrersCandidates c)"
    using ok by (simp_all add: candidates_ok_def)
  consider (post) "ScoreType s = ACTION_SCORE_CONTENT" | (comment) "ScoreType s = ACTION_SCORE_COMMENT"
    | (none) "ScoreType s \<noteq> ACTION_SCORE_CONTENT" "ScoreType s \<noteq> ACTION_SCORE_COMMENT" by blast
  then show ?thesis
  proof cases
    case post
    then obtain refs where refs: "ExtendReferrer net height v db s (postReferrersCandidates c) = Some refs"
      "c' = c\<lparr>postCandidates := map_update 0 (ContentAddressHash s) (\<lambda>n. int32 (n + int32 (ScoreValue s - 3))) (postCandidates c),
              postReferrersCandidates := refs\<rparr>"
      using c' by (auto simp: add_candidate_def Option.bind_eq_Some_conv)
    with kind_ok_score[OF k(1) post v refs(1)] kind_ok_other[OF k(2), of s] post show ?thesis
      by (simp add: candidates_ok_def)
  next
    case comment
    then obtain refs where refs: "ExtendReferrer net height v db s (commentReferrersCandidates c) = Some refs"
      "c' = c\<lparr>commentCandidates := map_update 0 (ContentAddressHash s) (\<lambda>n. int32 (n + ScoreValue s)) (commentCandidates c),
              commentReferrersCandidates := refs\<rparr>"
      using c' by (auto simp: add_candidate_def Option.bind_eq_Some_conv)
    with kind_ok_score[OF k(2) comment v refs(1)] kind_ok_other[OF k(1), of s] comment show ?thesis
      by (simp add: candidates_ok_def)
  next
    case none
    then have "c' = c" using c' by (simp add: add_candidate_def)
    with none kind_ok_other[OF k(1), of s] kind_ok_other[OF k(2), of s] show ?thesis by (simp add: candidates_ok_def)
  qed
qed

lemma add_candidates_ok:
  assumes "candidates_ok net height v db ds c" "v \<noteq> Lottery_next" "add_candidates net height v db ss c = Some c'"
  shows "candidates_ok net height v db (ds @ ss) c'"
  using assms
proof (induction ss arbitrary: ds c)
  case (Cons s ss)
  then obtain c1 where c1: "add_candidate net height v db s c = Some c1" "add_candidates net height v db ss c1 = Some c'"
    by (auto simp: Option.bind_eq_Some_conv)
  from Cons.IH[OF add_candidate_ok[OF Cons.prems(1,2) c1(1)] Cons.prems(2) c1(2)] show ?case by simp
qed simp

lemma candidates_ok_Nil:
  "candidates_ok net height v db [] \<lparr>postCandidates = [], postReferrersCandidates = [], commentCandidates = [], commentReferrersCandidates = []\<rparr>"
  by (simp add: candidates_ok_def kind_ok_def authors_def points_def referrer_of_def split: option.split)

lemma candidate_ratings_some:
  assumes "hash_bytes Hash" "candidate_ratings Hash source candidates = Some cs"
  shows "map fst cs = map fst candidates \<and> (\<forall>c \<in> set cs. uint_ok (snd (snd c)))"
  using assms(2)
proof (induction candidates arbitrary: cs)
  case (Cons it candidates)
  then obtain c cs' where c: "candidate_rating Hash source it = Some c" "candidate_ratings Hash source candidates = Some cs'" "cs = c # cs'"
    by (auto simp: Option.bind_eq_Some_conv)
  have "uint_ok (UintToArith256 (Hash (source @ Serialize_string (fst it))))"
    using assms(1) by (intro UintToArith256_ok) (simp add: hash_bytes_def)
  from uint_div_correct[OF this base_uint_of_ok, of "of_int (snd it)"] c(1)
  have "fst c = fst it \<and> uint_ok (snd (snd c))"
    by (auto simp: candidate_rating_def Option.bind_eq_Some_conv split: if_splits)
  with Cons.IH[OF c(2)] c(3) show ?case by simp
qed simp

lemma SortWinners_some:
  assumes "sorts_candidates std_sort" "hash_bytes Hash" "SortWinners std_sort Hash source candidates = Some winners"
    and "distinct (map fst candidates)"
  shows "distinct winners \<and> length winners = min 25 (length candidates) \<and> set winners \<subseteq> fst ` set candidates"
proof -
  obtain cs where cs: "candidate_ratings Hash source candidates = Some cs"
    and w: "winners = (if cs \<noteq> [] then map fst (take 25 (std_sort cs)) else [])"
    using assms(3) by (auto simp: SortWinners_def Option.bind_eq_Some_conv MaxWinnersCount_def)
  note ratings = candidate_ratings_some[OF assms(2) cs]
  then have m: "mset (std_sort cs) = mset cs" using assms(1) by (simp add: sorts_candidates_def)
  then have "distinct (map fst (std_sort cs))"
    using mset_eq_imp_distinct_iff[OF arg_cong[OF m, of "image_mset fst", folded mset_map]] ratings assms(4) by simp
  then have "distinct (map fst (take 25 (std_sort cs)))" by (simp add: take_map[symmetric])
  moreover have "fst ` set (std_sort cs) = fst ` set candidates"
    using arg_cong[OF conjunct1[OF ratings], of set] mset_eq_setD[OF m] by simp
  then have "set (map fst (take 25 (std_sort cs))) \<subseteq> fst ` set candidates"
    using image_mono[OF set_take_subset[of 25 "std_sort cs"], of fst] by simp
  moreover have "length (std_sort cs) = length candidates" "length cs = length candidates"
    using mset_eq_length[OF m] arg_cong[OF conjunct1[OF ratings], of length] by simp_all
  ultimately show ?thesis using w by auto
qed

text \<open>A fair draw of one kind: the winners are different authors of scored contents, 25 or all of them;
  when all have positive points, no author who does not win has a lower number than one who does;
  and the referrers are those of the winners, in the same order.\<close>

definition fair_draw ::
    "(byte list \<Rightarrow> uint256) \<Rightarrow> byte list \<Rightarrow> NetworkId \<Rightarrow> int \<Rightarrow> LotteryVersion \<Rightarrow> Database \<Rightarrow> TxType \<Rightarrow> ScoreDataDto list \<Rightarrow>
     string list \<Rightarrow> string list \<Rightarrow> bool" where
  "fair_draw Hash source net height v db type ss winners referrers \<longleftrightarrow>
     distinct winners \<and> set winners \<subseteq> authors type ss \<and> length winners = min 25 (card (authors type ss)) \<and>
     ((\<forall>a \<in> authors type ss. 0 < points type ss a) \<longrightarrow>
        (\<forall>a \<in> set winners. \<forall>b \<in> authors type ss - set winners.
           ticket Hash source a (points type ss a) \<le> ticket Hash source b (points type ss b))) \<and>
     referrers = List.map_filter (referrer_of net height v db type ss) winners"

lemma SortWinners_fair:
  assumes sorts: "sorts_candidates std_sort" "hash_bytes Hash" and w: "SortWinners std_sort Hash source candidates = Some winners"
    and ok: "kind_ok net height v db type ss candidates refs"
  shows "fair_draw Hash source net height v db type ss winners (referrers_of winners refs)"
proof -
  have dist: "distinct (map fst candidates)" and auth: "fst ` set candidates = authors type ss"
    and pts: "\<And>a. map_get 0 candidates a = points type ss a" and keys: "keys_ok candidates"
    and "\<And>a. map_of refs a = referrer_of net height v db type ss a"
    using ok keys_ok_distinct[of candidates] by (simp_all add: kind_ok_def)
  then have refs: "map_of refs = referrer_of net height v db type ss" by blast
  note some = SortWinners_some[OF sorts w dist]
  have len: "length candidates = card (authors type ss)"
    using distinct_card[OF dist] auth by simp
  have cand: "(a, points type ss a) \<in> set candidates" if "a \<in> authors type ss" for a
    using that unfolding auth[symmetric] by (auto simp: pts[symmetric] map_get_mem[OF keys])
  have "ticket Hash source a (points type ss a) \<le> ticket Hash source b (points type ss b)"
    if pos: "\<forall>a \<in> authors type ss. 0 < points type ss a"
      and ab: "a \<in> set winners" "b \<in> authors type ss - set winners" for a b
  proof -
    have "positive_points candidates"
      unfolding positive_points_def
    proof (clarify, intro conjI)
      fix c n assume c: "(c, n) \<in> set candidates"
      then have n: "n = points type ss c" using map_get_mem[OF keys c, of 0] pts by simp
      have "c \<in> authors type ss" unfolding auth[symmetric] using c by force
      with pos n show "0 < n" by blast
      show "n < 2 ^ 31" unfolding n points_def by (rule int32_range)
    qed
    from SortWinners_order[OF sorts this dist, of source] w
    have "\<forall>(a, n) \<in> set candidates. \<forall>(b, m) \<in> set candidates. a \<in> set winners \<longrightarrow> b \<notin> set winners \<longrightarrow>
       ticket Hash source a n \<le> ticket Hash source b m" by simp
    moreover have "a \<in> authors type ss" using ab(1) some auth by auto
    ultimately show ?thesis using cand[of a] cand[of b] ab by blast
  qed
  with some auth len show ?thesis
    by (simp add: fair_draw_def referrers_of_def refs)
qed

lemma Winners_fair:
  assumes "sorts_candidates std_sort" "hash_bytes Hash" "v \<noteq> Lottery_next"
    and "Winners std_sort Hash split dest net height v db block source = Some w"
  shows "\<exists>rv ss. Instance ReputationConsensusFactory_m_rules net height = Some rv \<and>
    lottery_scores split dest net height rv db (vtx block) = Some ss \<and>
    fair_draw Hash source net height v db ACTION_SCORE_CONTENT ss (PostWinners w) (PostReferrerWinners w) \<and>
    fair_draw Hash source net height v db ACTION_SCORE_COMMENT ss (CommentWinners w) (CommentReferrerWinners w)"
proof -
  from assms(3,4) obtain rv ss c posts comments where rv: "Instance ReputationConsensusFactory_m_rules net height = Some rv"
    and ss: "lottery_scores split dest net height rv db (vtx block) = Some ss"
    and c: "add_candidates net height v db ss
      \<lparr>postCandidates = [], postReferrersCandidates = [], commentCandidates = [], commentReferrersCandidates = []\<rparr> = Some c"
    and p: "SortWinners std_sort Hash source (postCandidates c) = Some posts"
    and q: "SortWinners std_sort Hash source (commentCandidates c) = Some comments"
    and w: "PostWinners w = posts" "PostReferrerWinners w = referrers_of posts (postReferrersCandidates c)"
      "CommentWinners w = comments" "CommentReferrerWinners w = referrers_of comments (commentReferrersCandidates c)"
    by (auto simp: Winners_def ExtendReferrers_def candidates_loop_scores Option.bind_eq_Some_conv)
  have "candidates_ok net height v db ss c"
    using add_candidates_ok[OF candidates_ok_Nil assms(3) c] by simp
  then have ok: "kind_ok net height v db ACTION_SCORE_CONTENT ss (postCandidates c) (postReferrersCandidates c)"
    "kind_ok net height v db ACTION_SCORE_COMMENT ss (commentCandidates c) (commentReferrersCandidates c)"
    by (simp_all add: candidates_ok_def)
  show ?thesis
    unfolding w using rv ss SortWinners_fair[OF assms(1,2) p ok(1)] SortWinners_fair[OF assms(1,2) q ok(2)] by blast
qed

text \<open>The winners of the first rules have no referrers among them.\<close>

lemma fair_draw_0: "fair_draw Hash source net height Lottery_0 db type ss winners referrers \<Longrightarrow> referrers = []"
proof -
  have "referrer_of net height Lottery_0 db type ss = (\<lambda>a. None)"
    by (auto simp: referrer_of_def referral_def split: option.split)
  then show "fair_draw Hash source net height Lottery_0 db type ss winners referrers \<Longrightarrow> referrers = []"
    by (simp add: fair_draw_def List.map_filter_def)
qed

section \<open>Properties\<close>

text \<open>C13. The lottery pays out what it announces and never more than the stake earns: the outputs
  for the winners go, one each, to the winners in the order of the four kinds, none is negative,
  they add up to the total that is recorded, and the total is at most the credit, in spite of the
  rounding of the shares.\<close>

theorem rewards_conserved:
  assumes "0 \<le> nCredit" "v = Lottery_0 \<longrightarrow> PostReferrerWinners w = [] \<and> CommentReferrerWinners w = []"
  shows "total_value (rw_results (GetRatingRewards script_of v nCredit w)) = rw_total (GetRatingRewards script_of v nCredit w) \<and>
    rw_total (GetRatingRewards script_of v nCredit w) \<le> nCredit \<and>
    (\<forall>out \<in> set (rw_results (GetRatingRewards script_of v nCredit w)). 0 \<le> nValue out) \<and>
    map scriptPubKey (rw_results (GetRatingRewards script_of v nCredit w)) =
      map script_of (rev (PostWinners w) @ rev (CommentWinners w) @ rev (PostReferrerWinners w) @ rev (CommentReferrerWinners w))"
  by (rule GetRatingRewards_conserved) (use assms in blast)+

lemma rewards_conserved_witness:
  "rw_total (GetRatingRewards (\<lambda>a. []) Lottery_1180000 500000000
     \<lparr>PostWinners = [''alice'', ''bob''], PostReferrerWinners = [], CommentWinners = [''carol''], CommentReferrerWinners = []\<rparr>) \<le> 500000000 \<and>
   length (rw_results (GetRatingRewards (\<lambda>a. []) Lottery_1180000 500000000
     \<lparr>PostWinners = [''alice'', ''bob''], PostReferrerWinners = [], CommentWinners = [''carol''], CommentReferrerWinners = []\<rparr>)) = 3"
proof -
  let ?w = "\<lparr>PostWinners = [''alice'', ''bob''], PostReferrerWinners = [], CommentWinners = [''carol''], CommentReferrerWinners = []\<rparr>"
  have *: "rw_total (GetRatingRewards (\<lambda>a. []) Lottery_1180000 500000000 ?w) \<le> 500000000"
    "map scriptPubKey (rw_results (GetRatingRewards (\<lambda>a. []) Lottery_1180000 500000000 ?w)) = [[], [], []]"
    using rewards_conserved[of 500000000 Lottery_1180000 ?w "\<lambda>a. []"] by simp_all
  from arg_cong[OF *(2), of length] *(1) show ?thesis by simp
qed

text \<open>C12. A block whose coinstake passes the check pays the winners of the lottery over the previous
  block and no one else: unless the block is a listed exception, the outputs of the coinstake to key
  hashes are those to the winners the rules in force compute, one each and in their order, and do
  not exceed the reward of the stake. The draw is fair: with the scores of the previous block that
  may change reputations, the winners for posts and for comments are different authors of scored
  contents, 25 or all of them, nobody with a lower number loses to one of them when all points are
  positive, and the referrers that are paid are exactly those of the winners.\<close>

theorem coinstake_pays_winners:
  assumes "sorts_candidates std_sort" "hash_bytes Hash" "0 \<le> calculated"
    and "CheckBlockRatingRewards std_sort Hash split dest script_of net cdb db block blockPrev heightPrev calculated source = Some True"
    and "\<not> IsLotteryCheckpoint (heightPrev + 1) (GetHex (block_hash block)) cdb"
  shows "\<exists>v rv ss w. Instance LotteryConsensusFactory_m_rules net heightPrev = Some v \<and>
    Winners std_sort Hash split dest net heightPrev v db blockPrev source = Some w \<and>
    Instance ReputationConsensusFactory_m_rules net heightPrev = Some rv \<and>
    lottery_scores split dest net heightPrev rv db (vtx blockPrev) = Some ss \<and>
    fair_draw Hash source net heightPrev v db ACTION_SCORE_CONTENT ss (PostWinners w) (PostReferrerWinners w) \<and>
    fair_draw Hash source net heightPrev v db ACTION_SCORE_COMMENT ss (CommentWinners w) (CommentReferrerWinners w) \<and>
    map scriptPubKey (filter (\<lambda>out. MatchPayToPubkeyHash (scriptPubKey out)) (vout (vtx block ! 1))) =
      map script_of (rev (PostWinners w) @ rev (CommentWinners w) @ rev (PostReferrerWinners w) @ rev (CommentReferrerWinners w)) \<and>
    total_value (filter (\<lambda>out. MatchPayToPubkeyHash (scriptPubKey out)) (vout (vtx block ! 1))) \<le> calculated"
proof -
  from assms(4,5) obtain v w where v: "Instance LotteryConsensusFactory_m_rules net heightPrev = Some v"
    and w: "Winners std_sort Hash split dest net heightPrev v db blockPrev source = Some w"
    and outs: "filter (\<lambda>out. MatchPayToPubkeyHash (scriptPubKey out)) (vout (vtx block ! 1)) =
      rw_results (GetRatingRewards script_of v calculated w)"
    by (auto simp: CheckBlockRatingRewards_def Option.bind_eq_Some_conv Let_def split: if_splits)
  have "v \<noteq> Lottery_next" using v lottery_never_next by auto
  then obtain rv ss where rv: "Instance ReputationConsensusFactory_m_rules net heightPrev = Some rv"
    "lottery_scores split dest net heightPrev rv db (vtx blockPrev) = Some ss"
    "fair_draw Hash source net heightPrev v db ACTION_SCORE_CONTENT ss (PostWinners w) (PostReferrerWinners w)"
    "fair_draw Hash source net heightPrev v db ACTION_SCORE_COMMENT ss (CommentWinners w) (CommentReferrerWinners w)"
    using Winners_fair[OF assms(1,2) _ w] by blast
  have "v = Lottery_0 \<Longrightarrow> PostReferrerWinners w = [] \<and> CommentReferrerWinners w = []"
    using fair_draw_0 rv(3,4) by blast
  from GetRatingRewards_conserved[where v = v and w = w and script_of = script_of, OF assms(3) this]
  have "map scriptPubKey (rw_results (GetRatingRewards script_of v calculated w)) =
      map script_of (rev (PostWinners w) @ rev (CommentWinners w) @ rev (PostReferrerWinners w) @ rev (CommentReferrerWinners w))"
    "total_value (rw_results (GetRatingRewards script_of v calculated w)) \<le> calculated" by simp_all
  with v w rv show ?thesis unfolding outs by blast
qed

text \<open>Bob gives the highest score to a post of Alice, whom Carol has referred; the next block pays Alice
  and Carol.\<close>

definition lottery_db :: Database where
  "lottery_db =
     \<lparr>Transactions = [rated_row ACCOUNT_USER ''u1'' (Some 0) ''alice'' (Some ''carol'') None,
        rated_row ACCOUNT_USER ''u2'' (Some 1) ''bob'' None None,
        rated_row CONTENT_POST ''p1'' (Some 2) ''alice'' (Some ''p1'') None,
        rated_row ACTION_SCORE_CONTENT ''02'' None ''bob'' (Some ''p1'') (Some 5)],
      PayloadTable = [], TxOutputs = [], Ratings = [], Balances = []\<rparr>"

definition score_tx :: CTransaction where
  "score_tx = \<lparr>tx_hash = [2], nTime = 7, vin = [],
     vout = [\<lparr>nValue = 0, scriptPubKey = op_return_script [[0x75, 0x70, 0x76, 0x6f, 0x74, 0x65, 0x53, 0x68, 0x61, 0x72, 0x65],
                [1, 2, 3, 4, 5], [0x61, 0x6c, 0x69, 0x63, 0x65, 0x20, 0x35]]\<rparr>,
             \<lparr>nValue = 0, scriptPubKey = []\<rparr>]\<rparr>"

definition lottery_score :: ScoreDataDto where
  "lottery_score =
     \<lparr>ScoreType = ACTION_SCORE_CONTENT, ScoreTxHash = ''02'', ScoreAddressId = 1, ScoreAddressHash = ''bob'',
      ScoreTime = 1000, ScoreValue = 5, ContentType = CONTENT_POST, ContentTxHash = ''p1'', ContentId = 2,
      ContentAddressId = 0, ContentAddressHash = ''alice'', ContentTime = 1000\<rparr>"

definition key_script :: "string \<Rightarrow> byte list" where
  "key_script a = [0x76, 0xa9, 20] @ replicate 20 (if a = ''alice'' then 1 else 2) @ [0x88, 0xac]"

definition stake_block :: CBlock where
  "stake_block = \<lparr>block_hash = [7], vtx = [
     \<lparr>tx_hash = [1], nTime = 7, vin = [], vout = []\<rparr>,
     \<lparr>tx_hash = [3], nTime = 7, vin = [\<lparr>op_hash = [5], op_n = 0\<rparr>],
      vout = [\<lparr>nValue = 0, scriptPubKey = []\<rparr>, \<lparr>nValue = 5, scriptPubKey = [1]\<rparr>,
        \<lparr>nValue = 10, scriptPubKey = key_script ''alice''\<rparr>, \<lparr>nValue = 10, scriptPubKey = key_script ''carol''\<rparr>]\<rparr>]\<rparr>"

lemma lottery_rules_50:
  "Instance LotteryConsensusFactory_m_rules NetworkTest 50 = Some Lottery_1180000"
  "Instance ReputationConsensusFactory_m_rules NetworkTest 50 = Some Reputation_1180000"
  by code_simp+

lemma score_tx_parsed: "\<exists>d. ParseScore TransactionHelper.fields (\<lambda>s. ''bob'') score_tx = Some d \<and> score_takes_part d"
proof -
  have type: "ConvertOpReturnToType (HexStr [0x75, 0x70, 0x76, 0x6f, 0x74, 0x65, 0x53, 0x68, 0x61, 0x72, 0x65]) = ACTION_SCORE_CONTENT"
    and payload: "TransactionHelper.fields (bytes_string [0x61, 0x6c, 0x69, 0x63, 0x65, 0x20, 0x35]) = [''alice'', ''5'']"
    and stoi: "stoi ''5'' = Some 5"
    by code_simp+
  let ?ds = "[[0x75, 0x70, 0x76, 0x6f, 0x74, 0x65, 0x53, 0x68, 0x61, 0x72, 0x65], [1, 2, 3, 4, 5], [0x61, 0x6c, 0x69, 0x63, 0x65, 0x20, 0x35]] :: byte list list"
  have "ParseAsmType TransactionHelper.fields score_tx = Some (if ?ds = [] then [] else HexStr (hd ?ds), ''OP_RETURN'' # map HexStr ?ds)"
    by (rule ParseAsmType_op_return[where out = "hd (vout score_tx)" and outs = "tl (vout score_tx)"])
       (simp_all add: score_tx_def splits_fields_def)
  moreover have "\<not> IsCoinBase score_tx" "\<not> IsCoinStake score_tx"
    by (simp_all add: score_tx_def IsCoinBase_def IsCoinStake_def)
  ultimately have asm: "ParseType_asm TransactionHelper.fields score_tx = Some (ACTION_SCORE_CONTENT, ''OP_RETURN'' # map HexStr ?ds)"
    by (simp only: ParseType_asm_def Option.bind.simps prod.case type list.sel list.distinct if_False)
  show ?thesis
    unfolding ParseScore_def asm
    by (simp add: ParseHex_HexStr payload stoi GetPocketAuthorAddress_def del: HexStr_simps)
       (auto simp: score_tx_def score_takes_part_def new_ScoreDataDto_def)
qed

lemma stake_scores:
  "lottery_scores TransactionHelper.fields (\<lambda>s. ''bob'') NetworkTest 50 Reputation_1180000 lottery_db [score_tx] = Some [lottery_score]"
proof -
  have "GetHex (tx_hash score_tx) = ''02''" "GetScoreData ''02'' lottery_db = Some lottery_score"
    "AllowModifyReputation NetworkTest 50 Reputation_1180000 lottery_score True lottery_db = Some True"
    by code_simp+
  with score_tx_parsed show ?thesis by auto
qed

lemma one_candidate:
  assumes "sorts_candidates std_sort" "hash_bytes Hash" "0 < n" "n < 2 ^ 31"
  shows "SortWinners std_sort Hash source [(a, n)] = Some [a]"
proof -
  obtain winners where "SortWinners std_sort Hash source [(a, n)] = Some winners" "length winners = 1" "set winners \<subseteq> {a}"
    using SortWinners_order[OF assms(1,2), of "[(a, n)]" source] assms(3,4) by (auto simp: positive_points_def)
  then show ?thesis by (cases winners) auto
qed

lemma stake_winners:
  assumes "sorts_candidates std_sort" "hash_bytes Hash"
  shows "Winners std_sort Hash TransactionHelper.fields (\<lambda>s. ''bob'') NetworkTest 50 Lottery_1180000 lottery_db
      \<lparr>block_hash = [6], vtx = [score_tx]\<rparr> source =
    Some \<lparr>PostWinners = [''alice''], PostReferrerWinners = [''carol''], CommentWinners = [], CommentReferrerWinners = []\<rparr>"
proof -
  have "add_candidate NetworkTest 50 Lottery_1180000 lottery_db lottery_score
      \<lparr>postCandidates = [], postReferrersCandidates = [], commentCandidates = [], commentReferrersCandidates = []\<rparr> =
    Some \<lparr>postCandidates = [(''alice'', 2)], postReferrersCandidates = [(''alice'', ''carol'')], commentCandidates = [],
      commentReferrersCandidates = []\<rparr>"
    by code_simp
  moreover have "SortWinners std_sort Hash source [] = Some []" by (simp add: SortWinners_def)
  ultimately show ?thesis
    using one_candidate[OF assms, of 2 source "''alice''"]
    by (simp add: Winners_def lottery_rules_50 candidates_loop_scores stake_scores ExtendReferrers_def referrers_of_def List.map_filter_def
        del: lottery_scores.simps candidates_loop.simps)
qed

lemma stake_block_checked:
  assumes "sorts_candidates std_sort" "hash_bytes Hash"
  shows "CheckBlockRatingRewards std_sort Hash TransactionHelper.fields (\<lambda>s. ''bob'') key_script NetworkTest cdb lottery_db stake_block
     \<lparr>block_hash = [6], vtx = [score_tx]\<rparr> 50 5000 source = Some True"
proof -
  have "RatingReward Lottery_1180000 5000 OP_WINNER_POST = 10" "RatingReward Lottery_1180000 5000 OP_WINNER_POST_REFERRAL = 10"
    by code_simp+
  then have "rw_results (GetRatingRewards key_script Lottery_1180000 5000
      \<lparr>PostWinners = [''alice''], PostReferrerWinners = [''carol''], CommentWinners = [], CommentReferrerWinners = []\<rparr>) =
    [\<lparr>nValue = 10, scriptPubKey = key_script ''alice''\<rparr>, \<lparr>nValue = 10, scriptPubKey = key_script ''carol''\<rparr>]"
    by (simp add: GetRatingRewards_def GenerateOuts_def Let_def)
  moreover have "filter (\<lambda>out. MatchPayToPubkeyHash (scriptPubKey out)) (vout (vtx stake_block ! 1)) =
    [\<lparr>nValue = 10, scriptPubKey = key_script ''alice''\<rparr>, \<lparr>nValue = 10, scriptPubKey = key_script ''carol''\<rparr>]"
    by code_simp
  moreover have "IsProofOfStake stake_block" "vout (vtx stake_block ! 1) \<noteq> []"
    by (simp_all add: stake_block_def IsProofOfStake_def IsCoinStake_def IsNull_def NULL_INDEX_def IsEmptyOrWinners_def)
  ultimately show ?thesis
    by (simp add: CheckBlockRatingRewards_def lottery_rules_50 stake_winners[OF assms])
qed

lemma coinstake_pays_winners_witness:
  "CheckBlockRatingRewards (sort_key (\<lambda>c. uint_val (snd (snd c)))) (\<lambda>bs. replicate 32 1) TransactionHelper.fields (\<lambda>s. ''bob'') key_script
     NetworkTest \<lparr>Social = [], LotteryTable = [], OpReturn = []\<rparr> lottery_db stake_block \<lparr>block_hash = [6], vtx = [score_tx]\<rparr> 50 5000 [] = Some True \<and>
   (\<exists>w. Winners (sort_key (\<lambda>c. uint_val (snd (snd c)))) (\<lambda>bs. replicate 32 1) TransactionHelper.fields (\<lambda>s. ''bob'') NetworkTest 50
        Lottery_1180000 lottery_db \<lparr>block_hash = [6], vtx = [score_tx]\<rparr> [] = Some w \<and>
      fair_draw (\<lambda>bs. replicate 32 1) [] NetworkTest 50 Lottery_1180000 lottery_db ACTION_SCORE_CONTENT [lottery_score]
        (PostWinners w) (PostReferrerWinners w) \<and>
      PostWinners w = [''alice''] \<and> PostReferrerWinners w = [''carol''] \<and>
      map scriptPubKey (filter (\<lambda>out. MatchPayToPubkeyHash (scriptPubKey out)) (vout (vtx stake_block ! 1))) =
        [key_script ''alice'', key_script ''carol''])"
proof -
  have hash: "hash_bytes (\<lambda>bs. replicate 32 1)" by (simp add: hash_bytes_def)
  note checked = stake_block_checked[OF sort_key_candidates hash, of "\<lparr>Social = [], LotteryTable = [], OpReturn = []\<rparr>" "[]"]
    and winners = stake_winners[OF sort_key_candidates hash, of "[]"]
  have "\<not> IsLotteryCheckpoint (50 + 1) (GetHex (block_hash stake_block)) \<lparr>Social = [], LotteryTable = [], OpReturn = []\<rparr>"
    by (simp add: IsLotteryCheckpoint_def)
  from coinstake_pays_winners[OF sort_key_candidates hash _ checked this] checked show ?thesis
    by (simp add: lottery_rules_50 winners stake_scores del: lottery_scores.simps)
qed

text \<open>C14. The lottery is decided by the numbers of the candidates: for different candidates with
  positive points (which fit in an \<open>int\<close>) and whatever sort is used, there are 25 winners, or all
  candidates when there are fewer, no one wins twice, and no candidate that does not win has a lower
  number than one that does.\<close>

theorem lottery_order:
  assumes "sorts_candidates std_sort" "hash_bytes Hash" "positive_points candidates" "distinct (map fst candidates)"
  shows "\<exists>winners. SortWinners std_sort Hash source candidates = Some winners \<and> distinct winners \<and>
    length winners = min 25 (length candidates) \<and> set winners \<subseteq> fst ` set candidates \<and>
    (\<forall>(a, n) \<in> set candidates. \<forall>(b, m) \<in> set candidates. a \<in> set winners \<longrightarrow> b \<notin> set winners \<longrightarrow>
       ticket Hash source a n \<le> ticket Hash source b m)"
  by (rule SortWinners_order[OF assms])

lemma lottery_order_witness:
  "\<exists>winners. SortWinners (sort_key (\<lambda>c. uint_val (snd (snd c)))) (\<lambda>bs. replicate 32 1) [] [(''alice'', 2), (''bob'', 1)] = Some winners \<and>
     length winners = 2"
proof -
  have "hash_bytes (\<lambda>bs. replicate 32 1)" "positive_points [(''alice'', 2), (''bob'', 1)]"
    "distinct (map fst [(''alice'', 2 :: int), (''bob'', 1)])"
    by (simp_all add: hash_bytes_def positive_points_def)
  from lottery_order[OF sort_key_candidates this, of "[]"] show ?thesis by auto
qed

end
