(* ===== verification/Spec2Isabelle.thy ===== *)
theory Spec2Isabelle
  imports Consensus_Base TransactionHelper SocialChain Lottery
begin

text \<open>
  Verification of Pocketnet Core: the social layer of the node and the parts of the node it rests
  on. Paths are relative to \<open>src/src\<close>.

  \<^bold>\<open>The program.\<close> A Pocketnet node is a proof-of-stake node whose transactions carry social
  actions: profiles, posts, videos, articles, comments, scores, subscriptions, blockings,
  complaints, boosts. The first output of a transaction is an OP_RETURN script with a code for
  the type and the hash of the social data; the data travels beside the transaction as JSON and is
  stored in SQLite. When a block arrives, every social transaction is checked on its own
  (\<open>Check\<close>) and against the chain (\<open>Validate\<close>) by the rules for its type and height; when the
  block is connected, \<open>ChainPostProcessing::Index\<close> writes heights, entities, balances and ratings;
  when it is disconnected, \<open>Rollback\<close> takes them back.

  \<^bold>\<open>Data.\<close>
  \<^item> \<open>Prelude\<close>: SQL statements as operations on lists of records, shared lemmas.
  \<^item> \<open>PocketTypes\<close>: \<open>pocketdb/models/base/PocketTypes.h\<close>, the transaction types with their codes.
  \<^item> \<open>Strencodings\<close>, \<open>Script\<close>, \<open>Primitives\<close>: hexadecimal coding (\<open>util/strencodings.cpp\<close>),
    building, reading and printing scripts and script numbers (\<open>script/script.h\<close>,
    \<open>script/script.cpp\<close>, \<open>core_write.cpp\<close>), transactions and blocks (\<open>primitives/\<close>).
  \<^item> \<open>Models\<close>, \<open>Dto\<close>: \<open>pocketdb/models/\<close>, the social objects, their JSON form and the data of
    their hash. A null pointer is \<open>None\<close>.
  \<^item> \<open>TransactionHelper\<close>: \<open>pocketdb/helpers/TransactionHelper.cpp\<close>, from an OP_RETURN script to the
    type and the hash.
  \<^item> \<open>Html\<close>: \<open>util/html.cpp\<close>.

  \<^bold>\<open>The database.\<close>
  \<^item> \<open>Database\<close>: the tables of \<open>pocketdb/migrations/main.cpp\<close>.
  \<^item> \<open>ChainRepository\<close>, \<open>RatingsRepository\<close>, \<open>ConsensusRepository\<close>, \<open>CheckpointRepository\<close>: one
    definition per method of the repositories of the same name.
  \<^item> \<open>ChainPostProcessing\<close>: \<open>pocketdb/services/ChainPostProcessing.cpp\<close>.
  \<^item> \<open>Versioned\<close>, \<open>ChainIndex\<close>, \<open>EntityIds\<close>, \<open>ChainBalances\<close>, \<open>ChainRatings\<close>, \<open>ChainState\<close>: what
    connecting a block does. The locale \<open>versioned\<close> has the discipline of the \<open>Last\<close> flag and is
    interpreted for transactions, balances and ratings; \<open>chain_ok\<close> is the invariant of the
    database.

  \<^bold>\<open>The rules.\<close>
  \<^item> \<open>Consensus_Base\<close>: \<open>pocketdb/consensus/Base.h\<close>, result codes, limits, the choice of the rules by
    height. The locale \<open>rule_versions\<close> is interpreted for every factory of the program.
  \<^item> \<open>Reputation\<close>: \<open>pocketdb/consensus/Reputation.cpp\<close>.
  \<^item> \<open>ArithUint256\<close>: \<open>arith_uint256.cpp\<close>, integers of 256 bits in limbs, and \<open>Lottery\<close>:
    \<open>pocketdb/consensus/Lottery.cpp\<close> with the payment of the winners (\<open>pos.cpp\<close>) and its check
    (\<open>CheckBlockRatingRewards\<close> of \<open>validation.cpp\<close>).
  \<^item> \<open>SocialBase\<close>, \<open>SocialAccounts\<close>, \<open>SocialContents\<close>, \<open>SocialComments\<close>, \<open>SocialActions\<close>,
    \<open>SocialRelations\<close>: \<open>pocketdb/consensus/Social.h\<close> and the rule classes of
    \<open>pocketdb/consensus/social/\<close>. A class hierarchy is a datatype of its versions; an answer is
    \<open>(flag, code)\<close>, and \<open>None\<close> where the code would dereference null or read a limit that does not
    exist.
  \<^item> \<open>SocialHelper\<close>: \<open>pocketdb/consensus/Helper.cpp\<close>, the entry points. The locale
    \<open>transaction_rule\<close> has what the loop over a block relies on and is interpreted for \<open>validate\<close>
    and \<open>check\<close>.
  \<^item> \<open>SocialSafety\<close>, \<open>SocialChain\<close>: what an accepted transaction or block guarantees, and what the
    rules see of a block that has been connected.

  \<^bold>\<open>What is shown.\<close> Connecting a block to a consistent database succeeds, keeps it consistent and is
  undone by disconnecting it (\<open>ChainState\<close>); after a block the balances are the sums of unspent
  outputs, entities have one identifier and one last version, reputations and likers are what the
  scores say, up to the width of the integers they are kept in (\<open>ChainBalances\<close>, \<open>EntityIds\<close>,
  \<open>ChainRatings\<close>). Accepted transactions have registered
  authors, edits and deletions come from authors, scores are unique, comment limits hold
  (\<open>SocialSafety\<close>), and the rules reject what a connected block has made impossible (\<open>SocialChain\<close>).
  A coinstake that passes the check pays the outputs the lottery over the previous block gives, and
  no others to key hashes, within the reward of the stake; the lottery draws the lowest numbers among
  the authors of counted scores and pays the referrers of its winners only (\<open>Lottery\<close>), on
  arithmetic that is exact (\<open>ArithUint256\<close>).
  Scripts, JSON forms and encodings read back what was written (\<open>TransactionHelper\<close>, \<open>Dto\<close>,
  \<open>Html\<close>).

  \<^bold>\<open>Integers.\<close> A column read with \<open>TryGetColumnInt\<close> and the sums kept in an \<open>int\<close> (ratings of a block,
  points of the lottery, outputs of a coinbase) have 32 bits and wrap around (\<open>int32\<close>). Counts of rows
  are not cut: the invariant \<open>chain_ok\<close> bounds the table of transactions by \<open>2 ^ 31\<close> rows, and with it
  the identifiers. Ratings stay within their 64-bit column (\<open>ChainRatings\<close>); balances and amounts are
  integers without bound, as the money supply is far below \<open>2 ^ 63\<close>. Hashes and script bytes are words.

  \<^bold>\<open>Parameters.\<close> Code outside the repository is an argument: \<open>boost::split\<close> (\<open>split\<close>, with the law
  \<open>splits_fields\<close>), the comparison SQLite makes between an integer column and a text
  (\<open>env_int_ge_text\<close>), the order \<open>std::sort\<close> gives to equal elements (\<open>std_sort\<close>, with the law
  \<open>sorts_candidates\<close>), the tables of exceptions (\<open>env_checkpoints\<close>), which come from a data file, and
  the value of an uninitialised variable (\<open>env_ii\<close>). So are three routines that are in the repository
  and are not modelled: SHA-256 (\<open>crypto/sha256.cpp\<close>; \<open>env_hash\<close> for the social data, and \<open>Hash\<close> with
  the law \<open>hash_bytes\<close> for the double hash of the lottery), the reading and writing of JSON text
  (\<open>univalue/lib/\<close>; \<open>env_read\<close>, and \<open>wr\<close>, \<open>rd\<close> in \<open>Dto\<close>) and the text form of addresses
  (\<open>key_io.cpp\<close>; \<open>script_of\<close>, \<open>dest\<close>). The theorems hold for every value of these, under the laws their
  statements name. Floating point numbers are rationals rounded to 53 binary digits. No definition
  uses fuel: every loop of the modelled code is bounded by its input and every recursion has a
  termination proof.

  \<^bold>\<open>Not modelled.\<close> Validation of the base currency other than the check of the rewards, proof of
  stake kernels, networking, the wallet, RPC, the queries for the front end and the vendored libraries: input and output, threads, clocks and
  cryptography. Log messages and timings. The indexes of the database, which change the cost and
  not the result of a query. Failures of SQLite itself.
\<close>

end
